(* ===== verification/Prelude.thy ===== *)
theory Prelude
  imports Main "HOL-Library.Word"
begin

text \<open>
  What every component of the development shares: the integer types of
  \<open>include/hardware/types.h\<close>, bit-fields of a qword, counted loops, and the named
  collections of rewrite rules.

  A C bit-field \<open>qword_t f : w\<close> that starts at bit \<open>p\<close> of its qword is read by
  \<open>get_field p w\<close> and assigned by \<open>set_field p w\<close>, which truncates the value to
  \<open>w\<close> bits as the C assignment does. A loop \<open>for (int i = 0; i < n; i++)\<close> whose
  body neither leaves the loop nor changes \<open>i\<close> is \<open>for_n n\<close>.
\<close>

unbundle bit_operations_syntax

section \<open>Integer types\<close>

type_synonym byte_t = "8 word"
type_synonym word_t = "16 word"
type_synonym dword_t = "32 word"
type_synonym qword_t = "64 word"

abbreviation (input) INT_MAX :: nat where
  "INT_MAX \<equiv> 2147483647"

abbreviation (input) NUL :: char where
  "NUL \<equiv> CHR 0x00"

named_theorems layout \<open>offsets, sizes and addresses of the program's structures\<close>
named_theorems log_rules \<open>what a log call does\<close>
named_theorems frame_rules \<open>parts of the state an operation leaves alone\<close>

section \<open>Bit-fields\<close>

definition get_field :: "nat \<Rightarrow> nat \<Rightarrow> qword_t \<Rightarrow> qword_t" where
  "get_field p w x = take_bit w (drop_bit p x)"

definition set_field :: "nat \<Rightarrow> nat \<Rightarrow> qword_t \<Rightarrow> qword_t \<Rightarrow> qword_t" where
  "set_field p w v x = (x AND NOT (push_bit p (mask w))) OR push_bit p (take_bit w v)"

lemma bit_get_field:
  "bit (get_field p w x) n \<longleftrightarrow> n < w \<and> bit x (p + n)"
  by (auto simp: get_field_def bit_simps dest: bit_imp_le_length)

lemma bit_set_field:
  "bit (set_field p w v x) n \<longleftrightarrow>
     n < 64 \<and> (if p \<le> n \<and> n < p + w then bit v (n - p) else bit x n)"
  by (auto simp: set_field_def bit_simps dest: bit_imp_le_length)

lemma get_set_same [simp]:
  "p + w \<le> 64 \<Longrightarrow> get_field p w (set_field p w v x) = take_bit w v"
  by (rule bit_word_eqI) (auto simp: bit_get_field bit_set_field bit_simps)

lemma get_set_other [simp]:
  assumes "p + w \<le> q \<or> q + k \<le> p"
  shows "get_field p w (set_field q k v x) = get_field p w x"
  using assms
  by (intro bit_word_eqI) (auto simp: bit_get_field bit_set_field dest: bit_imp_le_length)

lemma set_set_same [simp]:
  "set_field p w u (set_field p w v x) = set_field p w u x"
  by (rule bit_word_eqI) (auto simp: bit_set_field)

lemma set_field_id:
  "p + w \<le> 64 \<Longrightarrow> set_field p w (get_field p w x) x = x"
  by (rule bit_word_eqI) (auto simp: bit_set_field bit_get_field)

lemma get_field_le: "get_field p w x = take_bit w (get_field p w x)"
  by (simp add: get_field_def)

lemma get_field_bound: "w < 64 \<Longrightarrow> unat (get_field p w x) < 2 ^ w"
  by (simp add: get_field_def unsigned_take_bit_eq take_bit_nat_less_exp)

section \<open>Counted loops\<close>

primrec for_n :: "nat \<Rightarrow> (nat \<Rightarrow> 's \<Rightarrow> 's) \<Rightarrow> 's \<Rightarrow> 's" where
  "for_n 0 f s = s"
| "for_n (Suc n) f s = f n (for_n n f s)"

text \<open>The loop rule: an invariant indexed by the number of finished iterations.\<close>

lemma for_n_inv:
  assumes "P 0 s" and "\<And>i t. i < n \<Longrightarrow> P i t \<Longrightarrow> P (Suc i) (f i t)"
  shows "P n (for_n n f s)"
  using assms
proof (induction n)
  case 0
  then show ?case by simp
next
  case (Suc n)
  then have "P n (for_n n f s)" by (meson less_SucI)
  with Suc.prems(2) [of n] show ?case by simp
qed

text \<open>A part of the state the body leaves alone is unchanged by the loop.\<close>

lemma for_n_frame:
  assumes "\<And>i t. i < n \<Longrightarrow> g (f i t) = g t"
  shows "g (for_n n f s) = g s"
  by (rule for_n_inv [where P = "\<lambda>_ t. g t = g s"]) (simp_all add: assms)

section \<open>Words\<close>

lemma unat_lt64: "unat (x :: qword_t) < 2 ^ 64"
  using unsigned_less [of x] by simp

lemma unat_minus_1 [simp]: "unat (- 1 :: qword_t) = 18446744073709551615"
  by (simp add: unsigned_minus_1_eq_mask mask_eq_exp_minus_1)

lemma unat_of_nat_small: "n < 2 ^ 64 \<Longrightarrow> unat (of_nat n :: qword_t) = n"
  by (simp add: unat_of_nat)

lemma unat_diff_of_nat:
  assumes "y \<le> x" and "x < 2 ^ 64"
  shows "unat (of_nat x - of_nat y :: qword_t) = x - y"
proof -
  have "(of_nat x - of_nat y :: qword_t) = of_nat (x - y)"
    using assms(1) by simp
  with assms show ?thesis by (simp add: unat_of_nat del: of_nat_diff)
qed

lemma unat_diff_of_nat_neg:
  assumes "x < y" and "y < 2 ^ 64"
  shows "unat (of_nat x - of_nat y :: qword_t) = 2 ^ 64 - (y - x)"
proof -
  have "(of_nat (2 ^ 64 - (y - x)) :: qword_t) = of_nat (2 ^ 64) - of_nat (y - x)"
    using assms by (intro of_nat_diff) simp
  also have "(of_nat (2 ^ 64) :: qword_t) = 0"
    by simp
  finally have "(of_nat x - of_nat y :: qword_t) = of_nat (2 ^ 64 - (y - x))"
    using assms(1) by simp
  with assms show ?thesis by (simp add: unat_of_nat del: of_nat_diff)
qed

lemma div_eq_range: "0 < d \<Longrightarrow> n div d = q \<longleftrightarrow> q * d \<le> n \<and> n < q * d + d" for n :: nat
  by (metis add.commute div_nat_eqI dividend_less_times_div le_add1 mult.commute mult_Suc_right
      times_div_less_eq_dividend)

lemma bit_31: "bit (msr :: dword_t) 31 \<longleftrightarrow> 2147483648 \<le> unat msr"
proof -
  have "bit (unat msr) 31 \<longleftrightarrow> bit msr 31"
    by (simp add: bit_unsigned_iff)
  then have "bit msr 31 \<longleftrightarrow> odd (unat msr div 2147483648)"
    by (simp add: bit_iff_odd)
  moreover have "unat msr < 4294967296"
    using unsigned_less [of msr] by simp
  then have "unat msr div 2147483648 < 2"
    by (simp add: less_mult_imp_div_less)
  ultimately show ?thesis
    by (cases "unat msr div 2147483648 = 0") (auto simp: div_eq_0_iff less_2_cases_iff)
qed

lemma unat_dword: "unat (ucast (x :: dword_t) :: qword_t) = unat x"
proof -
  have "unat x < 4294967296" using unsigned_less [of x] by simp
  then show ?thesis by (simp add: unsigned_ucast_eq take_bit_eq_mod)
qed

lemma sint_nonneg_iff: "0 \<le> sint (v :: dword_t) \<longleftrightarrow> unat v < 2147483648"
proof -
  have "0 \<le> sint v \<longleftrightarrow> \<not> bit v 31"
    by (simp add: sint_uint bit_uint_iff)
  then show ?thesis by (simp add: bit_31 not_le)
qed

text \<open>A value as wide as the field that takes it is not truncated.\<close>

lemma take_bit_64 [simp]: "take_bit 64 (x :: qword_t) = x"
  by (rule bit_word_eqI) (simp add: bit_simps)

lemma take_bit_ucast [simp]:
  "take_bit 16 (ucast (x :: word_t) :: qword_t) = ucast x"
  "take_bit 32 (ucast (x :: word_t) :: qword_t) = ucast x"
  "take_bit 32 (ucast (y :: dword_t) :: qword_t) = ucast y"
  by (rule bit_word_eqI; auto simp: bit_simps dest: bit_imp_le_length)+

lemma sint_dword: "sint (v :: dword_t) = int (unat v) - (if unat v < 2147483648 then 0 else 4294967296)"
proof -
  have "sint v = take_bit 32 (uint v) - 4294967296 * of_bool (bit (uint v) 31)"
    by (simp add: sint_uint signed_take_bit_eq_take_bit_minus)
  moreover have "take_bit 32 (uint v) = uint v"
    using uint_idem [of v] by (simp add: take_bit_eq_mod)
  ultimately show ?thesis
    using bit_31 [of v] by (simp add: bit_uint_iff not_le)
qed

end
