(* ===== verification/Memory.thy ===== *)
theory Memory
  imports Prelude
begin

text \<open>
  Byte-addressed physical memory. The hypervisor runs with all of its memory identity mapped, so
  a C pointer, a linear address and a physical address are the same qword. An object of \<open>n\<close>
  bytes at \<open>a\<close> occupies the addresses \<open>a, \<dots>, a + n - 1\<close> modulo \<open>2 ^ 64\<close>; scalars are
  little-endian. \<open>apart a n b k\<close> says that two such objects do not overlap.

  The locale \<open>memory_cell\<close> is what a component needs of the scalars of one width: a store is
  read back, and leaves the bytes outside the cell alone. Its client lemmas are about a loop that
  updates an array cell by cell; they serve the dword and the qword cells.
\<close>

type_synonym memory = "qword_t \<Rightarrow> byte_t"

section \<open>Byte sequences in memory\<close>

primrec store_bytes :: "qword_t \<Rightarrow> byte_t list \<Rightarrow> memory \<Rightarrow> memory" where
  "store_bytes a [] m = m"
| "store_bytes a (b # bs) m = store_bytes (a + 1) bs (m(a := b))"

definition load_bytes :: "memory \<Rightarrow> qword_t \<Rightarrow> nat \<Rightarrow> byte_t list" where
  "load_bytes m a n = map (\<lambda>i. m (a + of_nat i)) [0..<n]"

definition apart :: "qword_t \<Rightarrow> nat \<Rightarrow> qword_t \<Rightarrow> nat \<Rightarrow> bool" where
  "apart a n b k \<longleftrightarrow> n \<le> unat (b - a) \<and> k \<le> unat (a - b)"

lemma apart_sym: "apart a n b k \<longleftrightarrow> apart b k a n"
  by (auto simp: apart_def)

lemma apart_mono: "apart a n b k \<Longrightarrow> n' \<le> n \<Longrightarrow> k' \<le> k \<Longrightarrow> apart a n' b k'"
  by (auto simp: apart_def)

text \<open>The bytes of an object apart from another lie outside the other.\<close>

lemma apart_byte:
  assumes "apart a n b k" and "i < k"
  shows "n \<le> unat (b + of_nat i - a)"
proof (cases "a = b")
  case True
  with assms show ?thesis by (simp add: apart_def)
next
  case False
  have b: "unat (b - a) = 2 ^ 64 - unat (a - b)"
  proof -
    have "unat (b - a) + unat (a - b) = 2 ^ 64"
      using False unat_lt64 [of a] unat_lt64 [of b]
      by (cases "unat b < unat a") (auto simp: unat_sub_if' word_unat_eq_iff)
    then show ?thesis by simp
  qed
  have "i < 2 ^ 64 - unat (b - a)"
    using assms b unat_lt64 [of "a - b"] by (simp add: apart_def)
  then have "unat (b - a + of_nat i) = unat (b - a) + i"
    using unat_lt64 [of "b - a"] by (simp add: unat_word_ariths unat_of_nat)
  moreover have "b + of_nat i - a = b - a + of_nat i" by simp
  ultimately show ?thesis using assms(1) by (simp only: apart_def) linarith
qed

text \<open>Two objects inside one region that starts at \<open>p\<close>, given by their offsets.\<close>

lemma apart_offsets:
  assumes "x + n \<le> y \<or> y + k \<le> x" and "x + n \<le> 2 ^ 64" and "y + k \<le> 2 ^ 64"
    and "0 < n" and "0 < k"
  shows "apart (p + of_nat x) n (p + of_nat y) k"
proof -
  have e: "p + of_nat y - (p + of_nat x) = of_nat y - of_nat x"
      "p + of_nat x - (p + of_nat y) = of_nat x - of_nat y" for p :: qword_t
    by simp_all
  from assms(1) show ?thesis
  proof
    assume "x + n \<le> y"
    moreover from this assms have "x < y" "y < 2 ^ 64" by simp_all
    ultimately show ?thesis
      using assms by (simp add: apart_def e unat_diff_of_nat unat_diff_of_nat_neg) linarith
  next
    assume "y + k \<le> x"
    moreover from this assms have "y < x" "x < 2 ^ 64" by simp_all
    ultimately show ?thesis
      using assms by (simp add: apart_def e unat_diff_of_nat unat_diff_of_nat_neg) linarith
  qed
qed

text \<open>A byte outside a region lies outside every object in the region.\<close>

lemma outside_part:
  fixes x :: qword_t
  assumes "off + k \<le> n" and "n \<le> unat (x - p)"
  shows "k \<le> unat (x - (p + of_nat off))"
proof -
  have "off \<le> unat (x - p)" using assms by linarith
  then have "unat (x - p - of_nat off) = unat (x - p) - off"
    using unat_lt64 [of "x - p"] by (subst unat_sub) (auto simp: word_le_nat_alt unat_of_nat)
  then show ?thesis
    using assms by (simp add: diff_diff_eq)
qed

lemma store_bytes_other:
  "length bs \<le> unat (x - a) \<Longrightarrow> store_bytes a bs m x = m x"
proof (induction bs arbitrary: a m)
  case Nil
  then show ?case by simp
next
  case (Cons b bs)
  have ne: "x - a \<noteq> 0" using Cons.prems by auto
  then have "unat (x - a - 1) = unat (x - a) - 1" by (rule unat_minus_one)
  moreover have "x - a - 1 = x - (a + 1)" by simp
  ultimately have "length bs \<le> unat (x - (a + 1))"
    using Cons.prems by simp
  then have "store_bytes (a + 1) bs (m(a := b)) x = (m(a := b)) x" by (rule Cons.IH)
  with ne show ?case by auto
qed

lemma store_bytes_nth:
  "i < length bs \<Longrightarrow> length bs \<le> 2 ^ 64 \<Longrightarrow> store_bytes a bs m (a + of_nat i) = bs ! i"
proof (induction bs arbitrary: a m i)
  case Nil
  then show ?case by simp
next
  case (Cons b bs)
  show ?case
  proof (cases i)
    case 0
    have "unat (a - (a + 1) :: qword_t) = 2 ^ 64 - 1" by simp
    with Cons.prems have "length bs \<le> unat (a - (a + 1))" by simp
    with 0 show ?thesis by (simp add: store_bytes_other)
  next
    case (Suc j)
    have "a + of_nat i = (a + 1) + of_nat j" by (simp add: Suc)
    moreover have "store_bytes (a + 1) bs (m(a := b)) ((a + 1) + of_nat j) = bs ! j"
      using Suc Cons.prems by (intro Cons.IH) simp_all
    ultimately show ?thesis by (simp only: store_bytes.simps Suc nth_Cons_Suc)
  qed
qed

lemma load_store_bytes:
  "length bs \<le> 2 ^ 64 \<Longrightarrow> load_bytes (store_bytes a bs m) a (length bs) = bs"
  by (rule nth_equalityI) (simp_all add: load_bytes_def store_bytes_nth)

lemma load_bytes_cong:
  "(\<And>i. i < n \<Longrightarrow> m (a + of_nat i) = m' (a + of_nat i)) \<Longrightarrow> load_bytes m a n = load_bytes m' a n"
  by (simp add: load_bytes_def)

lemma load_store_bytes_apart:
  "apart a (length bs) b k \<Longrightarrow> load_bytes (store_bytes a bs m) b k = load_bytes m b k"
  by (rule load_bytes_cong) (simp add: store_bytes_other apart_byte)

lemma offset_cases:
  fixes x a :: qword_t
  assumes "unat (x - a) < n"
  obtains i where "i < n" and "x = a + of_nat i"
  using assms by (intro that [of "unat (x - a)"]) simp_all

lemma store_bytes_cover:
  assumes "length bs = length cs" and "length cs \<le> 2 ^ 64"
  shows "store_bytes a cs (store_bytes a bs m) = store_bytes a cs m"
proof
  fix x
  show "store_bytes a cs (store_bytes a bs m) x = store_bytes a cs m x"
  proof (cases "unat (x - a) < length cs")
    case True
    then obtain i where "i < length cs" and x: "x = a + of_nat i" by (rule offset_cases)
    then show ?thesis unfolding x using assms(2) by (simp only: store_bytes_nth)
  next
    case False
    with assms(1) show ?thesis by (simp add: store_bytes_other)
  qed
qed

section \<open>Little-endian scalars\<close>

definition word_bytes :: "nat \<Rightarrow> 'a::len word \<Rightarrow> byte_t list" where
  "word_bytes n v = map (\<lambda>i. ucast (drop_bit (8 * i) v)) [0..<n]"

primrec bytes_word :: "byte_t list \<Rightarrow> 'a::len word" where
  "bytes_word [] = 0"
| "bytes_word (b # bs) = ucast b OR push_bit 8 (bytes_word bs)"

lemma length_word_bytes [simp]: "length (word_bytes n v) = n"
  by (simp add: word_bytes_def)

lemma bit_bytes_word:
  "bit (bytes_word bs :: 'a::len word) n \<longleftrightarrow>
     n < LENGTH('a) \<and> n div 8 < length bs \<and> bit (bs ! (n div 8)) (n mod 8)"
proof (induction bs arbitrary: n)
  case Nil
  then show ?case by simp
next
  case (Cons b bs)
  show ?case
  proof (cases "n < 8")
    case True
    then show ?thesis by (auto simp: bit_simps)
  next
    case False
    then obtain k where n: "n = k + 8" by (metis add.commute le_iff_add not_le)
    have "\<not> bit b (k + 8)" using bit_imp_le_length [of b "k + 8"] by auto
    then show ?thesis by (auto simp: n bit_simps Cons.IH div_add_self2)
  qed
qed

lemma word_bytes_round_trip:
  assumes "LENGTH('a::len) = 8 * n"
  shows "bytes_word (word_bytes n v) = (v :: 'a word)"
proof (rule bit_word_eqI)
  fix i
  assume "i < LENGTH('a)"
  with assms have "i div 8 < n" by (simp add: less_mult_imp_div_less mult.commute)
  moreover have "8 * (i div 8) + i mod 8 = i" by simp
  ultimately show "bit (bytes_word (word_bytes n v) :: 'a word) i = bit v i"
    using \<open>i < LENGTH('a)\<close> by (simp add: bit_bytes_word word_bytes_def bit_simps)
qed

definition load32 :: "memory \<Rightarrow> qword_t \<Rightarrow> dword_t" where
  "load32 m a = bytes_word (load_bytes m a 4)"

definition store32 :: "qword_t \<Rightarrow> dword_t \<Rightarrow> memory \<Rightarrow> memory" where
  "store32 a v m = store_bytes a (word_bytes 4 v) m"

definition load64 :: "memory \<Rightarrow> qword_t \<Rightarrow> qword_t" where
  "load64 m a = bytes_word (load_bytes m a 8)"

definition store64 :: "qword_t \<Rightarrow> qword_t \<Rightarrow> memory \<Rightarrow> memory" where
  "store64 a v m = store_bytes a (word_bytes 8 v) m"

lemma load_store_word:
  assumes "LENGTH('a::len) = 8 * n" and "n \<le> 8"
  shows "bytes_word (load_bytes (store_bytes a (word_bytes n v) m) a n) = (v :: 'a word)"
  using assms load_store_bytes [of "word_bytes n v" a m] by (simp add: word_bytes_round_trip)

section \<open>Cells of one width, and loops over an array of them\<close>

locale memory_cell =
  fixes width :: nat
    and load :: "memory \<Rightarrow> qword_t \<Rightarrow> 'v"
    and store :: "qword_t \<Rightarrow> 'v \<Rightarrow> memory \<Rightarrow> memory"
  assumes width_pos: "0 < width"
    and width_small: "width \<le> 8"
    and load_store: "load (store a v m) a = v"
    and store_store: "store a v (store a u m) = store a v m"
    and store_byte: "width \<le> unat (x - a) \<Longrightarrow> store a v m x = m x"
    and load_cong:
      "(\<And>i. i < width \<Longrightarrow> m (a + of_nat i) = m' (a + of_nat i)) \<Longrightarrow> load m a = load m' a"
begin

lemma load_store_apart: "apart a width b width \<Longrightarrow> load (store a v m) b = load m b"
  by (rule load_cong) (simp add: store_byte apart_byte)

lemma cells_apart:
  assumes "i \<noteq> j" and "width * Suc i \<le> 2 ^ 64" and "width * Suc j \<le> 2 ^ 64"
  shows "apart (p + of_nat (width * i)) width (p + of_nat (width * j)) width"
proof -
  have "width * i + width \<le> width * j \<or> width * j + width \<le> width * i"
  proof (cases "i < j")
    case True
    then have "width * Suc i \<le> width * j" by (intro mult_le_mono2) simp
    then show ?thesis by simp
  next
    case False
    with assms(1) have "width * Suc j \<le> width * i" by (intro mult_le_mono2) simp
    then show ?thesis by simp
  qed
  with assms width_pos show ?thesis by (intro apart_offsets) simp_all
qed

lemma update_loop_cell:
  assumes "width * n \<le> 2 ^ 64" and "j < n"
  shows "load (for_n n (\<lambda>i m. store (p + of_nat (width * i)) (f i (load m (p + of_nat (width * i)))) m) m)
           (p + of_nat (width * j)) = f j (load m (p + of_nat (width * j)))"
proof -
  let ?c = "\<lambda>i. p + of_nat (width * i)"
  let ?P = "\<lambda>k t. \<forall>j < n. load t (?c j) = (if j < k then f j (load m (?c j)) else load m (?c j))"
  have "?P n (for_n n (\<lambda>i m. store (?c i) (f i (load m (?c i))) m) m)"
  proof (rule for_n_inv [where P = ?P])
    show "?P 0 m" by simp
  next
    fix i t
    assume i: "i < n" and IH: "?P i t"
    show "?P (Suc i) (store (?c i) (f i (load t (?c i))) t)"
    proof (intro allI impI)
      fix j
      assume j: "j < n"
      have le: "width * Suc k \<le> 2 ^ 64" if "k < n" for k
        using that assms(1) by (meson Suc_leI mult_le_mono2 order_trans)
      show "load (store (?c i) (f i (load t (?c i))) t) (?c j) =
          (if j < Suc i then f j (load m (?c j)) else load m (?c j))"
      proof (cases "j = i")
        case True
        with IH i show ?thesis by (simp add: load_store)
      next
        case False
        then have "apart (?c i) width (?c j) width"
          using i j by (intro cells_apart le) auto
        with IH j False show ?thesis by (simp add: load_store_apart)
      qed
    qed
  qed
  with assms(2) show ?thesis by simp
qed

lemma store_outside:
  assumes "off + width \<le> n" and "n \<le> unat (x - p)"
  shows "store (p + of_nat off) v m x = m x"
  using assms by (intro store_byte outside_part)

lemma update_loop_byte:
  assumes "width * n \<le> unat (x - p)"
  shows "for_n n (\<lambda>i m. store (p + of_nat (width * i)) (g i m) m) m x = m x"
proof (rule for_n_frame [where g = "\<lambda>t. t x"])
  fix i t
  assume "i < n"
  then have "width * i + width \<le> width * n"
    by (metis Suc_leI add.commute mult_Suc_right mult_le_mono2)
  then show "store (p + of_nat (width * i)) (g i t) t x = t x"
    using assms by (rule store_outside)
qed

lemma update_loop_apart:
  assumes "apart p (width * n) a width"
  shows "load (for_n n (\<lambda>i m. store (p + of_nat (width * i)) (g i m) m) m) a = load m a"
  by (intro load_cong update_loop_byte apart_byte [OF assms])

end

interpretation dword_cell: memory_cell 4 load32 store32
  by unfold_locales
    (simp_all add: load32_def store32_def load_store_word store_bytes_other store_bytes_cover cong: load_bytes_cong)

interpretation qword_cell: memory_cell 8 load64 store64
  by unfold_locales
    (simp_all add: load64_def store64_def load_store_word store_bytes_other store_bytes_cover cong: load_bytes_cong)

end
