(* ===== verification/Vmcs.thy ===== *)
theory Vmcs
  imports Prelude
begin

text \<open>
  The constants of \<open>include/hardware/vmcs.h\<close>: the encodings of the VMCS fields and the bits of
  the execution, exit and entry controls. The header's enumerators are plain C integers, used
  only as operands of \<open>vmread\<close> and \<open>vmwrite\<close>, so each is an abbreviation for its number.

  An encoding tells the width of its field in bits 13 and 14 (0: 16 bits, 1: 64 bits, 2: 32 bits,
  3: natural width) and in bit 0 whether it addresses the high half of a 64-bit field.
  \<open>vmcs_encodings\<close> lists the header's encodings in its order.
\<close>

section \<open>Field encodings\<close>

abbreviation (input) VMCS_VIRTUAL_PROCESSOR_ID :: qword_t where "VMCS_VIRTUAL_PROCESSOR_ID \<equiv> 0"
abbreviation (input) VMCS_POSTED_INTR_NOTIFICATION_VECTOR :: qword_t where "VMCS_POSTED_INTR_NOTIFICATION_VECTOR \<equiv> 2"
abbreviation (input) VMCS_EPTP_INDEX :: qword_t where "VMCS_EPTP_INDEX \<equiv> 4"
abbreviation (input) VMCS_GUEST_ES_SELECTOR :: qword_t where "VMCS_GUEST_ES_SELECTOR \<equiv> 0x800"
abbreviation (input) VMCS_GUEST_CS_SELECTOR :: qword_t where "VMCS_GUEST_CS_SELECTOR \<equiv> 0x802"
abbreviation (input) VMCS_GUEST_SS_SELECTOR :: qword_t where "VMCS_GUEST_SS_SELECTOR \<equiv> 0x804"
abbreviation (input) VMCS_GUEST_DS_SELECTOR :: qword_t where "VMCS_GUEST_DS_SELECTOR \<equiv> 0x806"
abbreviation (input) VMCS_GUEST_FS_SELECTOR :: qword_t where "VMCS_GUEST_FS_SELECTOR \<equiv> 0x808"
abbreviation (input) VMCS_GUEST_GS_SELECTOR :: qword_t where "VMCS_GUEST_GS_SELECTOR \<equiv> 0x80a"
abbreviation (input) VMCS_GUEST_LDTR_SELECTOR :: qword_t where "VMCS_GUEST_LDTR_SELECTOR \<equiv> 0x80c"
abbreviation (input) VMCS_GUEST_TR_SELECTOR :: qword_t where "VMCS_GUEST_TR_SELECTOR \<equiv> 0x80e"
abbreviation (input) VMCS_GUEST_INTR_STATUS :: qword_t where "VMCS_GUEST_INTR_STATUS \<equiv> 0x810"
abbreviation (input) VMCS_GUEST_PML_INDEX :: qword_t where "VMCS_GUEST_PML_INDEX \<equiv> 0x812"
abbreviation (input) VMCS_HOST_ES_SELECTOR :: qword_t where "VMCS_HOST_ES_SELECTOR \<equiv> 0xc00"
abbreviation (input) VMCS_HOST_CS_SELECTOR :: qword_t where "VMCS_HOST_CS_SELECTOR \<equiv> 0xc02"
abbreviation (input) VMCS_HOST_SS_SELECTOR :: qword_t where "VMCS_HOST_SS_SELECTOR \<equiv> 0xc04"
abbreviation (input) VMCS_HOST_DS_SELECTOR :: qword_t where "VMCS_HOST_DS_SELECTOR \<equiv> 0xc06"
abbreviation (input) VMCS_HOST_FS_SELECTOR :: qword_t where "VMCS_HOST_FS_SELECTOR \<equiv> 0xc08"
abbreviation (input) VMCS_HOST_GS_SELECTOR :: qword_t where "VMCS_HOST_GS_SELECTOR \<equiv> 0xc0a"
abbreviation (input) VMCS_HOST_TR_SELECTOR :: qword_t where "VMCS_HOST_TR_SELECTOR \<equiv> 0xc0c"
abbreviation (input) VMCS_IO_BITMAP_A :: qword_t where "VMCS_IO_BITMAP_A \<equiv> 0x2000"
abbreviation (input) VMCS_IO_BITMAP_B :: qword_t where "VMCS_IO_BITMAP_B \<equiv> 0x2002"
abbreviation (input) VMCS_MSR_BITMAP :: qword_t where "VMCS_MSR_BITMAP \<equiv> 0x2004"
abbreviation (input) VMCS_VM_EXIT_MSR_STORE_ADDR :: qword_t where "VMCS_VM_EXIT_MSR_STORE_ADDR \<equiv> 0x2006"
abbreviation (input) VMCS_VM_EXIT_MSR_LOAD_ADDR :: qword_t where "VMCS_VM_EXIT_MSR_LOAD_ADDR \<equiv> 0x2008"
abbreviation (input) VMCS_VM_ENTRY_MSR_LOAD_ADDR :: qword_t where "VMCS_VM_ENTRY_MSR_LOAD_ADDR \<equiv> 0x200a"
abbreviation (input) VMCS_PML_ADDRESS :: qword_t where "VMCS_PML_ADDRESS \<equiv> 0x200e"
abbreviation (input) VMCS_TSC_OFFSET :: qword_t where "VMCS_TSC_OFFSET \<equiv> 0x2010"
abbreviation (input) VMCS_TSC_OFFSET_HIGH :: qword_t where "VMCS_TSC_OFFSET_HIGH \<equiv> 0x2011"
abbreviation (input) VMCS_VIRTUAL_APIC_PAGE_ADDR :: qword_t where "VMCS_VIRTUAL_APIC_PAGE_ADDR \<equiv> 0x2012"
abbreviation (input) VMCS_APIC_ACCESS_ADDR :: qword_t where "VMCS_APIC_ACCESS_ADDR \<equiv> 0x2014"
abbreviation (input) VMCS_PI_DESC_ADDR :: qword_t where "VMCS_PI_DESC_ADDR \<equiv> 0x2016"
abbreviation (input) VMCS_VM_FUNCTION_CONTROL :: qword_t where "VMCS_VM_FUNCTION_CONTROL \<equiv> 0x2018"
abbreviation (input) VMCS_EPT_POINTER :: qword_t where "VMCS_EPT_POINTER \<equiv> 0x201a"
abbreviation (input) VMCS_EOI_EXIT_BITMAP0 :: qword_t where "VMCS_EOI_EXIT_BITMAP0 \<equiv> 0x201c"
abbreviation (input) VMCS_EPTP_LIST_ADDR :: qword_t where "VMCS_EPTP_LIST_ADDR \<equiv> 0x2024"
abbreviation (input) VMCS_VMREAD_BITMAP :: qword_t where "VMCS_VMREAD_BITMAP \<equiv> 0x2026"
abbreviation (input) VMCS_VMWRITE_BITMAP :: qword_t where "VMCS_VMWRITE_BITMAP \<equiv> 0x2028"
abbreviation (input) VMCS_VIRT_EXCEPTION_INFO :: qword_t where "VMCS_VIRT_EXCEPTION_INFO \<equiv> 0x202a"
abbreviation (input) VMCS_XSS_EXIT_BITMAP :: qword_t where "VMCS_XSS_EXIT_BITMAP \<equiv> 0x202c"
abbreviation (input) VMCS_TSC_MULTIPLIER :: qword_t where "VMCS_TSC_MULTIPLIER \<equiv> 0x2032"
abbreviation (input) VMCS_GUEST_PHYSICAL_ADDRESS :: qword_t where "VMCS_GUEST_PHYSICAL_ADDRESS \<equiv> 0x2400"
abbreviation (input) VMCS_VMCS_LINK_POINTER :: qword_t where "VMCS_VMCS_LINK_POINTER \<equiv> 0x2800"
abbreviation (input) VMCS_GUEST_IA32_DEBUGCTL :: qword_t where "VMCS_GUEST_IA32_DEBUGCTL \<equiv> 0x2802"
abbreviation (input) VMCS_GUEST_IA32_DEBUGCTL_HIGH :: qword_t where "VMCS_GUEST_IA32_DEBUGCTL_HIGH \<equiv> 0x2803"
abbreviation (input) VMCS_GUEST_PAT :: qword_t where "VMCS_GUEST_PAT \<equiv> 0x2804"
abbreviation (input) VMCS_GUEST_EFER :: qword_t where "VMCS_GUEST_EFER \<equiv> 0x2806"
abbreviation (input) VMCS_GUEST_PERF_GLOBAL_CTRL :: qword_t where "VMCS_GUEST_PERF_GLOBAL_CTRL \<equiv> 0x2808"
abbreviation (input) VMCS_GUEST_PDPTE0 :: qword_t where "VMCS_GUEST_PDPTE0 \<equiv> 0x280a"
abbreviation (input) VMCS_GUEST_BNDCFGS :: qword_t where "VMCS_GUEST_BNDCFGS \<equiv> 0x2812"
abbreviation (input) VMCS_HOST_PAT :: qword_t where "VMCS_HOST_PAT \<equiv> 0x2c00"
abbreviation (input) VMCS_HOST_EFER :: qword_t where "VMCS_HOST_EFER \<equiv> 0x2c02"
abbreviation (input) VMCS_HOST_PERF_GLOBAL_CTRL :: qword_t where "VMCS_HOST_PERF_GLOBAL_CTRL \<equiv> 0x2c04"
abbreviation (input) VMCS_PIN_BASED_VM_EXEC_CONTROL :: qword_t where "VMCS_PIN_BASED_VM_EXEC_CONTROL \<equiv> 0x4000"
abbreviation (input) VMCS_CPU_BASED_VM_EXEC_CONTROL :: qword_t where "VMCS_CPU_BASED_VM_EXEC_CONTROL \<equiv> 0x4002"
abbreviation (input) VMCS_EXCEPTION_BITMAP :: qword_t where "VMCS_EXCEPTION_BITMAP \<equiv> 0x4004"
abbreviation (input) VMCS_PAGE_FAULT_ERROR_CODE_MASK :: qword_t where "VMCS_PAGE_FAULT_ERROR_CODE_MASK \<equiv> 0x4006"
abbreviation (input) VMCS_PAGE_FAULT_ERROR_CODE_MATCH :: qword_t where "VMCS_PAGE_FAULT_ERROR_CODE_MATCH \<equiv> 0x4008"
abbreviation (input) VMCS_CR3_TARGET_COUNT :: qword_t where "VMCS_CR3_TARGET_COUNT \<equiv> 0x400a"
abbreviation (input) VMCS_VM_EXIT_CONTROLS :: qword_t where "VMCS_VM_EXIT_CONTROLS \<equiv> 0x400c"
abbreviation (input) VMCS_VM_EXIT_MSR_STORE_COUNT :: qword_t where "VMCS_VM_EXIT_MSR_STORE_COUNT \<equiv> 0x400e"
abbreviation (input) VMCS_VM_EXIT_MSR_LOAD_COUNT :: qword_t where "VMCS_VM_EXIT_MSR_LOAD_COUNT \<equiv> 0x4010"
abbreviation (input) VMCS_VM_ENTRY_CONTROLS :: qword_t where "VMCS_VM_ENTRY_CONTROLS \<equiv> 0x4012"
abbreviation (input) VMCS_VM_ENTRY_MSR_LOAD_COUNT :: qword_t where "VMCS_VM_ENTRY_MSR_LOAD_COUNT \<equiv> 0x4014"
abbreviation (input) VMCS_VM_ENTRY_INTR_INFO :: qword_t where "VMCS_VM_ENTRY_INTR_INFO \<equiv> 0x4016"
abbreviation (input) VMCS_VM_ENTRY_EXCEPTION_ERROR_CODE :: qword_t where "VMCS_VM_ENTRY_EXCEPTION_ERROR_CODE \<equiv> 0x4018"
abbreviation (input) VMCS_VM_ENTRY_INSTRUCTION_LEN :: qword_t where "VMCS_VM_ENTRY_INSTRUCTION_LEN \<equiv> 0x401a"
abbreviation (input) VMCS_TPR_THRESHOLD :: qword_t where "VMCS_TPR_THRESHOLD \<equiv> 0x401c"
abbreviation (input) VMCS_SECONDARY_VM_EXEC_CONTROL :: qword_t where "VMCS_SECONDARY_VM_EXEC_CONTROL \<equiv> 0x401e"
abbreviation (input) VMCS_PLE_GAP :: qword_t where "VMCS_PLE_GAP \<equiv> 0x4020"
abbreviation (input) VMCS_PLE_WINDOW :: qword_t where "VMCS_PLE_WINDOW \<equiv> 0x4022"
abbreviation (input) VMCS_VM_INSTRUCTION_ERROR :: qword_t where "VMCS_VM_INSTRUCTION_ERROR \<equiv> 0x4400"
abbreviation (input) VMCS_VM_EXIT_REASON :: qword_t where "VMCS_VM_EXIT_REASON \<equiv> 0x4402"
abbreviation (input) VMCS_VM_EXIT_INTR_INFO :: qword_t where "VMCS_VM_EXIT_INTR_INFO \<equiv> 0x4404"
abbreviation (input) VMCS_VM_EXIT_INTR_ERROR_CODE :: qword_t where "VMCS_VM_EXIT_INTR_ERROR_CODE \<equiv> 0x4406"
abbreviation (input) VMCS_IDT_VECTORING_INFO :: qword_t where "VMCS_IDT_VECTORING_INFO \<equiv> 0x4408"
abbreviation (input) VMCS_IDT_VECTORING_ERROR_CODE :: qword_t where "VMCS_IDT_VECTORING_ERROR_CODE \<equiv> 0x440a"
abbreviation (input) VMCS_VM_EXIT_INSTRUCTION_LEN :: qword_t where "VMCS_VM_EXIT_INSTRUCTION_LEN \<equiv> 0x440c"
abbreviation (input) VMCS_VMX_INSTRUCTION_INFO :: qword_t where "VMCS_VMX_INSTRUCTION_INFO \<equiv> 0x440e"
abbreviation (input) VMCS_GUEST_ES_LIMIT :: qword_t where "VMCS_GUEST_ES_LIMIT \<equiv> 0x4800"
abbreviation (input) VMCS_GUEST_CS_LIMIT :: qword_t where "VMCS_GUEST_CS_LIMIT \<equiv> 0x4802"
abbreviation (input) VMCS_GUEST_SS_LIMIT :: qword_t where "VMCS_GUEST_SS_LIMIT \<equiv> 0x4804"
abbreviation (input) VMCS_GUEST_DS_LIMIT :: qword_t where "VMCS_GUEST_DS_LIMIT \<equiv> 0x4806"
abbreviation (input) VMCS_GUEST_FS_LIMIT :: qword_t where "VMCS_GUEST_FS_LIMIT \<equiv> 0x4808"
abbreviation (input) VMCS_GUEST_GS_LIMIT :: qword_t where "VMCS_GUEST_GS_LIMIT \<equiv> 0x480a"
abbreviation (input) VMCS_GUEST_LDTR_LIMIT :: qword_t where "VMCS_GUEST_LDTR_LIMIT \<equiv> 0x480c"
abbreviation (input) VMCS_GUEST_TR_LIMIT :: qword_t where "VMCS_GUEST_TR_LIMIT \<equiv> 0x480e"
abbreviation (input) VMCS_GUEST_GDTR_LIMIT :: qword_t where "VMCS_GUEST_GDTR_LIMIT \<equiv> 0x4810"
abbreviation (input) VMCS_GUEST_IDTR_LIMIT :: qword_t where "VMCS_GUEST_IDTR_LIMIT \<equiv> 0x4812"
abbreviation (input) VMCS_GUEST_ES_AR_BYTES :: qword_t where "VMCS_GUEST_ES_AR_BYTES \<equiv> 0x4814"
abbreviation (input) VMCS_GUEST_CS_AR_BYTES :: qword_t where "VMCS_GUEST_CS_AR_BYTES \<equiv> 0x4816"
abbreviation (input) VMCS_GUEST_SS_AR_BYTES :: qword_t where "VMCS_GUEST_SS_AR_BYTES \<equiv> 0x4818"
abbreviation (input) VMCS_GUEST_DS_AR_BYTES :: qword_t where "VMCS_GUEST_DS_AR_BYTES \<equiv> 0x481a"
abbreviation (input) VMCS_GUEST_FS_AR_BYTES :: qword_t where "VMCS_GUEST_FS_AR_BYTES \<equiv> 0x481c"
abbreviation (input) VMCS_GUEST_GS_AR_BYTES :: qword_t where "VMCS_GUEST_GS_AR_BYTES \<equiv> 0x481e"
abbreviation (input) VMCS_GUEST_LDTR_AR_BYTES :: qword_t where "VMCS_GUEST_LDTR_AR_BYTES \<equiv> 0x4820"
abbreviation (input) VMCS_GUEST_TR_AR_BYTES :: qword_t where "VMCS_GUEST_TR_AR_BYTES \<equiv> 0x4822"
abbreviation (input) VMCS_GUEST_INTERRUPTIBILITY_INFO :: qword_t where "VMCS_GUEST_INTERRUPTIBILITY_INFO \<equiv> 0x4824"
abbreviation (input) VMCS_GUEST_ACTIVITY_STATE :: qword_t where "VMCS_GUEST_ACTIVITY_STATE \<equiv> 0x4826"
abbreviation (input) VMCS_GUEST_SMBASE :: qword_t where "VMCS_GUEST_SMBASE \<equiv> 0x4828"
abbreviation (input) VMCS_GUEST_SYSENTER_CS :: qword_t where "VMCS_GUEST_SYSENTER_CS \<equiv> 0x482a"
abbreviation (input) VMCS_GUEST_PREEMPTION_TIMER :: qword_t where "VMCS_GUEST_PREEMPTION_TIMER \<equiv> 0x482e"
abbreviation (input) VMCS_HOST_SYSENTER_CS :: qword_t where "VMCS_HOST_SYSENTER_CS \<equiv> 0x4c00"
abbreviation (input) VMCS_CR0_GUEST_HOST_MASK :: qword_t where "VMCS_CR0_GUEST_HOST_MASK \<equiv> 0x6000"
abbreviation (input) VMCS_CR4_GUEST_HOST_MASK :: qword_t where "VMCS_CR4_GUEST_HOST_MASK \<equiv> 0x6002"
abbreviation (input) VMCS_CR0_READ_SHADOW :: qword_t where "VMCS_CR0_READ_SHADOW \<equiv> 0x6004"
abbreviation (input) VMCS_CR4_READ_SHADOW :: qword_t where "VMCS_CR4_READ_SHADOW \<equiv> 0x6006"
abbreviation (input) VMCS_CR3_TARGET_VALUE0 :: qword_t where "VMCS_CR3_TARGET_VALUE0 \<equiv> 0x6008"
abbreviation (input) VMCS_EXIT_QUALIFICATION :: qword_t where "VMCS_EXIT_QUALIFICATION \<equiv> 0x6400"
abbreviation (input) VMCS_GUEST_LINEAR_ADDRESS :: qword_t where "VMCS_GUEST_LINEAR_ADDRESS \<equiv> 0x640a"
abbreviation (input) VMCS_GUEST_CR0 :: qword_t where "VMCS_GUEST_CR0 \<equiv> 0x6800"
abbreviation (input) VMCS_GUEST_CR3 :: qword_t where "VMCS_GUEST_CR3 \<equiv> 0x6802"
abbreviation (input) VMCS_GUEST_CR4 :: qword_t where "VMCS_GUEST_CR4 \<equiv> 0x6804"
abbreviation (input) VMCS_GUEST_ES_BASE :: qword_t where "VMCS_GUEST_ES_BASE \<equiv> 0x6806"
abbreviation (input) VMCS_GUEST_CS_BASE :: qword_t where "VMCS_GUEST_CS_BASE \<equiv> 0x6808"
abbreviation (input) VMCS_GUEST_SS_BASE :: qword_t where "VMCS_GUEST_SS_BASE \<equiv> 0x680a"
abbreviation (input) VMCS_GUEST_DS_BASE :: qword_t where "VMCS_GUEST_DS_BASE \<equiv> 0x680c"
abbreviation (input) VMCS_GUEST_FS_BASE :: qword_t where "VMCS_GUEST_FS_BASE \<equiv> 0x680e"
abbreviation (input) VMCS_GUEST_GS_BASE :: qword_t where "VMCS_GUEST_GS_BASE \<equiv> 0x6810"
abbreviation (input) VMCS_GUEST_LDTR_BASE :: qword_t where "VMCS_GUEST_LDTR_BASE \<equiv> 0x6812"
abbreviation (input) VMCS_GUEST_TR_BASE :: qword_t where "VMCS_GUEST_TR_BASE \<equiv> 0x6814"
abbreviation (input) VMCS_GUEST_GDTR_BASE :: qword_t where "VMCS_GUEST_GDTR_BASE \<equiv> 0x6816"
abbreviation (input) VMCS_GUEST_IDTR_BASE :: qword_t where "VMCS_GUEST_IDTR_BASE \<equiv> 0x6818"
abbreviation (input) VMCS_GUEST_DR7 :: qword_t where "VMCS_GUEST_DR7 \<equiv> 0x681a"
abbreviation (input) VMCS_GUEST_RSP :: qword_t where "VMCS_GUEST_RSP \<equiv> 0x681c"
abbreviation (input) VMCS_GUEST_RIP :: qword_t where "VMCS_GUEST_RIP \<equiv> 0x681e"
abbreviation (input) VMCS_GUEST_RFLAGS :: qword_t where "VMCS_GUEST_RFLAGS \<equiv> 0x6820"
abbreviation (input) VMCS_GUEST_PENDING_DBG_EXCEPTIONS :: qword_t where "VMCS_GUEST_PENDING_DBG_EXCEPTIONS \<equiv> 0x6822"
abbreviation (input) VMCS_GUEST_SYSENTER_ESP :: qword_t where "VMCS_GUEST_SYSENTER_ESP \<equiv> 0x6824"
abbreviation (input) VMCS_GUEST_SYSENTER_EIP :: qword_t where "VMCS_GUEST_SYSENTER_EIP \<equiv> 0x6826"
abbreviation (input) VMCS_HOST_CR0 :: qword_t where "VMCS_HOST_CR0 \<equiv> 0x6c00"
abbreviation (input) VMCS_HOST_CR3 :: qword_t where "VMCS_HOST_CR3 \<equiv> 0x6c02"
abbreviation (input) VMCS_HOST_CR4 :: qword_t where "VMCS_HOST_CR4 \<equiv> 0x6c04"
abbreviation (input) VMCS_HOST_FS_BASE :: qword_t where "VMCS_HOST_FS_BASE \<equiv> 0x6c06"
abbreviation (input) VMCS_HOST_GS_BASE :: qword_t where "VMCS_HOST_GS_BASE \<equiv> 0x6c08"
abbreviation (input) VMCS_HOST_TR_BASE :: qword_t where "VMCS_HOST_TR_BASE \<equiv> 0x6c0a"
abbreviation (input) VMCS_HOST_GDTR_BASE :: qword_t where "VMCS_HOST_GDTR_BASE \<equiv> 0x6c0c"
abbreviation (input) VMCS_HOST_IDTR_BASE :: qword_t where "VMCS_HOST_IDTR_BASE \<equiv> 0x6c0e"
abbreviation (input) VMCS_HOST_SYSENTER_ESP :: qword_t where "VMCS_HOST_SYSENTER_ESP \<equiv> 0x6c10"
abbreviation (input) VMCS_HOST_SYSENTER_EIP :: qword_t where "VMCS_HOST_SYSENTER_EIP \<equiv> 0x6c12"
abbreviation (input) VMCS_HOST_RSP :: qword_t where "VMCS_HOST_RSP \<equiv> 0x6c14"
abbreviation (input) VMCS_HOST_RIP :: qword_t where "VMCS_HOST_RIP \<equiv> 0x6c16"

section \<open>Control bits\<close>

abbreviation (input) CPU_BASED_USE_TSC_OFFSETING :: qword_t where "CPU_BASED_USE_TSC_OFFSETING \<equiv> 8"
abbreviation (input) CPU_BASED_HLT_EXITING :: qword_t where "CPU_BASED_HLT_EXITING \<equiv> 0x80"
abbreviation (input) CPU_BASED_INVLPG_EXITING :: qword_t where "CPU_BASED_INVLPG_EXITING \<equiv> 0x200"
abbreviation (input) CPU_BASED_MWAIT_EXITING :: qword_t where "CPU_BASED_MWAIT_EXITING \<equiv> 0x400"
abbreviation (input) CPU_BASED_RDPMC_EXITING :: qword_t where "CPU_BASED_RDPMC_EXITING \<equiv> 0x800"
abbreviation (input) CPU_BASED_RDTSC_EXITING :: qword_t where "CPU_BASED_RDTSC_EXITING \<equiv> 0x1000"
abbreviation (input) CPU_BASED_CR3_LOAD_EXITING :: qword_t where "CPU_BASED_CR3_LOAD_EXITING \<equiv> 0x8000"
abbreviation (input) CPU_BASED_CR3_STORE_EXITING :: qword_t where "CPU_BASED_CR3_STORE_EXITING \<equiv> 0x10000"
abbreviation (input) CPU_BASED_CR8_LOAD_EXITING :: qword_t where "CPU_BASED_CR8_LOAD_EXITING \<equiv> 0x80000"
abbreviation (input) CPU_BASED_CR8_STORE_EXITING :: qword_t where "CPU_BASED_CR8_STORE_EXITING \<equiv> 0x100000"
abbreviation (input) CPU_BASED_TPR_SHADOW :: qword_t where "CPU_BASED_TPR_SHADOW \<equiv> 0x200000"
abbreviation (input) CPU_BASED_VIRTUAL_NMI_PENDING :: qword_t where "CPU_BASED_VIRTUAL_NMI_PENDING \<equiv> 0x400000"
abbreviation (input) CPU_BASED_MOV_DR_EXITING :: qword_t where "CPU_BASED_MOV_DR_EXITING \<equiv> 0x800000"
abbreviation (input) CPU_BASED_UNCOND_IO_EXITING :: qword_t where "CPU_BASED_UNCOND_IO_EXITING \<equiv> 0x1000000"
abbreviation (input) CPU_BASED_ACTIVATE_IO_BITMAP :: qword_t where "CPU_BASED_ACTIVATE_IO_BITMAP \<equiv> 0x2000000"
abbreviation (input) CPU_BASED_MONITOR_TRAP_FLAG :: qword_t where "CPU_BASED_MONITOR_TRAP_FLAG \<equiv> 0x8000000"
abbreviation (input) CPU_BASED_ACTIVATE_MSR_BITMAP :: qword_t where "CPU_BASED_ACTIVATE_MSR_BITMAP \<equiv> 0x10000000"
abbreviation (input) CPU_BASED_MONITOR_EXITING :: qword_t where "CPU_BASED_MONITOR_EXITING \<equiv> 0x20000000"
abbreviation (input) CPU_BASED_PAUSE_EXITING :: qword_t where "CPU_BASED_PAUSE_EXITING \<equiv> 0x40000000"
abbreviation (input) CPU_BASED_ACTIVATE_SECONDARY_CONTROLS :: qword_t where "CPU_BASED_ACTIVATE_SECONDARY_CONTROLS \<equiv> 0x80000000"
abbreviation (input) CPU_BASED_CTL2_ENABLE_EPT :: qword_t where "CPU_BASED_CTL2_ENABLE_EPT \<equiv> 2"
abbreviation (input) CPU_BASED_CTL2_RDTSCP :: qword_t where "CPU_BASED_CTL2_RDTSCP \<equiv> 8"
abbreviation (input) CPU_BASED_CTL2_ENABLE_VPID :: qword_t where "CPU_BASED_CTL2_ENABLE_VPID \<equiv> 0x20"
abbreviation (input) CPU_BASED_CTL2_ENABLE_INVPCID :: qword_t where "CPU_BASED_CTL2_ENABLE_INVPCID \<equiv> 0x1000"
abbreviation (input) CPU_BASED_CTL2_UNRESTRICTED_GUEST :: qword_t where "CPU_BASED_CTL2_UNRESTRICTED_GUEST \<equiv> 0x80"
abbreviation (input) CPU_BASED_CTL2_ENABLE_VMFUNC :: qword_t where "CPU_BASED_CTL2_ENABLE_VMFUNC \<equiv> 0x2000"
abbreviation (input) VM_ENTRY_LOAD_DEBUG_CTLS :: qword_t where "VM_ENTRY_LOAD_DEBUG_CTLS \<equiv> 4"
abbreviation (input) VM_ENTRY_IA32E_MODE :: qword_t where "VM_ENTRY_IA32E_MODE \<equiv> 0x200"
abbreviation (input) VM_ENTRY_SMM :: qword_t where "VM_ENTRY_SMM \<equiv> 0x400"
abbreviation (input) VM_ENTRY_DEACT_DUAL_MONITOR :: qword_t where "VM_ENTRY_DEACT_DUAL_MONITOR \<equiv> 0x800"
abbreviation (input) VM_ENTRY_LOAD_GUEST_PAT :: qword_t where "VM_ENTRY_LOAD_GUEST_PAT \<equiv> 0x4000"
abbreviation (input) VM_ENTRY_LOAD_EFER :: qword_t where "VM_ENTRY_LOAD_EFER \<equiv> 0x8000"
abbreviation (input) VM_EXIT_LOAD_DEBUG_CTLS :: qword_t where "VM_EXIT_LOAD_DEBUG_CTLS \<equiv> 4"
abbreviation (input) VM_EXIT_IA32E_MODE :: qword_t where "VM_EXIT_IA32E_MODE \<equiv> 0x200"
abbreviation (input) VM_EXIT_ACK_INTR_ON_EXIT :: qword_t where "VM_EXIT_ACK_INTR_ON_EXIT \<equiv> 0x8000"
abbreviation (input) VM_EXIT_SAVE_GUEST_PAT :: qword_t where "VM_EXIT_SAVE_GUEST_PAT \<equiv> 0x40000"
abbreviation (input) VM_EXIT_LOAD_HOST_PAT :: qword_t where "VM_EXIT_LOAD_HOST_PAT \<equiv> 0x80000"
abbreviation (input) VM_EXIT_SAVE_EFER :: qword_t where "VM_EXIT_SAVE_EFER \<equiv> 0x100000"
abbreviation (input) VM_EXIT_LOAD_EFER :: qword_t where "VM_EXIT_LOAD_EFER \<equiv> 0x200000"

section \<open>Widths of the fields\<close>

definition vmcs_encodings :: "qword_t list" where
  "vmcs_encodings = [
     VMCS_VIRTUAL_PROCESSOR_ID,
     VMCS_POSTED_INTR_NOTIFICATION_VECTOR,
     VMCS_EPTP_INDEX,
     VMCS_GUEST_ES_SELECTOR,
     VMCS_GUEST_CS_SELECTOR,
     VMCS_GUEST_SS_SELECTOR,
     VMCS_GUEST_DS_SELECTOR,
     VMCS_GUEST_FS_SELECTOR,
     VMCS_GUEST_GS_SELECTOR,
     VMCS_GUEST_LDTR_SELECTOR,
     VMCS_GUEST_TR_SELECTOR,
     VMCS_GUEST_INTR_STATUS,
     VMCS_GUEST_PML_INDEX,
     VMCS_HOST_ES_SELECTOR,
     VMCS_HOST_CS_SELECTOR,
     VMCS_HOST_SS_SELECTOR,
     VMCS_HOST_DS_SELECTOR,
     VMCS_HOST_FS_SELECTOR,
     VMCS_HOST_GS_SELECTOR,
     VMCS_HOST_TR_SELECTOR,
     VMCS_IO_BITMAP_A,
     VMCS_IO_BITMAP_B,
     VMCS_MSR_BITMAP,
     VMCS_VM_EXIT_MSR_STORE_ADDR,
     VMCS_VM_EXIT_MSR_LOAD_ADDR,
     VMCS_VM_ENTRY_MSR_LOAD_ADDR,
     VMCS_PML_ADDRESS,
     VMCS_TSC_OFFSET,
     VMCS_TSC_OFFSET_HIGH,
     VMCS_VIRTUAL_APIC_PAGE_ADDR,
     VMCS_APIC_ACCESS_ADDR,
     VMCS_PI_DESC_ADDR,
     VMCS_VM_FUNCTION_CONTROL,
     VMCS_EPT_POINTER,
     VMCS_EOI_EXIT_BITMAP0,
     VMCS_EPTP_LIST_ADDR,
     VMCS_VMREAD_BITMAP,
     VMCS_VMWRITE_BITMAP,
     VMCS_VIRT_EXCEPTION_INFO,
     VMCS_XSS_EXIT_BITMAP,
     VMCS_TSC_MULTIPLIER,
     VMCS_GUEST_PHYSICAL_ADDRESS,
     VMCS_VMCS_LINK_POINTER,
     VMCS_GUEST_IA32_DEBUGCTL,
     VMCS_GUEST_IA32_DEBUGCTL_HIGH,
     VMCS_GUEST_PAT,
     VMCS_GUEST_EFER,
     VMCS_GUEST_PERF_GLOBAL_CTRL,
     VMCS_GUEST_PDPTE0,
     VMCS_GUEST_BNDCFGS,
     VMCS_HOST_PAT,
     VMCS_HOST_EFER,
     VMCS_HOST_PERF_GLOBAL_CTRL,
     VMCS_PIN_BASED_VM_EXEC_CONTROL,
     VMCS_CPU_BASED_VM_EXEC_CONTROL,
     VMCS_EXCEPTION_BITMAP,
     VMCS_PAGE_FAULT_ERROR_CODE_MASK,
     VMCS_PAGE_FAULT_ERROR_CODE_MATCH,
     VMCS_CR3_TARGET_COUNT,
     VMCS_VM_EXIT_CONTROLS,
     VMCS_VM_EXIT_MSR_STORE_COUNT,
     VMCS_VM_EXIT_MSR_LOAD_COUNT,
     VMCS_VM_ENTRY_CONTROLS,
     VMCS_VM_ENTRY_MSR_LOAD_COUNT,
     VMCS_VM_ENTRY_INTR_INFO,
     VMCS_VM_ENTRY_EXCEPTION_ERROR_CODE,
     VMCS_VM_ENTRY_INSTRUCTION_LEN,
     VMCS_TPR_THRESHOLD,
     VMCS_SECONDARY_VM_EXEC_CONTROL,
     VMCS_PLE_GAP,
     VMCS_PLE_WINDOW,
     VMCS_VM_INSTRUCTION_ERROR,
     VMCS_VM_EXIT_REASON,
     VMCS_VM_EXIT_INTR_INFO,
     VMCS_VM_EXIT_INTR_ERROR_CODE,
     VMCS_IDT_VECTORING_INFO,
     VMCS_IDT_VECTORING_ERROR_CODE,
     VMCS_VM_EXIT_INSTRUCTION_LEN,
     VMCS_VMX_INSTRUCTION_INFO,
     VMCS_GUEST_ES_LIMIT,
     VMCS_GUEST_CS_LIMIT,
     VMCS_GUEST_SS_LIMIT,
     VMCS_GUEST_DS_LIMIT,
     VMCS_GUEST_FS_LIMIT,
     VMCS_GUEST_GS_LIMIT,
     VMCS_GUEST_LDTR_LIMIT,
     VMCS_GUEST_TR_LIMIT,
     VMCS_GUEST_GDTR_LIMIT,
     VMCS_GUEST_IDTR_LIMIT,
     VMCS_GUEST_ES_AR_BYTES,
     VMCS_GUEST_CS_AR_BYTES,
     VMCS_GUEST_SS_AR_BYTES,
     VMCS_GUEST_DS_AR_BYTES,
     VMCS_GUEST_FS_AR_BYTES,
     VMCS_GUEST_GS_AR_BYTES,
     VMCS_GUEST_LDTR_AR_BYTES,
     VMCS_GUEST_TR_AR_BYTES,
     VMCS_GUEST_INTERRUPTIBILITY_INFO,
     VMCS_GUEST_ACTIVITY_STATE,
     VMCS_GUEST_SMBASE,
     VMCS_GUEST_SYSENTER_CS,
     VMCS_GUEST_PREEMPTION_TIMER,
     VMCS_HOST_SYSENTER_CS,
     VMCS_CR0_GUEST_HOST_MASK,
     VMCS_CR4_GUEST_HOST_MASK,
     VMCS_CR0_READ_SHADOW,
     VMCS_CR4_READ_SHADOW,
     VMCS_CR3_TARGET_VALUE0,
     VMCS_EXIT_QUALIFICATION,
     VMCS_GUEST_LINEAR_ADDRESS,
     VMCS_GUEST_CR0,
     VMCS_GUEST_CR3,
     VMCS_GUEST_CR4,
     VMCS_GUEST_ES_BASE,
     VMCS_GUEST_CS_BASE,
     VMCS_GUEST_SS_BASE,
     VMCS_GUEST_DS_BASE,
     VMCS_GUEST_FS_BASE,
     VMCS_GUEST_GS_BASE,
     VMCS_GUEST_LDTR_BASE,
     VMCS_GUEST_TR_BASE,
     VMCS_GUEST_GDTR_BASE,
     VMCS_GUEST_IDTR_BASE,
     VMCS_GUEST_DR7,
     VMCS_GUEST_RSP,
     VMCS_GUEST_RIP,
     VMCS_GUEST_RFLAGS,
     VMCS_GUEST_PENDING_DBG_EXCEPTIONS,
     VMCS_GUEST_SYSENTER_ESP,
     VMCS_GUEST_SYSENTER_EIP,
     VMCS_HOST_CR0,
     VMCS_HOST_CR3,
     VMCS_HOST_CR4,
     VMCS_HOST_FS_BASE,
     VMCS_HOST_GS_BASE,
     VMCS_HOST_TR_BASE,
     VMCS_HOST_GDTR_BASE,
     VMCS_HOST_IDTR_BASE,
     VMCS_HOST_SYSENTER_ESP,
     VMCS_HOST_SYSENTER_EIP,
     VMCS_HOST_RSP,
     VMCS_HOST_RIP]"

definition high_access :: "qword_t \<Rightarrow> bool" where
  "high_access f \<longleftrightarrow> bit f 0"

definition full_field :: "qword_t \<Rightarrow> qword_t" where
  "full_field f = f AND NOT 1"

definition field_width :: "qword_t \<Rightarrow> nat" where
  "field_width f =
     (let k = get_field 13 2 f in if k = 0 then 16 else if k = 2 then 32 else 64)"

definition separate_fields :: "qword_t \<Rightarrow> qword_t \<Rightarrow> bool" where
  "separate_fields f g \<longleftrightarrow> full_field f \<noteq> full_field g"

lemma vmcs_encodings_ascending: "successively (<) vmcs_encodings"
  by (simp add: vmcs_encodings_def)

lemma vmcs_encodings_distinct: "distinct vmcs_encodings"
proof -
  have "sorted_wrt (<) vmcs_encodings"
    using vmcs_encodings_ascending by (subst (asm) successively_conv_sorted_wrt) (auto intro: transpI)
  then show ?thesis by (simp add: strict_sorted_iff)
qed

end
