(* ===== verification/Msr.thy ===== *)
theory Msr
  imports Prelude
begin

text \<open>
  The model-specific register numbers of \<open>include/hardware/msr.h\<close>, in the header's order, and
  the list of all of them.
\<close>

abbreviation (input) MSR_IA32_P5_MC_ADDR :: dword_t where "MSR_IA32_P5_MC_ADDR \<equiv> 0"
abbreviation (input) MSR_IA32_P5_MC_TYPE :: dword_t where "MSR_IA32_P5_MC_TYPE \<equiv> 1"
abbreviation (input) MSR_IA32_MONITOR_FILTER_SIZE :: dword_t where "MSR_IA32_MONITOR_FILTER_SIZE \<equiv> 6"
abbreviation (input) MSR_IA32_TIME_STAMP_COUNTER :: dword_t where "MSR_IA32_TIME_STAMP_COUNTER \<equiv> 0x10"
abbreviation (input) MSR_IA32_PLATFORM_ID :: dword_t where "MSR_IA32_PLATFORM_ID \<equiv> 0x17"
abbreviation (input) MSR_IA32_APIC_BASE :: dword_t where "MSR_IA32_APIC_BASE \<equiv> 0x1b"
abbreviation (input) MSR_IA32_FEATURE_CONTROL :: dword_t where "MSR_IA32_FEATURE_CONTROL \<equiv> 0x3a"
abbreviation (input) MSR_IA32_TSC_ADJUST :: dword_t where "MSR_IA32_TSC_ADJUST \<equiv> 0x3b"
abbreviation (input) MSR_IA32_BIOS_UPDT_TRIG :: dword_t where "MSR_IA32_BIOS_UPDT_TRIG \<equiv> 0x79"
abbreviation (input) MSR_IA32_BIOS_SIGN_ID :: dword_t where "MSR_IA32_BIOS_SIGN_ID \<equiv> 0x8b"
abbreviation (input) MSR_IA32_SGXLEPUBKEYHASH0 :: dword_t where "MSR_IA32_SGXLEPUBKEYHASH0 \<equiv> 0x8c"
abbreviation (input) MSR_IA32_SGXLEPUBKEYHASH1 :: dword_t where "MSR_IA32_SGXLEPUBKEYHASH1 \<equiv> 0x8d"
abbreviation (input) MSR_IA32_SGXLEPUBKEYHASH2 :: dword_t where "MSR_IA32_SGXLEPUBKEYHASH2 \<equiv> 0x8e"
abbreviation (input) MSR_IA32_SGXLEPUBKEYHASH3 :: dword_t where "MSR_IA32_SGXLEPUBKEYHASH3 \<equiv> 0x8f"
abbreviation (input) MSR_IA32_SMM_MONITOR_CTL :: dword_t where "MSR_IA32_SMM_MONITOR_CTL \<equiv> 0x9b"
abbreviation (input) MSR_IA32_SMBASE :: dword_t where "MSR_IA32_SMBASE \<equiv> 0x9e"
abbreviation (input) MSR_IA32_PMC0 :: dword_t where "MSR_IA32_PMC0 \<equiv> 0xc1"
abbreviation (input) MSR_IA32_PMC1 :: dword_t where "MSR_IA32_PMC1 \<equiv> 0xc2"
abbreviation (input) MSR_IA32_PMC2 :: dword_t where "MSR_IA32_PMC2 \<equiv> 0xc3"
abbreviation (input) MSR_IA32_PMC3 :: dword_t where "MSR_IA32_PMC3 \<equiv> 0xc4"
abbreviation (input) MSR_IA32_PMC4 :: dword_t where "MSR_IA32_PMC4 \<equiv> 0xc5"
abbreviation (input) MSR_IA32_PMC5 :: dword_t where "MSR_IA32_PMC5 \<equiv> 0xc6"
abbreviation (input) MSR_IA32_PMC6 :: dword_t where "MSR_IA32_PMC6 \<equiv> 0xc7"
abbreviation (input) MSR_IA32_PMC7 :: dword_t where "MSR_IA32_PMC7 \<equiv> 0xc8"
abbreviation (input) MSR_IA32_MPERF :: dword_t where "MSR_IA32_MPERF \<equiv> 0xe7"
abbreviation (input) MSR_IA32_APERF :: dword_t where "MSR_IA32_APERF \<equiv> 0xe8"
abbreviation (input) MSR_IA32_MTRRCAP :: dword_t where "MSR_IA32_MTRRCAP \<equiv> 0xfe"
abbreviation (input) MSR_IA32_SYSENTER_CS :: dword_t where "MSR_IA32_SYSENTER_CS \<equiv> 0x174"
abbreviation (input) MSR_IA32_SYSENTER_ESP :: dword_t where "MSR_IA32_SYSENTER_ESP \<equiv> 0x175"
abbreviation (input) MSR_IA32_SYSENTER_EIP :: dword_t where "MSR_IA32_SYSENTER_EIP \<equiv> 0x176"
abbreviation (input) MSR_IA32_MCG_CAP :: dword_t where "MSR_IA32_MCG_CAP \<equiv> 0x179"
abbreviation (input) MSR_IA32_MCG_STATUS :: dword_t where "MSR_IA32_MCG_STATUS \<equiv> 0x17a"
abbreviation (input) MSR_IA32_MCG_CTL :: dword_t where "MSR_IA32_MCG_CTL \<equiv> 0x17b"
abbreviation (input) MSR_IA32_PERFEVTSEL0 :: dword_t where "MSR_IA32_PERFEVTSEL0 \<equiv> 0x186"
abbreviation (input) MSR_IA32_PERFEVTSEL1 :: dword_t where "MSR_IA32_PERFEVTSEL1 \<equiv> 0x187"
abbreviation (input) MSR_IA32_PERFEVTSEL2 :: dword_t where "MSR_IA32_PERFEVTSEL2 \<equiv> 0x188"
abbreviation (input) MSR_IA32_PERFEVTSEL3 :: dword_t where "MSR_IA32_PERFEVTSEL3 \<equiv> 0x189"
abbreviation (input) MSR_IA32_PERF_STATUS :: dword_t where "MSR_IA32_PERF_STATUS \<equiv> 0x198"
abbreviation (input) MSR_IA32_PERF_CTL :: dword_t where "MSR_IA32_PERF_CTL \<equiv> 0x199"
abbreviation (input) MSR_IA32_CLOCK_MODULATION :: dword_t where "MSR_IA32_CLOCK_MODULATION \<equiv> 0x19a"
abbreviation (input) MSR_IA32_THERM_INTERRUPT :: dword_t where "MSR_IA32_THERM_INTERRUPT \<equiv> 0x19b"
abbreviation (input) MSR_IA32_THERM_STATUS :: dword_t where "MSR_IA32_THERM_STATUS \<equiv> 0x19c"
abbreviation (input) MSR_IA32_MISC_ENABLE :: dword_t where "MSR_IA32_MISC_ENABLE \<equiv> 0x1a0"
abbreviation (input) MSR_IA32_ENERGY_PERF_BIAS :: dword_t where "MSR_IA32_ENERGY_PERF_BIAS \<equiv> 0x1b0"
abbreviation (input) MSR_IA32_PACKAGE_THERM_STATUS :: dword_t where "MSR_IA32_PACKAGE_THERM_STATUS \<equiv> 0x1b1"
abbreviation (input) MSR_IA32_PACKAGE_THERM_INTERRUPT :: dword_t where "MSR_IA32_PACKAGE_THERM_INTERRUPT \<equiv> 0x1b2"
abbreviation (input) MSR_IA32_DEBUGCTL :: dword_t where "MSR_IA32_DEBUGCTL \<equiv> 0x1d9"
abbreviation (input) MSR_IA32_SMRR_PHYSBASE :: dword_t where "MSR_IA32_SMRR_PHYSBASE \<equiv> 0x1f2"
abbreviation (input) MSR_IA32_SMRR_PHYSMASK :: dword_t where "MSR_IA32_SMRR_PHYSMASK \<equiv> 0x1f3"
abbreviation (input) MSR_IA32_PLATFORM_DCA_CAP :: dword_t where "MSR_IA32_PLATFORM_DCA_CAP \<equiv> 0x1f8"
abbreviation (input) MSR_IA32_CPU_DCA_CAP :: dword_t where "MSR_IA32_CPU_DCA_CAP \<equiv> 0x1f9"
abbreviation (input) MSR_IA32_DCA_0_CAP :: dword_t where "MSR_IA32_DCA_0_CAP \<equiv> 0x1fa"
abbreviation (input) MSR_IA32_MTRR_PHYSBASE0 :: dword_t where "MSR_IA32_MTRR_PHYSBASE0 \<equiv> 0x200"
abbreviation (input) MSR_IA32_MTRR_PHYSMASK0 :: dword_t where "MSR_IA32_MTRR_PHYSMASK0 \<equiv> 0x201"
abbreviation (input) MSR_IA32_MTRR_PHYSBASE1 :: dword_t where "MSR_IA32_MTRR_PHYSBASE1 \<equiv> 0x202"
abbreviation (input) MSR_IA32_MTRR_PHYSMASK1 :: dword_t where "MSR_IA32_MTRR_PHYSMASK1 \<equiv> 0x203"
abbreviation (input) MSR_IA32_MTRR_PHYSBASE2 :: dword_t where "MSR_IA32_MTRR_PHYSBASE2 \<equiv> 0x204"
abbreviation (input) MSR_IA32_MTRR_PHYSMASK2 :: dword_t where "MSR_IA32_MTRR_PHYSMASK2 \<equiv> 0x205"
abbreviation (input) MSR_IA32_MTRR_PHYSBASE3 :: dword_t where "MSR_IA32_MTRR_PHYSBASE3 \<equiv> 0x206"
abbreviation (input) MSR_IA32_MTRR_PHYSMASK3 :: dword_t where "MSR_IA32_MTRR_PHYSMASK3 \<equiv> 0x207"
abbreviation (input) MSR_IA32_MTRR_PHYSBASE4 :: dword_t where "MSR_IA32_MTRR_PHYSBASE4 \<equiv> 0x208"
abbreviation (input) MSR_IA32_MTRR_PHYSMASK4 :: dword_t where "MSR_IA32_MTRR_PHYSMASK4 \<equiv> 0x209"
abbreviation (input) MSR_IA32_MTRR_PHYSBASE5 :: dword_t where "MSR_IA32_MTRR_PHYSBASE5 \<equiv> 0x20a"
abbreviation (input) MSR_IA32_MTRR_PHYSMASK5 :: dword_t where "MSR_IA32_MTRR_PHYSMASK5 \<equiv> 0x20b"
abbreviation (input) MSR_IA32_MTRR_PHYSBASE6 :: dword_t where "MSR_IA32_MTRR_PHYSBASE6 \<equiv> 0x20c"
abbreviation (input) MSR_IA32_MTRR_PHYSMASK6 :: dword_t where "MSR_IA32_MTRR_PHYSMASK6 \<equiv> 0x20d"
abbreviation (input) MSR_IA32_MTRR_PHYSBASE7 :: dword_t where "MSR_IA32_MTRR_PHYSBASE7 \<equiv> 0x20e"
abbreviation (input) MSR_IA32_MTRR_PHYSMASK7 :: dword_t where "MSR_IA32_MTRR_PHYSMASK7 \<equiv> 0x20f"
abbreviation (input) MSR_IA32_MTRR_PHYSBASE8 :: dword_t where "MSR_IA32_MTRR_PHYSBASE8 \<equiv> 0x210"
abbreviation (input) MSR_IA32_MTRR_PHYSMASK8 :: dword_t where "MSR_IA32_MTRR_PHYSMASK8 \<equiv> 0x211"
abbreviation (input) MSR_IA32_MTRR_PHYSBASE9 :: dword_t where "MSR_IA32_MTRR_PHYSBASE9 \<equiv> 0x212"
abbreviation (input) MSR_IA32_MTRR_PHYSMASK9 :: dword_t where "MSR_IA32_MTRR_PHYSMASK9 \<equiv> 0x213"
abbreviation (input) MSR_IA32_MTRR_FIX64K_00000 :: dword_t where "MSR_IA32_MTRR_FIX64K_00000 \<equiv> 0x250"
abbreviation (input) MSR_IA32_MTRR_FIX16K_80000 :: dword_t where "MSR_IA32_MTRR_FIX16K_80000 \<equiv> 0x258"
abbreviation (input) MSR_IA32_MTRR_FIX16K_A0000 :: dword_t where "MSR_IA32_MTRR_FIX16K_A0000 \<equiv> 0x259"
abbreviation (input) MSR_IA32_MTRR_FIX4K_C0000 :: dword_t where "MSR_IA32_MTRR_FIX4K_C0000 \<equiv> 0x268"
abbreviation (input) MSR_IA32_MTRR_FIX4K_C8000 :: dword_t where "MSR_IA32_MTRR_FIX4K_C8000 \<equiv> 0x269"
abbreviation (input) MSR_IA32_MTRR_FIX4K_D0000 :: dword_t where "MSR_IA32_MTRR_FIX4K_D0000 \<equiv> 0x26a"
abbreviation (input) MSR_IA32_MTRR_FIX4K_D8000 :: dword_t where "MSR_IA32_MTRR_FIX4K_D8000 \<equiv> 0x26b"
abbreviation (input) MSR_IA32_MTRR_FIX4K_E0000 :: dword_t where "MSR_IA32_MTRR_FIX4K_E0000 \<equiv> 0x26c"
abbreviation (input) MSR_IA32_MTRR_FIX4K_E8000 :: dword_t where "MSR_IA32_MTRR_FIX4K_E8000 \<equiv> 0x26d"
abbreviation (input) MSR_IA32_MTRR_FIX4K_F0000 :: dword_t where "MSR_IA32_MTRR_FIX4K_F0000 \<equiv> 0x26e"
abbreviation (input) MSR_IA32_MTRR_FIX4K_F8000 :: dword_t where "MSR_IA32_MTRR_FIX4K_F8000 \<equiv> 0x26f"
abbreviation (input) MSR_IA32_PAT :: dword_t where "MSR_IA32_PAT \<equiv> 0x277"
abbreviation (input) MSR_IA32_MC0_CTL2 :: dword_t where "MSR_IA32_MC0_CTL2 \<equiv> 0x280"
abbreviation (input) MSR_IA32_MC1_CTL2 :: dword_t where "MSR_IA32_MC1_CTL2 \<equiv> 0x281"
abbreviation (input) MSR_IA32_MC2_CTL2 :: dword_t where "MSR_IA32_MC2_CTL2 \<equiv> 0x282"
abbreviation (input) MSR_IA32_MC3_CTL2 :: dword_t where "MSR_IA32_MC3_CTL2 \<equiv> 0x283"
abbreviation (input) MSR_IA32_MC4_CTL2 :: dword_t where "MSR_IA32_MC4_CTL2 \<equiv> 0x284"
abbreviation (input) MSR_IA32_MC5_CTL2 :: dword_t where "MSR_IA32_MC5_CTL2 \<equiv> 0x285"
abbreviation (input) MSR_IA32_MC6_CTL2 :: dword_t where "MSR_IA32_MC6_CTL2 \<equiv> 0x286"
abbreviation (input) MSR_IA32_MC7_CTL2 :: dword_t where "MSR_IA32_MC7_CTL2 \<equiv> 0x287"
abbreviation (input) MSR_IA32_MC8_CTL2 :: dword_t where "MSR_IA32_MC8_CTL2 \<equiv> 0x288"
abbreviation (input) MSR_IA32_MC9_CTL2 :: dword_t where "MSR_IA32_MC9_CTL2 \<equiv> 0x289"
abbreviation (input) MSR_IA32_MC10_CTL2 :: dword_t where "MSR_IA32_MC10_CTL2 \<equiv> 0x28a"
abbreviation (input) MSR_IA32_MC11_CTL2 :: dword_t where "MSR_IA32_MC11_CTL2 \<equiv> 0x28b"
abbreviation (input) MSR_IA32_MC12_CTL2 :: dword_t where "MSR_IA32_MC12_CTL2 \<equiv> 0x28c"
abbreviation (input) MSR_IA32_MC13_CTL2 :: dword_t where "MSR_IA32_MC13_CTL2 \<equiv> 0x28d"
abbreviation (input) MSR_IA32_MC14_CTL2 :: dword_t where "MSR_IA32_MC14_CTL2 \<equiv> 0x28e"
abbreviation (input) MSR_IA32_MC15_CTL2 :: dword_t where "MSR_IA32_MC15_CTL2 \<equiv> 0x28f"
abbreviation (input) MSR_IA32_MC16_CTL2 :: dword_t where "MSR_IA32_MC16_CTL2 \<equiv> 0x290"
abbreviation (input) MSR_IA32_MC17_CTL2 :: dword_t where "MSR_IA32_MC17_CTL2 \<equiv> 0x291"
abbreviation (input) MSR_IA32_MC18_CTL2 :: dword_t where "MSR_IA32_MC18_CTL2 \<equiv> 0x292"
abbreviation (input) MSR_IA32_MC19_CTL2 :: dword_t where "MSR_IA32_MC19_CTL2 \<equiv> 0x293"
abbreviation (input) MSR_IA32_MC20_CTL2 :: dword_t where "MSR_IA32_MC20_CTL2 \<equiv> 0x294"
abbreviation (input) MSR_IA32_MC21_CTL2 :: dword_t where "MSR_IA32_MC21_CTL2 \<equiv> 0x295"
abbreviation (input) MSR_IA32_MC22_CTL2 :: dword_t where "MSR_IA32_MC22_CTL2 \<equiv> 0x296"
abbreviation (input) MSR_IA32_MC23_CTL2 :: dword_t where "MSR_IA32_MC23_CTL2 \<equiv> 0x297"
abbreviation (input) MSR_IA32_MC24_CTL2 :: dword_t where "MSR_IA32_MC24_CTL2 \<equiv> 0x298"
abbreviation (input) MSR_IA32_MC25_CTL2 :: dword_t where "MSR_IA32_MC25_CTL2 \<equiv> 0x299"
abbreviation (input) MSR_IA32_MC26_CTL2 :: dword_t where "MSR_IA32_MC26_CTL2 \<equiv> 0x29a"
abbreviation (input) MSR_IA32_MC27_CTL2 :: dword_t where "MSR_IA32_MC27_CTL2 \<equiv> 0x29b"
abbreviation (input) MSR_IA32_MC28_CTL2 :: dword_t where "MSR_IA32_MC28_CTL2 \<equiv> 0x29c"
abbreviation (input) MSR_IA32_MC29_CTL2 :: dword_t where "MSR_IA32_MC29_CTL2 \<equiv> 0x29d"
abbreviation (input) MSR_IA32_MC30_CTL2 :: dword_t where "MSR_IA32_MC30_CTL2 \<equiv> 0x29e"
abbreviation (input) MSR_IA32_MC31_CTL2 :: dword_t where "MSR_IA32_MC31_CTL2 \<equiv> 0x29f"
abbreviation (input) MSR_IA32_MTRR_DEF_TYPE :: dword_t where "MSR_IA32_MTRR_DEF_TYPE \<equiv> 0x2ff"
abbreviation (input) MSR_IA32_FIXED_CTR0 :: dword_t where "MSR_IA32_FIXED_CTR0 \<equiv> 0x309"
abbreviation (input) MSR_IA32_FIXED_CTR1 :: dword_t where "MSR_IA32_FIXED_CTR1 \<equiv> 0x30a"
abbreviation (input) MSR_IA32_FIXED_CTR2 :: dword_t where "MSR_IA32_FIXED_CTR2 \<equiv> 0x30b"
abbreviation (input) MSR_IA32_PERF_CAPABILITIES :: dword_t where "MSR_IA32_PERF_CAPABILITIES \<equiv> 0x345"
abbreviation (input) MSR_IA32_FIXED_CTR_CTRL :: dword_t where "MSR_IA32_FIXED_CTR_CTRL \<equiv> 0x38d"
abbreviation (input) MSR_IA32_PERF_GLOBAL_STATUS :: dword_t where "MSR_IA32_PERF_GLOBAL_STATUS \<equiv> 0x38e"
abbreviation (input) MSR_IA32_PERF_GLOBAL_CTRL :: dword_t where "MSR_IA32_PERF_GLOBAL_CTRL \<equiv> 0x38f"
abbreviation (input) MSR_IA32_PERF_GLOBAL_OVF_CTRL :: dword_t where "MSR_IA32_PERF_GLOBAL_OVF_CTRL \<equiv> 0x390"
abbreviation (input) MSR_IA32_PERF_GLOBAL_STATUS_RESET :: dword_t where "MSR_IA32_PERF_GLOBAL_STATUS_RESET \<equiv> 0x390"
abbreviation (input) MSR_IA32_PERF_GLOBAL_STATUS_SET :: dword_t where "MSR_IA32_PERF_GLOBAL_STATUS_SET \<equiv> 0x391"
abbreviation (input) MSR_IA32_PERF_GLOBAL_INUSE :: dword_t where "MSR_IA32_PERF_GLOBAL_INUSE \<equiv> 0x392"
abbreviation (input) MSR_IA32_PEBS_ENABLE :: dword_t where "MSR_IA32_PEBS_ENABLE \<equiv> 0x3f1"
abbreviation (input) MSR_IA32_MC0_CTL :: dword_t where "MSR_IA32_MC0_CTL \<equiv> 0x400"
abbreviation (input) MSR_IA32_MC0_STATUS :: dword_t where "MSR_IA32_MC0_STATUS \<equiv> 0x401"
abbreviation (input) MSR_IA32_MC0_ADDR :: dword_t where "MSR_IA32_MC0_ADDR \<equiv> 0x402"
abbreviation (input) MSR_IA32_MC0_MISC :: dword_t where "MSR_IA32_MC0_MISC \<equiv> 0x403"
abbreviation (input) MSR_IA32_MC1_CTL :: dword_t where "MSR_IA32_MC1_CTL \<equiv> 0x404"
abbreviation (input) MSR_IA32_MC1_STATUS :: dword_t where "MSR_IA32_MC1_STATUS \<equiv> 0x405"
abbreviation (input) MSR_IA32_MC1_ADDR :: dword_t where "MSR_IA32_MC1_ADDR \<equiv> 0x406"
abbreviation (input) MSR_IA32_MC1_MISC :: dword_t where "MSR_IA32_MC1_MISC \<equiv> 0x407"
abbreviation (input) MSR_IA32_MC2_CTL :: dword_t where "MSR_IA32_MC2_CTL \<equiv> 0x408"
abbreviation (input) MSR_IA32_MC2_STATUS :: dword_t where "MSR_IA32_MC2_STATUS \<equiv> 0x409"
abbreviation (input) MSR_IA32_MC2_ADDR :: dword_t where "MSR_IA32_MC2_ADDR \<equiv> 0x40a"
abbreviation (input) MSR_IA32_MC2_MISC :: dword_t where "MSR_IA32_MC2_MISC \<equiv> 0x40b"
abbreviation (input) MSR_IA32_MC3_CTL :: dword_t where "MSR_IA32_MC3_CTL \<equiv> 0x40c"
abbreviation (input) MSR_IA32_MC3_STATUS :: dword_t where "MSR_IA32_MC3_STATUS \<equiv> 0x40d"
abbreviation (input) MSR_IA32_MC3_ADDR :: dword_t where "MSR_IA32_MC3_ADDR \<equiv> 0x40e"
abbreviation (input) MSR_IA32_MC3_MISC :: dword_t where "MSR_IA32_MC3_MISC \<equiv> 0x40f"
abbreviation (input) MSR_IA32_MC4_CTL :: dword_t where "MSR_IA32_MC4_CTL \<equiv> 0x410"
abbreviation (input) MSR_IA32_MC4_STATUS :: dword_t where "MSR_IA32_MC4_STATUS \<equiv> 0x411"
abbreviation (input) MSR_IA32_MC4_ADDR :: dword_t where "MSR_IA32_MC4_ADDR \<equiv> 0x412"
abbreviation (input) MSR_IA32_MC4_MISC :: dword_t where "MSR_IA32_MC4_MISC \<equiv> 0x413"
abbreviation (input) MSR_IA32_MC5_CTL :: dword_t where "MSR_IA32_MC5_CTL \<equiv> 0x414"
abbreviation (input) MSR_IA32_MC5_STATUS :: dword_t where "MSR_IA32_MC5_STATUS \<equiv> 0x415"
abbreviation (input) MSR_IA32_MC5_ADDR :: dword_t where "MSR_IA32_MC5_ADDR \<equiv> 0x416"
abbreviation (input) MSR_IA32_MC5_MISC :: dword_t where "MSR_IA32_MC5_MISC \<equiv> 0x417"
abbreviation (input) MSR_IA32_MC6_CTL :: dword_t where "MSR_IA32_MC6_CTL \<equiv> 0x418"
abbreviation (input) MSR_IA32_MC6_STATUS :: dword_t where "MSR_IA32_MC6_STATUS \<equiv> 0x419"
abbreviation (input) MSR_IA32_MC6_ADDR :: dword_t where "MSR_IA32_MC6_ADDR \<equiv> 0x41a"
abbreviation (input) MSR_IA32_MC6_MISC :: dword_t where "MSR_IA32_MC6_MISC \<equiv> 0x41b"
abbreviation (input) MSR_IA32_MC7_CTL :: dword_t where "MSR_IA32_MC7_CTL \<equiv> 0x41c"
abbreviation (input) MSR_IA32_MC7_STATUS :: dword_t where "MSR_IA32_MC7_STATUS \<equiv> 0x41d"
abbreviation (input) MSR_IA32_MC7_ADDR :: dword_t where "MSR_IA32_MC7_ADDR \<equiv> 0x41e"
abbreviation (input) MSR_IA32_MC7_MISC :: dword_t where "MSR_IA32_MC7_MISC \<equiv> 0x41f"
abbreviation (input) MSR_IA32_MC8_CTL :: dword_t where "MSR_IA32_MC8_CTL \<equiv> 0x420"
abbreviation (input) MSR_IA32_MC8_STATUS :: dword_t where "MSR_IA32_MC8_STATUS \<equiv> 0x421"
abbreviation (input) MSR_IA32_MC8_ADDR :: dword_t where "MSR_IA32_MC8_ADDR \<equiv> 0x422"
abbreviation (input) MSR_IA32_MC8_MISC :: dword_t where "MSR_IA32_MC8_MISC \<equiv> 0x423"
abbreviation (input) MSR_IA32_MC9_CTL :: dword_t where "MSR_IA32_MC9_CTL \<equiv> 0x424"
abbreviation (input) MSR_IA32_MC9_STATUS :: dword_t where "MSR_IA32_MC9_STATUS \<equiv> 0x425"
abbreviation (input) MSR_IA32_MC9_ADDR :: dword_t where "MSR_IA32_MC9_ADDR \<equiv> 0x426"
abbreviation (input) MSR_IA32_MC9_MISC :: dword_t where "MSR_IA32_MC9_MISC \<equiv> 0x427"
abbreviation (input) MSR_IA32_MC10_CTL :: dword_t where "MSR_IA32_MC10_CTL \<equiv> 0x428"
abbreviation (input) MSR_IA32_MC10_STATUS :: dword_t where "MSR_IA32_MC10_STATUS \<equiv> 0x429"
abbreviation (input) MSR_IA32_MC10_ADDR :: dword_t where "MSR_IA32_MC10_ADDR \<equiv> 0x42a"
abbreviation (input) MSR_IA32_MC10_MISC :: dword_t where "MSR_IA32_MC10_MISC \<equiv> 0x42b"
abbreviation (input) MSR_IA32_MC11_CTL :: dword_t where "MSR_IA32_MC11_CTL \<equiv> 0x42c"
abbreviation (input) MSR_IA32_MC11_STATUS :: dword_t where "MSR_IA32_MC11_STATUS \<equiv> 0x42d"
abbreviation (input) MSR_IA32_MC11_ADDR :: dword_t where "MSR_IA32_MC11_ADDR \<equiv> 0x42e"
abbreviation (input) MSR_IA32_MC11_MISC :: dword_t where "MSR_IA32_MC11_MISC \<equiv> 0x42f"
abbreviation (input) MSR_IA32_MC12_CTL :: dword_t where "MSR_IA32_MC12_CTL \<equiv> 0x430"
abbreviation (input) MSR_IA32_MC12_STATUS :: dword_t where "MSR_IA32_MC12_STATUS \<equiv> 0x431"
abbreviation (input) MSR_IA32_MC12_ADDR :: dword_t where "MSR_IA32_MC12_ADDR \<equiv> 0x432"
abbreviation (input) MSR_IA32_MC12_MISC :: dword_t where "MSR_IA32_MC12_MISC \<equiv> 0x433"
abbreviation (input) MSR_IA32_MC13_CTL :: dword_t where "MSR_IA32_MC13_CTL \<equiv> 0x434"
abbreviation (input) MSR_IA32_MC13_STATUS :: dword_t where "MSR_IA32_MC13_STATUS \<equiv> 0x435"
abbreviation (input) MSR_IA32_MC13_ADDR :: dword_t where "MSR_IA32_MC13_ADDR \<equiv> 0x436"
abbreviation (input) MSR_IA32_MC13_MISC :: dword_t where "MSR_IA32_MC13_MISC \<equiv> 0x437"
abbreviation (input) MSR_IA32_MC14_CTL :: dword_t where "MSR_IA32_MC14_CTL \<equiv> 0x438"
abbreviation (input) MSR_IA32_MC14_STATUS :: dword_t where "MSR_IA32_MC14_STATUS \<equiv> 0x439"
abbreviation (input) MSR_IA32_MC14_ADDR :: dword_t where "MSR_IA32_MC14_ADDR \<equiv> 0x43a"
abbreviation (input) MSR_IA32_MC14_MISC :: dword_t where "MSR_IA32_MC14_MISC \<equiv> 0x43b"
abbreviation (input) MSR_IA32_MC15_CTL :: dword_t where "MSR_IA32_MC15_CTL \<equiv> 0x43c"
abbreviation (input) MSR_IA32_MC15_STATUS :: dword_t where "MSR_IA32_MC15_STATUS \<equiv> 0x43d"
abbreviation (input) MSR_IA32_MC15_ADDR :: dword_t where "MSR_IA32_MC15_ADDR \<equiv> 0x43e"
abbreviation (input) MSR_IA32_MC15_MISC :: dword_t where "MSR_IA32_MC15_MISC \<equiv> 0x43f"
abbreviation (input) MSR_IA32_MC16_CTL :: dword_t where "MSR_IA32_MC16_CTL \<equiv> 0x440"
abbreviation (input) MSR_IA32_MC16_STATUS :: dword_t where "MSR_IA32_MC16_STATUS \<equiv> 0x441"
abbreviation (input) MSR_IA32_MC16_ADDR :: dword_t where "MSR_IA32_MC16_ADDR \<equiv> 0x442"
abbreviation (input) MSR_IA32_MC16_MISC :: dword_t where "MSR_IA32_MC16_MISC \<equiv> 0x443"
abbreviation (input) MSR_IA32_MC17_CTL :: dword_t where "MSR_IA32_MC17_CTL \<equiv> 0x444"
abbreviation (input) MSR_IA32_MC17_STATUS :: dword_t where "MSR_IA32_MC17_STATUS \<equiv> 0x445"
abbreviation (input) MSR_IA32_MC17_ADDR :: dword_t where "MSR_IA32_MC17_ADDR \<equiv> 0x446"
abbreviation (input) MSR_IA32_MC17_MISC :: dword_t where "MSR_IA32_MC17_MISC \<equiv> 0x447"
abbreviation (input) MSR_IA32_MC18_CTL :: dword_t where "MSR_IA32_MC18_CTL \<equiv> 0x448"
abbreviation (input) MSR_IA32_MC18_STATUS :: dword_t where "MSR_IA32_MC18_STATUS \<equiv> 0x449"
abbreviation (input) MSR_IA32_MC18_ADDR :: dword_t where "MSR_IA32_MC18_ADDR \<equiv> 0x44a"
abbreviation (input) MSR_IA32_MC18_MISC :: dword_t where "MSR_IA32_MC18_MISC \<equiv> 0x44b"
abbreviation (input) MSR_IA32_MC19_CTL :: dword_t where "MSR_IA32_MC19_CTL \<equiv> 0x44c"
abbreviation (input) MSR_IA32_MC19_STATUS :: dword_t where "MSR_IA32_MC19_STATUS \<equiv> 0x44d"
abbreviation (input) MSR_IA32_MC19_ADDR :: dword_t where "MSR_IA32_MC19_ADDR \<equiv> 0x44e"
abbreviation (input) MSR_IA32_MC19_MISC :: dword_t where "MSR_IA32_MC19_MISC \<equiv> 0x44f"
abbreviation (input) MSR_IA32_MC20_CTL :: dword_t where "MSR_IA32_MC20_CTL \<equiv> 0x450"
abbreviation (input) MSR_IA32_MC20_STATUS :: dword_t where "MSR_IA32_MC20_STATUS \<equiv> 0x451"
abbreviation (input) MSR_IA32_MC20_ADDR :: dword_t where "MSR_IA32_MC20_ADDR \<equiv> 0x452"
abbreviation (input) MSR_IA32_MC20_MISC :: dword_t where "MSR_IA32_MC20_MISC \<equiv> 0x453"
abbreviation (input) MSR_IA32_MC21_CTL :: dword_t where "MSR_IA32_MC21_CTL \<equiv> 0x454"
abbreviation (input) MSR_IA32_MC21_STATUS :: dword_t where "MSR_IA32_MC21_STATUS \<equiv> 0x455"
abbreviation (input) MSR_IA32_MC21_ADDR :: dword_t where "MSR_IA32_MC21_ADDR \<equiv> 0x456"
abbreviation (input) MSR_IA32_MC21_MISC :: dword_t where "MSR_IA32_MC21_MISC \<equiv> 0x457"
abbreviation (input) MSR_IA32_MC22_CTL :: dword_t where "MSR_IA32_MC22_CTL \<equiv> 0x458"
abbreviation (input) MSR_IA32_MC22_STATUS :: dword_t where "MSR_IA32_MC22_STATUS \<equiv> 0x459"
abbreviation (input) MSR_IA32_MC22_ADDR :: dword_t where "MSR_IA32_MC22_ADDR \<equiv> 0x45a"
abbreviation (input) MSR_IA32_MC22_MISC :: dword_t where "MSR_IA32_MC22_MISC \<equiv> 0x45b"
abbreviation (input) MSR_IA32_MC23_CTL :: dword_t where "MSR_IA32_MC23_CTL \<equiv> 0x45c"
abbreviation (input) MSR_IA32_MC23_STATUS :: dword_t where "MSR_IA32_MC23_STATUS \<equiv> 0x45d"
abbreviation (input) MSR_IA32_MC23_ADDR :: dword_t where "MSR_IA32_MC23_ADDR \<equiv> 0x45e"
abbreviation (input) MSR_IA32_MC23_MISC :: dword_t where "MSR_IA32_MC23_MISC \<equiv> 0x45f"
abbreviation (input) MSR_IA32_MC24_CTL :: dword_t where "MSR_IA32_MC24_CTL \<equiv> 0x460"
abbreviation (input) MSR_IA32_MC24_STATUS :: dword_t where "MSR_IA32_MC24_STATUS \<equiv> 0x461"
abbreviation (input) MSR_IA32_MC24_ADDR :: dword_t where "MSR_IA32_MC24_ADDR \<equiv> 0x462"
abbreviation (input) MSR_IA32_MC24_MISC :: dword_t where "MSR_IA32_MC24_MISC \<equiv> 0x463"
abbreviation (input) MSR_IA32_MC25_CTL :: dword_t where "MSR_IA32_MC25_CTL \<equiv> 0x464"
abbreviation (input) MSR_IA32_MC25_STATUS :: dword_t where "MSR_IA32_MC25_STATUS \<equiv> 0x465"
abbreviation (input) MSR_IA32_MC25_ADDR :: dword_t where "MSR_IA32_MC25_ADDR \<equiv> 0x466"
abbreviation (input) MSR_IA32_MC25_MISC :: dword_t where "MSR_IA32_MC25_MISC \<equiv> 0x467"
abbreviation (input) MSR_IA32_MC26_CTL :: dword_t where "MSR_IA32_MC26_CTL \<equiv> 0x468"
abbreviation (input) MSR_IA32_MC26_STATUS :: dword_t where "MSR_IA32_MC26_STATUS \<equiv> 0x469"
abbreviation (input) MSR_IA32_MC26_ADDR :: dword_t where "MSR_IA32_MC26_ADDR \<equiv> 0x46a"
abbreviation (input) MSR_IA32_MC26_MISC :: dword_t where "MSR_IA32_MC26_MISC \<equiv> 0x46b"
abbreviation (input) MSR_IA32_MC27_CTL :: dword_t where "MSR_IA32_MC27_CTL \<equiv> 0x46c"
abbreviation (input) MSR_IA32_MC27_STATUS :: dword_t where "MSR_IA32_MC27_STATUS \<equiv> 0x46d"
abbreviation (input) MSR_IA32_MC27_ADDR :: dword_t where "MSR_IA32_MC27_ADDR \<equiv> 0x46e"
abbreviation (input) MSR_IA32_MC27_MISC :: dword_t where "MSR_IA32_MC27_MISC \<equiv> 0x46f"
abbreviation (input) MSR_IA32_MC28_CTL :: dword_t where "MSR_IA32_MC28_CTL \<equiv> 0x470"
abbreviation (input) MSR_IA32_MC28_STATUS :: dword_t where "MSR_IA32_MC28_STATUS \<equiv> 0x471"
abbreviation (input) MSR_IA32_MC28_ADDR :: dword_t where "MSR_IA32_MC28_ADDR \<equiv> 0x472"
abbreviation (input) MSR_IA32_MC28_MISC :: dword_t where "MSR_IA32_MC28_MISC \<equiv> 0x473"
abbreviation (input) MSR_IA32_VMX_BASIC :: dword_t where "MSR_IA32_VMX_BASIC \<equiv> 0x480"
abbreviation (input) MSR_IA32_VMX_PINBASED_CTLS :: dword_t where "MSR_IA32_VMX_PINBASED_CTLS \<equiv> 0x481"
abbreviation (input) MSR_IA32_VMX_PROCBASED_CTLS :: dword_t where "MSR_IA32_VMX_PROCBASED_CTLS \<equiv> 0x482"
abbreviation (input) MSR_IA32_VMX_EXIT_CTLS :: dword_t where "MSR_IA32_VMX_EXIT_CTLS \<equiv> 0x483"
abbreviation (input) MSR_IA32_VMX_ENTRY_CTLS :: dword_t where "MSR_IA32_VMX_ENTRY_CTLS \<equiv> 0x484"
abbreviation (input) MSR_IA32_VMX_MISC :: dword_t where "MSR_IA32_VMX_MISC \<equiv> 0x485"
abbreviation (input) MSR_IA32_VMX_CR0_FIXED0 :: dword_t where "MSR_IA32_VMX_CR0_FIXED0 \<equiv> 0x486"
abbreviation (input) MSR_IA32_VMX_CR0_FIXED1 :: dword_t where "MSR_IA32_VMX_CR0_FIXED1 \<equiv> 0x487"
abbreviation (input) MSR_IA32_VMX_CR4_FIXED0 :: dword_t where "MSR_IA32_VMX_CR4_FIXED0 \<equiv> 0x488"
abbreviation (input) MSR_IA32_VMX_CR4_FIXED1 :: dword_t where "MSR_IA32_VMX_CR4_FIXED1 \<equiv> 0x489"
abbreviation (input) MSR_IA32_VMX_VMCS_ENUM :: dword_t where "MSR_IA32_VMX_VMCS_ENUM \<equiv> 0x48a"
abbreviation (input) MSR_IA32_VMX_PROCBASED_CTLS2 :: dword_t where "MSR_IA32_VMX_PROCBASED_CTLS2 \<equiv> 0x48b"
abbreviation (input) MSR_IA32_VMX_EPT_VPID_CAP :: dword_t where "MSR_IA32_VMX_EPT_VPID_CAP \<equiv> 0x48c"
abbreviation (input) MSR_IA32_VMX_TRUE_PINBASED_CTLS :: dword_t where "MSR_IA32_VMX_TRUE_PINBASED_CTLS \<equiv> 0x48d"
abbreviation (input) MSR_IA32_VMX_TRUE_PROCBASED_CTLS :: dword_t where "MSR_IA32_VMX_TRUE_PROCBASED_CTLS \<equiv> 0x48e"
abbreviation (input) MSR_IA32_VMX_TRUE_EXIT_CTLS :: dword_t where "MSR_IA32_VMX_TRUE_EXIT_CTLS \<equiv> 0x48f"
abbreviation (input) MSR_IA32_VMX_TRUE_ENTRY_CTLS :: dword_t where "MSR_IA32_VMX_TRUE_ENTRY_CTLS \<equiv> 0x490"
abbreviation (input) MSR_IA32_VMX_VMFUNC :: dword_t where "MSR_IA32_VMX_VMFUNC \<equiv> 0x491"
abbreviation (input) MSR_IA32_A_PMC0 :: dword_t where "MSR_IA32_A_PMC0 \<equiv> 0x4c1"
abbreviation (input) MSR_IA32_A_PMC1 :: dword_t where "MSR_IA32_A_PMC1 \<equiv> 0x4c2"
abbreviation (input) MSR_IA32_A_PMC2 :: dword_t where "MSR_IA32_A_PMC2 \<equiv> 0x4c3"
abbreviation (input) MSR_IA32_A_PMC3 :: dword_t where "MSR_IA32_A_PMC3 \<equiv> 0x4c4"
abbreviation (input) MSR_IA32_A_PMC4 :: dword_t where "MSR_IA32_A_PMC4 \<equiv> 0x4c5"
abbreviation (input) MSR_IA32_A_PMC5 :: dword_t where "MSR_IA32_A_PMC5 \<equiv> 0x4c6"
abbreviation (input) MSR_IA32_A_PMC6 :: dword_t where "MSR_IA32_A_PMC6 \<equiv> 0x4c7"
abbreviation (input) MSR_IA32_A_PMC7 :: dword_t where "MSR_IA32_A_PMC7 \<equiv> 0x4c8"
abbreviation (input) MSR_IA32_MCG_EXT_CTL :: dword_t where "MSR_IA32_MCG_EXT_CTL \<equiv> 0x4d0"
abbreviation (input) MSR_IA32_SGX_SVN_STATUS :: dword_t where "MSR_IA32_SGX_SVN_STATUS \<equiv> 0x500"
abbreviation (input) MSR_IA32_RTIT_OUTPUT_BASE :: dword_t where "MSR_IA32_RTIT_OUTPUT_BASE \<equiv> 0x560"
abbreviation (input) MSR_IA32_RTIT_OUTPUT_MASK_PTRS :: dword_t where "MSR_IA32_RTIT_OUTPUT_MASK_PTRS \<equiv> 0x561"
abbreviation (input) MSR_IA32_RTIT_CTL :: dword_t where "MSR_IA32_RTIT_CTL \<equiv> 0x570"
abbreviation (input) MSR_IA32_RTIT_STATUS :: dword_t where "MSR_IA32_RTIT_STATUS \<equiv> 0x571"
abbreviation (input) MSR_IA32_RTIT_CR3_MATCH :: dword_t where "MSR_IA32_RTIT_CR3_MATCH \<equiv> 0x572"
abbreviation (input) MSR_IA32_RTIT_ADDR0_A :: dword_t where "MSR_IA32_RTIT_ADDR0_A \<equiv> 0x580"
abbreviation (input) MSR_IA32_RTIT_ADDR0_B :: dword_t where "MSR_IA32_RTIT_ADDR0_B \<equiv> 0x581"
abbreviation (input) MSR_IA32_RTIT_ADDR1_A :: dword_t where "MSR_IA32_RTIT_ADDR1_A \<equiv> 0x582"
abbreviation (input) MSR_IA32_RTIT_ADDR1_B :: dword_t where "MSR_IA32_RTIT_ADDR1_B \<equiv> 0x583"
abbreviation (input) MSR_IA32_RTIT_ADDR2_A :: dword_t where "MSR_IA32_RTIT_ADDR2_A \<equiv> 0x584"
abbreviation (input) MSR_IA32_RTIT_ADDR2_B :: dword_t where "MSR_IA32_RTIT_ADDR2_B \<equiv> 0x585"
abbreviation (input) MSR_IA32_RTIT_ADDR3_A :: dword_t where "MSR_IA32_RTIT_ADDR3_A \<equiv> 0x586"
abbreviation (input) MSR_IA32_RTIT_ADDR3_B :: dword_t where "MSR_IA32_RTIT_ADDR3_B \<equiv> 0x587"
abbreviation (input) MSR_IA32_DS_AREA :: dword_t where "MSR_IA32_DS_AREA \<equiv> 0x600"
abbreviation (input) MSR_IA32_TSC_DEADLINE :: dword_t where "MSR_IA32_TSC_DEADLINE \<equiv> 0x6e0"
abbreviation (input) MSR_IA32_PM_ENABLE :: dword_t where "MSR_IA32_PM_ENABLE \<equiv> 0x770"
abbreviation (input) MSR_IA32_HWP_CAPABILITIES :: dword_t where "MSR_IA32_HWP_CAPABILITIES \<equiv> 0x771"
abbreviation (input) MSR_IA32_HWP_REQUEST_PKG :: dword_t where "MSR_IA32_HWP_REQUEST_PKG \<equiv> 0x772"
abbreviation (input) MSR_IA32_HWP_INTERRUPT :: dword_t where "MSR_IA32_HWP_INTERRUPT \<equiv> 0x773"
abbreviation (input) MSR_IA32_HWP_REQUEST :: dword_t where "MSR_IA32_HWP_REQUEST \<equiv> 0x774"
abbreviation (input) MSR_IA32_HWP_STATUS :: dword_t where "MSR_IA32_HWP_STATUS \<equiv> 0x777"
abbreviation (input) MSR_IA32_X2APIC_APICID :: dword_t where "MSR_IA32_X2APIC_APICID \<equiv> 0x802"
abbreviation (input) MSR_IA32_X2APIC_VERSION :: dword_t where "MSR_IA32_X2APIC_VERSION \<equiv> 0x803"
abbreviation (input) MSR_IA32_X2APIC_TPR :: dword_t where "MSR_IA32_X2APIC_TPR \<equiv> 0x808"
abbreviation (input) MSR_IA32_X2APIC_PPR :: dword_t where "MSR_IA32_X2APIC_PPR \<equiv> 0x80a"
abbreviation (input) MSR_IA32_X2APIC_EOI :: dword_t where "MSR_IA32_X2APIC_EOI \<equiv> 0x80b"
abbreviation (input) MSR_IA32_X2APIC_LDR :: dword_t where "MSR_IA32_X2APIC_LDR \<equiv> 0x80d"
abbreviation (input) MSR_IA32_X2APIC_SIVR :: dword_t where "MSR_IA32_X2APIC_SIVR \<equiv> 0x80f"
abbreviation (input) MSR_IA32_X2APIC_ISR0 :: dword_t where "MSR_IA32_X2APIC_ISR0 \<equiv> 0x810"
abbreviation (input) MSR_IA32_X2APIC_ISR1 :: dword_t where "MSR_IA32_X2APIC_ISR1 \<equiv> 0x811"
abbreviation (input) MSR_IA32_X2APIC_ISR2 :: dword_t where "MSR_IA32_X2APIC_ISR2 \<equiv> 0x812"
abbreviation (input) MSR_IA32_X2APIC_ISR3 :: dword_t where "MSR_IA32_X2APIC_ISR3 \<equiv> 0x813"
abbreviation (input) MSR_IA32_X2APIC_ISR4 :: dword_t where "MSR_IA32_X2APIC_ISR4 \<equiv> 0x814"
abbreviation (input) MSR_IA32_X2APIC_ISR5 :: dword_t where "MSR_IA32_X2APIC_ISR5 \<equiv> 0x815"
abbreviation (input) MSR_IA32_X2APIC_ISR6 :: dword_t where "MSR_IA32_X2APIC_ISR6 \<equiv> 0x816"
abbreviation (input) MSR_IA32_X2APIC_ISR7 :: dword_t where "MSR_IA32_X2APIC_ISR7 \<equiv> 0x817"
abbreviation (input) MSR_IA32_X2APIC_TMR0 :: dword_t where "MSR_IA32_X2APIC_TMR0 \<equiv> 0x818"
abbreviation (input) MSR_IA32_X2APIC_TMR1 :: dword_t where "MSR_IA32_X2APIC_TMR1 \<equiv> 0x819"
abbreviation (input) MSR_IA32_X2APIC_TMR2 :: dword_t where "MSR_IA32_X2APIC_TMR2 \<equiv> 0x81a"
abbreviation (input) MSR_IA32_X2APIC_TMR3 :: dword_t where "MSR_IA32_X2APIC_TMR3 \<equiv> 0x81b"
abbreviation (input) MSR_IA32_X2APIC_TMR4 :: dword_t where "MSR_IA32_X2APIC_TMR4 \<equiv> 0x81c"
abbreviation (input) MSR_IA32_X2APIC_TMR5 :: dword_t where "MSR_IA32_X2APIC_TMR5 \<equiv> 0x81d"
abbreviation (input) MSR_IA32_X2APIC_TMR6 :: dword_t where "MSR_IA32_X2APIC_TMR6 \<equiv> 0x81e"
abbreviation (input) MSR_IA32_X2APIC_TMR7 :: dword_t where "MSR_IA32_X2APIC_TMR7 \<equiv> 0x81f"
abbreviation (input) MSR_IA32_X2APIC_IRR0 :: dword_t where "MSR_IA32_X2APIC_IRR0 \<equiv> 0x820"
abbreviation (input) MSR_IA32_X2APIC_IRR1 :: dword_t where "MSR_IA32_X2APIC_IRR1 \<equiv> 0x821"
abbreviation (input) MSR_IA32_X2APIC_IRR2 :: dword_t where "MSR_IA32_X2APIC_IRR2 \<equiv> 0x822"
abbreviation (input) MSR_IA32_X2APIC_IRR3 :: dword_t where "MSR_IA32_X2APIC_IRR3 \<equiv> 0x823"
abbreviation (input) MSR_IA32_X2APIC_IRR4 :: dword_t where "MSR_IA32_X2APIC_IRR4 \<equiv> 0x824"
abbreviation (input) MSR_IA32_X2APIC_IRR5 :: dword_t where "MSR_IA32_X2APIC_IRR5 \<equiv> 0x825"
abbreviation (input) MSR_IA32_X2APIC_IRR6 :: dword_t where "MSR_IA32_X2APIC_IRR6 \<equiv> 0x826"
abbreviation (input) MSR_IA32_X2APIC_IRR7 :: dword_t where "MSR_IA32_X2APIC_IRR7 \<equiv> 0x827"
abbreviation (input) MSR_IA32_X2APIC_ESR :: dword_t where "MSR_IA32_X2APIC_ESR \<equiv> 0x828"
abbreviation (input) MSR_IA32_X2APIC_LVT_CMCI :: dword_t where "MSR_IA32_X2APIC_LVT_CMCI \<equiv> 0x82f"
abbreviation (input) MSR_IA32_X2APIC_ICR :: dword_t where "MSR_IA32_X2APIC_ICR \<equiv> 0x830"
abbreviation (input) MSR_IA32_X2APIC_LVT_TIMER :: dword_t where "MSR_IA32_X2APIC_LVT_TIMER \<equiv> 0x832"
abbreviation (input) MSR_IA32_X2APIC_LVT_THERMAL :: dword_t where "MSR_IA32_X2APIC_LVT_THERMAL \<equiv> 0x833"
abbreviation (input) MSR_IA32_X2APIC_LVT_PMI :: dword_t where "MSR_IA32_X2APIC_LVT_PMI \<equiv> 0x834"
abbreviation (input) MSR_IA32_X2APIC_LVT_LINT0 :: dword_t where "MSR_IA32_X2APIC_LVT_LINT0 \<equiv> 0x835"
abbreviation (input) MSR_IA32_X2APIC_LVT_LINT1 :: dword_t where "MSR_IA32_X2APIC_LVT_LINT1 \<equiv> 0x836"
abbreviation (input) MSR_IA32_X2APIC_LVT_ERROR :: dword_t where "MSR_IA32_X2APIC_LVT_ERROR \<equiv> 0x837"
abbreviation (input) MSR_IA32_X2APIC_INIT_COUNT :: dword_t where "MSR_IA32_X2APIC_INIT_COUNT \<equiv> 0x838"
abbreviation (input) MSR_IA32_X2APIC_CUR_COUNT :: dword_t where "MSR_IA32_X2APIC_CUR_COUNT \<equiv> 0x839"
abbreviation (input) MSR_IA32_X2APIC_DIV_CONF :: dword_t where "MSR_IA32_X2APIC_DIV_CONF \<equiv> 0x83e"
abbreviation (input) MSR_IA32_X2APIC_SELF_IPI :: dword_t where "MSR_IA32_X2APIC_SELF_IPI \<equiv> 0x83f"
abbreviation (input) MSR_IA32_DEBUG_INTERFACE :: dword_t where "MSR_IA32_DEBUG_INTERFACE \<equiv> 0xc80"
abbreviation (input) MSR_IA32_L3_QOS_CFG :: dword_t where "MSR_IA32_L3_QOS_CFG \<equiv> 0xc81"
abbreviation (input) MSR_IA32_QM_EVTSEL :: dword_t where "MSR_IA32_QM_EVTSEL \<equiv> 0xc8d"
abbreviation (input) MSR_IA32_QM_CTR :: dword_t where "MSR_IA32_QM_CTR \<equiv> 0xc8e"
abbreviation (input) MSR_IA32_PQR_ASSOC :: dword_t where "MSR_IA32_PQR_ASSOC \<equiv> 0xc8f"
abbreviation (input) MSR_IA32_L3_MASK_0 :: dword_t where "MSR_IA32_L3_MASK_0 \<equiv> 0xc90"
abbreviation (input) MSR_IA32_L2_MASK_0 :: dword_t where "MSR_IA32_L2_MASK_0 \<equiv> 0xd10"
abbreviation (input) MSR_IA32_BNDCFGS :: dword_t where "MSR_IA32_BNDCFGS \<equiv> 0xd90"
abbreviation (input) MSR_IA32_XSS :: dword_t where "MSR_IA32_XSS \<equiv> 0xda0"
abbreviation (input) MSR_IA32_PKG_HDC_CTL :: dword_t where "MSR_IA32_PKG_HDC_CTL \<equiv> 0xdb0"
abbreviation (input) MSR_IA32_PM_CTL1 :: dword_t where "MSR_IA32_PM_CTL1 \<equiv> 0xdb1"
abbreviation (input) MSR_IA32_THREAD_STALL :: dword_t where "MSR_IA32_THREAD_STALL \<equiv> 0xdb2"
abbreviation (input) MSR_IA32_EFER :: dword_t where "MSR_IA32_EFER \<equiv> 0xc0000080"
abbreviation (input) MSR_IA32_STAR :: dword_t where "MSR_IA32_STAR \<equiv> 0xc0000081"
abbreviation (input) MSR_IA32_LSTAR :: dword_t where "MSR_IA32_LSTAR \<equiv> 0xc0000082"
abbreviation (input) MSR_IA32_FMASK :: dword_t where "MSR_IA32_FMASK \<equiv> 0xc0000084"
abbreviation (input) MSR_IA32_FS_BASE :: dword_t where "MSR_IA32_FS_BASE \<equiv> 0xc0000100"
abbreviation (input) MSR_IA32_GS_BASE :: dword_t where "MSR_IA32_GS_BASE \<equiv> 0xc0000101"
abbreviation (input) MSR_IA32_KERNEL_GS_BASE :: dword_t where "MSR_IA32_KERNEL_GS_BASE \<equiv> 0xc0000102"
abbreviation (input) MSR_IA32_TSC_AUX :: dword_t where "MSR_IA32_TSC_AUX \<equiv> 0xc0000103"

definition msr_numbers :: "dword_t list" where
  "msr_numbers = [
     MSR_IA32_P5_MC_ADDR,
     MSR_IA32_P5_MC_TYPE,
     MSR_IA32_MONITOR_FILTER_SIZE,
     MSR_IA32_TIME_STAMP_COUNTER,
     MSR_IA32_PLATFORM_ID,
     MSR_IA32_APIC_BASE,
     MSR_IA32_FEATURE_CONTROL,
     MSR_IA32_TSC_ADJUST,
     MSR_IA32_BIOS_UPDT_TRIG,
     MSR_IA32_BIOS_SIGN_ID,
     MSR_IA32_SGXLEPUBKEYHASH0,
     MSR_IA32_SGXLEPUBKEYHASH1,
     MSR_IA32_SGXLEPUBKEYHASH2,
     MSR_IA32_SGXLEPUBKEYHASH3,
     MSR_IA32_SMM_MONITOR_CTL,
     MSR_IA32_SMBASE,
     MSR_IA32_PMC0,
     MSR_IA32_PMC1,
     MSR_IA32_PMC2,
     MSR_IA32_PMC3,
     MSR_IA32_PMC4,
     MSR_IA32_PMC5,
     MSR_IA32_PMC6,
     MSR_IA32_PMC7,
     MSR_IA32_MPERF,
     MSR_IA32_APERF,
     MSR_IA32_MTRRCAP,
     MSR_IA32_SYSENTER_CS,
     MSR_IA32_SYSENTER_ESP,
     MSR_IA32_SYSENTER_EIP,
     MSR_IA32_MCG_CAP,
     MSR_IA32_MCG_STATUS,
     MSR_IA32_MCG_CTL,
     MSR_IA32_PERFEVTSEL0,
     MSR_IA32_PERFEVTSEL1,
     MSR_IA32_PERFEVTSEL2,
     MSR_IA32_PERFEVTSEL3,
     MSR_IA32_PERF_STATUS,
     MSR_IA32_PERF_CTL,
     MSR_IA32_CLOCK_MODULATION,
     MSR_IA32_THERM_INTERRUPT,
     MSR_IA32_THERM_STATUS,
     MSR_IA32_MISC_ENABLE,
     MSR_IA32_ENERGY_PERF_BIAS,
     MSR_IA32_PACKAGE_THERM_STATUS,
     MSR_IA32_PACKAGE_THERM_INTERRUPT,
     MSR_IA32_DEBUGCTL,
     MSR_IA32_SMRR_PHYSBASE,
     MSR_IA32_SMRR_PHYSMASK,
     MSR_IA32_PLATFORM_DCA_CAP,
     MSR_IA32_CPU_DCA_CAP,
     MSR_IA32_DCA_0_CAP,
     MSR_IA32_MTRR_PHYSBASE0,
     MSR_IA32_MTRR_PHYSMASK0,
     MSR_IA32_MTRR_PHYSBASE1,
     MSR_IA32_MTRR_PHYSMASK1,
     MSR_IA32_MTRR_PHYSBASE2,
     MSR_IA32_MTRR_PHYSMASK2,
     MSR_IA32_MTRR_PHYSBASE3,
     MSR_IA32_MTRR_PHYSMASK3,
     MSR_IA32_MTRR_PHYSBASE4,
     MSR_IA32_MTRR_PHYSMASK4,
     MSR_IA32_MTRR_PHYSBASE5,
     MSR_IA32_MTRR_PHYSMASK5,
     MSR_IA32_MTRR_PHYSBASE6,
     MSR_IA32_MTRR_PHYSMASK6,
     MSR_IA32_MTRR_PHYSBASE7,
     MSR_IA32_MTRR_PHYSMASK7,
     MSR_IA32_MTRR_PHYSBASE8,
     MSR_IA32_MTRR_PHYSMASK8,
     MSR_IA32_MTRR_PHYSBASE9,
     MSR_IA32_MTRR_PHYSMASK9,
     MSR_IA32_MTRR_FIX64K_00000,
     MSR_IA32_MTRR_FIX16K_80000,
     MSR_IA32_MTRR_FIX16K_A0000,
     MSR_IA32_MTRR_FIX4K_C0000,
     MSR_IA32_MTRR_FIX4K_C8000,
     MSR_IA32_MTRR_FIX4K_D0000,
     MSR_IA32_MTRR_FIX4K_D8000,
     MSR_IA32_MTRR_FIX4K_E0000,
     MSR_IA32_MTRR_FIX4K_E8000,
     MSR_IA32_MTRR_FIX4K_F0000,
     MSR_IA32_MTRR_FIX4K_F8000,
     MSR_IA32_PAT,
     MSR_IA32_MC0_CTL2,
     MSR_IA32_MC1_CTL2,
     MSR_IA32_MC2_CTL2,
     MSR_IA32_MC3_CTL2,
     MSR_IA32_MC4_CTL2,
     MSR_IA32_MC5_CTL2,
     MSR_IA32_MC6_CTL2,
     MSR_IA32_MC7_CTL2,
     MSR_IA32_MC8_CTL2,
     MSR_IA32_MC9_CTL2,
     MSR_IA32_MC10_CTL2,
     MSR_IA32_MC11_CTL2,
     MSR_IA32_MC12_CTL2,
     MSR_IA32_MC13_CTL2,
     MSR_IA32_MC14_CTL2,
     MSR_IA32_MC15_CTL2,
     MSR_IA32_MC16_CTL2,
     MSR_IA32_MC17_CTL2,
     MSR_IA32_MC18_CTL2,
     MSR_IA32_MC19_CTL2,
     MSR_IA32_MC20_CTL2,
     MSR_IA32_MC21_CTL2,
     MSR_IA32_MC22_CTL2,
     MSR_IA32_MC23_CTL2,
     MSR_IA32_MC24_CTL2,
     MSR_IA32_MC25_CTL2,
     MSR_IA32_MC26_CTL2,
     MSR_IA32_MC27_CTL2,
     MSR_IA32_MC28_CTL2,
     MSR_IA32_MC29_CTL2,
     MSR_IA32_MC30_CTL2,
     MSR_IA32_MC31_CTL2,
     MSR_IA32_MTRR_DEF_TYPE,
     MSR_IA32_FIXED_CTR0,
     MSR_IA32_FIXED_CTR1,
     MSR_IA32_FIXED_CTR2,
     MSR_IA32_PERF_CAPABILITIES,
     MSR_IA32_FIXED_CTR_CTRL,
     MSR_IA32_PERF_GLOBAL_STATUS,
     MSR_IA32_PERF_GLOBAL_CTRL,
     MSR_IA32_PERF_GLOBAL_OVF_CTRL,
     MSR_IA32_PERF_GLOBAL_STATUS_RESET,
     MSR_IA32_PERF_GLOBAL_STATUS_SET,
     MSR_IA32_PERF_GLOBAL_INUSE,
     MSR_IA32_PEBS_ENABLE,
     MSR_IA32_MC0_CTL,
     MSR_IA32_MC0_STATUS,
     MSR_IA32_MC0_ADDR,
     MSR_IA32_MC0_MISC,
     MSR_IA32_MC1_CTL,
     MSR_IA32_MC1_STATUS,
     MSR_IA32_MC1_ADDR,
     MSR_IA32_MC1_MISC,
     MSR_IA32_MC2_CTL,
     MSR_IA32_MC2_STATUS,
     MSR_IA32_MC2_ADDR,
     MSR_IA32_MC2_MISC,
     MSR_IA32_MC3_CTL,
     MSR_IA32_MC3_STATUS,
     MSR_IA32_MC3_ADDR,
     MSR_IA32_MC3_MISC,
     MSR_IA32_MC4_CTL,
     MSR_IA32_MC4_STATUS,
     MSR_IA32_MC4_ADDR,
     MSR_IA32_MC4_MISC,
     MSR_IA32_MC5_CTL,
     MSR_IA32_MC5_STATUS,
     MSR_IA32_MC5_ADDR,
     MSR_IA32_MC5_MISC,
     MSR_IA32_MC6_CTL,
     MSR_IA32_MC6_STATUS,
     MSR_IA32_MC6_ADDR,
     MSR_IA32_MC6_MISC,
     MSR_IA32_MC7_CTL,
     MSR_IA32_MC7_STATUS,
     MSR_IA32_MC7_ADDR,
     MSR_IA32_MC7_MISC,
     MSR_IA32_MC8_CTL,
     MSR_IA32_MC8_STATUS,
     MSR_IA32_MC8_ADDR,
     MSR_IA32_MC8_MISC,
     MSR_IA32_MC9_CTL,
     MSR_IA32_MC9_STATUS,
     MSR_IA32_MC9_ADDR,
     MSR_IA32_MC9_MISC,
     MSR_IA32_MC10_CTL,
     MSR_IA32_MC10_STATUS,
     MSR_IA32_MC10_ADDR,
     MSR_IA32_MC10_MISC,
     MSR_IA32_MC11_CTL,
     MSR_IA32_MC11_STATUS,
     MSR_IA32_MC11_ADDR,
     MSR_IA32_MC11_MISC,
     MSR_IA32_MC12_CTL,
     MSR_IA32_MC12_STATUS,
     MSR_IA32_MC12_ADDR,
     MSR_IA32_MC12_MISC,
     MSR_IA32_MC13_CTL,
     MSR_IA32_MC13_STATUS,
     MSR_IA32_MC13_ADDR,
     MSR_IA32_MC13_MISC,
     MSR_IA32_MC14_CTL,
     MSR_IA32_MC14_STATUS,
     MSR_IA32_MC14_ADDR,
     MSR_IA32_MC14_MISC,
     MSR_IA32_MC15_CTL,
     MSR_IA32_MC15_STATUS,
     MSR_IA32_MC15_ADDR,
     MSR_IA32_MC15_MISC,
     MSR_IA32_MC16_CTL,
     MSR_IA32_MC16_STATUS,
     MSR_IA32_MC16_ADDR,
     MSR_IA32_MC16_MISC,
     MSR_IA32_MC17_CTL,
     MSR_IA32_MC17_STATUS,
     MSR_IA32_MC17_ADDR,
     MSR_IA32_MC17_MISC,
     MSR_IA32_MC18_CTL,
     MSR_IA32_MC18_STATUS,
     MSR_IA32_MC18_ADDR,
     MSR_IA32_MC18_MISC,
     MSR_IA32_MC19_CTL,
     MSR_IA32_MC19_STATUS,
     MSR_IA32_MC19_ADDR,
     MSR_IA32_MC19_MISC,
     MSR_IA32_MC20_CTL,
     MSR_IA32_MC20_STATUS,
     MSR_IA32_MC20_ADDR,
     MSR_IA32_MC20_MISC,
     MSR_IA32_MC21_CTL,
     MSR_IA32_MC21_STATUS,
     MSR_IA32_MC21_ADDR,
     MSR_IA32_MC21_MISC,
     MSR_IA32_MC22_CTL,
     MSR_IA32_MC22_STATUS,
     MSR_IA32_MC22_ADDR,
     MSR_IA32_MC22_MISC,
     MSR_IA32_MC23_CTL,
     MSR_IA32_MC23_STATUS,
     MSR_IA32_MC23_ADDR,
     MSR_IA32_MC23_MISC,
     MSR_IA32_MC24_CTL,
     MSR_IA32_MC24_STATUS,
     MSR_IA32_MC24_ADDR,
     MSR_IA32_MC24_MISC,
     MSR_IA32_MC25_CTL,
     MSR_IA32_MC25_STATUS,
     MSR_IA32_MC25_ADDR,
     MSR_IA32_MC25_MISC,
     MSR_IA32_MC26_CTL,
     MSR_IA32_MC26_STATUS,
     MSR_IA32_MC26_ADDR,
     MSR_IA32_MC26_MISC,
     MSR_IA32_MC27_CTL,
     MSR_IA32_MC27_STATUS,
     MSR_IA32_MC27_ADDR,
     MSR_IA32_MC27_MISC,
     MSR_IA32_MC28_CTL,
     MSR_IA32_MC28_STATUS,
     MSR_IA32_MC28_ADDR,
     MSR_IA32_MC28_MISC,
     MSR_IA32_VMX_BASIC,
     MSR_IA32_VMX_PINBASED_CTLS,
     MSR_IA32_VMX_PROCBASED_CTLS,
     MSR_IA32_VMX_EXIT_CTLS,
     MSR_IA32_VMX_ENTRY_CTLS,
     MSR_IA32_VMX_MISC,
     MSR_IA32_VMX_CR0_FIXED0,
     MSR_IA32_VMX_CR0_FIXED1,
     MSR_IA32_VMX_CR4_FIXED0,
     MSR_IA32_VMX_CR4_FIXED1,
     MSR_IA32_VMX_VMCS_ENUM,
     MSR_IA32_VMX_PROCBASED_CTLS2,
     MSR_IA32_VMX_EPT_VPID_CAP,
     MSR_IA32_VMX_TRUE_PINBASED_CTLS,
     MSR_IA32_VMX_TRUE_PROCBASED_CTLS,
     MSR_IA32_VMX_TRUE_EXIT_CTLS,
     MSR_IA32_VMX_TRUE_ENTRY_CTLS,
     MSR_IA32_VMX_VMFUNC,
     MSR_IA32_A_PMC0,
     MSR_IA32_A_PMC1,
     MSR_IA32_A_PMC2,
     MSR_IA32_A_PMC3,
     MSR_IA32_A_PMC4,
     MSR_IA32_A_PMC5,
     MSR_IA32_A_PMC6,
     MSR_IA32_A_PMC7,
     MSR_IA32_MCG_EXT_CTL,
     MSR_IA32_SGX_SVN_STATUS,
     MSR_IA32_RTIT_OUTPUT_BASE,
     MSR_IA32_RTIT_OUTPUT_MASK_PTRS,
     MSR_IA32_RTIT_CTL,
     MSR_IA32_RTIT_STATUS,
     MSR_IA32_RTIT_CR3_MATCH,
     MSR_IA32_RTIT_ADDR0_A,
     MSR_IA32_RTIT_ADDR0_B,
     MSR_IA32_RTIT_ADDR1_A,
     MSR_IA32_RTIT_ADDR1_B,
     MSR_IA32_RTIT_ADDR2_A,
     MSR_IA32_RTIT_ADDR2_B,
     MSR_IA32_RTIT_ADDR3_A,
     MSR_IA32_RTIT_ADDR3_B,
     MSR_IA32_DS_AREA,
     MSR_IA32_TSC_DEADLINE,
     MSR_IA32_PM_ENABLE,
     MSR_IA32_HWP_CAPABILITIES,
     MSR_IA32_HWP_REQUEST_PKG,
     MSR_IA32_HWP_INTERRUPT,
     MSR_IA32_HWP_REQUEST,
     MSR_IA32_HWP_STATUS,
     MSR_IA32_X2APIC_APICID,
     MSR_IA32_X2APIC_VERSION,
     MSR_IA32_X2APIC_TPR,
     MSR_IA32_X2APIC_PPR,
     MSR_IA32_X2APIC_EOI,
     MSR_IA32_X2APIC_LDR,
     MSR_IA32_X2APIC_SIVR,
     MSR_IA32_X2APIC_ISR0,
     MSR_IA32_X2APIC_ISR1,
     MSR_IA32_X2APIC_ISR2,
     MSR_IA32_X2APIC_ISR3,
     MSR_IA32_X2APIC_ISR4,
     MSR_IA32_X2APIC_ISR5,
     MSR_IA32_X2APIC_ISR6,
     MSR_IA32_X2APIC_ISR7,
     MSR_IA32_X2APIC_TMR0,
     MSR_IA32_X2APIC_TMR1,
     MSR_IA32_X2APIC_TMR2,
     MSR_IA32_X2APIC_TMR3,
     MSR_IA32_X2APIC_TMR4,
     MSR_IA32_X2APIC_TMR5,
     MSR_IA32_X2APIC_TMR6,
     MSR_IA32_X2APIC_TMR7,
     MSR_IA32_X2APIC_IRR0,
     MSR_IA32_X2APIC_IRR1,
     MSR_IA32_X2APIC_IRR2,
     MSR_IA32_X2APIC_IRR3,
     MSR_IA32_X2APIC_IRR4,
     MSR_IA32_X2APIC_IRR5,
     MSR_IA32_X2APIC_IRR6,
     MSR_IA32_X2APIC_IRR7,
     MSR_IA32_X2APIC_ESR,
     MSR_IA32_X2APIC_LVT_CMCI,
     MSR_IA32_X2APIC_ICR,
     MSR_IA32_X2APIC_LVT_TIMER,
     MSR_IA32_X2APIC_LVT_THERMAL,
     MSR_IA32_X2APIC_LVT_PMI,
     MSR_IA32_X2APIC_LVT_LINT0,
     MSR_IA32_X2APIC_LVT_LINT1,
     MSR_IA32_X2APIC_LVT_ERROR,
     MSR_IA32_X2APIC_INIT_COUNT,
     MSR_IA32_X2APIC_CUR_COUNT,
     MSR_IA32_X2APIC_DIV_CONF,
     MSR_IA32_X2APIC_SELF_IPI,
     MSR_IA32_DEBUG_INTERFACE,
     MSR_IA32_L3_QOS_CFG,
     MSR_IA32_QM_EVTSEL,
     MSR_IA32_QM_CTR,
     MSR_IA32_PQR_ASSOC,
     MSR_IA32_L3_MASK_0,
     MSR_IA32_L2_MASK_0,
     MSR_IA32_BNDCFGS,
     MSR_IA32_XSS,
     MSR_IA32_PKG_HDC_CTL,
     MSR_IA32_PM_CTL1,
     MSR_IA32_THREAD_STALL,
     MSR_IA32_EFER,
     MSR_IA32_STAR,
     MSR_IA32_LSTAR,
     MSR_IA32_FMASK,
     MSR_IA32_FS_BASE,
     MSR_IA32_GS_BASE,
     MSR_IA32_KERNEL_GS_BASE,
     MSR_IA32_TSC_AUX]"

end
