(* ===== verification/Machine.thy ===== *)
theory Machine
  imports Memory Vmcs Msr
begin

text \<open>
  The machine the program runs on, as far as its C code and inline assembly observe it:
  \<open>include/hardware/types.h\<close>, \<open>registers.h\<close>, \<open>vmx.h\<close>, \<open>miscellaneous.h\<close> and the log level of
  \<open>include/lib/log.h\<close>.

  The record \<open>world\<close> is the whole state: physical memory, the control, debug, segment and
  descriptor-table registers, the model-specific registers, the fields of the current VMCS, the
  bytes written to I/O ports, and the one static variable of the logger. A computation takes a
  world and gives a \<open>res\<close>: \<open>Done\<close> with a value and the next world, or \<open>Stop\<close> with the reason why
  control does not return to the caller.

  The record \<open>env\<close> holds what the sources leave to the linker and to the processor's own checks:
  the addresses of functions and static objects, and the RFLAGS that a VMX instruction leaves.
  They are arguments of the definitions that use them.
\<close>

section \<open>State and outcomes\<close>

datatype log_level = DEBUG_LEVEL | INFO_LEVEL | WARN_LEVEL | ERROR_LEVEL | FATAL_LEVEL

primrec level_index :: "log_level \<Rightarrow> nat" where
  "level_index DEBUG_LEVEL = 0"
| "level_index INFO_LEVEL = 1"
| "level_index WARN_LEVEL = 2"
| "level_index ERROR_LEVEL = 3"
| "level_index FATAL_LEVEL = 4"

lemma level_index_inject [simp]: "level_index a = level_index b \<longleftrightarrow> a = b"
  by (cases a; cases b) simp_all

instantiation log_level :: linorder
begin

definition less_eq_log_level :: "log_level \<Rightarrow> log_level \<Rightarrow> bool" where
  "less_eq_log_level a b \<longleftrightarrow> level_index a \<le> level_index b"

definition less_log_level :: "log_level \<Rightarrow> log_level \<Rightarrow> bool" where
  "less_log_level a b \<longleftrightarrow> level_index a < level_index b"

instance
  by standard (auto simp: less_eq_log_level_def less_log_level_def)

end

lemma DEBUG_LEVEL_least [simp]: "DEBUG_LEVEL \<le> l"
  by (cases l) (simp_all add: less_eq_log_level_def)

record descriptor_table =
  dt_limit :: word_t
  dt_base :: qword_t

record world =
  mem :: memory
  cr0 :: qword_t
  cr2 :: qword_t
  cr3 :: qword_t
  cr4 :: qword_t
  dr7 :: qword_t
  rflags :: qword_t
  seg_cs :: word_t
  seg_ss :: word_t
  seg_ds :: word_t
  seg_es :: word_t
  seg_fs :: word_t
  seg_gs :: word_t
  gdtr :: descriptor_table
  idtr :: descriptor_table
  msrs :: "dword_t \<Rightarrow> qword_t"
  vmcs_loaded :: bool
  vmcs :: "qword_t \<Rightarrow> qword_t"
  min_level :: log_level
  port_writes :: "(dword_t \<times> byte_t) list"

text \<open>
  Reasons for not returning: the endless loop of \<open>PANIC\<close> or of the guest, a successful VM entry, the
  invalid-opcode fault of an access to CR1 or of \<open>syscall\<close>, the general-protection fault of
  \<open>sysenter\<close>, or behaviour that C leaves undefined.
\<close>

datatype stop = Halted | Entered_Guest | Invalid_Opcode | General_Protection | Undefined

datatype 'a res = Done 'a world | Stop stop world

primrec bindR :: "'a res \<Rightarrow> ('a \<Rightarrow> world \<Rightarrow> 'b res) \<Rightarrow> 'b res" where
  "bindR (Done a w) f = f a w"
| "bindR (Stop e w) f = Stop e w"

text \<open>A computation that C leaves undefined has no value.\<close>

definition of_option :: "'a option \<Rightarrow> world \<Rightarrow> 'a res" where
  "of_option x w = (case x of None \<Rightarrow> Stop Undefined w | Some a \<Rightarrow> Done a w)"

lemma of_option_simps [simp]:
  "of_option None w = Stop Undefined w"
  "of_option (Some a) w = Done a w"
  by (simp_all add: of_option_def)

text \<open>Straight-line code whose statements are state transformers.\<close>

primrec steps :: "(world \<Rightarrow> world) list \<Rightarrow> world \<Rightarrow> world" where
  "steps [] w = w"
| "steps (f # fs) w = steps fs (f w)"

text \<open>The same for statements that may stop.\<close>

primrec run_all :: "(world \<Rightarrow> unit res) list \<Rightarrow> world \<Rightarrow> unit res" where
  "run_all [] w = Done () w"
| "run_all (f # fs) w = bindR (f w) (\<lambda>_. run_all fs)"

text \<open>Worlds that differ in memory only.\<close>

lemma other_parts: "w'\<lparr>mem := m\<rparr> = w \<Longrightarrow> w'\<lparr>mem := n\<rparr> = w\<lparr>mem := n\<rparr>"
  by auto

lemma steps_append: "steps (fs @ gs) w = steps gs (steps fs w)"
  by (induction fs arbitrary: w) simp_all

lemma bindR_assoc: "bindR (bindR m f) g = bindR m (\<lambda>a w. bindR (f a w) g)"
  by (cases m) simp_all

lemma bindR_Done_iff:
  "bindR m f = Done b w' \<longleftrightarrow> (\<exists>a w. m = Done a w \<and> f a w = Done b w')"
  by (cases m) auto

primrec world_of :: "'a res \<Rightarrow> world" where
  "world_of (Done a w) = w"
| "world_of (Stop e w) = w"

record env =
  kmain_addr :: qword_t
  vmexit_wrapper_addr :: qword_t
  ssdt_hook_addr :: qword_t
  print_a_crab_addr :: qword_t
  syscall_handler_addr :: qword_t
  sysenter_handler_addr :: qword_t
  kernel_stack_addr :: qword_t
  sysenter_rsp_addr :: qword_t
  vmxon_rflags :: "qword_t \<Rightarrow> world \<Rightarrow> qword_t"
  vmclear_rflags :: "qword_t \<Rightarrow> world \<Rightarrow> qword_t"
  vmptrld_rflags :: "qword_t \<Rightarrow> world \<Rightarrow> qword_t"
  vmlaunch_rflags :: "world \<Rightarrow> qword_t option"
  vmresume_rflags :: "world \<Rightarrow> qword_t option"

section \<open>Registers\<close>

definition wrmsr :: "dword_t \<Rightarrow> dword_t \<Rightarrow> dword_t \<Rightarrow> world \<Rightarrow> world" where
  "wrmsr ecx edx eax w =
     w\<lparr>msrs := (msrs w)(ecx := push_bit 32 (ucast edx) OR ucast eax)\<rparr>"

definition write_msr :: "dword_t \<Rightarrow> qword_t \<Rightarrow> world \<Rightarrow> world" where
  "write_msr msr value w =
     wrmsr msr (ucast (drop_bit 32 value)) (ucast (value AND 0xFFFFFFFF)) w"

definition read_msr :: "dword_t \<Rightarrow> world \<Rightarrow> qword_t" where
  "read_msr msr w =
     (let lsb = (ucast (msrs w msr) :: dword_t);
          msb = (ucast (drop_bit 32 (msrs w msr)) :: dword_t);
          value = (ucast msb :: qword_t)
      in push_bit 32 value OR ucast lsb)"

definition read_cr0 :: "world \<Rightarrow> qword_t" where "read_cr0 w = cr0 w"
definition read_cr1 :: "world \<Rightarrow> qword_t res" where "read_cr1 w = Stop Invalid_Opcode w"
definition read_cr2 :: "world \<Rightarrow> qword_t" where "read_cr2 w = cr2 w"
definition read_cr3 :: "world \<Rightarrow> qword_t" where "read_cr3 w = cr3 w"
definition read_cr4 :: "world \<Rightarrow> qword_t" where "read_cr4 w = cr4 w"
definition write_cr0 :: "qword_t \<Rightarrow> world \<Rightarrow> world" where "write_cr0 v w = w\<lparr>cr0 := v\<rparr>"
definition write_cr1 :: "qword_t \<Rightarrow> world \<Rightarrow> unit res" where "write_cr1 v w = Stop Invalid_Opcode w"
definition write_cr2 :: "qword_t \<Rightarrow> world \<Rightarrow> world" where "write_cr2 v w = w\<lparr>cr2 := v\<rparr>"
definition write_cr3 :: "qword_t \<Rightarrow> world \<Rightarrow> world" where "write_cr3 v w = w\<lparr>cr3 := v\<rparr>"
definition write_cr4 :: "qword_t \<Rightarrow> world \<Rightarrow> world" where "write_cr4 v w = w\<lparr>cr4 := v\<rparr>"
definition read_cs :: "world \<Rightarrow> word_t" where "read_cs w = seg_cs w"
definition read_ss :: "world \<Rightarrow> word_t" where "read_ss w = seg_ss w"
definition read_ds :: "world \<Rightarrow> word_t" where "read_ds w = seg_ds w"
definition read_es :: "world \<Rightarrow> word_t" where "read_es w = seg_es w"
definition read_fs :: "world \<Rightarrow> word_t" where "read_fs w = seg_fs w"
definition read_gs :: "world \<Rightarrow> word_t" where "read_gs w = seg_gs w"
definition read_gdtr :: "world \<Rightarrow> descriptor_table" where "read_gdtr w = gdtr w"
definition read_idtr :: "world \<Rightarrow> descriptor_table" where "read_idtr w = idtr w"
definition read_rflags :: "world \<Rightarrow> qword_t" where "read_rflags w = rflags w"
definition read_dr7 :: "world \<Rightarrow> qword_t" where "read_dr7 w = dr7 w"
definition write_dr7 :: "qword_t \<Rightarrow> world \<Rightarrow> world" where "write_dr7 v w = w\<lparr>dr7 := v\<rparr>"

lemmas register_defs =
  read_cr0_def read_cr3_def read_cr4_def write_cr0_def write_cr3_def write_cr4_def
  read_cs_def read_ss_def read_ds_def read_es_def read_fs_def read_gs_def
  read_gdtr_def read_idtr_def read_rflags_def read_dr7_def write_dr7_def

lemma halves_of_qword: "push_bit 32 (ucast (ucast (drop_bit 32 v) :: dword_t)) OR
    ucast (ucast v :: dword_t) = (v :: qword_t)"
  by (rule bit_word_eqI) (auto simp: bit_simps)

lemma read_msr_eq: "read_msr m w = msrs w m"
  by (simp add: read_msr_def halves_of_qword)

lemma ucast_and_low32: "(ucast (v AND 0xFFFFFFFF :: qword_t) :: dword_t) = ucast v"
proof -
  have m: "(0xFFFFFFFF :: qword_t) = mask 32"
    by (simp add: mask_eq_exp_minus_1)
  show ?thesis
    by (rule bit_word_eqI) (simp add: m bit_simps)
qed

lemma write_msr_eq: "write_msr m v w = w\<lparr>msrs := (msrs w)(m := v)\<rparr>"
  by (simp add: write_msr_def wrmsr_def halves_of_qword ucast_and_low32)

section \<open>I/O ports\<close>

definition out_port :: "dword_t \<Rightarrow> byte_t \<Rightarrow> world \<Rightarrow> world" where
  "out_port port data w = w\<lparr>port_writes := port_writes w @ [(port, data)]\<rparr>"

definition hlt_loop :: "world \<Rightarrow> 'a res" where
  "hlt_loop w = Stop Halted w"

section \<open>VMX instructions\<close>

datatype vmx_error_codes = VM_SUCCESS | VM_FAIL_INVALID | VM_FAIL_VALID

abbreviation (input) CARRY_FLAG :: qword_t where "CARRY_FLAG \<equiv> 1"
abbreviation (input) ZERO_FLAG :: qword_t where "ZERO_FLAG \<equiv> 64"

definition vmx_status :: "qword_t \<Rightarrow> vmx_error_codes" where
  "vmx_status flags =
     (if flags AND CARRY_FLAG \<noteq> 0 then VM_FAIL_INVALID
      else if flags AND ZERO_FLAG \<noteq> 0 then VM_FAIL_VALID
      else VM_SUCCESS)"

definition vmxon :: "env \<Rightarrow> qword_t \<Rightarrow> world \<Rightarrow> vmx_error_codes \<times> world" where
  "vmxon E region w = (vmx_status (vmxon_rflags E region w), w)"

definition vmclear :: "env \<Rightarrow> qword_t \<Rightarrow> world \<Rightarrow> vmx_error_codes \<times> world" where
  "vmclear E region w = (vmx_status (vmclear_rflags E region w), w)"

text \<open>A successful \<open>vmptrld\<close> makes the region the current VMCS.\<close>

definition vmptrld :: "env \<Rightarrow> qword_t \<Rightarrow> world \<Rightarrow> vmx_error_codes \<times> world" where
  "vmptrld E region w =
     (let r = vmx_status (vmptrld_rflags E region w)
      in (r, if r = VM_SUCCESS then w\<lparr>vmcs_loaded := True\<rparr> else w))"

text \<open>
  Without a current VMCS the processor writes no operand: \<open>vmread\<close> keeps the zero its result was
  initialised with, \<open>vmread_with_ptr\<close> keeps the object it points to, \<open>vmwrite\<close> has no effect. A
  write to a field narrower than 64 bits keeps the low bits of the value; an encoding with bit 0
  set addresses the high half of a 64-bit field.
\<close>

definition vmcs_get :: "qword_t \<Rightarrow> world \<Rightarrow> qword_t" where
  "vmcs_get f w =
     (let v = vmcs w (full_field f) in if high_access f then drop_bit 32 v else v)"

definition vmread :: "qword_t \<Rightarrow> world \<Rightarrow> qword_t" where
  "vmread f w = (if vmcs_loaded w then vmcs_get f w else 0)"

definition vmread_with_ptr :: "qword_t \<Rightarrow> qword_t \<Rightarrow> world \<Rightarrow> qword_t" where
  "vmread_with_ptr f old w = (if vmcs_loaded w then vmcs_get f w else old)"

definition vmwrite :: "qword_t \<Rightarrow> qword_t \<Rightarrow> world \<Rightarrow> world" where
  "vmwrite f v w =
     (if \<not> vmcs_loaded w then w
      else
        let g = full_field f; old = vmcs w g;
            new = (if high_access f then set_field 32 32 v old else take_bit (field_width f) v)
        in w\<lparr>vmcs := (vmcs w)(g := new)\<rparr>)"

text \<open>A VM entry that succeeds passes control to the guest; one that fails leaves flags.\<close>

definition vmlaunch :: "env \<Rightarrow> world \<Rightarrow> vmx_error_codes res" where
  "vmlaunch E w =
     (case vmlaunch_rflags E w of
        None \<Rightarrow> Stop Entered_Guest w
      | Some flags \<Rightarrow> Done (vmx_status flags) w)"

definition vmresume :: "env \<Rightarrow> world \<Rightarrow> vmx_error_codes res" where
  "vmresume E w =
     (case vmresume_rflags E w of
        None \<Rightarrow> Stop Entered_Guest w
      | Some flags \<Rightarrow> Done (vmx_status flags) w)"

definition vmresume_works :: "env \<Rightarrow> bool" where
  "vmresume_works E \<longleftrightarrow> (\<forall>w. vmresume_rflags E w = None)"

text \<open>Outside of VMX operation there is no current VMCS.\<close>

definition vmxoff :: "world \<Rightarrow> world" where
  "vmxoff w = w\<lparr>vmcs_loaded := False\<rparr>"

lemma vmx_status_success: "vmx_status flags = VM_SUCCESS \<longleftrightarrow> \<not> bit flags 0 \<and> \<not> bit flags 6"
proof -
  have "flags AND 1 \<noteq> 0 \<longleftrightarrow> bit flags 0"
    by (simp add: and_one_eq bit_0 odd_iff_mod_2_eq_one)
  moreover have "flags AND 64 \<noteq> 0 \<longleftrightarrow> bit flags 6"
    using and_exp_eq_0_iff_not_bit [of flags 6] by simp
  ultimately show ?thesis by (simp add: vmx_status_def)
qed

section \<open>Files of numbered fields\<close>

text \<open>
  What the code relies on when it writes a set of numbered fields (VMCS fields, MSRs) one after
  the other: a field that was written is read back in its normal form, and fields that are
  independent of it keep their value.
\<close>

fun last_write :: "'k \<Rightarrow> ('k \<times> 'v) list \<Rightarrow> 'v option" where
  "last_write j [] = None"
| "last_write j ((k, v) # kvs) =
     (case last_write j kvs of Some u \<Rightarrow> Some u | None \<Rightarrow> if k = j then Some v else None)"

locale field_file =
  fixes ready :: "'s \<Rightarrow> bool"
    and indep :: "'k \<Rightarrow> 'k \<Rightarrow> bool"
    and norm :: "'k \<Rightarrow> 'v \<Rightarrow> 'v"
    and get :: "'k \<Rightarrow> 's \<Rightarrow> 'v"
    and put :: "'k \<Rightarrow> 'v \<Rightarrow> 's \<Rightarrow> 's"
  assumes ready_put: "ready (put k v s) = ready s"
    and get_put: "ready s \<Longrightarrow> get k (put k v s) = norm k v"
    and get_put_other: "indep k j \<Longrightarrow> get j (put k v s) = get j s"
begin

lemma ready_fold: "ready (fold (\<lambda>(k, v). put k v) kvs s) = ready s"
  by (induction kvs arbitrary: s) (simp_all add: ready_put split_beta)

lemma get_fold_other:
  "list_all (\<lambda>(k, v). indep k j) kvs \<Longrightarrow> get j (fold (\<lambda>(k, v). put k v) kvs s) = get j s"
  by (induction kvs arbitrary: s) (simp_all add: get_put_other split_beta)

lemma get_fold:
  assumes "ready s" and "list_all (\<lambda>(k, v). indep k j) post"
  shows "get j (fold (\<lambda>(k, v). put k v) (pre @ (j, x) # post) s) = norm j x"
  using assms by (simp add: get_fold_other get_put ready_fold)

text \<open>When no write overlaps the field in part, the last write to it counts.\<close>

lemma get_fold_last:
  assumes "ready s" and "\<And>k v. (k, v) \<in> set kvs \<Longrightarrow> k = j \<or> indep k j"
  shows "get j (fold (\<lambda>(k, v). put k v) kvs s) =
    (case last_write j kvs of None \<Rightarrow> get j s | Some v \<Rightarrow> norm j v)"
  using assms
proof (induction kvs arbitrary: s)
  case Nil
  then show ?case by simp
next
  case (Cons kv kvs)
  obtain k v where kv: "kv = (k, v)" by (cases kv)
  have "get j (put k v s) = (if k = j then norm j v else get j s)"
    using Cons.prems(1) Cons.prems(2) [of k v] kv by (cases "k = j") (auto simp: get_put get_put_other)
  moreover have "get j (fold (\<lambda>(k, v). put k v) kvs (put k v s)) =
      (case last_write j kvs of None \<Rightarrow> get j (put k v s) | Some v \<Rightarrow> norm j v)"
    by (rule Cons.IH) (use Cons.prems in \<open>auto simp: ready_put\<close>)
  ultimately show ?case by (auto simp: kv split: option.splits)
qed

end

definition field_norm :: "qword_t \<Rightarrow> qword_t \<Rightarrow> qword_t" where
  "field_norm f v = take_bit (if high_access f then 32 else field_width f) v"

lemma drop_bit_32_field: "drop_bit 32 (x :: qword_t) = get_field 32 32 x"
  by (rule bit_word_eqI) (auto simp: bit_get_field bit_simps dest: bit_imp_le_length)

lemma vmcs_loaded_vmwrite [simp]: "vmcs_loaded (vmwrite f v w) = vmcs_loaded w"
  by (simp add: vmwrite_def Let_def)

lemma vmread_vmwrite:
  "vmcs_loaded w \<Longrightarrow> vmread f (vmwrite f v w) = field_norm f v"
  by (simp add: vmread_def vmwrite_def vmcs_get_def field_norm_def drop_bit_32_field Let_def)

lemma vmread_vmwrite_other:
  "separate_fields f g \<Longrightarrow> vmread g (vmwrite f v w) = vmread g w"
  by (simp add: vmread_def vmwrite_def vmcs_get_def separate_fields_def Let_def)

interpretation vmcs_file: field_file vmcs_loaded separate_fields field_norm vmread vmwrite
  by unfold_locales (simp_all add: vmread_vmwrite vmread_vmwrite_other)

interpretation msr_file: field_file "\<lambda>_. True" "(\<noteq>)" "\<lambda>_ v. v" read_msr write_msr
  by unfold_locales (simp_all add: read_msr_eq write_msr_eq)

text \<open>A VMCS write changes nothing but the VMCS.\<close>

lemma vmwrite_frame [simp]:
  "mem (vmwrite f v w) = mem w" "msrs (vmwrite f v w) = msrs w"
  "cr0 (vmwrite f v w) = cr0 w" "cr3 (vmwrite f v w) = cr3 w" "cr4 (vmwrite f v w) = cr4 w"
  "dr7 (vmwrite f v w) = dr7 w" "rflags (vmwrite f v w) = rflags w"
  "seg_cs (vmwrite f v w) = seg_cs w" "seg_ss (vmwrite f v w) = seg_ss w"
  "seg_ds (vmwrite f v w) = seg_ds w" "seg_es (vmwrite f v w) = seg_es w"
  "seg_fs (vmwrite f v w) = seg_fs w" "seg_gs (vmwrite f v w) = seg_gs w"
  "gdtr (vmwrite f v w) = gdtr w" "idtr (vmwrite f v w) = idtr w"
  "min_level (vmwrite f v w) = min_level w" "port_writes (vmwrite f v w) = port_writes w"
  by (simp_all add: vmwrite_def Let_def)

section \<open>A concrete machine\<close>

text \<open>
  The machine with every bit zero and nothing written to a port, and an environment with distinct
  code addresses whose VMX instructions succeed. Examples start from them.
\<close>

definition zero_world :: world where
  "zero_world = \<lparr>mem = (\<lambda>_. 0), cr0 = 0, cr2 = 0, cr3 = 0, cr4 = 0, dr7 = 0, rflags = 0,
     seg_cs = 0, seg_ss = 0, seg_ds = 0, seg_es = 0, seg_fs = 0, seg_gs = 0,
     gdtr = \<lparr>dt_limit = 0, dt_base = 0\<rparr>, idtr = \<lparr>dt_limit = 0, dt_base = 0\<rparr>,
     msrs = (\<lambda>_. 0), vmcs_loaded = False, vmcs = (\<lambda>_. 0), min_level = DEBUG_LEVEL,
     port_writes = []\<rparr>"

definition example_env :: env where
  "example_env = \<lparr>kmain_addr = 0x101000, vmexit_wrapper_addr = 0x102000,
     ssdt_hook_addr = 0x103000, print_a_crab_addr = 0x104000, syscall_handler_addr = 0x105000,
     sysenter_handler_addr = 0x106000, kernel_stack_addr = 0x107000, sysenter_rsp_addr = 0x108000,
     vmxon_rflags = (\<lambda>_ _. 2), vmclear_rflags = (\<lambda>_ _. 2), vmptrld_rflags = (\<lambda>_ _. 2),
     vmlaunch_rflags = (\<lambda>_. None), vmresume_rflags = (\<lambda>_. None)\<rparr>"

end
