(* ===== verification/Utils.thy ===== *)
theory Utils
  imports Machine
begin

text \<open>
  \<open>src/lib/utils.c\<close>: the string and memory functions.

  A \<open>char *\<close> is modelled by the contents of its array object from the pointer to the object's
  end, so reading or writing past the object is visible: the functions give \<open>None\<close> there. A
  string is terminated by \<open>NUL\<close>; bytes after it are the rest of the object. \<open>memcpy\<close> and
  \<open>memset\<close>, whose arguments are raw addresses, work on the machine's memory. A loop counter of
  type \<open>int\<close> that would pass \<open>INT_MAX\<close> is \<open>None\<close> as well.
\<close>

section \<open>Strings\<close>

fun strlen_loop :: "char list \<Rightarrow> nat \<Rightarrow> nat option" where
  "strlen_loop [] n = None"
| "strlen_loop (c # str) n =
     (if c = NUL then Some n
      else if n < INT_MAX then strlen_loop str (Suc n)
      else None)"

definition strlen :: "char list \<Rightarrow> nat option" where
  "strlen str = strlen_loop str 0"

fun strcpy :: "char list \<Rightarrow> nat \<Rightarrow> char list \<Rightarrow> char list option" where
  "strcpy dst p [] = None"
| "strcpy dst p (c # src) =
     (if p < length dst
      then if c = NUL then Some (dst[p := NUL]) else strcpy (dst[p := c]) (Suc p) src
      else None)"

text \<open>\<open>char\<close> is signed.\<close>

definition schar :: "char \<Rightarrow> int" where
  "schar c = sint (of_char c :: byte_t)"

lemma unat_of_char: "unat (of_char c :: byte_t) = of_char c"
proof -
  have "unat (of_nat (of_char c) :: byte_t) = of_char c"
    by (simp add: unat_of_nat del: of_nat_of_char)
  then show ?thesis by (simp add: of_nat_of_char)
qed

lemma of_char_byte_inject [simp]: "(of_char c :: byte_t) = of_char d \<longleftrightarrow> c = d"
  by (metis unat_of_char of_char_eq_iff)

lemma schar_inject [simp]: "schar a = schar b \<longleftrightarrow> a = b"
  by (simp add: schar_def flip: word_eq_iff_signed)

fun strcmp_loop :: "char list \<Rightarrow> char list \<Rightarrow> int option" where
  "strcmp_loop (a # str1) (b # str2) =
     (if a = NUL then Some 0
      else if a \<noteq> b then Some (schar a - schar b)
      else strcmp_loop str1 str2)"
| "strcmp_loop _ _ = None"

definition strcmp :: "char list \<Rightarrow> char list \<Rightarrow> int option" where
  "strcmp str1 str2 =
     (case (strlen str1, strlen str2) of
        (Some n1, Some n2) \<Rightarrow>
          if n1 \<noteq> n2 then Some (schar (hd str1) - schar (hd str2))
          else strcmp_loop str1 str2
      | _ \<Rightarrow> None)"

fun get_number_start :: "char list \<Rightarrow> char list option" where
  "get_number_start [] = None"
| "get_number_start (c # str) = (if c = CHR ''0'' then get_number_start str else Some (c # str))"

section \<open>Memory\<close>

definition memcpy :: "qword_t \<Rightarrow> qword_t \<Rightarrow> qword_t \<Rightarrow> memory \<Rightarrow> memory option" where
  "memcpy dst src count m =
     (if unat count \<le> INT_MAX
      then Some (for_n (unat count) (\<lambda>i m. m(dst + of_nat i := m (src + of_nat i))) m)
      else None)"

definition memset :: "qword_t \<Rightarrow> dword_t \<Rightarrow> qword_t \<Rightarrow> memory \<Rightarrow> memory option" where
  "memset str c n m =
     (if unat n \<le> INT_MAX
      then Some (for_n (unat n) (\<lambda>i m. m(str + of_nat i := ucast c)) m)
      else None)"

definition BIT_N :: "qword_t \<Rightarrow> nat \<Rightarrow> qword_t" where
  "BIT_N v n = drop_bit n (v AND push_bit n 1)"

lemma BIT_N_eq: "n < 64 \<Longrightarrow> BIT_N v n = of_bool (bit v n)"
  by (rule bit_word_eqI) (auto simp: BIT_N_def bit_simps dest: bit_imp_le_length)

section \<open>String lemmas\<close>

abbreviation cstring :: "string \<Rightarrow> bool" where
  "cstring s \<equiv> NUL \<notin> set s"

lemma strlen_loop_cstring:
  "cstring s \<Longrightarrow> n + length s \<le> INT_MAX \<Longrightarrow>
     strlen_loop (s @ NUL # rest) n = Some (n + length s)"
  by (induction s arbitrary: n) auto

lemma strlen_cstring:
  "cstring s \<Longrightarrow> length s \<le> INT_MAX \<Longrightarrow> strlen (s @ NUL # rest) = Some (length s)"
  by (simp add: strlen_def strlen_loop_cstring)

text \<open>\<open>place dst p s\<close>: the buffer with a string and its terminator written at position \<open>p\<close>.\<close>

definition place :: "char list \<Rightarrow> nat \<Rightarrow> string \<Rightarrow> char list" where
  "place dst p s = take p dst @ s @ NUL # drop (Suc (p + length s)) dst"

lemma length_place [simp]: "p + length s < length dst \<Longrightarrow> length (place dst p s) = length dst"
  by (simp add: place_def)

lemma place_Nil: "p < length dst \<Longrightarrow> place dst p [] = dst[p := NUL]"
  by (simp add: place_def upd_conv_take_nth_drop)

lemma place_Cons:
  assumes "p < length dst"
  shows "place (dst[p := c]) (Suc p) s = place dst p (c # s)"
proof -
  have "take (Suc p) (dst[p := c]) = take p dst @ [c]"
    using assms by (simp add: take_Suc_conv_app_nth)
  then show ?thesis by (simp add: place_def)
qed

lemma place_append:
  assumes "p + length s + length t < length dst"
  shows "place (place dst p s) (p + length s) t = place dst p (s @ t)"
  using assms
proof (induction s arbitrary: dst p)
  case Nil
  then show ?case by (simp add: place_def upd_conv_take_nth_drop add.commute)
next
  case (Cons c s)
  then have "place (place (dst[p := c]) (Suc p) s) (Suc p + length s) t =
      place (dst[p := c]) (Suc p) (s @ t)"
    by (intro Cons.IH) simp
  with Cons.prems show ?case by (simp add: place_Cons)
qed

lemma drop_place: "p \<le> length dst \<Longrightarrow> drop p (place dst p s) = s @ NUL # drop (Suc (p + length s)) dst"
  by (simp add: place_def)

text \<open>Copying a string overwrites exactly its characters and the terminator.\<close>

lemma strcpy_cstring:
  assumes "cstring s" and "p + length s < length dst"
  shows "strcpy dst p (s @ NUL # rest) = Some (place dst p s)"
  using assms
proof (induction s arbitrary: dst p)
  case Nil
  then show ?case by (simp add: place_Nil)
next
  case (Cons c s)
  then have "strcpy dst p ((c # s) @ NUL # rest) = strcpy (dst[p := c]) (Suc p) (s @ NUL # rest)"
    by auto
  also have "\<dots> = Some (place (dst[p := c]) (Suc p) s)"
    using Cons.prems by (intro Cons.IH) auto
  finally show ?case using Cons.prems by (simp add: place_Cons)
qed

lemma strcpy_overflow:
  "cstring s \<Longrightarrow> p \<le> length dst \<Longrightarrow> length dst \<le> p + length s \<Longrightarrow>
     strcpy dst p (s @ NUL # rest) = None"
  by (induction s arbitrary: dst p) auto

lemma strcmp_loop_equal_length:
  assumes "cstring s" and "cstring t" and "length s = length t"
  shows "(strcmp_loop (s @ NUL # r) (t @ NUL # q) = Some 0) = (s = t)"
  using assms(3,1,2)
proof (induction s t rule: list_induct2)
  case Nil
  then show ?case by simp
next
  case (Cons a s b t)
  then show ?case by auto
qed

lemma get_number_start_eq:
  "cstring s \<Longrightarrow> get_number_start (s @ NUL # rest) =
     Some (dropWhile (\<lambda>c. c = CHR ''0'') s @ NUL # rest)"
  by (induction s) auto

section \<open>Memory lemmas\<close>

lemma unat_offset_out: "n \<le> unat (x - a) \<Longrightarrow> i < n \<Longrightarrow> x \<noteq> a + of_nat i" for x a :: qword_t
  using unat_lt64 [of "x - a"] by (auto simp: unat_of_nat)

lemma memcpy_apart:
  assumes "memcpy dst src count m = Some m'" and "apart dst (unat count) src (unat count)"
  shows "i < unat count \<Longrightarrow> m' (dst + of_nat i) = m (src + of_nat i)"
    and "unat count \<le> unat (x - dst) \<Longrightarrow> m' x = m x"
proof -
  let ?n = "unat count"
  let ?P = "\<lambda>k t. (\<forall>i < k. t (dst + of_nat i) = m (src + of_nat i)) \<and>
      (\<forall>x. k \<le> unat (x - dst) \<longrightarrow> t x = m x)"
  have m': "m' = for_n ?n (\<lambda>i m. m(dst + of_nat i := m (src + of_nat i))) m"
    using assms(1) by (simp add: memcpy_def split: if_splits)
  have P: "?P ?n m'"
    unfolding m'
  proof (rule for_n_inv [where P = ?P])
    show "?P 0 m" by simp
  next
    fix i t
    assume i: "i < ?n" and P: "?P i t"
    have src: "t (src + of_nat i) = m (src + of_nat i)"
      using apart_byte [OF assms(2) i] P i by simp
    have out: "x \<noteq> dst + of_nat i" if "Suc i \<le> unat (x - dst)" for x
      using unat_offset_out [OF that, of i] by simp
    have ne: "dst + of_nat j \<noteq> dst + of_nat i" if "j < i" for j
      using that i unat_lt64 [of count]
      by (metis add_left_cancel less_irrefl_nat less_trans unat_of_nat_small)
    from P src out ne show "?P (Suc i) (t(dst + of_nat i := t (src + of_nat i)))"
      by (auto simp: less_Suc_eq)
  qed
  from P show "i < ?n \<Longrightarrow> m' (dst + of_nat i) = m (src + of_nat i)"
    and "?n \<le> unat (x - dst) \<Longrightarrow> m' x = m x" by blast+
qed

lemma memset_fills:
  assumes "memset str c n m = Some m'"
  shows "m' x = (if unat (x - str) < unat n then ucast c else m x)"
proof -
  let ?P = "\<lambda>k t. \<forall>x. t x = (if unat (x - str) < k then ucast c else m x)"
  have m': "m' = for_n (unat n) (\<lambda>i m. m(str + of_nat i := ucast c)) m"
    using assms by (simp add: memset_def split: if_splits)
  have "?P (unat n) m'"
    unfolding m'
  proof (rule for_n_inv [where P = ?P])
    show "?P 0 m" by simp
  next
    fix i t
    assume i: "i < unat n" and P: "?P i t"
    have "x = str + of_nat i \<longleftrightarrow> unat (x - str) = i" for x
    proof
      assume "x = str + of_nat i"
      then show "unat (x - str) = i"
        using i unat_lt64 [of n] by (simp add: unat_of_nat)
    next
      assume "unat (x - str) = i"
      then have "x - str = of_nat i"
        using i unat_lt64 [of n] by (simp add: word_unat_eq_iff unat_of_nat)
      then show "x = str + of_nat i" by (simp add: algebra_simps)
    qed
    with P show "?P (Suc i) (t(str + of_nat i := ucast c))"
      by (auto simp: less_Suc_eq)
  qed
  then show ?thesis by blast
qed

section \<open>Properties\<close>

text \<open>C40. Comparing two strings gives 0 exactly when they are equal, if they have the same length. Strings
  of different lengths are compared by their first characters only (of the empty string, its
  terminator): when these are equal the result is 0, as for equal strings.\<close>

theorem strcmp_zero:
  assumes "cstring s" and "cstring t" and "length s \<le> INT_MAX" and "length t \<le> INT_MAX"
  shows "(strcmp (s @ NUL # r) (t @ NUL # q) = Some 0) =
    (if length s = length t then s = t else hd (s @ [NUL]) = hd (t @ [NUL]))"
  using assms strcmp_loop_equal_length [OF assms(1,2), of r q]
  by (cases s; cases t) (simp_all add: strcmp_def strlen_cstring strlen_cstring [of "_ # _", simplified] strlen_cstring [of "[]", simplified])

lemma strcmp_zero_witness:
  "strcmp (''vm'' @ NUL # []) (''vmcs'' @ NUL # []) = Some 0 \<and>
    strcmp (''mbr'' @ NUL # []) (''vmm'' @ NUL # []) \<noteq> Some 0"
  using strcmp_zero [of "''vm''" "''vmcs''" "[]" "[]"] strcmp_zero [of "''mbr''" "''vmm''" "[]" "[]"] by simp

text \<open>C39. Copying up to \<open>INT_MAX\<close> bytes between regions that do not overlap gives the destination the
  bytes of the source, and changes no other byte.\<close>

theorem memcpy_copies:
  assumes "unat count \<le> INT_MAX" and "apart dst (unat count) src (unat count)"
  shows "\<exists>m'. memcpy dst src count m = Some m' \<and>
    load_bytes m' dst (unat count) = load_bytes m src (unat count) \<and>
    (\<forall>x. unat count \<le> unat (x - dst) \<longrightarrow> m' x = m x)"
proof -
  obtain m' where m': "memcpy dst src count m = Some m'"
    using assms(1) by (simp add: memcpy_def)
  then show ?thesis
    using memcpy_apart [OF m' assms(2)] by (simp add: load_bytes_def)
qed

lemma memcpy_copies_witness:
  "\<exists>m'. memcpy 0x7E00 0x100000 0x200 (\<lambda>_. 7) = Some m' \<and> load_bytes m' 0x7E00 512 = load_bytes (\<lambda>_. 7) 0x100000 512"
  using memcpy_copies [of "0x200" "0x7E00" "0x100000" "\<lambda>_. 7"] by (auto simp: apart_def)

end
