(* ===== verification/Numbers.thy ===== *)
theory Numbers
  imports Utils "HOL-Library.Monad_Syntax"
begin

text \<open>
  The integer half of \<open>src/lib/print.c\<close>: \<open>add_number_prefix\<close> and \<open>sprint_integer\<close>, which write a
  32-bit integer in base 2, 10 or 16 into a character buffer.

  A destination \<open>char *str\<close> is the buffer's contents and the position of \<open>str\<close> in it. \<open>None\<close> is
  undefined behaviour: a write past the buffer, a division by zero, an index past \<open>HEX_DIGITS\<close>, or
  the negation of the least \<open>int\<close>. The array \<open>number_buffer\<close> has 64 elements and the code also
  stores to index 64; \<open>number_frame\<close> is the array followed by that one byte of the stack frame,
  which nothing else of the function uses.

  The lemmas show that the text written is the number's canonical numeral: \<open>number_text\<close> has no
  leading zero and reads back as the number.
\<close>

section \<open>Code\<close>

definition HEX_DIGITS :: "char list" where
  "HEX_DIGITS = ''0123456789ABCDEF'' @ [NUL]"

abbreviation (input) MAXIMUM_BINARY_LENGTH :: nat where
  "MAXIMUM_BINARY_LENGTH \<equiv> 64"

definition number_frame :: "char list" where
  "number_frame = (replicate (Suc MAXIMUM_BINARY_LENGTH) NUL)[MAXIMUM_BINARY_LENGTH := NUL]"

definition put_string :: "char list \<Rightarrow> nat \<Rightarrow> char list \<Rightarrow> (char list \<times> nat) option" where
  "put_string str p s = do {
     str \<leftarrow> strcpy str p s;
     n \<leftarrow> strlen (drop p str);
     Some (str, p + n)
   }"

definition add_sign ::
  "char list \<Rightarrow> nat \<Rightarrow> dword_t \<Rightarrow> bool \<Rightarrow> (char list \<times> nat \<times> dword_t) option" where
  "add_sign str p number is_unsigned =
     (if sint number < 0 \<and> \<not> is_unsigned
      then if number = 0x80000000 \<or> length str \<le> p then None
           else Some (str[p := CHR ''-''], Suc p, - number)
      else Some (str, p, number))"

definition add_number_prefix ::
  "char list \<Rightarrow> nat \<Rightarrow> dword_t \<Rightarrow> dword_t \<Rightarrow> bool \<Rightarrow> (char list \<times> nat \<times> dword_t) option" where
  "add_number_prefix str p number base is_unsigned = do {
     (str, p, number) \<leftarrow> add_sign str p number is_unsigned;
     (str, p) \<leftarrow>
       (if base = 2 then put_string str p (''b'' @ [NUL])
        else if base = 16 then put_string str p (''0x'' @ [NUL])
        else Some (str, p));
     Some (str, p, number)
   }"

definition hex_digit :: "nat \<Rightarrow> char option" where
  "hex_digit d = (if d < length HEX_DIGITS then Some (HEX_DIGITS ! d) else None)"

primrec fill_digits :: "nat \<Rightarrow> dword_t \<Rightarrow> dword_t \<Rightarrow> char list \<Rightarrow> char list option" where
  "fill_digits 0 val base number_buffer = Some number_buffer"
| "fill_digits (Suc i) val base number_buffer =
     (if base = 0 then None
      else do {
        c \<leftarrow> hex_digit (unat (val mod base));
        fill_digits i (val div base) base (number_buffer[i := c])
      })"

definition sprint_integer ::
  "char list \<Rightarrow> nat \<Rightarrow> dword_t \<Rightarrow> dword_t \<Rightarrow> bool \<Rightarrow> char list option" where
  "sprint_integer str p number base is_unsigned = do {
     (str, p, val) \<leftarrow> add_number_prefix str p number base is_unsigned;
     number_buffer \<leftarrow> fill_digits MAXIMUM_BINARY_LENGTH val base number_frame;
     if number = 0 then strcpy str p (''0'' @ [NUL])
     else do {
       start \<leftarrow> get_number_start number_buffer;
       strcpy str p start
     }
   }"

section \<open>Digits\<close>

primrec digit_list :: "nat \<Rightarrow> nat \<Rightarrow> nat \<Rightarrow> nat list" where
  "digit_list 0 b v = []"
| "digit_list (Suc k) b v = digit_list k b (v div b) @ [v mod b]"

definition positional :: "nat \<Rightarrow> nat list \<Rightarrow> nat" where
  "positional b ds = foldl (\<lambda>a d. a * b + d) 0 ds"

definition number_digits :: "nat \<Rightarrow> nat \<Rightarrow> nat list" where
  "number_digits b v = dropWhile (\<lambda>d. d = 0) (digit_list MAXIMUM_BINARY_LENGTH b v)"

definition number_text :: "nat \<Rightarrow> nat \<Rightarrow> string" where
  "number_text b v = map (\<lambda>d. HEX_DIGITS ! d) (number_digits b v)"

lemma length_digit_list [simp]: "length (digit_list k b v) = k"
  by (induction k arbitrary: v) simp_all

lemma digit_list_bound: "0 < b \<Longrightarrow> d \<in> set (digit_list k b v) \<Longrightarrow> d < b"
  by (induction k arbitrary: v) auto

lemma positional_append: "positional b (xs @ [d]) = positional b xs * b + d"
  by (simp add: positional_def)

lemma positional_digit_list: "positional b (digit_list k b v) = v mod b ^ k"
proof (induction k arbitrary: v)
  case 0
  then show ?case by (simp add: positional_def)
next
  case (Suc k)
  have "positional b (digit_list (Suc k) b v) = (v div b mod b ^ k) * b + v mod b"
    using Suc.IH [of "v div b"] by (simp only: digit_list.simps positional_append)
  moreover have "v mod b ^ Suc k = b * (v div b mod b ^ k) + v mod b"
    using mod_mult2_eq [of v b "b ^ k"] by (simp only: power_Suc)
  ultimately show ?case by (metis mult.commute)
qed

lemma positional_drop_zeros: "positional b (dropWhile (\<lambda>d. d = 0) ds) = positional b ds"
  by (induction ds) (simp_all add: positional_def)

lemma number_digits_value:
  assumes "2 \<le> b" and "v < 2 ^ 32"
  shows "positional b (number_digits b v) = v"
proof -
  have "(2::nat) ^ 32 \<le> 2 ^ 64" by simp
  also have "\<dots> \<le> b ^ 64" using assms(1) by (intro power_mono) simp_all
  finally have "v < b ^ 64" using assms(2) by simp
  then show ?thesis
    by (simp add: number_digits_def positional_drop_zeros positional_digit_list)
qed

lemma number_digits_bound: "0 < b \<Longrightarrow> d \<in> set (number_digits b v) \<Longrightarrow> d < b"
  unfolding number_digits_def by (metis digit_list_bound set_dropWhileD)

lemma number_digits_leading: "number_digits b v \<noteq> [] \<Longrightarrow> hd (number_digits b v) \<noteq> 0"
  unfolding number_digits_def using hd_dropWhile [of "\<lambda>d. d = 0" "digit_list 64 b v"] by blast

lemma positional_ge: "b ^ length ds * a \<le> foldl (\<lambda>a d. a * b + d) a ds" for a b :: nat
proof (induction ds arbitrary: a)
  case Nil
  then show ?case by simp
next
  case (Cons d ds)
  have "b ^ length (d # ds) * a \<le> b ^ length ds * (a * b + d)"
    by (simp add: algebra_simps)
  also have "\<dots> \<le> foldl (\<lambda>a d. a * b + d) (a * b + d) ds" by (rule Cons.IH)
  finally show ?case by simp
qed

text \<open>A numeral without a leading zero is as short as the number allows.\<close>

lemma number_digits_length:
  assumes "2 \<le> b" and "v < 2 ^ 32" and "v < b ^ k"
  shows "length (number_digits b v) \<le> k"
proof (cases "number_digits b v")
  case Nil
  then show ?thesis by simp
next
  case (Cons d ds)
  then have "d \<noteq> 0" using number_digits_leading [of b v] by simp
  have "b ^ length ds \<le> b ^ length ds * d" using \<open>d \<noteq> 0\<close> by simp
  also have "\<dots> \<le> positional b (number_digits b v)"
    using positional_ge [of b ds d] by (simp add: Cons positional_def)
  also have "\<dots> < b ^ k" using assms by (simp add: number_digits_value)
  finally have "length ds < k" using assms(1) by (simp add: power_strict_increasing_iff)
  then show ?thesis by (simp add: Cons)
qed

lemma hex_digit_nonzero: "d < 16 \<Longrightarrow> HEX_DIGITS ! d \<noteq> NUL \<and> (HEX_DIGITS ! d = CHR ''0'' \<longleftrightarrow> d = 0)"
  by (simp add: HEX_DIGITS_def) (auto simp: less_Suc_eq numeral_eq_Suc)

lemma fill_digits_eq:
  assumes "0 < base" and "base \<le> 16" and "n \<le> length buf"
  shows "fill_digits n val base buf =
    Some (map (\<lambda>d. HEX_DIGITS ! d) (digit_list n (unat base) (unat val)) @ drop n buf)"
  using assms(3)
proof (induction n arbitrary: val buf)
  case 0
  then show ?case by simp
next
  case (Suc n)
  have b: "0 < unat base" "unat base \<le> 16"
    using assms by (simp_all add: word_less_nat_alt word_le_nat_alt)
  have "unat val mod unat base < unat base" using b(1) by simp
  then have h: "hex_digit (unat (val mod base)) = Some (HEX_DIGITS ! (unat val mod unat base))"
    using b(2) by (simp add: hex_digit_def HEX_DIGITS_def unat_mod)
  have "drop n (buf[n := c]) = c # drop (Suc n) buf" for c
    using Suc.prems by (simp add: Cons_nth_drop_Suc [symmetric])
  with Suc h b(1) show ?case by (auto simp: unat_div)
qed

lemma number_start_text:
  assumes "0 < b" and "b \<le> 16"
  shows "get_number_start (map (\<lambda>d. HEX_DIGITS ! d) (digit_list k b v) @ NUL # rest) =
    Some (map (\<lambda>d. HEX_DIGITS ! d) (dropWhile (\<lambda>d. d = 0) (digit_list k b v)) @ NUL # rest)"
proof -
  have ok: "\<forall>d \<in> set ds. d < 16 \<Longrightarrow>
      get_number_start (map (\<lambda>d. HEX_DIGITS ! d) ds @ NUL # rest) =
      Some (map (\<lambda>d. HEX_DIGITS ! d) (dropWhile (\<lambda>d. d = 0) ds) @ NUL # rest)" for ds
    by (induction ds) (auto simp: hex_digit_nonzero)
  show ?thesis
    using digit_list_bound [OF assms(1)] assms(2) by (intro ok) fastforce
qed

lemma cstring_number_text: "0 < b \<Longrightarrow> b \<le> 16 \<Longrightarrow> cstring (number_text b v)"
  using number_digits_bound [of b _ v] hex_digit_nonzero
  unfolding number_text_def by (metis (no_types, lifting) imageE less_le_trans list.set_map)

section \<open>What is written\<close>

lemma put_string_cstring:
  assumes "cstring s" and "p + length s < length str" and "length str \<le> INT_MAX"
  shows "put_string str p (s @ NUL # rest) = Some (place str p s, p + length s)"
  using assms by (simp add: put_string_def strcpy_cstring drop_place strlen_cstring)

definition negative :: "dword_t \<Rightarrow> bool \<Rightarrow> bool" where
  "negative number is_unsigned \<longleftrightarrow> sint number < 0 \<and> \<not> is_unsigned"

definition magnitude :: "dword_t \<Rightarrow> bool \<Rightarrow> dword_t" where
  "magnitude number is_unsigned = (if negative number is_unsigned then - number else number)"

definition sign_text :: "dword_t \<Rightarrow> bool \<Rightarrow> string" where
  "sign_text number is_unsigned = (if negative number is_unsigned then ''-'' else [])"

definition base_text :: "dword_t \<Rightarrow> string" where
  "base_text base = (if base = 2 then ''b'' else if base = 16 then ''0x'' else [])"

definition digits_text :: "dword_t \<Rightarrow> dword_t \<Rightarrow> string" where
  "digits_text base v = (if v = 0 then ''0'' else number_text (unat base) (unat v))"

text \<open>The text of an integer; the least \<open>int\<close> has none when it is printed as signed.\<close>

definition integer_text :: "dword_t \<Rightarrow> dword_t \<Rightarrow> bool \<Rightarrow> string option" where
  "integer_text number base is_unsigned =
     (if negative number is_unsigned \<and> number = 0x80000000 then None
      else Some (sign_text number is_unsigned @ base_text base @
        digits_text base (magnitude number is_unsigned)))"

lemma magnitude_eq_0 [simp]: "magnitude number u = 0 \<longleftrightarrow> number = 0"
  by (simp add: magnitude_def)

lemma add_sign_eq:
  assumes "\<not> (negative number u \<and> number = 0x80000000)" and "p + length (sign_text number u) < length str"
  obtains str' where "add_sign str p number u = Some (str', p + length (sign_text number u), magnitude number u)"
    and "length str' = length str"
    and "\<And>t. place str' (p + length (sign_text number u)) t = place str p (sign_text number u @ t)"
  using assms
  by (cases "negative number u")
    (auto simp: add_sign_def negative_def sign_text_def magnitude_def place_Cons)

lemma add_number_prefix_eq:
  assumes "\<not> (negative number u \<and> number = 0x80000000)"
    and "p + length (sign_text number u @ base_text base) < length str"
    and "length str \<le> INT_MAX"
  obtains str' where
    "add_number_prefix str p number base u =
       Some (str', p + length (sign_text number u @ base_text base), magnitude number u)"
    and "length str' = length str"
    and "\<And>t. p + length (sign_text number u @ base_text base @ t) < length str \<Longrightarrow>
       place str' (p + length (sign_text number u @ base_text base)) t =
       place str p (sign_text number u @ base_text base @ t)"
proof -
  let ?s = "sign_text number u"
  obtain str1 where 1: "add_sign str p number u = Some (str1, p + length ?s, magnitude number u)"
      and len: "length str1 = length str"
      and spl: "\<And>t. place str1 (p + length ?s) t = place str p (?s @ t)"
    using assms(1,2) by (auto intro: add_sign_eq [of number u p str])
  have put: "put_string str1 (p + length ?s) (base_text base @ [NUL]) =
      Some (place str1 (p + length ?s) (base_text base), p + length ?s + length (base_text base))"
    using assms len by (intro put_string_cstring) (auto simp: base_text_def)
  show ?thesis
  proof (cases "base = 2 \<or> base = 16")
    case True
    let ?str' = "place str1 (p + length ?s) (base_text base)"
    have "add_number_prefix str p number base u =
        Some (?str', p + length (?s @ base_text base), magnitude number u)"
      using 1 put True by (auto simp: add_number_prefix_def base_text_def)
    moreover have "place ?str' (p + length (?s @ base_text base)) t = place str p (?s @ base_text base @ t)"
      if "p + length (?s @ base_text base @ t) < length str" for t
      using that len place_append [of "p + length ?s" "base_text base" t str1]
      by (simp add: spl add.assoc)
    ultimately show ?thesis using assms len by (intro that [of ?str']) simp_all
  next
    case False
    with 1 len spl show ?thesis
      by (intro that [of str1]) (auto simp: add_number_prefix_def base_text_def)
  qed
qed

lemma digits_text_bounds:
  assumes "base \<in> {2, 10, 16}"
  shows "cstring (digits_text base v)" and "digits_text base v \<noteq> []"
    and "length (digits_text base v) \<le> 32"
proof -
  have b: "2 \<le> unat base" "unat base \<le> 16" using assms by auto
  have v: "unat v < 2 ^ 32" using unsigned_less [of v] by simp
  show "cstring (digits_text base v)"
    using b by (simp add: digits_text_def cstring_number_text)
  show "digits_text base v \<noteq> []"
  proof
    assume "digits_text base v = []"
    then have "number_digits (unat base) (unat v) = []" and "v \<noteq> 0"
      by (auto simp: digits_text_def number_text_def split: if_splits)
    then have "unat v = 0"
      using number_digits_value [OF b(1) v] by (simp add: positional_def)
    with \<open>v \<noteq> 0\<close> show False by (simp add: unat_eq_0)
  qed
  have "(2::nat) ^ 32 \<le> unat base ^ 32" using b(1) by (intro power_mono) simp_all
  with v have "unat v < unat base ^ 32" by simp
  from number_digits_length [OF b(1) v this]
  show "length (digits_text base v) \<le> 32"
    by (simp add: digits_text_def number_text_def)
qed

lemma sprint_integer_after_prefix:
  assumes "base \<in> {2, 10, 16}" and "add_number_prefix str p number base u = Some (str', q, magnitude number u)"
  shows "sprint_integer str p number base u = strcpy str' q (digits_text base (magnitude number u) @ [NUL])"
proof -
  let ?v = "magnitude number u"
  have b: "0 < base" "base \<le> 16" "0 < unat base" "unat base \<le> 16" using assms(1) by auto
  let ?ds = "map (\<lambda>d. HEX_DIGITS ! d) (digit_list 64 (unat base) (unat ?v))"
  have fill: "fill_digits 64 ?v base number_frame = Some (?ds @ [NUL])"
    using fill_digits_eq [OF b(1,2), of 64 number_frame ?v] by (simp add: number_frame_def drop_update_swap)
  have start: "get_number_start (?ds @ [NUL]) = Some (number_text (unat base) (unat ?v) @ [NUL])"
    using number_start_text [OF b(3,4), of 64 "unat ?v" "[]"]
    by (simp add: number_text_def number_digits_def)
  show ?thesis
    using assms(2) fill start by (cases "number = 0") (simp_all add: sprint_integer_def digits_text_def)
qed

lemma sprint_integer_eq:
  assumes "base \<in> {2, 10, 16}" and "integer_text number base u = Some s"
    and "p + length s < length str" and "length str \<le> INT_MAX"
  shows "sprint_integer str p number base u = Some (place str p s)"
proof -
  let ?v = "magnitude number u"
  let ?pre = "sign_text number u @ base_text base"
  from assms(2) have ok: "\<not> (negative number u \<and> number = 0x80000000)"
      and s: "s = ?pre @ digits_text base ?v"
    by (auto simp: integer_text_def split: if_splits)
  from assms(3) s have fits: "p + length ?pre < length str" by simp
  obtain str' where pre: "add_number_prefix str p number base u = Some (str', p + length ?pre, ?v)"
      and len: "length str' = length str"
      and spl: "place str' (p + length ?pre) (digits_text base ?v) = place str p s"
    using add_number_prefix_eq [OF ok fits assms(4)] assms(3) s by (metis append_assoc)
  have "strcpy str' (p + length ?pre) (digits_text base ?v @ [NUL]) = Some (place str p s)"
    using strcpy_cstring [of "digits_text base ?v" "p + length ?pre" str' "[]"] assms(1,3) s len spl
      digits_text_bounds(1) [of base ?v]
    by simp
  then show ?thesis by (simp add: sprint_integer_after_prefix [OF assms(1) pre])
qed

text \<open>A text that does not fit runs over the end of the buffer.\<close>

lemma put_string_take:
  assumes "p \<le> length str" and "length str \<le> p + n"
  shows "put_string str p (take n s) = put_string str p s"
proof -
  have "strcpy str p (take n s) = strcpy str p s"
    using assms by (induction s arbitrary: str p n) (auto simp: take_Cons' split: nat.splits)
  then show ?thesis by (simp add: put_string_def)
qed

lemma put_string_overflow:
  "cstring s \<Longrightarrow> p \<le> length str \<Longrightarrow> length str \<le> p + length s \<Longrightarrow> put_string str p (s @ NUL # rest) = None"
  by (simp add: put_string_def strcpy_overflow)

lemma add_number_prefix_late:
  assumes "\<not> (negative number u \<and> number = 0x80000000)" and "base \<in> {2, 10, 16}"
    and "p \<le> length str" and "length str \<le> p + length (sign_text number u @ base_text base)"
    and "add_number_prefix str p number base u = Some r"
  obtains str' where "r = (str', length str, magnitude number u)" and "length str' = length str"
    and "length str = p + length (sign_text number u @ base_text base)"
proof -
  let ?q = "p + length (sign_text number u)"
  obtain r1 where "add_sign str p number u = Some r1"
    using assms(5) by (auto simp: add_number_prefix_def bind_eq_Some_conv)
  then obtain str1 where 1: "add_sign str p number u = Some (str1, ?q, magnitude number u)"
      and len: "length str1 = length str" and q: "?q \<le> length str"
    using assms(1,3) by (cases "negative number u")
      (auto simp: add_sign_def negative_def sign_text_def magnitude_def split: if_splits)
  have "put_string str1 ?q (base_text base @ [NUL]) = None"
    using assms(2,4) len q by (intro put_string_overflow) (auto simp: base_text_def)
  then have "base = 10" using 1 assms(2,5) by (auto simp: add_number_prefix_def base_text_def)
  with 1 len q assms(4,5) show ?thesis
    by (intro that [of str1]) (auto simp: add_number_prefix_def base_text_def)
qed

lemma sprint_integer_overflow:
  assumes "base \<in> {2, 10, 16}" and "integer_text number base u = Some s"
    and "p \<le> length str" and "length str \<le> p + length s" and "length str \<le> INT_MAX"
  shows "sprint_integer str p number base u = None"
proof -
  let ?v = "magnitude number u"
  let ?pre = "sign_text number u @ base_text base"
  from assms(2) have ok: "\<not> (negative number u \<and> number = 0x80000000)"
      and s: "s = ?pre @ digits_text base ?v"
    by (auto simp: integer_text_def split: if_splits)
  have after: ?thesis if "add_number_prefix str p number base u = Some (str', p + length ?pre, ?v)"
      and "length str' = length str" and "p + length ?pre \<le> length str" for str'
    using that(2,3) assms(1,4) s digits_text_bounds(1) [OF assms(1), of ?v]
    by (simp add: sprint_integer_after_prefix [OF assms(1) that(1)] strcpy_overflow)
  show ?thesis
  proof (cases "p + length ?pre < length str")
    case True
    then show ?thesis by (rule add_number_prefix_eq [OF ok _ assms(5)]) (use True in \<open>auto intro: after\<close>)
  next
    case False
    then have late: "length str \<le> p + length ?pre" by simp
    show ?thesis
    proof (cases "add_number_prefix str p number base u")
      case None
      then show ?thesis by (simp add: sprint_integer_def)
    next
      case (Some r)
      from add_number_prefix_late [OF ok assms(1,3) late this] show ?thesis
        by (metis Some after order.refl)
    qed
  qed
qed

text \<open>Its length: a sign, at most two characters of prefix, at most 32 digits.\<close>

lemma integer_text_length:
  assumes "base \<in> {2, 10, 16}" and "integer_text number base u = Some s"
  shows "length s \<le> 35"
  using assms digits_text_bounds(3) [OF assms(1), of "magnitude number u"]
  by (auto simp: integer_text_def sign_text_def base_text_def split: if_splits)

lemma cstring_integer_text:
  assumes "base \<in> {2, 10, 16}" and "integer_text number base u = Some s"
  shows "cstring s"
  using assms digits_text_bounds(1) [OF assms(1), of "magnitude number u"]
  by (auto simp: integer_text_def sign_text_def base_text_def split: if_splits)

section \<open>Reading a number back\<close>

definition digit_value :: "char \<Rightarrow> nat" where
  "digit_value c = length (takeWhile (\<lambda>h. h \<noteq> c) HEX_DIGITS)"

text \<open>An optional minus, the prefix of the base, and the digits.\<close>

definition read_integer :: "dword_t \<Rightarrow> string \<Rightarrow> int" where
  "read_integer base s =
     (let minus = (s \<noteq> [] \<and> hd s = CHR ''-'');
          digits = drop (length (base_text base)) (if minus then tl s else s);
          v = int (positional (unat base) (map digit_value digits))
      in if minus then - v else v)"

lemma digit_value_hex: "d < 16 \<Longrightarrow> digit_value (HEX_DIGITS ! d) = d"
  by (simp add: HEX_DIGITS_def digit_value_def) (auto simp: less_Suc_eq numeral_eq_Suc)

lemma digits_text_value:
  assumes "base \<in> {2, 10, 16}"
  shows "positional (unat base) (map digit_value (digits_text base v)) = unat v"
proof (cases "v = 0")
  case True
  then show ?thesis by (simp add: digits_text_def positional_def digit_value_def HEX_DIGITS_def)
next
  case False
  have b: "2 \<le> unat base" "unat base \<le> 16" using assms by auto
  have "map digit_value (number_text (unat base) (unat v)) = number_digits (unat base) (unat v)"
    using b number_digits_bound [of "unat base" _ "unat v"]
    by (force simp: number_text_def digit_value_hex intro!: map_idI)
  moreover have "unat v < 2 ^ 32" using unsigned_less [of v] by simp
  ultimately show ?thesis
    using False b by (simp add: digits_text_def number_digits_value)
qed

lemma integer_text_value:
  assumes "base \<in> {2, 10, 16}" and "integer_text number base u = Some s"
  shows "read_integer base s = (if u then uint number else sint number)"
proof -
  let ?t = "base_text base @ digits_text base (magnitude number u)"
  have s: "s = sign_text number u @ ?t"
    using assms(2) by (simp add: integer_text_def split: if_splits)
  have no_minus: "CHR ''-'' \<notin> set (digits_text base x)" for x
  proof -
    have "HEX_DIGITS ! d \<noteq> CHR ''-''" if "d < 16" for d
      using that by (simp add: HEX_DIGITS_def) (auto simp: less_Suc_eq numeral_eq_Suc)
    moreover have "d < 16" if "d \<in> set (number_digits (unat base) (unat x))" for d
      using number_digits_bound [OF _ that] assms(1) by auto
    ultimately have "CHR ''-'' \<noteq> HEX_DIGITS ! d" if "d \<in> set (number_digits (unat base) (unat x))" for d
      using that by metis
    then show ?thesis by (auto simp: digits_text_def number_text_def)
  qed
  have "hd ?t \<noteq> CHR ''-''"
    using no_minus [of "magnitude number u"] digits_text_bounds(2) [OF assms(1), of "magnitude number u"]
    by (cases "digits_text base (magnitude number u)") (auto simp: base_text_def)
  then have v: "read_integer base s =
      (if negative number u then - int (unat (magnitude number u)) else int (unat (magnitude number u)))"
    using digits_text_value [OF assms(1), of "magnitude number u"]
    by (simp add: read_integer_def s sign_text_def Let_def)
  show ?thesis
  proof (cases "negative number u")
    case True
    then have n: "\<not> u" "2147483648 \<le> unat number" "number \<noteq> 0x80000000"
      using assms(2) sint_nonneg_iff [of number] by (auto simp: negative_def integer_text_def split: if_splits)
    have "unat (- number) = 4294967296 - unat number"
      using n(2) unat_sub_if' [of 0 number] by auto
    moreover have "unat number < 4294967296" using unsigned_less [of number] by simp
    ultimately show ?thesis
      using True n by (simp add: v magnitude_def sint_dword)
  next
    case False
    then have "u \<or> unat number < 2147483648"
      using sint_nonneg_iff [of number] by (auto simp: negative_def)
    moreover have "read_integer base s = int (unat number)"
      using False by (simp add: v magnitude_def)
    moreover have "int (unat number) = uint number" by simp
    ultimately show ?thesis by (cases u) (simp_all only: sint_dword if_True if_False simp_thms diff_zero)
  qed
qed

section \<open>Property\<close>

text \<open>C36. Printing an integer in base 2, 10 or 16 and reading the text back gives the integer: its
  signed value, or its unsigned value when it is printed as unsigned. The least \<open>int\<close>, which has
  no negation, is excluded when signed. The buffer changes only where the text and its
  terminator are.\<close>

theorem sprint_integer_round_trip:
  assumes "base \<in> {2, 10, 16}" and "is_unsigned \<or> number \<noteq> 0x80000000"
    and "p + 35 < length str" and "length str \<le> INT_MAX"
  shows "\<exists>s. sprint_integer str p number base is_unsigned = Some (place str p s) \<and> cstring s \<and>
    read_integer base s = (if is_unsigned then uint number else sint number)"
proof -
  obtain s where s: "integer_text number base is_unsigned = Some s"
    using assms(2) by (auto simp: integer_text_def negative_def)
  have "p + length s < length str" using integer_text_length [OF assms(1) s] assms(3) by simp
  then show ?thesis
    using sprint_integer_eq [OF assms(1) s _ assms(4)] cstring_integer_text [OF assms(1) s]
      integer_text_value [OF assms(1) s] by blast
qed

lemma sprint_integer_round_trip_witness:
  "\<exists>s. sprint_integer (replicate 64 NUL) 0 (- 42) 10 False = Some (place (replicate 64 NUL) 0 s) \<and>
    read_integer 10 s = - 42"
proof -
  have "sint (- 42 :: dword_t) = - 42" by (simp add: sint_dword)
  with sprint_integer_round_trip [of 10 False "- 42" 0 "replicate 64 NUL"] show ?thesis by auto
qed

end
