(* ===== verification/Log.thy ===== *)
theory Log
  imports Numbers
begin

text \<open>
  Formatted output: \<open>vsprintf\<close> and \<open>sprintf\<close> of \<open>src/lib/print.c\<close>, \<open>src/lib/log.c\<close> with the
  macros of \<open>include/lib/log.h\<close>, and \<open>src/drivers/serial.c\<close>.

  The formatter logs (\<open>%c\<close>, unknown characters) and the logger formats, so the two are mutually
  recursive. No fuel is needed: a nested log call formats a text without such a conversion, which
  is the measure of the termination proof.

  A format is the list of the characters before its terminator. A variable argument is an \<open>int\<close>,
  a qword or a pointer to characters; \<open>va_arg(args, int)\<close> of a qword takes the low half of its
  slot, as the x86-64 calling convention does. A string argument is the contents of its array
  object, or no object for a null pointer. The stack buffers' first contents are zeros;
  \<open>vsprintf_render\<close> shows that nothing depends on them. \<open>Stop Undefined\<close> is a write past a buffer,
  a missing or wrong argument, a null string, or a read past a format that ends in \<open>%\<close>.

  \<open>render\<close> is the specification of a format: the text it stands for. \<open>vsprintf_render\<close> shows that
  the code writes that text when it fits, \<open>vsprintf_overflow\<close> that it runs over the end of its buffer when it
  does not, and \<open>log_log_rendered\<close> that a log call then only
  appends one line to what COM1 received.
\<close>

section \<open>Code\<close>

datatype vararg = ArgInt dword_t | ArgQword qword_t | ArgStr "char list option"

abbreviation (input) lit :: "string \<Rightarrow> vararg" where
  "lit s \<equiv> ArgStr (Some (s @ [NUL]))"

fun va_int :: "vararg list \<Rightarrow> (dword_t \<times> vararg list) option" where
  "va_int (ArgInt v # args) = Some (v, args)"
| "va_int (ArgQword v # args) = Some (ucast v, args)"
| "va_int _ = None"

fun va_str :: "vararg list \<Rightarrow> (char list \<times> vararg list) option" where
  "va_str (ArgStr (Some s) # args) = Some (s, args)"
| "va_str _ = None"

abbreviation (input) COM1 :: dword_t where
  "COM1 \<equiv> 0x3F8"

fun serial_print :: "char list \<Rightarrow> world \<Rightarrow> unit res" where
  "serial_print [] w = Stop Undefined w"
| "serial_print (c # buffer) w =
     (if c = NUL then Done () w else serial_print buffer (out_port COM1 (of_char c) w))"

definition set_log_level :: "log_level \<Rightarrow> world \<Rightarrow> world" where
  "set_log_level level w = w\<lparr>min_level := level\<rparr>"

primrec level_string :: "log_level \<Rightarrow> string" where
  "level_string DEBUG_LEVEL = ''DEBUG''"
| "level_string INFO_LEVEL = ''INFO''"
| "level_string WARN_LEVEL = ''WARN''"
| "level_string ERROR_LEVEL = ''ERROR''"
| "level_string FATAL_LEVEL = ''FATAL''"

definition log_format :: string where
  "log_format = ''[%s] %s:%d: %s'' @ [CHR 0x0A]"

text \<open>The number of conversions of a format that make \<open>vsprintf\<close> log.\<close>

fun log_weight :: "string \<Rightarrow> nat" where
  "log_weight [] = 0"
| "log_weight (c # fmt) =
     (if c \<noteq> CHR ''%'' then log_weight fmt
      else case fmt of
          [] \<Rightarrow> 1
        | f # fmt' \<Rightarrow> (if f \<in> set ''sdbxpuU'' then 0 else 1) + log_weight fmt')"

definition print_c :: string where "print_c = ''src/lib/print.c''"

function (sequential)
  vsprintf :: "char list \<Rightarrow> nat \<Rightarrow> string \<Rightarrow> vararg list \<Rightarrow> bool \<Rightarrow> world \<Rightarrow> char list res" and
  log_log :: "log_level \<Rightarrow> string \<Rightarrow> dword_t \<Rightarrow> string \<Rightarrow> vararg list \<Rightarrow> world \<Rightarrow> unit res"
where
  "vsprintf str p [] args is_unsigned w =
     (if p < length str then Done (str[p := NUL]) w else Stop Undefined w)"
| "vsprintf str p (c # fmt) args is_unsigned w =
     (if c \<noteq> CHR ''%'' then
        if p < length str then vsprintf (str[p := c]) (Suc p) fmt args is_unsigned w
        else Stop Undefined w
      else case fmt of
        [] \<Rightarrow>
          bindR (log_log ERROR_LEVEL print_c 129 ''unknown format character'' [] w)
            (\<lambda>_ w. Stop Undefined w)
      | f # fmt' \<Rightarrow>
          if f = CHR ''c'' then
            bindR (log_log DEBUG_LEVEL print_c 81 ''printing a character'' [] w) (\<lambda>_ w.
              bindR (of_option (va_int args) w) (\<lambda>(v, args) w.
                if p < length str
                then vsprintf (str[p := char_of (unat v)]) (Suc p) fmt' args is_unsigned w
                else Stop Undefined w))
          else if f = CHR ''s'' then
            bindR (of_option (va_str args) w) (\<lambda>(s, args) w.
              bindR (of_option (put_string str p s) w) (\<lambda>(str, p) w.
                vsprintf str p fmt' args is_unsigned w))
          else if f \<in> set ''dbxpuU'' then
            (let base = (if f = CHR ''d'' then 10 else if f \<in> set ''bU'' then 2 else 16);
                 is_unsigned = (is_unsigned \<or> f \<in> set ''uU'')
             in bindR (of_option (va_int args) w) (\<lambda>(number, args) w.
                  bindR (of_option (sprint_integer str p number base is_unsigned) w) (\<lambda>str w.
                    bindR (of_option (strlen (drop p str)) w) (\<lambda>n w.
                      vsprintf str (p + n) fmt' args is_unsigned w))))
          else
            bindR (log_log ERROR_LEVEL print_c 129 ''unknown format character'' [] w) (\<lambda>_ w.
              vsprintf str p fmt' args is_unsigned w))"
| "log_log level file line fmt args w =
     (if level < min_level w then Done () w
      else
        bindR (vsprintf (replicate 0x100 NUL) 0 fmt args False w) (\<lambda>buffer w.
        bindR (vsprintf (replicate 0x400 NUL) 0 log_format
            [lit (level_string level), lit file, ArgInt line, ArgStr (Some buffer)] False w)
          (\<lambda>log_message w. serial_print log_message w)))"
  by pat_completeness auto

termination
  by (relation "measures [
       case_sum (\<lambda>(_, _, fmt, _). log_weight fmt) (\<lambda>(_, _, _, fmt, _). log_weight fmt),
       case_sum (\<lambda>(_, _, fmt, _). length fmt) (\<lambda>(_, _, _, fmt, _). 20 + length fmt)]")
    (auto simp: log_format_def)

definition sprintf :: "char list \<Rightarrow> string \<Rightarrow> vararg list \<Rightarrow> world \<Rightarrow> char list res" where
  "sprintf str fmt args w = vsprintf str 0 fmt args False w"

text \<open>
  The macros. \<open>PANIC\<close> logs and never returns. \<open>ASSERT(condition)\<close> expands to
  \<open>if (!condition)\<close> without parentheses around the argument, so its test is not in general the
  negation of the condition; \<open>ASSERT\<close> takes the value of the expanded test \<open>!condition\<close>.
\<close>

definition PANIC :: "string \<Rightarrow> dword_t \<Rightarrow> string \<Rightarrow> vararg list \<Rightarrow> world \<Rightarrow> 'a res" where
  "PANIC file line fmt args w = bindR (log_log FATAL_LEVEL file line fmt args w) (\<lambda>_. hlt_loop)"

definition ASSERT :: "string \<Rightarrow> dword_t \<Rightarrow> string \<Rightarrow> bool \<Rightarrow> world \<Rightarrow> unit res" where
  "ASSERT file line condition_text negated_test w =
     (if negated_test
      then PANIC file line ''Assertion failed: %s'' [lit condition_text] w
      else Done () w)"

abbreviation LOG_DEBUG :: "string \<Rightarrow> dword_t \<Rightarrow> string \<Rightarrow> vararg list \<Rightarrow> world \<Rightarrow> unit res" where
  "LOG_DEBUG \<equiv> log_log DEBUG_LEVEL"
abbreviation LOG_INFO :: "string \<Rightarrow> dword_t \<Rightarrow> string \<Rightarrow> vararg list \<Rightarrow> world \<Rightarrow> unit res" where
  "LOG_INFO \<equiv> log_log INFO_LEVEL"
abbreviation LOG_WARN :: "string \<Rightarrow> dword_t \<Rightarrow> string \<Rightarrow> vararg list \<Rightarrow> world \<Rightarrow> unit res" where
  "LOG_WARN \<equiv> log_log WARN_LEVEL"
abbreviation LOG_ERROR :: "string \<Rightarrow> dword_t \<Rightarrow> string \<Rightarrow> vararg list \<Rightarrow> world \<Rightarrow> unit res" where
  "LOG_ERROR \<equiv> log_log ERROR_LEVEL"

declare vsprintf.simps [simp del] log_log.simps [simp del]

section \<open>The text of a format\<close>

definition string_of :: "char list \<Rightarrow> string option" where
  "string_of s = (if NUL \<in> set s then Some (takeWhile (\<lambda>c. c \<noteq> NUL) s) else None)"

definition conversion_base :: "char \<Rightarrow> dword_t" where
  "conversion_base f = (if f = CHR ''d'' then 10 else if f \<in> set ''bU'' then 2 else 16)"

fun render :: "bool \<Rightarrow> string \<Rightarrow> vararg list \<Rightarrow> string option" where
  "render u [] args = Some []"
| "render u (c # fmt) args =
     (if c \<noteq> CHR ''%'' then do { r \<leftarrow> render u fmt args; Some (c # r) }
      else case fmt of
          [] \<Rightarrow> None
        | f # fmt' \<Rightarrow>
            if f = CHR ''s'' then do {
              (a, args) \<leftarrow> va_str args;
              s \<leftarrow> string_of a;
              r \<leftarrow> render u fmt' args;
              Some (s @ r)
            }
            else if f \<in> set ''dbxpuU'' then do {
              (v, args) \<leftarrow> va_int args;
              s \<leftarrow> integer_text v (conversion_base f) (u \<or> f \<in> set ''uU'');
              r \<leftarrow> render (u \<or> f \<in> set ''uU'') fmt' args;
              Some (s @ r)
            }
            else None)"

lemma string_of_cstring [simp]: "cstring s \<Longrightarrow> string_of (s @ NUL # rest) = Some s"
  by (induction s) (auto simp: string_of_def split: if_splits)

lemma string_of_Some:
  assumes "string_of a = Some s"
  obtains rest where "a = s @ NUL # rest" and "cstring s"
proof -
  from assms have "NUL \<in> set a" and s: "s = takeWhile (\<lambda>c. c \<noteq> NUL) a"
    by (auto simp: string_of_def split: if_splits)
  then have "dropWhile (\<lambda>c. c \<noteq> NUL) a \<noteq> []" by (auto simp: dropWhile_eq_Nil_conv)
  then obtain x rest where d: "dropWhile (\<lambda>c. c \<noteq> NUL) a = x # rest"
    by (cases "dropWhile (\<lambda>c. c \<noteq> NUL) a") auto
  then have "x = NUL" using hd_dropWhile [of "\<lambda>c. c \<noteq> NUL" a] by simp
  with d s have "a = s @ NUL # rest" by (metis takeWhile_dropWhile_id)
  moreover have "cstring s" unfolding s by (auto dest: set_takeWhileD)
  ultimately show ?thesis by (rule that)
qed

lemma conversion_base_cases: "conversion_base f \<in> {2, 10, 16}"
  by (simp add: conversion_base_def)

text \<open>The formatter, one conversion at a time.\<close>

lemma vsprintf_plain:
  "c \<noteq> CHR ''%'' \<Longrightarrow> vsprintf str p (c # fmt) args u w =
     (if p < length str then vsprintf (str[p := c]) (Suc p) fmt args u w else Stop Undefined w)"
  by (simp add: vsprintf.simps(2))

lemma vsprintf_string:
  "vsprintf str p (CHR ''%'' # CHR ''s'' # fmt) args u w =
     bindR (of_option (va_str args) w) (\<lambda>(s, args) w.
       bindR (of_option (put_string str p s) w) (\<lambda>(str, p) w. vsprintf str p fmt args u w))"
  by (simp add: vsprintf.simps(2))

lemma vsprintf_integer:
  assumes "f \<in> set ''dbxpuU''"
  shows "vsprintf str p (CHR ''%'' # f # fmt) args u w =
    bindR (of_option (va_int args) w) (\<lambda>(number, args) w.
      bindR (of_option (sprint_integer str p number (conversion_base f) (u \<or> f \<in> set ''uU'')) w) (\<lambda>str w.
        bindR (of_option (strlen (drop p str)) w) (\<lambda>n w.
          vsprintf str (p + n) fmt args (u \<or> f \<in> set ''uU'') w)))"
proof -
  have "f \<noteq> CHR ''c''" "f \<noteq> CHR ''s''" using assms by auto
  with assms show ?thesis
    by (simp only: vsprintf.simps(2) Let_def conversion_base_def list.case if_True if_False simp_thms)
qed

text \<open>What a string and an integer put into the buffer.\<close>

lemma put_string_done:
  assumes "string_of a = Some s" and "p + length s < length str" and "length str \<le> INT_MAX"
  shows "put_string str p a = Some (place str p s, p + length s)"
proof -
  obtain rest where "a = s @ NUL # rest" "cstring s" using assms(1) by (rule string_of_Some)
  then show ?thesis using assms(2,3) by (simp only:) (intro put_string_cstring)
qed

lemma put_string_late:
  assumes "string_of a = Some s" and "p \<le> length str" and "\<not> p + length s < length str"
  shows "put_string str p a = None"
proof -
  obtain rest where "a = s @ NUL # rest" "cstring s" using assms(1) by (rule string_of_Some)
  then show ?thesis using assms(2,3) by (simp only:) (rule put_string_overflow; simp)
qed

lemma sprint_integer_done:
  assumes "integer_text v (conversion_base f) u = Some s" and "p + length s < length str" and "length str \<le> INT_MAX"
  shows "sprint_integer str p v (conversion_base f) u = Some (place str p s)"
    and "strlen (drop p (place str p s)) = Some (length s)"
  using assms conversion_base_cases [of f] cstring_integer_text [OF conversion_base_cases assms(1)]
  by (simp_all add: sprint_integer_eq drop_place strlen_cstring)

text \<open>The first step of a text.\<close>

lemma render_Cons:
  assumes "render u (c # fmt) args = Some t"
  obtains (plain) r where "c \<noteq> CHR ''%''" and "render u fmt args = Some r" and "t = c # r"
    | (string) fmt' a args' s r where "c = CHR ''%''" and "fmt = CHR ''s'' # fmt'" and "va_str args = Some (a, args')"
        and "string_of a = Some s" and "render u fmt' args' = Some r" and "t = s @ r"
    | (integer) f fmt' v args' s r where "c = CHR ''%''" and "fmt = f # fmt'" and "f \<in> set ''dbxpuU''" and "f \<noteq> CHR ''s''"
        and "va_int args = Some (v, args')" and "integer_text v (conversion_base f) (u \<or> f \<in> set ''uU'') = Some s"
        and "render (u \<or> f \<in> set ''uU'') fmt' args' = Some r" and "t = s @ r"
proof (cases "c = CHR ''%''")
  case False
  with assms show ?thesis by (auto simp: bind_eq_Some_conv intro: plain)
next
  case c: True
  with assms obtain f fmt' where fmt: "fmt = f # fmt'" by (auto split: list.splits)
  show ?thesis
  proof (cases "f = CHR ''s''")
    case True
    with assms c fmt show ?thesis by (auto simp: bind_eq_Some_conv intro: string)
  next
    case False
    with assms c fmt obtain v args' s r where f: "f \<in> set ''dbxpuU''"
        and v: "va_int args = Some (v, args')" "integer_text v (conversion_base f) (u \<or> f \<in> set ''uU'') = Some s"
          "render (u \<or> f \<in> set ''uU'') fmt' args' = Some r" "t = s @ r"
      by (auto simp: bind_eq_Some_conv split: if_splits)
    then show ?thesis using integer [OF c fmt f False] by blast
  qed
qed

text \<open>The code writes the text of the format when it fits, and runs over the end of the buffer when it does not.\<close>

lemma vsprintf_render:
  assumes "render u fmt args = Some t" and "p + length t < length str" and "length str \<le> INT_MAX"
  shows "vsprintf str p fmt args u w = Done (place str p t) w"
  using assms
proof (induction u fmt args arbitrary: str p t rule: render.induct)
  case (1 u args)
  then show ?case by (simp add: vsprintf.simps place_Nil)
next
  case (2 u c fmt args)
  from "2.prems"(1) show ?case
  proof (cases rule: render_Cons)
    case (plain r)
    then have "vsprintf (str[p := c]) (Suc p) fmt args u w = Done (place (str[p := c]) (Suc p) r) w"
      using "2.prems" by (intro "2.IH"(1)) simp_all
    with plain "2.prems" show ?thesis by (simp add: vsprintf_plain place_Cons)
  next
    case (string fmt' a args' s r)
    then have "vsprintf (place str p s) (p + length s) fmt' args' u w =
        Done (place (place str p s) (p + length s) r) w"
      using "2.prems" by (intro "2.IH"(2)) simp_all
    with string "2.prems" show ?thesis by (simp add: vsprintf_string put_string_done place_append)
  next
    case (integer f fmt' v args' s r)
    then have "vsprintf (place str p s) (p + length s) fmt' args' (u \<or> f \<in> set ''uU'') w =
        Done (place (place str p s) (p + length s) r) w"
      using "2.prems" by (intro "2.IH"(3)) simp_all
    with integer "2.prems" sprint_integer_done [OF integer(6), of p str] show ?thesis
      by (simp add: vsprintf_integer [OF integer(3)] place_append del: set_simps list.set)
  qed
qed

lemma vsprintf_overflow:
  assumes "render u fmt args = Some t" and "p \<le> length str" and "length str \<le> p + length t"
    and "length str \<le> INT_MAX"
  shows "vsprintf str p fmt args u w = Stop Undefined w"
  using assms
proof (induction u fmt args arbitrary: str p t rule: render.induct)
  case (1 u args)
  then show ?case by (simp add: vsprintf.simps)
next
  case (2 u c fmt args)
  from "2.prems"(1) show ?case
  proof (cases rule: render_Cons)
    case (plain r)
    have "vsprintf (str[p := c]) (Suc p) fmt args u w = Stop Undefined w" if "p < length str"
      using that plain "2.prems" by (intro "2.IH"(1)) simp_all
    with plain show ?thesis by (simp add: vsprintf_plain)
  next
    case (string fmt' a args' s r)
    show ?thesis
    proof (cases "p + length s < length str")
      case True
      then have "vsprintf (place str p s) (p + length s) fmt' args' u w = Stop Undefined w"
        using string "2.prems" by (intro "2.IH"(2)) (simp_all add: add.assoc)
      with True string "2.prems" show ?thesis by (simp add: vsprintf_string put_string_done)
    next
      case False
      with string "2.prems" show ?thesis by (simp add: vsprintf_string put_string_late)
    qed
  next
    case (integer f fmt' v args' s r)
    show ?thesis
    proof (cases "p + length s < length str")
      case True
      then have "vsprintf (place str p s) (p + length s) fmt' args' (u \<or> f \<in> set ''uU'') w = Stop Undefined w"
        using integer "2.prems" by (intro "2.IH"(3)) (simp_all add: add.assoc)
      with True integer "2.prems" sprint_integer_done [OF integer(6), of p str] show ?thesis
        by (simp add: vsprintf_integer [OF integer(3)] del: set_simps list.set)
    next
      case False
      with "2.prems" have "sprint_integer str p v (conversion_base f) (u \<or> f \<in> set ''uU'') = None"
        by (intro sprint_integer_overflow [OF conversion_base_cases integer(6)]) simp_all
      with integer show ?thesis
        by (simp add: vsprintf_integer [OF integer(3)] del: set_simps list.set)
    qed
  qed
qed

section \<open>What a log call does\<close>

lemma serial_print_cstring:
  "cstring s \<Longrightarrow> serial_print (s @ NUL # rest) w =
     Done () (w\<lparr>port_writes := port_writes w @ map (\<lambda>c. (COM1, of_char c)) s\<rparr>)"
  by (induction s arbitrary: w) (auto simp: out_port_def)

definition emit :: "string \<Rightarrow> world \<Rightarrow> world" where
  "emit s w = w\<lparr>port_writes := port_writes w @ map (\<lambda>c. (COM1, of_char c)) s\<rparr>"

definition log_line :: "log_level \<Rightarrow> string \<Rightarrow> string \<Rightarrow> string \<Rightarrow> string" where
  "log_line level file number message =
     ''['' @ level_string level @ ''] '' @ file @ '':'' @ number @ '': '' @ message @ [CHR 0x0A]"

definition logged :: "log_level \<Rightarrow> string \<Rightarrow> dword_t \<Rightarrow> string \<Rightarrow> world \<Rightarrow> world" where
  "logged level file line message w =
     (if level < min_level w then w
      else emit (log_line level file (digits_text 10 line) message) w)"

lemma log_log_filtered: "level < min_level w \<Longrightarrow> log_log level file line fmt args w = Done () w"
  by (simp add: log_log.simps)

lemma cstring_level_string: "cstring (level_string level)" "length (level_string level) \<le> 5"
  by (cases level; simp)+

lemma render_log_format:
  assumes "cstring file" and "cstring t" and "0 \<le> sint line"
  shows "render False log_format
      [lit (level_string level), lit file, ArgInt line, ArgStr (Some (t @ NUL # rest))] =
    Some (log_line level file (digits_text 10 line) t)"
proof -
  have "integer_text line 10 False = Some (digits_text 10 line)"
    using assms(3) by (simp add: integer_text_def negative_def sign_text_def base_text_def magnitude_def)
  with assms(1,2) cstring_level_string(1) [of level] show ?thesis
    by (simp add: log_format_def conversion_base_def log_line_def)
qed

lemma log_log_rendered:
  assumes "render False fmt args = Some t" and "cstring t" and "length t < 0x100"
    and "cstring file" and "length file < 0x100" and "0 \<le> sint line"
  shows "log_log level file line fmt args w = Done () (logged level file line t w)"
proof (cases "level < min_level w")
  case True
  then show ?thesis by (simp add: log_log_filtered logged_def)
next
  case False
  let ?l = "log_line level file (digits_text 10 line) t"
  let ?buffer = "place (replicate 0x100 NUL) 0 t"
  let ?args = "[lit (level_string level), lit file, ArgInt line, ArgStr (Some ?buffer)]"
  have buffer: "vsprintf (replicate 0x100 NUL) 0 fmt args False w = Done ?buffer w"
    using assms(1,3) by (intro vsprintf_render) simp_all
  have digits: "length (digits_text 10 line) \<le> 32" "cstring (digits_text 10 line)"
    by (simp_all add: digits_text_bounds)
  have len: "length ?l < 0x400"
    using assms(3,5) digits(1) cstring_level_string(2) [of level] by (simp add: log_line_def)
  have "render False log_format ?args = Some ?l"
    unfolding place_def using assms(2,4,6) by (simp add: render_log_format)
  then have msg: "vsprintf (replicate 0x400 NUL) 0 log_format ?args False w =
      Done (place (replicate 0x400 NUL) 0 ?l) w"
    using len by (intro vsprintf_render) simp_all
  have "cstring ?l"
    using assms(2,4) digits(2) cstring_level_string(1) [of level] by (simp add: log_line_def)
  then have out: "serial_print (place (replicate 0x400 NUL) 0 ?l) w = Done () (emit ?l w)"
    by (simp add: place_def serial_print_cstring emit_def)
  from False buffer msg out show ?thesis
    by (simp add: log_log.simps logged_def)
qed

text \<open>
  Plain messages, and messages that end in one number, are all the program logs; both kinds fit.
\<close>

fun plain :: "string \<Rightarrow> bool" where
  "plain [] = True"
| "plain (c # s) = (c \<noteq> CHR ''%'' \<and> c \<noteq> NUL \<and> plain s)"

lemma plain_cstring: "plain s \<Longrightarrow> cstring s"
  by (induction s) auto

lemma render_plain: "plain s \<Longrightarrow> render u (s @ fmt) args = map_option ((@) s) (render u fmt args)"
proof (induction s)
  case Nil
  then show ?case by (cases "render u fmt args") simp_all
next
  case (Cons c s)
  then show ?case by (cases "render u fmt args") simp_all
qed

lemma render_plain_only: "plain s \<Longrightarrow> render u s args = Some s"
  using render_plain [of s u "[]" args] by simp

definition log_ok :: "string \<Rightarrow> dword_t \<Rightarrow> string \<Rightarrow> bool" where
  "log_ok file line s \<longleftrightarrow>
     plain s \<and> length s < 200 \<and> cstring file \<and> length file < 0x100 \<and> 0 \<le> sint line"

lemma log_log_plain [log_rules]:
  "log_ok file line s \<Longrightarrow> log_log level file line s args w = Done () (logged level file line s w)"
  by (rule log_log_rendered) (simp_all add: log_ok_def render_plain_only plain_cstring)

text \<open>\<open>%u\<close>, \<open>%x\<close>, \<open>%p\<close>, \<open>%d\<close>: the hexadecimal, binary or decimal text of one integer argument.\<close>

lemma log_log_integer:
  assumes "log_ok file line (s @ post)" and "f \<in> set ''dbxpuU''" and "va_int [a] = Some (v, [])"
    and "integer_text v (conversion_base f) (f \<in> set ''uU'') = Some t"
  shows "log_log level file line (s @ CHR ''%'' # f # post) [a] w =
    Done () (logged level file line (s @ t @ post) w)"
proof (rule log_log_rendered)
  have p: "plain s" "plain post"
    using assms(1) unfolding log_ok_def by (induction s) simp_all
  have "render False (CHR ''%'' # f # post) [a] = Some (t @ post)"
    using assms(2-4) p(2) by (auto simp: render_plain_only)
  with p(1) show "render False (s @ CHR ''%'' # f # post) [a] = Some (s @ t @ post)"
    by (simp only: render_plain option.map)
  show "cstring (s @ t @ post)"
    using p cstring_integer_text [OF conversion_base_cases assms(4)] by (simp add: plain_cstring)
  show "length (s @ t @ post) < 0x100"
    using assms(1) integer_text_length [OF conversion_base_cases assms(4)] by (simp add: log_ok_def)
qed (use assms(1) in \<open>simp_all add: log_ok_def\<close>)

definition unsigned_hex :: "dword_t \<Rightarrow> string" where
  "unsigned_hex v = ''0x'' @ digits_text 16 v"

lemma unsigned_hex_text:
  "integer_text v 16 True = Some (unsigned_hex v)"
  "0 \<le> sint v \<Longrightarrow> integer_text v 16 False = Some (unsigned_hex v)"
  by (auto simp: integer_text_def negative_def sign_text_def base_text_def magnitude_def unsigned_hex_def)

lemma log_log_hex [log_rules]:
  assumes "log_ok file line s"
  shows "log_log level file line (s @ ''%u'') [ArgQword v] w =
    Done () (logged level file line (s @ unsigned_hex (ucast v)) w)"
  using assms log_log_integer [of "file" line s "[]" "CHR ''u''" "ArgQword v" "ucast v" _ level w]
  by (simp add: conversion_base_def unsigned_hex_text)

lemma log_log_decimal:
  assumes "log_ok file line (s @ post)" and "0 \<le> sint v"
  shows "log_log level file line (s @ ''%d'' @ post) [ArgInt v] w =
    Done () (logged level file line (s @ digits_text 10 v @ post) w)"
  using assms log_log_integer [of "file" line s post "CHR ''d''" "ArgInt v" v _ level w]
  by (simp add: conversion_base_def integer_text_def negative_def sign_text_def base_text_def magnitude_def)

text \<open>\<open>%s\<close> at the end of the message.\<close>

lemma log_log_string:
  assumes "log_ok file line s" and "cstring a" and "length s + length a < 0x100"
  shows "log_log level file line (s @ ''%s'') [lit a] w = Done () (logged level file line (s @ a) w)"
proof (rule log_log_rendered)
  show "render False (s @ ''%s'') [lit a] = Some (s @ a)"
    using assms by (simp add: log_ok_def render_plain)
qed (use assms in \<open>simp_all add: log_ok_def plain_cstring\<close>)

lemma logged_frame [simp]:
  "mem (logged l f n s w) = mem w" "cr0 (logged l f n s w) = cr0 w"
  "cr2 (logged l f n s w) = cr2 w" "cr3 (logged l f n s w) = cr3 w"
  "cr4 (logged l f n s w) = cr4 w" "dr7 (logged l f n s w) = dr7 w"
  "rflags (logged l f n s w) = rflags w" "seg_cs (logged l f n s w) = seg_cs w"
  "seg_ss (logged l f n s w) = seg_ss w" "seg_ds (logged l f n s w) = seg_ds w"
  "seg_es (logged l f n s w) = seg_es w" "seg_fs (logged l f n s w) = seg_fs w"
  "seg_gs (logged l f n s w) = seg_gs w" "gdtr (logged l f n s w) = gdtr w"
  "idtr (logged l f n s w) = idtr w" "msrs (logged l f n s w) = msrs w"
  "vmcs_loaded (logged l f n s w) = vmcs_loaded w" "vmcs (logged l f n s w) = vmcs w"
  "min_level (logged l f n s w) = min_level w"
  by (simp_all add: logged_def emit_def)

text \<open>\<open>says t w w'\<close>: the text has been sent to the serial port; the MSRs and the log level are as before.\<close>

definition says :: "string \<Rightarrow> world \<Rightarrow> world \<Rightarrow> bool" where
  "says t w w' \<longleftrightarrow> msrs w' = msrs w \<and> min_level w' = min_level w \<and>
     port_writes w' = port_writes w @ map (\<lambda>c. (COM1, of_char c)) t"

lemma says_nothing [simp, intro]: "says [] w w"
  by (simp add: says_def)

lemma says_trans: "says t u v \<Longrightarrow> says s v w \<Longrightarrow> says (t @ s) u w"
  by (simp add: says_def)

lemma says_logged:
  "min_level w \<le> l \<Longrightarrow> says t w u \<Longrightarrow> says (t @ log_line l file (digits_text 10 n) s) w (logged l file n s u)"
  by (auto simp: says_def logged_def emit_def not_less [symmetric])

lemma says_cong:
  assumes "msrs u = msrs v" and "min_level u = min_level v" and "port_writes u = port_writes v"
  shows "says t w u = says t w v" and "says t u w = says t v w"
  using assms by (simp_all add: says_def)

lemma vmread_logged [simp]: "vmread f (logged l file n s w) = vmread f w"
  by (simp add: vmread_def vmcs_get_def)

lemma read_msr_logged [simp]: "read_msr m (logged l file n s w) = read_msr m w"
  by (simp add: read_msr_def)

text \<open>The calls that do not return.\<close>

lemma PANIC_plain [log_rules]:
  "log_ok file line s \<Longrightarrow> PANIC file line s args w = Stop Halted (logged FATAL_LEVEL file line s w)"
  by (simp add: PANIC_def log_log_plain hlt_loop_def)

lemma ASSERT_holds [simp]: "ASSERT file line s False w = Done () w"
  by (simp add: ASSERT_def)

lemma ASSERT_fails [log_rules]:
  assumes "cstring s" and "length s < 200" and "log_ok file line []"
  shows "ASSERT file line s True w =
    Stop Halted (logged FATAL_LEVEL file line (''Assertion failed: '' @ s) w)"
proof -
  have "log_log FATAL_LEVEL file line ''Assertion failed: %s'' [lit s] w =
      Done () (logged FATAL_LEVEL file line (''Assertion failed: '' @ s) w)"
    using assms log_log_string [of "file" line "''Assertion failed: ''" s] by (simp add: log_ok_def)
  then show ?thesis by (simp add: ASSERT_def PANIC_def hlt_loop_def)
qed

section \<open>Logging touches nothing but the ports\<close>

definition only_ports :: "world \<Rightarrow> world \<Rightarrow> bool" where
  "only_ports w w' \<longleftrightarrow> (\<exists>xs. w' = w\<lparr>port_writes := port_writes w @ xs\<rparr>)"

lemma only_ports_refl [simp]: "only_ports w w"
  unfolding only_ports_def by (rule exI [of _ "[]"]) simp

lemma only_ports_trans [trans]: "only_ports u v \<Longrightarrow> only_ports v w \<Longrightarrow> only_ports u w"
  by (auto simp: only_ports_def)

lemma only_ports_logged [intro]: "only_ports w u \<Longrightarrow> only_ports w (logged l file n s u)"
  by (auto simp: only_ports_def logged_def emit_def)

lemma only_ports_parts:
  assumes "only_ports w u"
  shows "mem u = mem w" "cr0 u = cr0 w" "cr3 u = cr3 w" "cr4 u = cr4 w" "dr7 u = dr7 w"
    "rflags u = rflags w" "gdtr u = gdtr w" "idtr u = idtr w" "msrs u = msrs w"
    "vmcs_loaded u = vmcs_loaded w" "vmcs u = vmcs w" "min_level u = min_level w" "seg_cs u = seg_cs w"
  using assms by (auto simp: only_ports_def)

lemma only_ports_bindR:
  assumes "only_ports w (world_of m)" and "\<And>a v. m = Done a v \<Longrightarrow> only_ports v (world_of (f a v))"
  shows "only_ports w (world_of (bindR m f))"
  using assms by (cases m) (auto intro: only_ports_trans)

lemma only_ports_of_option [simp]: "world_of (of_option x w) = w"
  by (cases x) simp_all

lemma of_option_Done [simp]: "of_option x w = Done a w' \<longleftrightarrow> x = Some a \<and> w' = w"
  by (cases x) auto

lemma serial_print_only_ports: "only_ports w (world_of (serial_print s w))"
proof (induction s w rule: serial_print.induct)
  case (2 c buffer w)
  have "only_ports w (out_port COM1 (of_char c) w)"
    by (auto simp: out_port_def only_ports_def)
  with 2 show ?case by (auto intro: only_ports_trans)
qed simp

lemma formatting_only_ports:
  "only_ports w (world_of (vsprintf str p fmt args u w))"
  "only_ports v (world_of (log_log l f n lfmt largs v))"
proof (induction str p fmt args u w and l f n lfmt largs v rule: vsprintf_log_log.induct)
  case (1 str p args u w)
  then show ?case by (simp add: vsprintf.simps)
next
  case (2 str p c fmt args u w)
  consider (plain) "c \<noteq> CHR ''%''" | (end_of) "c = CHR ''%''" "fmt = []"
    | (char) fmt' where "c = CHR ''%''" "fmt = CHR ''c'' # fmt'"
    | (string) fmt' where "c = CHR ''%''" "fmt = CHR ''s'' # fmt'"
    | (integer) f fmt' where "c = CHR ''%''" "fmt = f # fmt'" "f \<noteq> CHR ''c''" "f \<noteq> CHR ''s''" "f \<in> set ''dbxpuU''"
    | (other) f fmt' where "c = CHR ''%''" "fmt = f # fmt'" "f \<noteq> CHR ''c''" "f \<noteq> CHR ''s''" "f \<notin> set ''dbxpuU''"
    by (cases fmt) blast+
  then show ?case
  proof cases
    case plain
    with 2(1) show ?thesis by (simp add: vsprintf_plain)
  next
    case end_of
    with 2(2) show ?thesis by (simp add: vsprintf.simps(2) only_ports_bindR)
  next
    case char
    with 2(3,4) show ?thesis by (auto simp: vsprintf.simps(2) intro!: only_ports_bindR)
  next
    case string
    with 2(5) show ?thesis by (auto simp: vsprintf_string intro!: only_ports_bindR)
  next
    case integer
    then have np: "\<not> c \<noteq> CHR ''%''" by simp
    show ?thesis
      unfolding integer(1,2) vsprintf_integer [OF integer(5)]
      by (auto simp del: list.set intro!: only_ports_bindR 2(6) [OF np integer(2-5) conversion_base_def refl])
  next
    case other
    then have np: "\<not> c \<noteq> CHR ''%''" by simp
    show ?thesis
      unfolding other(1,2) vsprintf.simps(2) Let_def list.case
      by (simp only: other(3-5) if_False if_True simp_thms)
         (auto intro!: only_ports_bindR 2(7,8) [OF np other(2-5)])
  qed
next
  case (3 l f n lfmt largs v)
  then show ?case
    by (auto simp: log_log.simps serial_print_only_ports intro!: only_ports_bindR)
qed

section \<open>Properties\<close>

text \<open>C35. The formatter against its specification: when the text that \<open>render\<close> gives for a format and
  its arguments fits the buffer with its terminator, \<open>sprintf\<close> returns with exactly that text in
  the buffer, the bytes after it unchanged, and nothing else in the machine changed.\<close>

theorem sprintf_renders:
  assumes "render False fmt args = Some t" and "length t < length str" and "length str \<le> INT_MAX"
  shows "sprintf str fmt args w = Done (t @ NUL # drop (Suc (length t)) str) w"
  using vsprintf_render [OF assms(1), of 0 str w] assms(2,3)
  by (simp add: sprintf_def place_def)

lemma sprintf_renders_witness:
  "sprintf ''12345678'' ''vm %s'' [lit ''ok''] zero_world = Done (''vm ok'' @ NUL # ''78'') zero_world"
  by (subst sprintf_renders [of "''vm %s''" "[lit ''ok'']" "''vm ok''"]) (simp_all add: string_of_def)

text \<open>C37. A log call below the minimum level does nothing. Any other one, whose message fits, sends to
  COM1 the bytes of one line: level, file, line number, message and a newline.\<close>

theorem log_log_sends_one_line:
  assumes "render False fmt args = Some t" and "cstring t" and "length t < 0x100"
    and "cstring file" and "length file < 0x100" and "0 \<le> sint line"
  shows "log_log level file line fmt args w = Done () (if level < min_level w then w
    else w\<lparr>port_writes := port_writes w @ map (\<lambda>c. (COM1, of_char c))
      (''['' @ level_string level @ ''] '' @ file @ '':'' @ digits_text 10 line @ '': '' @ t @ [CHR 0x0A])\<rparr>)"
  using log_log_rendered [OF assms, of level w]
  by (simp add: logged_def emit_def log_line_def)

lemma log_log_sends_one_line_witness:
  "log_log DEBUG_LEVEL ''a.c'' 7 ''%s'' [lit ''x''] (zero_world\<lparr>min_level := INFO_LEVEL\<rparr>) =
    Done () (zero_world\<lparr>min_level := INFO_LEVEL\<rparr>)"
  by (subst log_log_sends_one_line [of "''%s''" "[lit ''x'']" "''x''"])
    (simp_all add: string_of_def less_log_level_def)

text \<open>C38. Neither \<open>sprintf\<close> nor the logger limits what it writes. For a format and arguments that have a text,
  \<open>sprintf\<close> runs over the end of its buffer exactly when the text with its terminator is longer than the
  buffer; and a log call that is not filtered does exactly when the message has \<open>0x100\<close> characters or
  more. With a shorter message every log call returns.\<close>

theorem messages_overflow_the_buffer:
  assumes "render False fmt args = Some t" and "length str \<le> INT_MAX"
    and "cstring t" and "cstring file" and "length file < 0x100" and "0 \<le> sint line"
  shows "(sprintf str fmt args w = Stop Undefined w \<longleftrightarrow> length str \<le> length t) \<and>
    (log_log level file line fmt args w = Stop Undefined w \<longleftrightarrow> min_level w \<le> level \<and> 0x100 \<le> length t) \<and>
    (length t < 0x100 \<longrightarrow> (\<exists>w'. log_log level file line fmt args w = Done () w'))"
proof (intro conjI impI)
  have "sprintf str fmt args w = Stop Undefined w" if "length str \<le> length t"
    using vsprintf_overflow [OF assms(1), of 0 str w] assms(2) that by (simp add: sprintf_def)
  moreover have "sprintf str fmt args w \<noteq> Stop Undefined w" if "length t < length str"
    using vsprintf_render [OF assms(1), of 0 str w] assms(2) that by (simp add: sprintf_def)
  ultimately show "sprintf str fmt args w = Stop Undefined w \<longleftrightarrow> length str \<le> length t"
    by (cases "length str \<le> length t") simp_all
  have short: "log_log level file line fmt args w = Done () (logged level file line t w)" if "length t < 0x100"
    by (rule log_log_rendered [OF assms(1,3) that assms(4-6)])
  then show "\<exists>w'. log_log level file line fmt args w = Done () w'" if "length t < 0x100"
    using that by blast
  have "log_log level file line fmt args w = Stop Undefined w" if "0x100 \<le> length t" "min_level w \<le> level"
    using vsprintf_overflow [OF assms(1), of 0 "replicate 0x100 NUL" w] that
    unfolding log_log.simps length_replicate by (simp only: not_less [symmetric]) simp
  moreover have "log_log level file line fmt args w \<noteq> Stop Undefined w" if "length t < 0x100"
    unfolding short [OF that] by (rule res.distinct)
  moreover have "log_log level file line fmt args w \<noteq> Stop Undefined w" if "level < min_level w"
    unfolding log_log_filtered [OF that] by (rule res.distinct)
  ultimately show "log_log level file line fmt args w = Stop Undefined w \<longleftrightarrow> min_level w \<le> level \<and> 0x100 \<le> length t"
    by (meson not_le)
qed

lemma messages_overflow_the_buffer_witness:
  "sprintf ''12345'' ''vm %s'' [lit ''ok''] zero_world = Stop Undefined zero_world \<and>
   log_log INFO_LEVEL ''a.c'' 7 ''%s'' [lit (replicate 0x100 CHR ''a'')] zero_world = Stop Undefined zero_world"
proof
  show "sprintf ''12345'' ''vm %s'' [lit ''ok''] zero_world = Stop Undefined zero_world"
    using messages_overflow_the_buffer [of "''vm %s''" "[lit ''ok'']" "''vm ok''" "''12345''" "''a.c''" 7 zero_world]
    by (simp add: string_of_def)
  have "render False ''%s'' [lit (replicate 0x100 CHR ''a'')] = Some (replicate 0x100 CHR ''a'')"
    by simp
  from messages_overflow_the_buffer [OF this, of "[]" "''a.c''" 7 zero_world INFO_LEVEL]
  show "log_log INFO_LEVEL ''a.c'' 7 ''%s'' [lit (replicate 0x100 CHR ''a'')] zero_world = Stop Undefined zero_world"
    by (simp add: zero_world_def)
qed

text \<open>A \<open>%u\<close> makes every later integer of the same format unsigned: a negative second argument of
  \<open>%u %d\<close> is printed as a number from \<open>2 ^ 31\<close> on.\<close>

lemma unsigned_flag_sticks:
  assumes "80 \<le> length str" and "length str \<le> INT_MAX"
  shows "\<exists>rest. sprintf str ''%u %d'' [ArgInt a, ArgInt b] w =
    Done (unsigned_hex a @ '' '' @ digits_text 10 b @ NUL # rest) w"
proof -
  have i: "integer_text a 16 True = Some (unsigned_hex a)" "integer_text b 10 True = Some (digits_text 10 b)"
    by (rule unsigned_hex_text)
      (simp add: integer_text_def negative_def sign_text_def base_text_def magnitude_def)
  have r: "render False ''%u %d'' [ArgInt a, ArgInt b] = Some (unsigned_hex a @ '' '' @ digits_text 10 b)"
    using i by (simp add: conversion_base_def unsigned_hex_def)
  have "length (unsigned_hex a @ '' '' @ digits_text 10 b) < length str"
    using assms(1) integer_text_length [OF _ i(1)] integer_text_length [OF _ i(2)] by simp
  from vsprintf_render [OF r, of 0 str w] this assms(2) show ?thesis
    by (auto simp: sprintf_def place_def unsigned_hex_def)
qed

end
