(* ===== verification/Ept.thy ===== *)
theory Ept
  imports Log
begin

text \<open>
  The extended page tables: \<open>include/vmm/ept.h\<close> and \<open>src/vmm/ept.c\<close>.

  The tables are a structure in memory at the address \<open>epts\<close>: one PML4 table, one page-directory
  pointer table, four page directories and \<open>4 * 512\<close> page tables, each entry a qword of
  bit-fields. \<open>ept_walk\<close> is the specification of what the tables mean: the four-level walk of
  \<open>docs/ept.md\<close>, from the EPT pointer to the page of a guest-physical address. It translates, with
  the conjunction of the rights of the four entries, or finds an entry not present, or
  misconfigured, as a writable entry that is not readable is.

  The main facts are that \<open>initialize_extended_page_tables\<close> maps the first 4 GiB to themselves
  with all rights and write-back caching, if memory is clear where the code does not write
  (\<open>clear_tables\<close>), and that \<open>update_gpa_access_rights\<close> changes the rights of one page and of no other.
\<close>

section \<open>Data\<close>

abbreviation (input) MEMORY_SIZE :: nat where "MEMORY_SIZE \<equiv> 4"
abbreviation (input) TABLE_SIZE :: nat where "TABLE_SIZE \<equiv> 512"
abbreviation (input) EIGHT_BYTES :: nat where "EIGHT_BYTES \<equiv> 8"
abbreviation (input) NESTED_TABLES_COUNT :: qword_t where "NESTED_TABLES_COUNT \<equiv> 4"
abbreviation (input) PAGE_SIZE :: qword_t where "PAGE_SIZE \<equiv> 0x1000"
abbreviation (input) EPT_MEMORY_TYPE_UNCACHEABLE :: qword_t where "EPT_MEMORY_TYPE_UNCACHEABLE \<equiv> 0"
abbreviation (input) EPT_MEMORY_TYPE_WRITEBACK :: qword_t where "EPT_MEMORY_TYPE_WRITEBACK \<equiv> 6"

record ept_flags =
  read_access :: "1 word"
  write_access :: "1 word"
  supervisor_execute :: "1 word"
  memory_type :: "3 word"
  ignore_pat :: "1 word"
  accessed :: "1 word"
  dirty :: "1 word"
  user_execute :: "1 word"
  verify_guest_paging :: "1 word"
  paging_write_access :: "1 word"
  supervisor_shadow_stack :: "1 word"
  sub_page_write_prems :: "1 word"
  supress_ve :: "1 word"

definition no_flags :: ept_flags where
  "no_flags = \<lparr>read_access = 0, write_access = 0, supervisor_execute = 0, memory_type = 0,
     ignore_pat = 0, accessed = 0, dirty = 0, user_execute = 0, verify_guest_paging = 0,
     paging_write_access = 0, supervisor_shadow_stack = 0, sub_page_write_prems = 0,
     supress_ve = 0\<rparr>"

text \<open>The widths of the bit-fields of \<open>ept_entry_t\<close> and \<open>eptp_t\<close>, in their order.\<close>

definition ept_entry_widths :: "nat list" where
  "ept_entry_widths = [1, 1, 1, 3, 1, 1, 1, 1, 1, 1, 36, 4, 5, 1, 1, 1, 1, 1, 1, 1]"

definition eptp_widths :: "nat list" where
  "eptp_widths = [3, 3, 1, 1, 4, 36]"

text \<open>A packed structure of bit-fields with an alignment of eight bytes.\<close>

definition sizeof_bit_fields :: "nat list \<Rightarrow> nat" where
  "sizeof_bit_fields ws = 8 * ((sum_list ws + 63) div 64)"

definition pml4 :: "qword_t \<Rightarrow> qword_t" where "pml4 epts = epts"
definition pdpt :: "qword_t \<Rightarrow> qword_t" where "pdpt epts = epts + 0x1000"
definition pds :: "qword_t \<Rightarrow> qword_t" where "pds epts = epts + 0x2000"
definition pts :: "qword_t \<Rightarrow> qword_t" where "pts epts = epts + 0x6000"

definition sizeof_epts :: nat where
  "sizeof_epts = 8 * (TABLE_SIZE + TABLE_SIZE + TABLE_SIZE * MEMORY_SIZE +
     TABLE_SIZE * TABLE_SIZE * MEMORY_SIZE)"

definition entry_at :: "qword_t \<Rightarrow> nat \<Rightarrow> qword_t" where
  "entry_at table i = table + of_nat (8 * i)"

section \<open>Code\<close>

definition with_address :: "qword_t \<Rightarrow> qword_t \<Rightarrow> qword_t" where
  "with_address address x = set_field 12 36 (drop_bit 12 address) x"

definition set_entry_address :: "qword_t \<Rightarrow> qword_t \<Rightarrow> memory \<Rightarrow> memory" where
  "set_entry_address entry address m = store64 entry (with_address address (load64 m entry)) m"

text \<open>The assignments of \<open>set_entry_flags\<close>, the first one innermost.\<close>

definition with_flags :: "ept_flags \<Rightarrow> qword_t \<Rightarrow> qword_t" where
  "with_flags flags x =
     set_field 63 1 (ucast (supress_ve flags))
     (set_field 61 1 (ucast (sub_page_write_prems flags))
     (set_field 60 1 (ucast (supervisor_shadow_stack flags))
     (set_field 58 1 (ucast (paging_write_access flags))
     (set_field 57 1 (ucast (verify_guest_paging flags))
     (set_field 10 1 (ucast (user_execute flags))
     (set_field 9 1 (ucast (dirty flags))
     (set_field 6 1 (ucast (ignore_pat flags))
     (set_field 3 3 (ucast (memory_type flags))
     (set_field 2 1 (ucast (supervisor_execute flags))
     (set_field 1 1 (ucast (write_access flags))
     (set_field 0 1 (ucast (read_access flags)) x)))))))))))"

definition set_entry_flags :: "qword_t \<Rightarrow> ept_flags \<Rightarrow> memory \<Rightarrow> memory" where
  "set_entry_flags entry flags m = store64 entry (with_flags flags (load64 m entry)) m"

definition init_entry :: "qword_t \<Rightarrow> qword_t \<Rightarrow> ept_flags \<Rightarrow> memory \<Rightarrow> memory" where
  "init_entry entry address flags m = set_entry_flags entry flags (set_entry_address entry address m)"

definition initial_eptp :: "qword_t \<Rightarrow> qword_t" where
  "initial_eptp epts =
     set_field 12 36 (drop_bit 12 (pml4 epts))
     (set_field 3 3 (NESTED_TABLES_COUNT - 1)
     (set_field 0 3 EPT_MEMORY_TYPE_WRITEBACK 0))"

definition default_flags :: ept_flags where
  "default_flags = no_flags\<lparr>read_access := 1, write_access := 1, supervisor_execute := 1\<rparr>"

definition init_directories :: "qword_t \<Rightarrow> memory \<Rightarrow> memory" where
  "init_directories epts m =
     (let m = init_entry (entry_at (pml4 epts) 0) (pdpt epts) default_flags m;
          m = for_n MEMORY_SIZE (\<lambda>i.
                init_entry (entry_at (pdpt epts) i) (entry_at (pds epts) (i * TABLE_SIZE)) default_flags) m
      in for_n (MEMORY_SIZE * TABLE_SIZE) (\<lambda>i.
           init_entry (entry_at (pds epts) i) (entry_at (pts epts) (i * TABLE_SIZE)) default_flags) m)"

definition init_page_tables :: "qword_t \<Rightarrow> memory \<Rightarrow> memory \<times> qword_t" where
  "init_page_tables epts m =
     (let flags = default_flags\<lparr>memory_type := ucast EPT_MEMORY_TYPE_WRITEBACK\<rparr>
      in for_n (MEMORY_SIZE * TABLE_SIZE * TABLE_SIZE) (\<lambda>i (m, physical_address).
           (init_entry (entry_at (pts epts) i) physical_address flags m, physical_address + PAGE_SIZE))
         (m, 0))"

definition ept_c :: string where "ept_c = ''src/vmm/ept.c''"

definition initialize_extended_page_tables :: "qword_t \<Rightarrow> world \<Rightarrow> qword_t res" where
  "initialize_extended_page_tables epts w =
     bindR (ASSERT ept_c 18 ''(sizeof(ept_entry_t) == 8)''
              (\<not> sizeof_bit_fields ept_entry_widths = EIGHT_BYTES) w) (\<lambda>_ w.
     bindR (ASSERT ept_c 19 ''(sizeof(eptp_t) == 8)''
              (\<not> sizeof_bit_fields eptp_widths = EIGHT_BYTES) w) (\<lambda>_ w.
       Done (initial_eptp epts)
         (w\<lparr>mem := fst (init_page_tables epts (init_directories epts (mem w)))\<rparr>)))"

definition update_gpa_access_rights :: "qword_t \<Rightarrow> qword_t \<Rightarrow> ept_flags \<Rightarrow> world \<Rightarrow> unit res" where
  "update_gpa_access_rights epts gpa flags w =
     bindR (ASSERT ept_c 53 ''(gpa % 0x1000 == 0)'' (\<not> gpa mod PAGE_SIZE = 0) w) (\<lambda>_ w.
       let gpa_page = gpa div PAGE_SIZE
       in Done () (w\<lparr>mem := set_entry_flags (entry_at (pts epts) (unat gpa_page)) flags (mem w)\<rparr>))"

section \<open>Specification: the walk\<close>

record translation =
  host_address :: qword_t
  can_read :: bool
  can_write :: bool
  can_execute :: bool
  caching :: qword_t

definition entry_address :: "qword_t \<Rightarrow> qword_t" where
  "entry_address e = push_bit 12 (get_field 12 36 e)"

definition present :: "qword_t \<Rightarrow> bool" where
  "present e \<longleftrightarrow> get_field 0 3 e \<noteq> 0"

definition table_entry :: "memory \<Rightarrow> qword_t \<Rightarrow> nat \<Rightarrow> qword_t \<Rightarrow> qword_t" where
  "table_entry m table p gpa = load64 m (table + 8 * get_field p 9 gpa)"

text \<open>
  What the processor makes of an entry (SDM volume 3, chapter 28.2, physical addresses of 48 bits).
  The position \<open>p\<close> of the index in the address tells the level: 39, 30, 21 and 12 from the PML4 to
  the page tables. Bit 7 of an entry of the two middle levels makes it map a large page. An entry
  is misconfigured when it is writable or, unless the processor offers it (\<open>xo\<close>), executable without
  being readable, when a reserved bit is set, or when a page has a reserved caching type.
\<close>

datatype outcome = Translated translation | Not_Present | Misconfigured

definition maps_page :: "nat \<Rightarrow> qword_t \<Rightarrow> bool" where
  "maps_page p e \<longleftrightarrow> p = 12 \<or> p < 39 \<and> bit e 7"

definition misconfigured :: "bool \<Rightarrow> nat \<Rightarrow> qword_t \<Rightarrow> bool" where
  "misconfigured xo p e \<longleftrightarrow>
     \<not> bit e 0 \<and> (bit e 1 \<or> bit e 2 \<and> \<not> xo) \<or> list_ex (bit e) [48, 49, 50, 51] \<or>
     (if maps_page p e then get_field 3 3 e \<in> {2, 3, 7} \<or> get_field 12 (p - 12) e \<noteq> 0
      else list_ex (bit e) [3, 4, 5, 6] \<or> p = 39 \<and> bit e 7)"

primrec walk_levels :: "bool \<Rightarrow> memory \<Rightarrow> qword_t \<Rightarrow> nat list \<Rightarrow> qword_t \<Rightarrow> qword_t \<Rightarrow> outcome" where
  "walk_levels xo m gpa [] rights table = Misconfigured"
| "walk_levels xo m gpa (p # ps) rights table =
     (let e = table_entry m table p gpa; rights = rights AND e
      in if \<not> present e then Not_Present
         else if misconfigured xo p e then Misconfigured
         else if maps_page p e then Translated
           \<lparr>host_address = entry_address e + get_field 0 p gpa, can_read = bit rights 0,
            can_write = bit rights 1, can_execute = bit rights 2, caching = get_field 3 3 e\<rparr>
         else walk_levels xo m gpa ps rights (entry_address e))"

definition ept_walk :: "bool \<Rightarrow> memory \<Rightarrow> qword_t \<Rightarrow> qword_t \<Rightarrow> outcome" where
  "ept_walk xo m eptp gpa = walk_levels xo m gpa [39, 30, 21, 12] (- 1) (entry_address eptp)"

section \<open>Entries\<close>

lemma init_entry_eq:
  "init_entry e a flags m = store64 e (with_flags flags (with_address a (load64 m e))) m"
  by (simp add: init_entry_def set_entry_flags_def set_entry_address_def qword_cell.load_store
      qword_cell.store_store)

lemma address_with_flags [simp]: "get_field 12 36 (with_flags flags x) = get_field 12 36 x"
  by (simp add: with_flags_def)

lemma address_with_address [simp]:
  "get_field 12 36 (with_address a x) = take_bit 36 (drop_bit 12 a)"
  by (simp add: with_address_def)

lemma entry_address_with_flags [simp]: "entry_address (with_flags flags x) = entry_address x"
  by (simp add: entry_address_def)

lemma rights_with_flags [simp]:
  "bit (with_flags flags x) 0 = bit (read_access flags) 0"
  "bit (with_flags flags x) (Suc 0) = bit (write_access flags) 0"
  "bit (with_flags flags x) 2 = bit (supervisor_execute flags) 0"
  by (simp_all add: with_flags_def bit_set_field bit_simps)

lemma caching_with_flags [simp]:
  "get_field 3 3 (with_flags flags x) = ucast (memory_type flags)"
proof -
  have "get_field 3 3 (with_flags flags x) = take_bit 3 (ucast (memory_type flags))"
    by (simp add: with_flags_def)
  also have "\<dots> = ucast (memory_type flags)"
    by (rule bit_word_eqI) (auto simp: bit_simps dest: bit_imp_le_length)
  finally show ?thesis .
qed

text \<open>The unnamed bits of an entry keep what memory held.\<close>

lemma unnamed_bits [simp]:
  "bit (with_flags flags x) 7 = bit x 7" "bit (with_flags flags x) 48 = bit x 48"
  "bit (with_flags flags x) 49 = bit x 49" "bit (with_flags flags x) 50 = bit x 50"
  "bit (with_flags flags x) 51 = bit x 51"
  "bit (with_address a x) 7 = bit x 7" "bit (with_address a x) 48 = bit x 48"
  "bit (with_address a x) 49 = bit x 49" "bit (with_address a x) 50 = bit x 50"
  "bit (with_address a x) 51 = bit x 51"
  by (simp_all add: with_flags_def with_address_def bit_set_field bit_simps)

lemma caching_bits [simp]:
  "bit (with_flags flags x) 3 = bit (memory_type flags) 0"
  "bit (with_flags flags x) 4 = bit (memory_type flags) 1"
  "bit (with_flags flags x) 5 = bit (memory_type flags) 2"
  "bit (with_flags flags x) 6 = bit (ignore_pat flags) 0"
  by (simp_all add: with_flags_def bit_set_field bit_simps)

lemma get_field_0 [simp]: "get_field p 0 e = 0"
  by (simp add: get_field_def)

lemma present_iff: "present e \<longleftrightarrow> bit e 0 \<or> bit e 1 \<or> bit e 2"
proof -
  have "get_field 0 3 e = 0 \<longleftrightarrow> (\<forall>n < 3. \<not> bit e n)"
    by (auto simp: bit_eq_iff bit_get_field)
  then show ?thesis by (auto simp: present_def numeral_3_eq_3 less_Suc_eq numeral_2_eq_2)
qed

text \<open>Addresses an entry can hold: page aligned and below \<open>2 ^ 48\<close>.\<close>

definition page_address :: "qword_t \<Rightarrow> bool" where
  "page_address a \<longleftrightarrow> 4096 dvd unat a \<and> unat a < 2 ^ 48"

lemma page_address_bits:
  assumes "page_address a" and "bit a n"
  shows "12 \<le> n \<and> n < 48"
proof -
  have "take_bit 12 (unat a) = 0" and "take_bit 48 (unat a) = unat a"
    using assms(1) by (simp_all add: page_address_def take_bit_eq_mod)
  moreover have "bit (unat a) n" using assms(2) by (simp add: bit_unsigned_iff)
  ultimately show ?thesis by (metis bit_0_eq bit_take_bit_iff bot_apply linorder_not_less bot_bool_def)
qed

lemma entry_address_with_address:
  assumes "page_address a"
  shows "entry_address (with_address a x) = a"
proof (rule bit_word_eqI)
  fix n
  assume "n < LENGTH(64)"
  with page_address_bits [OF assms, of n] show "bit (entry_address (with_address a x)) n = bit a n"
    by (auto simp: entry_address_def bit_simps)
qed

lemma page_address_offset:
  assumes "page_address p" and "4096 dvd k" and "unat p + k < 2 ^ 48"
  shows "page_address (p + of_nat k)" and "unat (p + of_nat k) = unat p + k"
proof -
  show u: "unat (p + of_nat k) = unat p + k"
    using assms(3) by (simp add: unat_word_ariths unat_of_nat)
  show "page_address (p + of_nat k)"
    using assms by (simp add: page_address_def u)
qed

section \<open>The loops of the initialisation\<close>

lemma init_loop_entry:
  assumes "j < n" and "n \<le> 2 ^ 40"
  shows "load64 (for_n n (\<lambda>i. init_entry (entry_at t i) (a i) flags) m) (entry_at t j) =
    with_flags flags (with_address (a j) (load64 m (entry_at t j)))"
  unfolding init_entry_eq entry_at_def
  using assms by (intro qword_cell.update_loop_cell) simp_all

lemma init_loop_apart:
  "apart t (8 * n) x 8 \<Longrightarrow> load64 (for_n n (\<lambda>i. init_entry (entry_at t i) (a i) flags) m) x = load64 m x"
  unfolding init_entry_eq entry_at_def by (rule qword_cell.update_loop_apart)

lemma init_loop_byte:
  "8 * n \<le> unat (x - t) \<Longrightarrow> for_n n (\<lambda>i. init_entry (entry_at t i) (a i) flags) m x = m x"
  unfolding init_entry_eq entry_at_def by (rule qword_cell.update_loop_byte)

lemma init_entry_apart: "apart e 8 x 8 \<Longrightarrow> load64 (init_entry e a flags m) x = load64 m x"
  unfolding init_entry_eq by (rule qword_cell.load_store_apart)

lemma for_n_counter:
  "for_n n (\<lambda>i (m, pa). (g i pa m, pa + c)) (m, a) =
     (for_n n (\<lambda>i. g i (a + of_nat i * c)) m, a + of_nat n * c)"
  for c :: qword_t
  by (induction n) (simp_all add: algebra_simps)

lemma page_tables_loop:
  "fst (init_page_tables epts m) =
     for_n (4 * 512 * 512) (\<lambda>i. init_entry (entry_at (pts epts) i) (of_nat i * PAGE_SIZE)
       (default_flags\<lparr>memory_type := 6\<rparr>)) m"
  by (simp add: init_page_tables_def for_n_counter)

text \<open>Where the entries lie in the structure.\<close>

lemma entry_offsets:
  "entry_at (pml4 epts) i = epts + of_nat (8 * i)"
  "entry_at (pdpt epts) i = epts + of_nat (0x1000 + 8 * i)"
  "entry_at (pds epts) i = epts + of_nat (0x2000 + 8 * i)"
  "entry_at (pts epts) i = epts + of_nat (0x6000 + 8 * i)"
  by (simp_all add: entry_at_def pml4_def pdpt_def pds_def pts_def)

lemma table_offsets:
  "pml4 epts = epts + of_nat 0" "pdpt epts = epts + of_nat 0x1000"
  "pds epts = epts + of_nat 0x2000" "pts epts = epts + of_nat 0x6000"
  by (simp_all add: pml4_def pdpt_def pds_def pts_def)

definition initialized :: "qword_t \<Rightarrow> memory \<Rightarrow> memory" where
  "initialized epts m = fst (init_page_tables epts (init_directories epts m))"

lemma initialized_pml4:
  "load64 (initialized epts m) (entry_at (pml4 epts) 0) =
     with_flags default_flags (with_address (pdpt epts) (load64 m (entry_at (pml4 epts) 0)))"
proof -
  let ?e = "entry_at (pml4 epts) 0"
  have a: "apart (pts epts) (8 * (4 * 512 * 512)) ?e 8" "apart (pds epts) (8 * (4 * 512)) ?e 8"
      "apart (pdpt epts) (8 * 4) ?e 8"
    unfolding entry_offsets unfolding table_offsets by (rule apart_offsets; simp)+
  show ?thesis
    unfolding initialized_def page_tables_loop init_directories_def Let_def
    by (simp only: init_loop_apart [OF a(1)] init_loop_apart [OF a(2)] init_loop_apart [OF a(3)]
        init_entry_eq qword_cell.load_store)
qed

lemma initialized_pdpt:
  assumes "j < 4"
  shows "load64 (initialized epts m) (entry_at (pdpt epts) j) =
    with_flags default_flags
      (with_address (entry_at (pds epts) (j * 512)) (load64 m (entry_at (pdpt epts) j)))"
proof -
  let ?e = "entry_at (pdpt epts) j"
  have a: "apart (pts epts) (8 * (4 * 512 * 512)) ?e 8" "apart (pds epts) (8 * (4 * 512)) ?e 8"
    unfolding entry_offsets unfolding table_offsets by (rule apart_offsets; use assms in simp)+
  have b: "apart (entry_at (pml4 epts) 0) 8 ?e 8"
    unfolding entry_offsets by (rule apart_offsets; use assms in simp)
  have c: "(4 :: nat) \<le> 2 ^ 40" by simp
  show ?thesis
    unfolding initialized_def page_tables_loop init_directories_def Let_def
    by (simp only: init_loop_apart [OF a(1)] init_loop_apart [OF a(2)]
        init_loop_entry [OF assms c] init_entry_apart [OF b])
qed

lemma initialized_pds:
  assumes "j < 4 * 512"
  shows "load64 (initialized epts m) (entry_at (pds epts) j) =
    with_flags default_flags
      (with_address (entry_at (pts epts) (j * 512)) (load64 m (entry_at (pds epts) j)))"
proof -
  let ?e = "entry_at (pds epts) j"
  have a: "apart (pts epts) (8 * (4 * 512 * 512)) ?e 8" "apart (pdpt epts) (8 * 4) ?e 8"
    unfolding entry_offsets unfolding table_offsets by (rule apart_offsets; use assms in simp)+
  have b: "apart (entry_at (pml4 epts) 0) 8 ?e 8"
    unfolding entry_offsets by (rule apart_offsets; use assms in simp)
  have c: "(4 * 512 :: nat) \<le> 2 ^ 40" by simp
  show ?thesis
    unfolding initialized_def page_tables_loop init_directories_def Let_def
    by (simp only: init_loop_apart [OF a(1)] init_loop_apart [OF a(2)]
        init_loop_entry [OF assms c] init_entry_apart [OF b])
qed

lemma initialized_pts:
  assumes "j < 4 * 512 * 512"
  shows "load64 (initialized epts m) (entry_at (pts epts) j) =
    with_flags (default_flags\<lparr>memory_type := 6\<rparr>)
      (with_address (of_nat j * PAGE_SIZE) (load64 m (entry_at (pts epts) j)))"
proof -
  let ?e = "entry_at (pts epts) j"
  have a: "apart (pds epts) (8 * (4 * 512)) ?e 8" "apart (pdpt epts) (8 * 4) ?e 8"
    unfolding entry_offsets unfolding table_offsets by (rule apart_offsets; use assms in simp)+
  have b: "apart (entry_at (pml4 epts) 0) 8 ?e 8"
    unfolding entry_offsets by (rule apart_offsets; use assms in simp)
  have c: "(4 * 512 * 512 :: nat) \<le> 2 ^ 40" by simp
  show ?thesis
    unfolding initialized_def page_tables_loop init_directories_def Let_def
    by (simp only: init_loop_apart [OF a(1)] init_loop_apart [OF a(2)]
        init_loop_entry [OF assms c] init_entry_apart [OF b])
qed

section \<open>The walk through the initialised tables\<close>

text \<open>
  \<open>identity_directories\<close>: the three upper levels as the initialisation builds them. Under it the
  four-level walk is a flat lookup of the page-table entry that the page number selects.
\<close>

definition directory_ok :: "qword_t \<Rightarrow> qword_t \<Rightarrow> bool" where
  "directory_ok e a \<longleftrightarrow> entry_address e = a \<and> bit e 0 \<and> bit e 1 \<and> bit e 2 \<and>
     \<not> list_ex (bit e) [3, 4, 5, 6, 7, 48, 49, 50, 51]"

definition identity_directories :: "qword_t \<Rightarrow> memory \<Rightarrow> bool" where
  "identity_directories epts m \<longleftrightarrow>
     directory_ok (load64 m (entry_at (pml4 epts) 0)) (pdpt epts) \<and>
     (\<forall>j < 4. directory_ok (load64 m (entry_at (pdpt epts) j)) (entry_at (pds epts) (j * 512))) \<and>
     (\<forall>j < 4 * 512. directory_ok (load64 m (entry_at (pds epts) j)) (entry_at (pts epts) (j * 512)))"

definition page_number :: "qword_t \<Rightarrow> nat" where
  "page_number gpa = unat gpa div 4096"

definition leaf_translation :: "bool \<Rightarrow> qword_t \<Rightarrow> qword_t \<Rightarrow> outcome" where
  "leaf_translation xo e gpa =
     (if \<not> present e then Not_Present
      else if misconfigured xo 12 e then Misconfigured
      else Translated \<lparr>host_address = entry_address e + get_field 0 12 gpa,
        can_read = bit e 0, can_write = bit e 1, can_execute = bit e 2, caching = get_field 3 3 e\<rparr>)"

definition epts_placed :: "qword_t \<Rightarrow> bool" where
  "epts_placed epts \<longleftrightarrow> page_address epts \<and> unat epts + sizeof_epts \<le> 2 ^ 48"

lemma unat_get_field: "unat (get_field p w x) = unat x div 2 ^ p mod 2 ^ w"
  unfolding get_field_def unsigned_take_bit_eq unat_drop_bit_eq
  by (simp add: take_bit_eq_mod drop_bit_eq_div)

lemma of_nat_get_field: "(of_nat (unat x div 2 ^ p mod 2 ^ w) :: qword_t) = get_field p w x"
  by (simp add: unat_get_field [symmetric])

lemma table_entry_eq:
  "table_entry m table p gpa = load64 m (entry_at table (unat gpa div 2 ^ p mod 512))"
  using of_nat_get_field [of gpa p 9] by (simp add: table_entry_def entry_at_def)

lemma entry_at_entry_at: "entry_at (entry_at t i) j = entry_at t (i + j)"
  by (simp add: entry_at_def algebra_simps)

lemma walk_indices:
  fixes g :: nat
  assumes "g < 2 ^ 32"
  shows "g div 2 ^ 39 mod 512 = 0"
    and "g div 2 ^ 30 mod 512 = g div 2 ^ 30" and "g div 2 ^ 30 < 4"
    and "g div 2 ^ 30 * 512 + g div 2 ^ 21 mod 512 = g div 2 ^ 21" and "g div 2 ^ 21 < 4 * 512"
    and "g div 2 ^ 21 * 512 + g div 2 ^ 12 mod 512 = g div 4096" and "g div 4096 < 4 * 512 * 512"
proof -
  have d: "g div 2 ^ 30 = g div 2 ^ 21 div 512" "g div 2 ^ 21 = g div 2 ^ 12 div 512"
    by (simp_all add: div_mult2_eq [symmetric])
  show "g div 2 ^ 39 mod 512 = 0" and "g div 2 ^ 30 mod 512 = g div 2 ^ 30" and "g div 2 ^ 30 < 4"
    and "g div 2 ^ 21 < 4 * 512" and "g div 4096 < 4 * 512 * 512"
    using assms by (simp_all add: less_mult_imp_div_less)
  show "g div 2 ^ 30 * 512 + g div 2 ^ 21 mod 512 = g div 2 ^ 21"
    unfolding d(1) by simp
  show "g div 2 ^ 21 * 512 + g div 2 ^ 12 mod 512 = g div 4096"
    unfolding d(2) by simp
qed

lemma entry_address_initial_eptp:
  "page_address epts \<Longrightarrow> entry_address (initial_eptp epts) = pml4 epts"
  using entry_address_with_address [of epts]
  by (simp add: initial_eptp_def with_address_def pml4_def)

text \<open>One level down.\<close>

lemma walk_levels_down:
  assumes "directory_ok e a" and "table_entry m table p gpa = e" and "p \<noteq> 12"
  shows "walk_levels xo m gpa (p # ps) rights table = walk_levels xo m gpa ps (rights AND e) (entry_address e)"
  using assms
  by (simp add: directory_ok_def present_iff misconfigured_def maps_page_def)

lemma walk_flat:
  assumes "identity_directories epts m" and "page_address epts" and "unat gpa < 2 ^ 32"
  shows "ept_walk xo m (initial_eptp epts) gpa =
    leaf_translation xo (load64 m (entry_at (pts epts) (page_number gpa))) gpa"
proof -
  note i = walk_indices [OF assms(3)]
  let ?e4 = "load64 m (entry_at (pml4 epts) 0)"
  let ?e3 = "load64 m (entry_at (pdpt epts) (unat gpa div 2 ^ 30))"
  let ?e2 = "load64 m (entry_at (pds epts) (unat gpa div 2 ^ 21))"
  let ?e1 = "load64 m (entry_at (pts epts) (page_number gpa))"
  have 4: "table_entry m (entry_address (initial_eptp epts)) 39 gpa = ?e4"
    by (simp only: table_entry_eq entry_address_initial_eptp [OF assms(2)] i)
  have d4: "directory_ok ?e4 (pdpt epts)"
    using assms(1) by (simp add: identity_directories_def)
  then have 3: "table_entry m (entry_address ?e4) 30 gpa = ?e3"
    by (simp only: table_entry_eq directory_ok_def i)
  have d3: "directory_ok ?e3 (entry_at (pds epts) (unat gpa div 2 ^ 30 * 512))"
    using assms(1) i(3) unfolding identity_directories_def by blast
  then have 2: "table_entry m (entry_address ?e3) 21 gpa = ?e2"
    by (simp only: table_entry_eq directory_ok_def entry_at_entry_at i)
  have d2: "directory_ok ?e2 (entry_at (pts epts) (unat gpa div 2 ^ 21 * 512))"
    using assms(1) i(5) unfolding identity_directories_def by blast
  then have 1: "table_entry m (entry_address ?e2) 12 gpa = ?e1"
    by (simp only: table_entry_eq directory_ok_def entry_at_entry_at i page_number_def)
  note step = walk_levels.simps(2) Let_def
  have "walk_levels xo m gpa [12] (((- 1 AND ?e4) AND ?e3) AND ?e2) (entry_address ?e2) =
      leaf_translation xo ?e1 gpa"
    using d4 d3 d2 unfolding step 1
    by (simp add: leaf_translation_def directory_ok_def maps_page_def bit_and_iff)
  moreover note down = walk_levels_down [OF d2] walk_levels_down [OF d3] walk_levels_down [OF d4]
  ultimately show ?thesis
    unfolding ept_walk_def by (simp only: down 4 3 2 refl)
qed

lemma default_rights:
  "bit (read_access default_flags) 0" "bit (write_access default_flags) 0"
  "bit (supervisor_execute default_flags) 0"
  "memory_type default_flags = 0" "ignore_pat default_flags = 0"
  by (simp_all add: default_flags_def no_flags_def)

definition unnamed_bits_clear :: "qword_t \<Rightarrow> bool" where
  "unnamed_bits_clear e \<longleftrightarrow> \<not> list_ex (bit e) [7, 48, 49, 50, 51]"

lemma directory_okI:
  "page_address a \<Longrightarrow> unnamed_bits_clear x \<Longrightarrow> directory_ok (with_flags default_flags (with_address a x)) a"
  by (simp add: directory_ok_def entry_address_with_address default_rights unnamed_bits_clear_def)

text \<open>Memory in which every qword of the structure has its unnamed bits clear, such as zeroed memory.\<close>

definition clear_tables :: "qword_t \<Rightarrow> memory \<Rightarrow> bool" where
  "clear_tables epts m \<longleftrightarrow> (\<forall>i < sizeof_epts div 8. unnamed_bits_clear (load64 m (epts + of_nat (8 * i))))"

lemma clear_tables_entry:
  assumes "clear_tables epts m"
  shows "unnamed_bits_clear (load64 m (entry_at (pml4 epts) 0))"
    and "j < 4 \<Longrightarrow> unnamed_bits_clear (load64 m (entry_at (pdpt epts) j))"
    and "j < 4 * 512 \<Longrightarrow> unnamed_bits_clear (load64 m (entry_at (pds epts) j))"
    and "j < 4 * 512 * 512 \<Longrightarrow> unnamed_bits_clear (load64 m (entry_at (pts epts) j))"
proof -
  have c: "unnamed_bits_clear (load64 m (epts + of_nat (8 * i)))" if "i < 0x100C00" for i
    using assms that by (simp add: clear_tables_def sizeof_epts_def)
  have o: "0x1000 + 8 * j = 8 * (0x200 + j)" "0x2000 + 8 * j = 8 * (0x400 + j)"
      "0x6000 + 8 * j = 8 * (0xC00 + j)"
    by simp_all
  show "unnamed_bits_clear (load64 m (entry_at (pml4 epts) 0))"
    unfolding entry_offsets by (rule c) simp
  show "j < 4 \<Longrightarrow> unnamed_bits_clear (load64 m (entry_at (pdpt epts) j))"
    unfolding entry_offsets o by (rule c) simp
  show "j < 4 * 512 \<Longrightarrow> unnamed_bits_clear (load64 m (entry_at (pds epts) j))"
    unfolding entry_offsets o by (rule c) simp
  show "j < 4 * 512 * 512 \<Longrightarrow> unnamed_bits_clear (load64 m (entry_at (pts epts) j))"
    unfolding entry_offsets o by (rule c) simp
qed

lemma entry_at_page:
  assumes "epts_placed epts" and "0x6000 + 8 * (i * 512) < sizeof_epts"
  shows "page_address (entry_at (pds epts) (i * 512))" and "page_address (entry_at (pts epts) (i * 512))"
proof -
  have p: "page_address epts" and b: "unat epts + sizeof_epts \<le> 2 ^ 48"
    using assms(1) by (auto simp: epts_placed_def)
  have "8 * (i * 512) = 4096 * i" by simp
  then have d: "4096 dvd 0x2000 + 8 * (i * 512)" "4096 dvd 0x6000 + 8 * (i * 512)"
    by (simp_all add: dvd_add)
  show "page_address (entry_at (pds epts) (i * 512))"
    unfolding entry_offsets using p d(1) b assms(2) by (intro page_address_offset) simp_all
  show "page_address (entry_at (pts epts) (i * 512))"
    unfolding entry_offsets using p d(2) b assms(2) by (intro page_address_offset) simp_all
qed

lemma initialized_directories:
  assumes "epts_placed epts" and "clear_tables epts m"
  shows "identity_directories epts (initialized epts m)"
proof -
  have p: "page_address epts" and b: "unat epts + sizeof_epts \<le> 2 ^ 48"
    using assms(1) by (auto simp: epts_placed_def)
  have "page_address (pdpt epts)"
    unfolding table_offsets using p b by (intro page_address_offset) (simp_all add: sizeof_epts_def)
  then have "directory_ok (load64 (initialized epts m) (entry_at (pml4 epts) 0)) (pdpt epts)"
    unfolding initialized_pml4 by (rule directory_okI) (rule clear_tables_entry [OF assms(2)])
  moreover have "directory_ok (load64 (initialized epts m) (entry_at (pdpt epts) j)) (entry_at (pds epts) (j * 512))"
    if "j < 4" for j
    unfolding initialized_pdpt [OF that]
    using that by (intro directory_okI entry_at_page [OF assms(1)] clear_tables_entry [OF assms(2)]) (simp_all add: sizeof_epts_def)
  moreover have "directory_ok (load64 (initialized epts m) (entry_at (pds epts) j)) (entry_at (pts epts) (j * 512))"
    if "j < 4 * 512" for j
    unfolding initialized_pds [OF that]
    using that by (intro directory_okI entry_at_page [OF assms(1)] clear_tables_entry [OF assms(2)]) (simp_all add: sizeof_epts_def)
  ultimately show ?thesis by (simp add: identity_directories_def)
qed

lemma initialized_leaf:
  assumes "unat gpa < 2 ^ 32" and "clear_tables epts m"
  shows "leaf_translation xo (load64 (initialized epts m) (entry_at (pts epts) (page_number gpa))) gpa =
    Translated \<lparr>host_address = gpa, can_read = True, can_write = True, can_execute = True,
      caching = EPT_MEMORY_TYPE_WRITEBACK\<rparr>"
proof -
  let ?j = "page_number gpa"
  have j: "?j < 4 * 512 * 512"
    unfolding page_number_def by (rule walk_indices(7) [OF assms(1)])
  have u: "unat (of_nat ?j * PAGE_SIZE :: qword_t) = ?j * 4096"
    using j by (simp add: unat_word_ariths unat_of_nat)
  have "page_address (of_nat ?j * PAGE_SIZE)"
    using j by (simp add: page_address_def u)
  moreover have "of_nat ?j * PAGE_SIZE + get_field 0 12 gpa = gpa"
  proof -
    have "unat (get_field 0 12 gpa) = unat gpa mod 4096"
      using unat_get_field [of 0 12 gpa] by simp
    moreover have "?j * 4096 + unat gpa mod 4096 = unat gpa"
      by (simp add: page_number_def)
    ultimately show ?thesis
      using unat_lt64 [of gpa] by (simp add: word_unat_eq_iff unat_word_ariths(1) u)
  qed
  ultimately show ?thesis
    unfolding initialized_pts [OF j] leaf_translation_def present_iff
    using clear_tables_entry(4) [OF assms(2) j]
    by (simp add: entry_address_with_address default_flags_def no_flags_def misconfigured_def
        maps_page_def unnamed_bits_clear_def)
qed

lemma initialized_leaf_clear:
  assumes "unat gpa < 2 ^ 32" and "clear_tables epts m"
  shows "unnamed_bits_clear (load64 (initialized epts m) (entry_at (pts epts) (page_number gpa)))"
proof -
  have j: "page_number gpa < 4 * 512 * 512"
    unfolding page_number_def by (rule walk_indices(7) [OF assms(1)])
  show ?thesis
    using clear_tables_entry(4) [OF assms(2) j]
    by (simp add: initialized_pts [OF j] unnamed_bits_clear_def)
qed

lemma initialize_eq:
  "initialize_extended_page_tables epts w = Done (initial_eptp epts) (w\<lparr>mem := initialized epts (mem w)\<rparr>)"
  by (simp add: initialize_extended_page_tables_def ASSERT_def initialized_def
      sizeof_bit_fields_def ept_entry_widths_def eptp_widths_def)

text \<open>Nothing outside the structure changes, and the entries of equal structures are equal.\<close>

lemma initialized_outside:
  assumes "sizeof_epts \<le> unat (x - epts)"
  shows "initialized epts m x = m x"
proof -
  have out: "8 * n \<le> unat (x - (epts + of_nat k))" if "k + 8 * n \<le> sizeof_epts" for k n
  proof -
    have k: "unat (of_nat k :: qword_t) = k"
      using that unat_lt64 [of "x - epts"] assms by (intro unat_of_nat_small) linarith
    have "x - (epts + of_nat k) = x - epts - of_nat k" by simp
    also have "unat \<dots> = unat (x - epts) - k"
      using that assms k by (subst unat_sub) (simp_all add: word_le_nat_alt)
    finally show ?thesis using that assms by linarith
  qed
  have o: "8 * (4 * 512 * 512) \<le> unat (x - pts epts)" "8 * (4 * 512) \<le> unat (x - pds epts)"
      "8 * 4 \<le> unat (x - pdpt epts)" "8 \<le> unat (x - entry_at (pml4 epts) 0)"
    using out [of "0x6000" "4 * 512 * 512"] out [of "0x2000" "4 * 512"] out [of "0x1000" 4] out [of 0 1]
    unfolding table_offsets by (simp_all add: sizeof_epts_def entry_at_def pml4_def)
  show ?thesis
    unfolding initialized_def page_tables_loop init_directories_def Let_def
    by (simp only: init_loop_byte [OF o(1)] init_loop_byte [OF o(2)] init_loop_byte [OF o(3)]
        init_entry_eq qword_cell.store_byte [OF o(4)])
qed

lemma structure_entry:
  assumes "\<And>x. unat (x - epts) < sizeof_epts \<Longrightarrow> m' x = m x" and "i < 0x100C00"
  shows "load64 m' (epts + of_nat (8 * i)) = load64 m (epts + of_nat (8 * i))"
proof (rule qword_cell.load_cong)
  fix j :: nat
  assume "j < 8"
  moreover have "epts + of_nat (8 * i) + of_nat j - epts = (of_nat (8 * i + j) :: qword_t)" by simp
  moreover have "unat (of_nat (8 * i + j) :: qword_t) = 8 * i + j"
    using assms(2) \<open>j < 8\<close> by (intro unat_of_nat_small) simp
  ultimately show "m' (epts + of_nat (8 * i) + of_nat j) = m (epts + of_nat (8 * i) + of_nat j)"
    using assms(2) by (intro assms(1)) (simp only: sizeof_epts_def, simp)
qed

lemma clear_tables_cong:
  assumes "\<And>x. unat (x - epts) < sizeof_epts \<Longrightarrow> m' x = m x" and "clear_tables epts m"
  shows "clear_tables epts m'"
  unfolding clear_tables_def
proof (intro allI impI)
  fix i
  assume i: "i < sizeof_epts div 8"
  then have "i < 0x100C00" by (simp add: sizeof_epts_def)
  from structure_entry [OF assms(1) this] i assms(2)
  show "unnamed_bits_clear (load64 m' (epts + of_nat (8 * i)))"
    by (simp add: clear_tables_def del: of_nat_mult)
qed

lemma table_positions:
  "entry_at (pml4 epts) 0 = epts + of_nat (8 * 0)"
  "entry_at (pdpt epts) j = epts + of_nat (8 * (0x200 + j))"
  "entry_at (pds epts) j = epts + of_nat (8 * (0x400 + j))"
  "entry_at (pts epts) j = epts + of_nat (8 * (0xC00 + j))"
  by (simp_all add: entry_at_def pml4_def pdpt_def pds_def pts_def)

lemma same_entries:
  assumes "\<And>x. unat (x - epts) < sizeof_epts \<Longrightarrow> m' x = m x"
  shows "load64 m' (entry_at (pml4 epts) 0) = load64 m (entry_at (pml4 epts) 0)"
    and "j < 4 \<Longrightarrow> load64 m' (entry_at (pdpt epts) j) = load64 m (entry_at (pdpt epts) j)"
    and "j < 4 * 512 \<Longrightarrow> load64 m' (entry_at (pds epts) j) = load64 m (entry_at (pds epts) j)"
    and "j < 4 * 512 * 512 \<Longrightarrow> load64 m' (entry_at (pts epts) j) = load64 m (entry_at (pts epts) j)"
  unfolding table_positions by (rule structure_entry [OF assms]; simp)+

lemma identity_directories_cong:
  assumes "\<And>x. unat (x - epts) < sizeof_epts \<Longrightarrow> m' x = m x" and "identity_directories epts m"
  shows "identity_directories epts m'"
  using assms(2) by (simp add: identity_directories_def same_entries [OF assms(1)])

section \<open>Changing the rights of a page\<close>

text \<open>What a page with the given rights translates to.\<close>

definition page_outcome :: "bool \<Rightarrow> ept_flags \<Rightarrow> qword_t \<Rightarrow> outcome" where
  "page_outcome xo flags address =
     (if read_access flags = 0 \<and> write_access flags = 0 \<and> supervisor_execute flags = 0 then Not_Present
      else if read_access flags = 0 \<and> (write_access flags = 1 \<or> \<not> xo) \<or> memory_type flags \<in> {2, 3, 7}
      then Misconfigured
      else Translated \<lparr>host_address = address, can_read = (read_access flags = 1),
        can_write = (write_access flags = 1), can_execute = (supervisor_execute flags = 1),
        caching = ucast (memory_type flags)\<rparr>)"

lemma flag_cases: "b = 0 \<or> b = 1" for b :: "1 word"
proof -
  have "unat b < 2" using unsigned_less [of b] by simp
  then have "unat b = 0 \<or> unat b = 1" by linarith
  then show ?thesis by (metis unat_0 unat_1 word_unat_eq_iff)
qed

lemma bit_of_flag [simp]: "bit (b :: 1 word) 0 \<longleftrightarrow> b = 1"
  using flag_cases [of b] by auto

lemma flag_not_set [simp]: "b \<noteq> 1 \<longleftrightarrow> (b :: 1 word) = 0"
  using flag_cases [of b] by auto

lemma flag_set [simp]: "b \<noteq> 0 \<longleftrightarrow> (b :: 1 word) = 1"
  using flag_cases [of b] by auto

lemma caching_eq [simp]:
  "(ucast (t :: 3 word) = (2 :: qword_t)) = (t = 2)" "(ucast t = (3 :: qword_t)) = (t = 3)"
  "(ucast t = (7 :: qword_t)) = (t = 7)"
proof -
  have "(ucast t = (ucast u :: qword_t)) = (t = u)" for u :: "3 word"
  proof -
    have "unat v < 2 ^ 64" for v :: "3 word"
    proof -
      have "unat v < 2 ^ LENGTH(3)" by (rule unsigned_less)
      then show ?thesis by simp
    qed
    then show ?thesis by (simp add: word_unat_eq_iff unsigned_ucast_eq take_bit_nat_eq_self)
  qed
  from this [of 2] this [of 3] this [of 7] show
      "(ucast t = (2 :: qword_t)) = (t = 2)" "(ucast t = (3 :: qword_t)) = (t = 3)"
      "(ucast t = (7 :: qword_t)) = (t = 7)"
    by simp_all
qed

lemma with_flags_translation:
  assumes "unnamed_bits_clear e"
  shows "leaf_translation xo (with_flags flags e) gpa =
    page_outcome xo flags (entry_address e + get_field 0 12 gpa)"
  using assms
  by (auto simp: leaf_translation_def page_outcome_def present_iff misconfigured_def maps_page_def
      unnamed_bits_clear_def)

lemma update_eq:
  assumes "gpa mod PAGE_SIZE = 0"
  shows "update_gpa_access_rights epts gpa flags w =
    Done () (w\<lparr>mem := set_entry_flags (entry_at (pts epts) (page_number gpa)) flags (mem w)\<rparr>)"
  using assms by (simp add: update_gpa_access_rights_def page_number_def unat_div)

lemma set_entry_flags_apart:
  "apart e 8 x 8 \<Longrightarrow> load64 (set_entry_flags e flags m) x = load64 m x"
  unfolding set_entry_flags_def by (rule qword_cell.load_store_apart)

lemma set_entry_flags_same:
  "load64 (set_entry_flags e flags m) e = with_flags flags (load64 m e)"
  by (simp add: set_entry_flags_def qword_cell.load_store)

lemma leaf_entries_apart:
  assumes "i < 4 * 512 * 512"
  shows "j < 4 * 512 * 512 \<Longrightarrow> i \<noteq> j \<Longrightarrow> apart (entry_at (pts epts) i) 8 (entry_at (pts epts) j) 8"
    and "apart (entry_at (pts epts) i) 8 (entry_at (pml4 epts) 0) 8"
    and "j < 4 \<Longrightarrow> apart (entry_at (pts epts) i) 8 (entry_at (pdpt epts) j) 8"
    and "j < 4 * 512 \<Longrightarrow> apart (entry_at (pts epts) i) 8 (entry_at (pds epts) j) 8"
  unfolding entry_offsets by (rule apart_offsets; use assms in auto)+

lemma update_keeps_directories:
  assumes "identity_directories epts m" and "i < 4 * 512 * 512"
  shows "identity_directories epts (set_entry_flags (entry_at (pts epts) i) flags m)"
  using assms(1) unfolding identity_directories_def
  by (simp add: set_entry_flags_apart leaf_entries_apart [OF assms(2)])

lemma set_entry_flags_walk:
  assumes "identity_directories epts m" and "page_address epts"
    and "unat gpa < 2 ^ 32" and "unat g < 2 ^ 32"
    and "unnamed_bits_clear (load64 m (entry_at (pts epts) (page_number gpa)))"
  shows "ept_walk xo (set_entry_flags (entry_at (pts epts) (page_number gpa)) flags m) (initial_eptp epts) g =
    (if page_number g \<noteq> page_number gpa then ept_walk xo m (initial_eptp epts) g
     else page_outcome xo flags
       (entry_address (load64 m (entry_at (pts epts) (page_number gpa))) + get_field 0 12 g))"
proof -
  let ?m = "set_entry_flags (entry_at (pts epts) (page_number gpa)) flags m"
  have i: "page_number gpa < 4 * 512 * 512" "page_number g < 4 * 512 * 512"
    unfolding page_number_def by (rule walk_indices(7) [OF assms(3)], rule walk_indices(7) [OF assms(4)])
  have "ept_walk xo ?m (initial_eptp epts) g =
      leaf_translation xo (load64 ?m (entry_at (pts epts) (page_number g))) g"
    by (rule walk_flat [OF update_keeps_directories [OF assms(1) i(1)] assms(2,4)])
  moreover have "ept_walk xo m (initial_eptp epts) g =
      leaf_translation xo (load64 m (entry_at (pts epts) (page_number g))) g"
    by (rule walk_flat [OF assms(1,2,4)])
  ultimately show ?thesis
    using leaf_entries_apart(1) [OF i, of epts]
    by (auto simp: set_entry_flags_apart set_entry_flags_same with_flags_translation [OF assms(5)])
qed

lemma walk_cong:
  assumes "\<And>x. unat (x - epts) < sizeof_epts \<Longrightarrow> m' x = m x"
    and "identity_directories epts m" and "page_address epts" and "unat g < 2 ^ 32"
  shows "ept_walk xo m' (initial_eptp epts) g = ept_walk xo m (initial_eptp epts) g"
proof -
  have "page_number g < 4 * 512 * 512"
    unfolding page_number_def by (rule walk_indices(7) [OF assms(4)])
  with identity_directories_cong [OF assms(1,2)] assms(2) show ?thesis
    by (simp add: walk_flat [OF _ assms(3,4)] same_entries(4) [OF assms(1)])
qed

section \<open>Properties\<close>

text \<open>C11. Identity map. With the structure page aligned and below \<open>2 ^ 48\<close>, and its memory clear in the
  bits that the entries do not name, the initialisation returns, and the four-level walk from the
  EPT pointer it returns takes every guest-physical address below 4 GiB to itself, readable,
  writable, executable and cached write-back.\<close>

theorem ept_identity_map:
  assumes "epts_placed epts" and "clear_tables epts (mem w)" and "unat gpa < 2 ^ 32"
  shows "\<exists>eptp w'. initialize_extended_page_tables epts w = Done eptp w' \<and>
    ept_walk xo (mem w') eptp gpa =
      Translated \<lparr>host_address = gpa, can_read = True, can_write = True, can_execute = True,
        caching = EPT_MEMORY_TYPE_WRITEBACK\<rparr>"
proof -
  have "page_address epts" using assms(1) by (simp add: epts_placed_def)
  with assms show ?thesis
    by (simp add: initialize_eq walk_flat [OF initialized_directories] initialized_leaf)
qed

lemma example_epts_placed: "epts_placed 0x1002000"
  by (simp add: epts_placed_def page_address_def sizeof_epts_def)

lemma zero_memory_clear: "clear_tables epts (\<lambda>_. 0)"
proof -
  have "load64 (\<lambda>_. 0) a = 0" for a
    by (simp add: load64_def load_bytes_def upt_conv_Cons)
  then show ?thesis by (simp add: clear_tables_def unnamed_bits_clear_def)
qed

lemma ept_identity_map_witness:
  "\<exists>eptp w'. initialize_extended_page_tables 0x1002000 zero_world = Done eptp w' \<and>
    ept_walk False (mem w') eptp 0x1812345 =
      Translated \<lparr>host_address = 0x1812345, can_read = True, can_write = True, can_execute = True,
        caching = EPT_MEMORY_TYPE_WRITEBACK\<rparr>"
  by (rule ept_identity_map [OF example_epts_placed]) (simp_all add: zero_world_def zero_memory_clear)

text \<open>C10. Changing the rights of a page. On tables whose upper levels are as initialised, for a page
  aligned address below 4 GiB the call returns; after it, that page has the given rights and
  caching and the same host page, is not present when it has no right left, and is misconfigured
  when it is writable without being readable; every other page below 4 GiB is as before. The bits of the page's
  entry that have no field in \<open>ept_entry_t\<close> must be clear: the call keeps them as they are.\<close>

theorem update_gpa_access_rights_one_page:
  assumes "identity_directories epts (mem w)" and "page_address epts"
    and "gpa mod PAGE_SIZE = 0" and "unat gpa < 2 ^ 32" and "unat g < 2 ^ 32"
    and "unnamed_bits_clear (load64 (mem w) (entry_at (pts epts) (page_number gpa)))"
  shows "\<exists>w'. update_gpa_access_rights epts gpa flags w = Done () w' \<and>
    ept_walk xo (mem w') (initial_eptp epts) g =
      (if page_number g \<noteq> page_number gpa then ept_walk xo (mem w) (initial_eptp epts) g
       else page_outcome xo flags
         (entry_address (load64 (mem w) (entry_at (pts epts) (page_number gpa))) + get_field 0 12 g))"
  using set_entry_flags_walk [OF assms(1,2,4-6)] by (auto simp: update_eq [OF assms(3)])

lemma update_gpa_access_rights_one_page_witness:
  "\<exists>w'. update_gpa_access_rights 0x1002000 0x1812000 (no_flags\<lparr>write_access := 1\<rparr>)
      (zero_world\<lparr>mem := initialized 0x1002000 (\<lambda>_. 0)\<rparr>) = Done () w' \<and>
    ept_walk True (mem w') (initial_eptp 0x1002000) 0x1812345 = Misconfigured"
proof -
  have p: "page_address 0x1002000" by (simp add: page_address_def)
  have d: "identity_directories 0x1002000 (mem (zero_world\<lparr>mem := initialized 0x1002000 (\<lambda>_. 0)\<rparr>))"
    using initialized_directories [OF example_epts_placed zero_memory_clear] by simp
  have "0x1812000 mod PAGE_SIZE = 0" "unat (0x1812000 :: qword_t) < 2 ^ 32"
      "unat (0x1812345 :: qword_t) < 2 ^ 32"
    by simp_all
  moreover have "unnamed_bits_clear (load64 (mem (zero_world\<lparr>mem := initialized 0x1002000 (\<lambda>_. 0)\<rparr>))
      (entry_at (pts 0x1002000) (page_number 0x1812000)))"
    by (simp add: initialized_leaf_clear [OF _ zero_memory_clear])
  ultimately show ?thesis
    using update_gpa_access_rights_one_page [OF d p, of "0x1812000" "0x1812345" "no_flags\<lparr>write_access := 1\<rparr>" True]
    by (auto simp: page_number_def no_flags_def page_outcome_def)
qed

text \<open>An address that is not page aligned never changes a table: the assertion fails, the fatal
  message goes to the log and the call does not return.\<close>

lemma update_gpa_access_rights_unaligned:
  assumes "gpa mod PAGE_SIZE \<noteq> 0"
  shows "update_gpa_access_rights epts gpa flags w =
    Stop Halted (logged FATAL_LEVEL ept_c 53 ''Assertion failed: (gpa % 0x1000 == 0)'' w)"
  using assms ASSERT_fails [of "''(gpa % 0x1000 == 0)''" ept_c 53 w]
  by (simp add: update_gpa_access_rights_def log_ok_def ept_c_def)

text \<open>C29. The page number is not checked against the size of the tables. For a page-aligned address from 4 GiB
  on, below \<open>2 ^ 48\<close>, the call takes the qword where the entry would be for an entry, and stores it back with
  the rights of the flags. All eight bytes lie past the structure.\<close>

theorem update_gpa_access_rights_past_the_tables:
  assumes "gpa mod PAGE_SIZE = 0" and "2 ^ 32 \<le> unat gpa" and "unat gpa < 2 ^ 48"
    and "a = epts + of_nat (0x6000 + 8 * (unat gpa div 4096))"
    and "m = store64 a (with_flags flags (load64 (mem w) a)) (mem w)"
  shows "update_gpa_access_rights epts gpa flags w = Done () (w\<lparr>mem := m\<rparr>) \<and>
    bit (load64 m a) 0 = bit (read_access flags) 0 \<and> bit (load64 m a) 1 = bit (write_access flags) 0 \<and>
    bit (load64 m a) 2 = bit (supervisor_execute flags) 0 \<and>
    (\<forall>i < 8. sizeof_epts \<le> unat (a + of_nat i - epts))"
proof -
  have n: "4 * 512 * 512 \<le> unat gpa div 4096" "unat gpa div 4096 < 2 ^ 36"
    using assms(2,3) by (simp_all add: less_mult_imp_div_less less_eq_div_iff_mult_less_eq)
  have "sizeof_epts \<le> unat (a + of_nat i - epts)" if "i < 8" for i
  proof -
    have "a + of_nat i - epts = of_nat (0x6000 + 8 * (unat gpa div 4096) + i)" by (simp add: assms(4))
    moreover have "unat (of_nat (0x6000 + 8 * (unat gpa div 4096) + i) :: qword_t) =
        0x6000 + 8 * (unat gpa div 4096) + i"
      using n(2) that by (intro unat_of_nat_small) simp
    ultimately show ?thesis using n(1) by (simp only: sizeof_epts_def) simp
  qed
  moreover have "update_gpa_access_rights epts gpa flags w = Done () (w\<lparr>mem := m\<rparr>)"
    using update_eq [OF assms(1), of epts flags w] assms(4,5)
    by (simp add: set_entry_flags_def entry_offsets page_number_def)
  ultimately show ?thesis
    unfolding assms(5) by (simp add: qword_cell.load_store)
qed

lemma update_gpa_access_rights_past_the_tables_witness:
  "\<exists>m. update_gpa_access_rights 0x1002000 0x100000000 (no_flags\<lparr>write_access := 1\<rparr>) zero_world =
      Done () (zero_world\<lparr>mem := m\<rparr>) \<and> bit (load64 m 0x1808000) 1 \<and> load64 (mem zero_world) 0x1808000 = 0"
proof -
  have "(0x1808000 :: qword_t) = 0x1002000 + of_nat (0x6000 + 8 * (unat (0x100000000 :: qword_t) div 4096))"
    by simp
  moreover have "load64 (mem zero_world) 0x1808000 = 0"
    by (simp add: zero_world_def load64_def load_bytes_def upt_rec)
  ultimately show ?thesis
    using update_gpa_access_rights_past_the_tables [OF _ _ _ _ refl, of "0x100000000" "0x1808000" "0x1002000"
      "no_flags\<lparr>write_access := 1\<rparr>" zero_world]
    by auto
qed

end
