(* ===== verification/Msr_Bitmaps.thy ===== *)
theory Msr_Bitmaps
  imports Log
begin

text \<open>
  The MSR bitmaps of \<open>src/vmm/msr_bitmaps.c\<close>: one page that holds a bit for each read and each
  write of an MSR in two ranges of numbers. A set bit makes the access of the guest exit.

  The specification is a set of pairs of an access and an MSR number. \<open>monitored\<close> reads that set
  off the page as the processor does; \<open>monitor_rdmsr\<close> and \<open>monitor_wrmsr\<close> refine the insertion of
  one pair. The locale \<open>marking\<close> is the interface the callers use.
\<close>

section \<open>Code\<close>

abbreviation (input) MAX_LOW_MSR :: dword_t where "MAX_LOW_MSR \<equiv> 0x1FFF"
abbreviation (input) MIN_LOW_MSR :: dword_t where "MIN_LOW_MSR \<equiv> 0"
abbreviation (input) MAX_HIGH_MSR :: dword_t where "MAX_HIGH_MSR \<equiv> 0xC0001FFF"
abbreviation (input) MIN_HIGH_MSR :: dword_t where "MIN_HIGH_MSR \<equiv> 0xC0000000"
abbreviation (input) BITMAP_FOR_HIGH_MSRS :: dword_t where "BITMAP_FOR_HIGH_MSRS \<equiv> 1024"
abbreviation (input) BITMAP_FOR_WRMSR :: dword_t where "BITMAP_FOR_WRMSR \<equiv> 2048"

definition msr_bitmaps_c :: string where "msr_bitmaps_c = ''src/vmm/msr_bitmaps.c''"

text \<open>\<open>msr_bitmaps[msr_index] |= 1 << (msr & 0b0111)\<close>\<close>

definition set_msr_bit :: "qword_t \<Rightarrow> dword_t \<Rightarrow> dword_t \<Rightarrow> memory \<Rightarrow> memory" where
  "set_msr_bit msr_bitmaps msr_index msr m =
     (let a = msr_bitmaps + ucast msr_index
      in m(a := m a OR push_bit (unat (msr AND 0b0111)) 1))"

definition monitor_rdmsr :: "qword_t \<Rightarrow> dword_t \<Rightarrow> world \<Rightarrow> unit res" where
  "monitor_rdmsr msr_bitmaps msr w =
     (if \<not> ((MIN_LOW_MSR \<le> msr \<and> msr \<le> MAX_LOW_MSR) \<or> (MIN_HIGH_MSR \<le> msr \<and> msr \<le> MAX_HIGH_MSR))
      then PANIC msr_bitmaps_c 16 ''invalid MSR id'' [] w
      else
        let msr_index =
              if MIN_LOW_MSR \<le> msr \<and> msr \<le> MAX_LOW_MSR then msr div 8
              else (msr - 0xC0000000) div 8 + BITMAP_FOR_HIGH_MSRS
        in Done () (w\<lparr>mem := set_msr_bit msr_bitmaps msr_index msr (mem w)\<rparr>))"

definition monitor_wrmsr :: "qword_t \<Rightarrow> dword_t \<Rightarrow> world \<Rightarrow> unit res" where
  "monitor_wrmsr msr_bitmaps msr w =
     (if \<not> ((MIN_LOW_MSR \<le> msr \<and> msr \<le> MAX_LOW_MSR) \<or> (MIN_HIGH_MSR \<le> msr \<and> msr \<le> MAX_HIGH_MSR))
      then PANIC msr_bitmaps_c 29 ''invalid MSR id'' [] w
      else
        let msr_index =
              if MIN_LOW_MSR \<le> msr \<and> msr \<le> MAX_LOW_MSR then msr div 8 + BITMAP_FOR_WRMSR
              else (msr - 0xC0000000) div 8 + BITMAP_FOR_WRMSR + BITMAP_FOR_HIGH_MSRS
        in Done () (w\<lparr>mem := set_msr_bit msr_bitmaps msr_index msr (mem w)\<rparr>))"

section \<open>Specification: the set of monitored accesses\<close>

datatype msr_access = Read_Msr | Write_Msr

definition msr_in_range :: "dword_t \<Rightarrow> bool" where
  "msr_in_range msr \<longleftrightarrow> drop_bit 13 msr \<in> {0, 0x60000}"

text \<open>
  The four bitmaps of the page, 1024 bytes each: reads of low, reads of high, writes of low,
  writes of high MSRs. The low thirteen bits of the number select the bit.
\<close>

definition msr_bit_position :: "msr_access \<Rightarrow> dword_t \<Rightarrow> nat" where
  "msr_bit_position acc msr =
     (if acc = Write_Msr then 16384 else 0) + (if bit msr 31 then 8192 else 0) + unat (take_bit 13 msr)"

definition monitored :: "qword_t \<Rightarrow> memory \<Rightarrow> (msr_access \<times> dword_t) set" where
  "monitored msr_bitmaps m =
     {(acc, msr). msr_in_range msr \<and>
        bit (m (msr_bitmaps + of_nat (msr_bit_position acc msr div 8))) (msr_bit_position acc msr mod 8)}"

text \<open>The interface: a state with a set of marks, and an operation that adds one.\<close>

locale marking =
  fixes markable :: "'k \<Rightarrow> bool"
    and mark :: "'k \<Rightarrow> 's \<Rightarrow> 's"
    and marked :: "'s \<Rightarrow> 'k set"
  assumes marked_mark: "markable k \<Longrightarrow> marked (mark k s) = insert k (marked s)"
begin

lemma marked_fold: "list_all markable ks \<Longrightarrow> marked (fold mark ks s) = set ks \<union> marked s"
  by (induction ks arbitrary: s) (auto simp: marked_mark)

lemma marked_order:
  assumes "list_all markable ks" and "set ks = set js"
  shows "marked (fold mark ks s) = marked (fold mark js s)"
proof -
  have "list_all markable js" using assms by (simp add: list_all_iff)
  with assms show ?thesis by (simp add: marked_fold)
qed

end

section \<open>The code adds exactly one access\<close>

lemma msr_in_range_iff:
  "msr_in_range msr \<longleftrightarrow>
     (MIN_LOW_MSR \<le> msr \<and> msr \<le> MAX_LOW_MSR) \<or> (MIN_HIGH_MSR \<le> msr \<and> msr \<le> MAX_HIGH_MSR)"
proof -
  have "drop_bit 13 msr = 0 \<longleftrightarrow> unat msr < 8192"
    by (simp add: word_unat_eq_iff drop_bit_eq_div unat_div div_eq_0_iff)
  moreover have "drop_bit 13 msr = 0x60000 \<longleftrightarrow> 3221225472 \<le> unat msr \<and> unat msr < 3221233664"
    by (simp add: word_unat_eq_iff drop_bit_eq_div unat_div div_eq_range)
  ultimately show ?thesis
    by (auto simp: msr_in_range_def word_le_nat_alt)
qed

lemma msr_low:
  assumes "msr \<le> MAX_LOW_MSR"
  shows "\<not> bit msr 31" and "unat (take_bit 13 msr) = unat msr" and "unat msr < 8192"
proof -
  show u: "unat msr < 8192" using assms by (simp add: word_le_nat_alt)
  then show "unat (take_bit 13 msr) = unat msr" by (simp add: take_bit_eq_mod unat_mod)
  show "\<not> bit msr 31" using u by (simp add: bit_31)
qed

lemma msr_high:
  assumes "MIN_HIGH_MSR \<le> msr" and "msr \<le> MAX_HIGH_MSR"
  shows "bit msr 31" and "unat (take_bit 13 msr) = unat (msr - 0xC0000000)"
    and "unat (msr - 0xC0000000) < 8192"
proof -
  have u: "3221225472 \<le> unat msr" "unat msr < 3221233664"
    using assms by (simp_all add: word_le_nat_alt)
  then have d: "unat (msr - 0xC0000000) = unat msr - 3221225472"
    by (subst unat_sub) (simp_all add: word_le_nat_alt)
  then show b: "unat (msr - 0xC0000000) < 8192" using u by simp
  have "unat msr mod 8192 = (393216 * 8192 + unat (msr - 0xC0000000)) mod 8192"
    using u d by simp
  also have "\<dots> = unat (msr - 0xC0000000)"
    using b by (simp only: mod_mult_self3 mod_less)
  finally show "unat (take_bit 13 msr) = unat (msr - 0xC0000000)"
    by (simp add: take_bit_eq_mod unat_mod)
  show "bit msr 31" using u by (simp add: bit_31)
qed

text \<open>Distinct accesses in range have distinct bits, all of them inside the page.\<close>

lemma msr_number:
  assumes "msr_in_range msr"
  shows "unat msr = (if bit msr 31 then 3221225472 else 0) + unat (take_bit 13 msr)"
  using assms unfolding msr_in_range_iff
proof
  assume "MIN_LOW_MSR \<le> msr \<and> msr \<le> MAX_LOW_MSR"
  with msr_low [of msr] show ?thesis by simp
next
  assume h: "MIN_HIGH_MSR \<le> msr \<and> msr \<le> MAX_HIGH_MSR"
  then have "unat (msr - 0xC0000000) = unat msr - 3221225472" "3221225472 \<le> unat msr"
    by (simp_all add: unat_sub word_le_nat_alt)
  with h msr_high [of msr] show ?thesis by simp
qed

lemma take_bit_13_less: "unat (take_bit 13 (msr :: dword_t)) < 8192"
  by (simp add: take_bit_eq_mod unat_mod)

lemma msr_bit_position_less: "msr_bit_position acc msr < 32768"
  using take_bit_13_less [of msr] by (simp add: msr_bit_position_def)

lemma msr_bit_position_inject:
  assumes "msr_in_range msr" and "msr_in_range msr'"
  shows "msr_bit_position acc msr = msr_bit_position acc' msr' \<longleftrightarrow> acc = acc' \<and> msr = msr'"
proof
  assume e: "msr_bit_position acc msr = msr_bit_position acc' msr'"
  have b: "unat (take_bit 13 msr) < 8192" "unat (take_bit 13 msr') < 8192"
    by (rule take_bit_13_less)+
  have a: "(acc = Write_Msr) = (acc' = Write_Msr)"
    using e b by (auto simp: msr_bit_position_def split: if_splits)
  from this e b have h: "bit msr 31 = bit msr' 31"
    by (auto simp: msr_bit_position_def split: if_splits)
  from a h e have "unat (take_bit 13 msr) = unat (take_bit 13 msr')"
    by (auto simp: msr_bit_position_def split: if_splits)
  with h have "unat msr = unat msr'"
    using msr_number [OF assms(1)] msr_number [OF assms(2)] by simp
  with a show "acc = acc' \<and> msr = msr'"
    by (cases acc; cases acc') (simp_all add: word_unat_eq_iff)
qed simp

lemma position_bit:
  "unat (msr AND 7) = msr_bit_position acc msr mod 8"
proof -
  have "(7 :: dword_t) = mask 3" by (simp add: mask_eq_exp_minus_1)
  then have "msr AND 7 = take_bit 3 msr" by (simp add: take_bit_eq_mask)
  then have "unat (msr AND 7) = unat msr mod 8" by (simp add: take_bit_eq_mod unat_mod)
  moreover have "unat (take_bit 13 msr) mod 8 = unat msr mod 8"
    by (simp add: take_bit_eq_mod unat_mod mod_mod_cancel)
  moreover have "msr_bit_position acc msr mod 8 = unat (take_bit 13 msr) mod 8"
  proof -
    have "msr_bit_position acc msr = 
        ((if acc = Write_Msr then 2048 else 0) + (if bit msr 31 then 1024 else 0)) * 8 + unat (take_bit 13 msr)"
      by (simp add: msr_bit_position_def)
    then show ?thesis by (simp only: mod_mult_self3)
  qed
  ultimately show ?thesis by simp
qed

lemma monitored_set_msr_bit:
  assumes "msr_in_range msr" and "unat msr_index = msr_bit_position acc msr div 8"
  shows "monitored msr_bitmaps (set_msr_bit msr_bitmaps msr_index msr m) =
    insert (acc, msr) (monitored msr_bitmaps m)"
proof -
  let ?pos = "msr_bit_position acc msr"
  have i: "(ucast msr_index :: qword_t) = of_nat (?pos div 8)"
    using assms(2) by (metis of_nat_unat ucast_id unat_eq_nat_uint unsigned_of_nat unsigned_ucast_eq)
  have "bit (set_msr_bit msr_bitmaps msr_index msr m (msr_bitmaps + of_nat (k div 8))) (k mod 8) \<longleftrightarrow>
      k = ?pos \<or> bit (m (msr_bitmaps + of_nat (k div 8))) (k mod 8)" if "k < 32768" for k
  proof (cases "k div 8 = ?pos div 8")
    case True
    have "k mod 8 = ?pos mod 8 \<longleftrightarrow> k = ?pos"
      using True by (metis div_mod_decomp)
    moreover have "k mod 8 < 8" by simp
    ultimately show ?thesis
      by (auto simp: set_msr_bit_def Let_def i True position_bit [of msr acc] bit_simps)
  next
    case False
    have "of_nat (k div 8) \<noteq> (of_nat (?pos div 8) :: qword_t)"
    proof
      assume "of_nat (k div 8) = (of_nat (?pos div 8) :: qword_t)"
      then have "unat (of_nat (k div 8) :: qword_t) = unat (of_nat (?pos div 8) :: qword_t)" by simp
      with False that msr_bit_position_less [of acc msr] show False
        by (simp add: unat_of_nat_small less_mult_imp_div_less)
    qed
    with False show ?thesis by (auto simp: set_msr_bit_def Let_def i)
  qed
  then have "(a, x) \<in> monitored msr_bitmaps (set_msr_bit msr_bitmaps msr_index msr m) \<longleftrightarrow>
      (a, x) \<in> insert (acc, msr) (monitored msr_bitmaps m)" for a x
    using msr_bit_position_less [of a x] msr_bit_position_inject [OF _ assms(1), of x a acc] assms(1)
    by (auto simp: monitored_def)
  then show ?thesis by auto
qed

text \<open>What the two functions do to the page, with the byte index left implicit.\<close>

definition monitor :: "qword_t \<Rightarrow> msr_access \<times> dword_t \<Rightarrow> world \<Rightarrow> unit res" where
  "monitor msr_bitmaps = (\<lambda>(acc, msr).
     case acc of Read_Msr \<Rightarrow> monitor_rdmsr msr_bitmaps msr | Write_Msr \<Rightarrow> monitor_wrmsr msr_bitmaps msr)"

lemma monitor_in_range:
  assumes "msr_in_range msr"
  obtains msr_index where "unat msr_index = msr_bit_position acc msr div 8"
    and "monitor msr_bitmaps (acc, msr) w =
      Done () (w\<lparr>mem := set_msr_bit msr_bitmaps msr_index msr (mem w)\<rparr>)"
proof -
  let ?k = "if MIN_LOW_MSR \<le> msr \<and> msr \<le> MAX_LOW_MSR then msr else msr - 0xC0000000"
  let ?q = "(if acc = Write_Msr then BITMAP_FOR_WRMSR else 0) +
    (if MIN_LOW_MSR \<le> msr \<and> msr \<le> MAX_LOW_MSR then 0 else BITMAP_FOR_HIGH_MSRS)"
  have k: "unat ?k = unat (take_bit 13 msr)" "unat ?k < 8192"
      "bit msr 31 \<longleftrightarrow> \<not> (MIN_LOW_MSR \<le> msr \<and> msr \<le> MAX_LOW_MSR)"
    using assms msr_low [of msr] msr_high [of msr] by (auto simp: msr_in_range_iff)
  have "unat ?k div 8 < 1024" using k(2) by linarith
  then have "unat (?k div 8 + ?q) = unat (?k div 8) + unat ?q"
    by (intro unat_word_ariths(1) [THEN trans] mod_less) (auto simp: unat_div)
  also have "\<dots> = (unat ?q * 8 + unat (take_bit 13 msr)) div 8"
    unfolding k(1) [symmetric] unat_div by simp
  also have "unat ?q * 8 + unat (take_bit 13 msr) = msr_bit_position acc msr"
    unfolding msr_bit_position_def k(3) by simp
  finally have i: "unat (?k div 8 + ?q) = msr_bit_position acc msr div 8" .
  have "monitor msr_bitmaps (acc, msr) w =
      Done () (w\<lparr>mem := set_msr_bit msr_bitmaps (?k div 8 + ?q) msr (mem w)\<rparr>)"
    using assms by (cases acc) (auto simp: monitor_def monitor_rdmsr_def monitor_wrmsr_def
        msr_in_range_iff Let_def add.assoc)
  with i show ?thesis by (rule that)
qed

lemma set_msr_bit_frame:
  assumes "unat msr_index < 4096" and "4096 \<le> unat (x - msr_bitmaps)"
  shows "set_msr_bit msr_bitmaps msr_index msr m x = m x"
proof -
  have "x \<noteq> msr_bitmaps + ucast msr_index"
  proof
    assume "x = msr_bitmaps + ucast msr_index"
    then have "unat (x - msr_bitmaps) = unat msr_index" by (simp add: unat_dword)
    with assms show False by simp
  qed
  then show ?thesis by (simp add: set_msr_bit_def Let_def)
qed

lemma monitor_Done:
  assumes "msr_in_range msr"
  obtains w' where "monitor msr_bitmaps (acc, msr) w = Done () w'"
    and "monitored msr_bitmaps (mem w') = insert (acc, msr) (monitored msr_bitmaps (mem w))"
    and "\<And>x. 4096 \<le> unat (x - msr_bitmaps) \<Longrightarrow> mem w' x = mem w x"
    and "w'\<lparr>mem := mem w\<rparr> = w"
proof -
  obtain i where i: "unat i = msr_bit_position acc msr div 8" and
      d: "monitor msr_bitmaps (acc, msr) w = Done () (w\<lparr>mem := set_msr_bit msr_bitmaps i msr (mem w)\<rparr>)"
    using assms by (rule monitor_in_range)
  have "unat i < 4096" using msr_bit_position_less [of acc msr] by (simp add: i less_mult_imp_div_less)
  with monitored_set_msr_bit [OF assms i] show ?thesis
    by (intro that [OF d]) (simp_all add: set_msr_bit_frame)
qed

interpretation msr_page: marking "\<lambda>(acc, msr). msr_in_range msr"
    "\<lambda>k w. world_of (monitor msr_bitmaps k w)" "\<lambda>w. monitored msr_bitmaps (mem w)" for msr_bitmaps
proof
  fix k :: "msr_access \<times> dword_t" and w
  assume k: "case k of (acc, msr) \<Rightarrow> msr_in_range msr"
  obtain acc msr where e: "k = (acc, msr)" by (cases k)
  with k have r: "msr_in_range msr" by simp
  obtain w' where "monitor msr_bitmaps (acc, msr) w = Done () w'"
      "monitored msr_bitmaps (mem w') = insert (acc, msr) (monitored msr_bitmaps (mem w))"
    using r by (rule monitor_Done)
  then show "monitored msr_bitmaps (mem (world_of (monitor msr_bitmaps k w))) =
      insert k (monitored msr_bitmaps (mem w))"
    by (simp add: e)
qed

section \<open>Properties\<close>

text \<open>C16. Monitoring reads or writes of an MSR in range makes exactly that access exit, besides those that
  did before. No byte outside the page and no other part of the machine changes.\<close>

theorem monitor_inserts:
  assumes "msr_in_range msr"
  shows "\<exists>w'. (case acc of Read_Msr \<Rightarrow> monitor_rdmsr msr_bitmaps msr w
        | Write_Msr \<Rightarrow> monitor_wrmsr msr_bitmaps msr w) = Done () w' \<and>
    monitored msr_bitmaps (mem w') = insert (acc, msr) (monitored msr_bitmaps (mem w)) \<and>
    (\<forall>x. 4096 \<le> unat (x - msr_bitmaps) \<longrightarrow> mem w' x = mem w x) \<and> w'\<lparr>mem := mem w\<rparr> = w"
  by (rule monitor_Done [OF assms, where acc = acc, of msr_bitmaps w])
    (auto simp: monitor_def split: msr_access.splits)

lemma monitor_inserts_witness:
  "\<exists>w'. monitor_wrmsr 0x1808000 MSR_IA32_LSTAR zero_world = Done () w' \<and>
    (Write_Msr, MSR_IA32_LSTAR) \<in> monitored 0x1808000 (mem w')"
  using monitor_inserts [where msr = MSR_IA32_LSTAR and acc = Write_Msr and msr_bitmaps = "0x1808000" and w = zero_world] by (auto simp: msr_in_range_iff)

text \<open>For an MSR number outside the two ranges neither function writes to the page: the fatal
  message goes to the log and the call does not return.\<close>

lemma monitor_out_of_range:
  assumes "\<not> msr_in_range msr"
  shows "monitor_rdmsr msr_bitmaps msr w =
      Stop Halted (logged FATAL_LEVEL msr_bitmaps_c 16 ''invalid MSR id'' w) \<and>
    monitor_wrmsr msr_bitmaps msr w =
      Stop Halted (logged FATAL_LEVEL msr_bitmaps_c 29 ''invalid MSR id'' w)"
  using assms
  by (simp add: monitor_rdmsr_def monitor_wrmsr_def msr_in_range_iff PANIC_plain log_ok_def msr_bitmaps_c_def)

end
