(* ===== verification/Cpu_Data.thy ===== *)
theory Cpu_Data
  imports Ept Msr_Bitmaps
begin

text \<open>
  The structures of \<open>include/vmm/vmm.h\<close> and \<open>include/guest/syscalls.h\<close>: \<open>registers_t\<close>,
  \<open>guest_cpu_state_t\<close>, \<open>ssdt_t\<close> and \<open>cpu_data_t\<close>. Their offsets are computed from the sizes and
  alignments of the fields in the order of the declarations, as the compiler does.

  The guest's registers are the cells of \<open>registers_t\<close>: \<open>get_reg\<close> and \<open>set_reg\<close> read and assign
  one of them in memory. They are a file of numbered fields (the locale \<open>field_file\<close>).
\<close>

section \<open>Structures\<close>

definition align_up :: "nat \<Rightarrow> nat \<Rightarrow> nat" where
  "align_up n a = (n + a - 1) div a * a"

text \<open>The offsets of fields given by size and alignment, from a first free offset, and the end.\<close>

fun field_offsets :: "nat \<Rightarrow> (nat \<times> nat) list \<Rightarrow> nat list" where
  "field_offsets free [] = []"
| "field_offsets free ((n, a) # ms) =
     align_up free a # field_offsets (align_up free a + n) ms"

fun fields_end :: "nat \<Rightarrow> (nat \<times> nat) list \<Rightarrow> nat" where
  "fields_end free [] = free"
| "fields_end free ((n, a) # ms) = fields_end (align_up free a + n) ms"

abbreviation (input) PAGE_FRAME_SIZE :: nat where "PAGE_FRAME_SIZE \<equiv> 0x1000"
abbreviation (input) SSDT_SIZE :: nat where "SSDT_SIZE \<equiv> 512"
abbreviation (input) SSDT_ADDRESS :: qword_t where "SSDT_ADDRESS \<equiv> 0x1812000"

definition registers_fields :: "(nat \<times> nat) list" where
  "registers_fields = replicate 17 (8, 1)"

definition sizeof_registers :: nat where
  "sizeof_registers = align_up (fields_end 0 registers_fields) 4096"

definition sizeof_ssdt :: nat where
  "sizeof_ssdt = align_up (8 * SSDT_SIZE) 4096"

definition guest_cpu_state_fields :: "(nat \<times> nat) list" where
  "guest_cpu_state_fields =
     [(sizeof_registers, 4096), (8 * PAGE_FRAME_SIZE, 1), (sizeof_ssdt, 4096), (8, 8)]"

definition sizeof_guest_cpu_state :: nat where
  "sizeof_guest_cpu_state = align_up (fields_end 0 guest_cpu_state_fields) 4096"

definition cpu_data_fields :: "(nat \<times> nat) list" where
  "cpu_data_fields =
     [(PAGE_FRAME_SIZE, 1), (PAGE_FRAME_SIZE, 1), (sizeof_epts, 4096), (PAGE_FRAME_SIZE, 1),
      (sizeof_guest_cpu_state, 4096)]"

definition sizeof_cpu_data :: nat where
  "sizeof_cpu_data = align_up (fields_end 0 cpu_data_fields) 4096"

definition vmxon_region :: "qword_t \<Rightarrow> qword_t" where
  "vmxon_region cpu_data = cpu_data + of_nat (field_offsets 0 cpu_data_fields ! 0)"
definition vmcs_region :: "qword_t \<Rightarrow> qword_t" where
  "vmcs_region cpu_data = cpu_data + of_nat (field_offsets 0 cpu_data_fields ! 1)"
definition epts_of :: "qword_t \<Rightarrow> qword_t" where
  "epts_of cpu_data = cpu_data + of_nat (field_offsets 0 cpu_data_fields ! 2)"
definition msr_bitmaps_of :: "qword_t \<Rightarrow> qword_t" where
  "msr_bitmaps_of cpu_data = cpu_data + of_nat (field_offsets 0 cpu_data_fields ! 3)"
definition guest_cpu_state_of :: "qword_t \<Rightarrow> qword_t" where
  "guest_cpu_state_of cpu_data = cpu_data + of_nat (field_offsets 0 cpu_data_fields ! 4)"

definition registers_of :: "qword_t \<Rightarrow> qword_t" where
  "registers_of guest_state = guest_state + of_nat (field_offsets 0 guest_cpu_state_fields ! 0)"
definition stack_top :: "qword_t \<Rightarrow> qword_t" where
  "stack_top guest_state = guest_state + of_nat (field_offsets 0 guest_cpu_state_fields ! 1)"
definition ssdt_of :: "qword_t \<Rightarrow> qword_t" where
  "ssdt_of guest_state = guest_state + of_nat (field_offsets 0 guest_cpu_state_fields ! 2)"
definition cpu_data_pointer :: "qword_t \<Rightarrow> qword_t" where
  "cpu_data_pointer guest_state = guest_state + of_nat (field_offsets 0 guest_cpu_state_fields ! 3)"

text \<open>Their values.\<close>

lemma packed_end: "fields_end free (replicate n (8, 1)) = free + 8 * n"
  by (induction n arbitrary: free) (simp_all add: align_up_def)

lemma small_sizes [layout]:
  "sizeof_registers = 0x1000" "sizeof_ssdt = 0x1000" "sizeof_epts = 0x806000"
  by (simp_all add: sizeof_registers_def sizeof_ssdt_def sizeof_epts_def registers_fields_def
      packed_end [unfolded One_nat_def] align_up_def)

lemma sizes [layout]:
  "sizeof_guest_cpu_state = 0xB000" "sizeof_cpu_data = 0x814000"
  by (simp_all add: sizeof_guest_cpu_state_def sizeof_cpu_data_def cpu_data_fields_def
      guest_cpu_state_fields_def layout align_up_def)

lemma guest_cpu_state_layout [layout]:
  "registers_of gs = gs" "stack_top gs = gs + 0x1000" "ssdt_of gs = gs + 0x9000"
  "cpu_data_pointer gs = gs + 0xA000"
  by (simp_all add: registers_of_def stack_top_def ssdt_of_def cpu_data_pointer_def
      guest_cpu_state_fields_def layout align_up_def nth_Cons')

lemma cpu_data_layout [layout]:
  "vmxon_region cd = cd" "vmcs_region cd = cd + 0x1000" "epts_of cd = cd + 0x2000"
  "msr_bitmaps_of cd = cd + 0x808000" "guest_cpu_state_of cd = cd + 0x809000"
  by (simp_all add: vmxon_region_def vmcs_region_def epts_of_def msr_bitmaps_of_def
      guest_cpu_state_of_def cpu_data_fields_def layout align_up_def nth_Cons')

section \<open>The guest's registers\<close>

datatype register = RAX | RBX | RCX | RDX | RSI | RDI | RBP | R8 | R9 | R10 | R11 | R12 | R13
  | R14 | R15 | RSP | RIP

definition register_order :: "register list" where
  "register_order = [RAX, RBX, RCX, RDX, RSI, RDI, RBP, R8, R9, R10, R11, R12, R13, R14, R15, RSP, RIP]"

primrec register_index :: "register \<Rightarrow> nat" where
  "register_index RAX = 0" | "register_index RBX = 1" | "register_index RCX = 2"
| "register_index RDX = 3" | "register_index RSI = 4" | "register_index RDI = 5"
| "register_index RBP = 6" | "register_index R8 = 7" | "register_index R9 = 8"
| "register_index R10 = 9" | "register_index R11 = 10" | "register_index R12 = 11"
| "register_index R13 = 12" | "register_index R14 = 13" | "register_index R15 = 14"
| "register_index RSP = 15" | "register_index RIP = 16"

definition register_offset :: "register \<Rightarrow> nat" where
  "register_offset r = field_offsets 0 registers_fields ! register_index r"

definition get_reg :: "qword_t \<Rightarrow> register \<Rightarrow> memory \<Rightarrow> qword_t" where
  "get_reg gs r m = load64 m (registers_of gs + of_nat (register_offset r))"

definition set_reg :: "qword_t \<Rightarrow> register \<Rightarrow> qword_t \<Rightarrow> memory \<Rightarrow> memory" where
  "set_reg gs r v m = store64 (registers_of gs + of_nat (register_offset r)) v m"

lemma register_index_less: "register_index r < 17"
  by (cases r) simp_all

lemma register_index_inject [simp]: "register_index r = register_index s \<longleftrightarrow> r = s"
  by (cases r; cases s) simp_all

lemma register_index_order: "register_order ! register_index r = r"
  by (cases r) (simp_all add: register_order_def nth_Cons')

lemma packed_offsets: "i < n \<Longrightarrow> field_offsets free (replicate n (8, 1)) ! i = free + 8 * i"
  by (induction n arbitrary: free i) (auto simp: align_up_def nth_Cons' split: nat.splits)

lemma register_offset [layout]: "register_offset r = 8 * register_index r"
  unfolding register_offset_def registers_fields_def
  by (subst packed_offsets [OF register_index_less]) simp

lemma registers_apart:
  assumes "r \<noteq> s"
  shows "apart (registers_of gs + of_nat (register_offset r)) 8 (registers_of gs + of_nat (register_offset s)) 8"
  unfolding register_offset
  using assms register_index_less [of r] register_index_less [of s]
  by (intro qword_cell.cells_apart) simp_all

interpretation guest_registers: field_file "\<lambda>_. True" "(\<noteq>)" "\<lambda>_ v. v" "get_reg gs" "set_reg gs" for gs
  by unfold_locales
    (simp_all add: get_reg_def set_reg_def qword_cell.load_store qword_cell.load_store_apart registers_apart)

declare guest_registers.get_put [simp] guest_registers.get_put_other [simp]

text \<open>A register assignment stays inside the registers page.\<close>

lemma set_reg_byte: "136 \<le> unat (x - gs) \<Longrightarrow> set_reg gs r v m x = m x"
  using qword_cell.store_outside [of "8 * register_index r" 136 x gs v m] register_index_less [of r]
  by (simp add: set_reg_def layout del: of_nat_mult)

lemma set_reg_load64:
  assumes "136 \<le> off" and "off + 8 \<le> 2 ^ 64"
  shows "load64 (set_reg gs r v m) (gs + of_nat off) = load64 m (gs + of_nat off)"
proof -
  have "apart (gs + of_nat (8 * register_index r)) 8 (gs + of_nat off) 8"
    using assms register_index_less [of r] by (intro apart_offsets) simp_all
  then show ?thesis
    by (simp add: set_reg_def layout qword_cell.load_store_apart del: of_nat_mult)
qed

section \<open>Regions\<close>

text \<open>A region of memory is an address and a size. Adjacent regions follow each other without a gap.\<close>

definition in_region :: "qword_t \<Rightarrow> qword_t \<times> nat \<Rightarrow> bool" where
  "in_region x r \<longleftrightarrow> unat (x - fst r) < snd r"

fun adjacent :: "qword_t \<Rightarrow> (qword_t \<times> nat) list \<Rightarrow> bool" where
  "adjacent a [] \<longleftrightarrow> True"
| "adjacent a ((b, n) # rs) \<longleftrightarrow> b = a \<and> adjacent (a + of_nat n) rs"

lemma unat_past:
  fixes x a :: qword_t
  assumes "n + k \<le> 2 ^ 64"
  shows "unat (x - (a + of_nat n)) < k \<longleftrightarrow> n \<le> unat (x - a) \<and> unat (x - a) < n + k"
proof (cases "n \<le> unat (x - a)")
  case True
  then have "unat (x - a - of_nat n) = unat (x - a) - n"
    using unat_lt64 [of "x - a"] by (subst unat_sub) (auto simp: word_le_nat_alt unat_of_nat)
  with True show ?thesis by (auto simp: diff_diff_eq)
next
  case False
  moreover have "k \<le> unat (x - (a + of_nat n))"
  proof (cases "k = 0")
    case False
    with assms have n: "n < 2 ^ 64" by simp
    have "x - (a + of_nat n) = of_nat (unat (x - a)) - of_nat n" by simp
    also have "unat (of_nat (unat (x - a)) - of_nat n :: qword_t) = 2 ^ 64 - (n - unat (x - a))"
      using \<open>\<not> n \<le> unat (x - a)\<close> n by (intro unat_diff_of_nat_neg) simp_all
    finally show ?thesis using assms \<open>\<not> n \<le> unat (x - a)\<close> by simp
  qed simp
  ultimately show ?thesis by simp
qed

lemma adjacent_regions:
  assumes "adjacent a rs" and "sum_list (map snd rs) \<le> 2 ^ 64"
  shows "length (filter (in_region x) rs) = (if unat (x - a) < sum_list (map snd rs) then 1 else 0)"
  using assms
proof (induction rs arbitrary: a)
  case (Cons r rs)
  obtain n where r: "r = (a, n)" using Cons.prems(1) by (cases r) simp
  let ?k = "sum_list (map snd rs)"
  have "length (filter (in_region x) rs) = (if unat (x - (a + of_nat n)) < ?k then 1 else 0)"
    using Cons.prems r by (intro Cons.IH) simp_all
  also have "\<dots> = (if n \<le> unat (x - a) \<and> unat (x - a) < n + ?k then 1 else 0)"
    using Cons.prems(2) r unat_past [of n ?k x a] by simp
  finally have "length (filter (in_region x) rs) =
      (if n \<le> unat (x - a) \<and> unat (x - a) < n + ?k then 1 else 0)" .
  moreover have "in_region x r \<longleftrightarrow> unat (x - a) < n" by (simp add: r in_region_def)
  ultimately show ?case by (simp add: r)
qed simp

section \<open>Properties\<close>

text \<open>The parts of \<open>cpu_data_t\<close>, with those of the guest's state inside it, in the order of memory.\<close>

definition cpu_data_parts :: "qword_t \<Rightarrow> (qword_t \<times> nat) list" where
  "cpu_data_parts cpu_data =
     (let gs = guest_cpu_state_of cpu_data
      in [(vmxon_region cpu_data, PAGE_FRAME_SIZE), (vmcs_region cpu_data, PAGE_FRAME_SIZE),
          (epts_of cpu_data, sizeof_epts), (msr_bitmaps_of cpu_data, PAGE_FRAME_SIZE),
          (registers_of gs, sizeof_registers), (stack_top gs, 8 * PAGE_FRAME_SIZE), (ssdt_of gs, sizeof_ssdt),
          (cpu_data_pointer gs, 8)])"

text \<open>C34. The layout of the processor's data. At any page-aligned address below \<open>2 ^ 48\<close> every part is page
  aligned, as the comment in \<open>vmm.h\<close> asks for. Every byte of the structure up to the padding after its last
  field, the pointer, belongs to exactly one part, and no other byte of memory to any: the parts do not overlap,
  leave no gap and stay inside. With the structure where the hypervisor puts it, the table of
  system calls is at the address that the guest's code was compiled with.\<close>

theorem cpu_data_placement:
  assumes "page_address cd"
  shows "length (filter (in_region x) (cpu_data_parts cd)) =
      (if unat (x - cd) < sizeof_cpu_data - (PAGE_FRAME_SIZE - 8) then 1 else 0) \<and>
    list_all (\<lambda>(a, n). 4096 dvd unat a) (cpu_data_parts cd) \<and>
    (cd = 0x01000000 \<longrightarrow> ssdt_of (guest_cpu_state_of cd) = SSDT_ADDRESS)"
proof (intro conjI impI)
  have "adjacent cd (cpu_data_parts cd)" by (simp add: cpu_data_parts_def layout add.assoc)
  moreover have "sum_list (map snd (cpu_data_parts cd)) = sizeof_cpu_data - (PAGE_FRAME_SIZE - 8)"
    by (simp add: cpu_data_parts_def layout)
  ultimately show "length (filter (in_region x) (cpu_data_parts cd)) =
      (if unat (x - cd) < sizeof_cpu_data - (PAGE_FRAME_SIZE - 8) then 1 else 0)"
    using adjacent_regions [of cd "cpu_data_parts cd" x] by (simp add: layout)
  have "4096 dvd unat (cd + of_nat (4096 * i))" if "i < 0x1000" for i
  proof -
    have "unat (cd + of_nat (4096 * i)) = unat cd + 4096 * i"
      using assms that by (simp add: page_address_def unat_word_ariths unat_of_nat)
    then show ?thesis using assms by (simp add: page_address_def)
  qed
  from this [of 0] this [of 1] this [of 2] this [of "0x808"] this [of "0x809"] this [of "0x80A"] this [of "0x812"]
    this [of "0x813"]
  show "list_all (\<lambda>(a, n). 4096 dvd unat a) (cpu_data_parts cd)"
    by (simp add: cpu_data_parts_def layout add.assoc)
  show "ssdt_of (guest_cpu_state_of cd) = SSDT_ADDRESS" if "cd = 0x01000000"
    using that by (simp add: layout)
qed

lemma cpu_data_placement_witness:
  "list_all (\<lambda>(a, n). 4096 dvd unat a) (cpu_data_parts 0x01000000) \<and>
   length (filter (in_region 0x1812150) (cpu_data_parts 0x01000000)) = 1 \<and>
   ssdt_of (guest_cpu_state_of 0x01000000) = SSDT_ADDRESS"
  using cpu_data_placement [of "0x01000000" "0x1812150"] by (simp add: page_address_def sizes)

end
