(* ===== verification/Syscalls.thy ===== *)
theory Syscalls
  imports Cpu_Data
begin

text \<open>
  The guest's system calls: \<open>src/guest/syscalls.c\<close>, \<open>src/guest/syscall_handler.asm\<close>, and
  \<open>print_a_crab\<close> of \<open>src/guest/kmain.c\<close>.

  A call through a function pointer is an argument \<open>call\<close>, the effect of the code at an address;
  what the properties assume of it is stated with them. The table of handlers is memory from
  \<open>SSDT_ADDRESS\<close> on; its abstract view \<open>handlers\<close> is a map from numbers to handlers, which
  \<open>set_syscall_handler\<close> updates and \<open>dispatch_handler\<close> looks up.
\<close>

section \<open>Code\<close>

type_synonym code = "qword_t \<Rightarrow> world \<Rightarrow> unit res"

abbreviation (input) STACK_SIZE :: qword_t where "STACK_SIZE \<equiv> 0x1000"
abbreviation (input) EFER_SYSCALL_ENABLE :: qword_t where "EFER_SYSCALL_ENABLE \<equiv> 1"

definition syscalls_c :: string where "syscalls_c = ''src/guest/syscalls.c''"
definition kmain_c :: string where "kmain_c = ''src/guest/kmain.c''"

definition ssdt_entry :: "dword_t \<Rightarrow> qword_t" where
  "ssdt_entry number = SSDT_ADDRESS + of_nat (8 * unat number)"

definition dispatch_handler :: "code \<Rightarrow> dword_t \<Rightarrow> world \<Rightarrow> unit res" where
  "dispatch_handler call number w =
     (if number > of_nat SSDT_SIZE then
        LOG_ERROR syscalls_c 42 ''out of bounds syscall number: %d'' [ArgInt number] w
      else if load64 (mem w) (ssdt_entry number) = 0 then
        LOG_ERROR syscalls_c 44 ''syscall %d doesn't have a handler'' [ArgInt number] w
      else call (load64 (mem w) (ssdt_entry number)) w)"

definition set_syscall_handler :: "dword_t \<Rightarrow> qword_t \<Rightarrow> world \<Rightarrow> world" where
  "set_syscall_handler number handler w =
     (if number > of_nat SSDT_SIZE then w
      else w\<lparr>mem := store64 (ssdt_entry number) handler (mem w)\<rparr>)"

text \<open>
  The kernel's code runs on a processor of its own or as the guest of the hypervisor, where some of its
  instructions exit. A \<open>platform\<close> gives the effect of those: an access to an MSR, the two reads of the
  table in \<open>dispatch_handler\<close>, and \<open>hlt\<close>. \<open>bare\<close> is the processor without the hypervisor; the guest of the
  hypervisor is \<open>hosted\<close> in the theory \<open>Hosted\<close>.
\<close>

record platform =
  on_write_msr :: "dword_t \<Rightarrow> qword_t \<Rightarrow> world \<Rightarrow> unit res"
  on_read_msr :: "dword_t \<Rightarrow> world \<Rightarrow> qword_t res"
  on_dispatch :: "code \<Rightarrow> dword_t \<Rightarrow> world \<Rightarrow> unit res"
  on_hlt :: "world \<Rightarrow> unit res"

definition bare :: "(world \<Rightarrow> unit res) \<Rightarrow> platform" where
  "bare hlt = \<lparr>on_write_msr = \<lambda>msr v w. Done () (write_msr msr v w), on_read_msr = \<lambda>msr w. Done (read_msr msr w) w,
     on_dispatch = dispatch_handler, on_hlt = hlt\<rparr>"

definition init_syscalls :: "platform \<Rightarrow> env \<Rightarrow> world \<Rightarrow> unit res" where
  "init_syscalls P E = run_all [
     \<lambda>w. on_write_msr P MSR_IA32_SYSENTER_CS (ucast (read_cs w)) w,
     on_write_msr P MSR_IA32_SYSENTER_EIP (sysenter_handler_addr E),
     on_write_msr P MSR_IA32_SYSENTER_ESP (kernel_stack_addr E + STACK_SIZE),
     on_write_msr P MSR_IA32_LSTAR (syscall_handler_addr E),
     \<lambda>w. on_write_msr P MSR_IA32_STAR (push_bit 32 (ucast (read_cs w))) w,
     \<lambda>w. bindR (on_read_msr P MSR_IA32_EFER w) (\<lambda>v. on_write_msr P MSR_IA32_EFER (v OR EFER_SYSCALL_ENABLE))]"

text \<open>\<open>__sysenter\<close> stores the stack pointer; \<open>__sysenter_handler\<close> calls the address on that stack.\<close>

definition sysenter_stub :: "env \<Rightarrow> qword_t \<Rightarrow> world \<Rightarrow> world" where
  "sysenter_stub E rsp w = w\<lparr>mem := store64 (sysenter_rsp_addr E) rsp (mem w)\<rparr>"

definition sysenter_handler :: "platform \<Rightarrow> env \<Rightarrow> code \<Rightarrow> dword_t \<Rightarrow> world \<Rightarrow> unit res" where
  "sysenter_handler P E call number w =
     bindR (on_dispatch P call number w) (\<lambda>_ w.
       let rip = load64 (mem w) (load64 (mem w) (sysenter_rsp_addr E))
       in call rip w)"

text \<open>
  \<open>popf\<close> at privilege level 0 in 64-bit mode loads the status, system and control flags, clears RF
  and keeps VM, VIF and VIP.
\<close>

definition popf_mask :: qword_t where "popf_mask = 0x247FD5"

definition popf :: "qword_t \<Rightarrow> world \<Rightarrow> world" where
  "popf v w = w\<lparr>rflags := (v AND popf_mask) OR (rflags w AND NOT popf_mask AND NOT 0x10000)\<rparr>"

text \<open>\<open>__syscall_handler\<close>: the result is the address it jumps to and the stack pointer there.\<close>

definition syscall_handler ::
    "platform \<Rightarrow> code \<Rightarrow> qword_t \<Rightarrow> qword_t \<Rightarrow> qword_t \<Rightarrow> dword_t \<Rightarrow> world \<Rightarrow> (qword_t \<times> qword_t) res" where
  "syscall_handler P call rsp rcx r11 number w =
     (let rsp = rsp - 8; w = w\<lparr>mem := store64 rsp rcx (mem w)\<rparr>;
          rsp = rsp - 8; w = w\<lparr>mem := store64 rsp r11 (mem w)\<rparr>
      in bindR (on_dispatch P call number w) (\<lambda>_ w.
           let w = popf (load64 (mem w) rsp) w; rsp = rsp + 8;
               rcx = load64 (mem w) rsp; rsp = rsp + 8
           in Done (rcx, rsp) w))"

definition crab :: string where
  "crab =
     [CHR ''('', CHR 0x5C, CHR ''/'', CHR '')'', CHR '' '', CHR ''('', CHR 0xC2, CHR 0xB0] @ '',,,,'' @
     [CHR 0xC2, CHR 0xB0, CHR '')'', CHR '' '', CHR ''('', CHR 0x5C, CHR ''/'', CHR '')'']"

definition print_a_crab :: "world \<Rightarrow> unit res" where
  "print_a_crab = LOG_INFO kmain_c 52 crab []"

section \<open>The table as a map\<close>

definition handlers :: "memory \<Rightarrow> nat \<Rightarrow> qword_t option" where
  "handlers m n =
     (let h = load64 m (SSDT_ADDRESS + of_nat (8 * n))
      in if n < SSDT_SIZE \<and> h \<noteq> 0 then Some h else None)"

lemma in_table: "\<not> number > of_nat SSDT_SIZE \<longleftrightarrow> unat (number :: dword_t) \<le> SSDT_SIZE"
  by (simp add: word_less_nat_alt not_less)

lemma entries_apart:
  "i \<noteq> j \<Longrightarrow> i \<le> 512 \<Longrightarrow> j \<le> 512 \<Longrightarrow>
     apart (SSDT_ADDRESS + of_nat (8 * i)) 8 (SSDT_ADDRESS + of_nat (8 * j)) 8"
  by (rule qword_cell.cells_apart) simp_all

text \<open>C26. Registering a handler for a number below 512 updates the map of handlers at this number; a null handler
  removes it. No byte outside the table's page changes, nor any other part of the machine.\<close>

theorem set_syscall_handler_updates:
  assumes "unat number < SSDT_SIZE"
  shows "handlers (mem (set_syscall_handler number handler w)) =
      (handlers (mem w))(unat number := if handler = 0 then None else Some handler) \<and>
    (\<forall>x. 4096 \<le> unat (x - SSDT_ADDRESS) \<longrightarrow> mem (set_syscall_handler number handler w) x = mem w x) \<and>
    (set_syscall_handler number handler w)\<lparr>mem := mem w\<rparr> = w"
proof -
  let ?a = "SSDT_ADDRESS + of_nat (8 * unat number)"
  have e: "set_syscall_handler number handler w = w\<lparr>mem := store64 ?a handler (mem w)\<rparr>"
    using assms in_table [of number] by (simp add: set_syscall_handler_def ssdt_entry_def)
  have "handlers (store64 ?a handler (mem w)) n =
      ((handlers (mem w))(unat number := if handler = 0 then None else Some handler)) n" for n
    using assms entries_apart [of "unat number" n]
    by (cases "n < 512") (auto simp: handlers_def Let_def qword_cell.load_store qword_cell.load_store_apart
        simp del: of_nat_mult)
  moreover have "store64 ?a handler (mem w) x = mem w x" if "4096 \<le> unat (x - SSDT_ADDRESS)" for x
    using that assms by (intro qword_cell.store_outside [of _ 4096]) simp_all
  ultimately show ?thesis by (simp add: e fun_eq_iff del: of_nat_mult)
qed

lemma set_syscall_handler_updates_witness:
  "handlers (mem (set_syscall_handler 42 0x104000 zero_world)) 42 = Some 0x104000"
  using set_syscall_handler_updates [of 42 "0x104000" zero_world] by simp

text \<open>The two error messages.\<close>

lemma no_handler_logged:
  "unat number < 2147483648 \<Longrightarrow>
     LOG_ERROR syscalls_c 44 ''syscall %d doesn't have a handler'' [ArgInt number] w =
     Done () (logged ERROR_LEVEL syscalls_c 44
       (''syscall '' @ digits_text 10 number @ '' doesn't have a handler'') w)"
  using log_log_decimal [of syscalls_c 44 "''syscall ''" "'' doesn't have a handler''" number ERROR_LEVEL w]
  by (simp add: log_ok_def syscalls_c_def sint_nonneg_iff)

lemma out_of_bounds_logged:
  "unat number < 2147483648 \<Longrightarrow>
     LOG_ERROR syscalls_c 42 ''out of bounds syscall number: %d'' [ArgInt number] w =
     Done () (logged ERROR_LEVEL syscalls_c 42
       (''out of bounds syscall number: '' @ digits_text 10 number) w)"
  using log_log_decimal [of syscalls_c 42 "''out of bounds syscall number: ''" "[]" number ERROR_LEVEL w]
  by (simp add: log_ok_def syscalls_c_def sint_nonneg_iff)

text \<open>C25. A system call whose number is in the table runs the registered handler and nothing else;
  without one it only logs an error.\<close>

theorem dispatch_handler_looks_up:
  assumes "unat number < SSDT_SIZE"
  shows "dispatch_handler call number w =
    (case handlers (mem w) (unat number) of
       Some handler \<Rightarrow> call handler w
     | None \<Rightarrow> Done () (logged ERROR_LEVEL syscalls_c 44
         (''syscall '' @ digits_text 10 number @ '' doesn't have a handler'') w))"
  using assms in_table [of number] no_handler_logged [of number w]
  by (simp add: dispatch_handler_def handlers_def ssdt_entry_def Let_def del: of_nat_mult)

lemma dispatch_handler_looks_up_witness:
  "dispatch_handler (\<lambda>_. Done ()) 42 zero_world = Done () (logged ERROR_LEVEL syscalls_c 44
     (''syscall '' @ digits_text 10 42 @ '' doesn't have a handler'') zero_world)"
proof -
  have "handlers (mem zero_world) 42 = None"
    by (simp add: handlers_def zero_world_def load64_def load_bytes_def upt_rec)
  with dispatch_handler_looks_up [of 42 "\<lambda>_. Done ()" zero_world] show ?thesis by simp
qed

text \<open>Numbers past the table are rejected: a call with one only logs an error, and registering a
  handler for one changes nothing.\<close>

lemma syscall_number_rejected:
  assumes "SSDT_SIZE < unat number" and "unat number < 2147483648"
  shows "dispatch_handler call number w = Done () (logged ERROR_LEVEL syscalls_c 42
      (''out of bounds syscall number: '' @ digits_text 10 number) w) \<and>
    set_syscall_handler number handler w = w"
  using assms out_of_bounds_logged [of number w]
  by (simp add: dispatch_handler_def set_syscall_handler_def word_less_nat_alt)

text \<open>C27. The number 512, one past the last entry of the table, is accepted. Registering a handler for
  it overwrites the pointer to the processor's data that follows the table, and a system call
  with it jumps to the address that pointer holds.\<close>

theorem syscall_number_off_by_one:
  assumes "load64 (mem w) (cpu_data_pointer (guest_cpu_state_of cpu_data)) = cpu_data"
    and "cpu_data = 0x01000000"
  shows "dispatch_handler call 512 w = call cpu_data w \<and>
    load64 (mem (set_syscall_handler 512 handler w)) (cpu_data_pointer (guest_cpu_state_of cpu_data)) = handler"
  using assms
  by (simp add: dispatch_handler_def set_syscall_handler_def ssdt_entry_def layout qword_cell.load_store)

lemma syscall_number_off_by_one_witness:
  "dispatch_handler (\<lambda>h v. Done () (v\<lparr>cr2 := h\<rparr>)) 512
      (zero_world\<lparr>mem := store64 0x1813000 0x01000000 (\<lambda>_. 0)\<rparr>) =
    Done () (zero_world\<lparr>mem := store64 0x1813000 0x01000000 (\<lambda>_. 0), cr2 := 0x01000000\<rparr>)"
  using syscall_number_off_by_one [of "zero_world\<lparr>mem := store64 0x1813000 0x01000000 (\<lambda>_. 0)\<rparr>"
      "0x01000000" "\<lambda>h v. Done () (v\<lparr>cr2 := h\<rparr>)" 0]
  by (simp add: layout qword_cell.load_store)

text \<open>Initialising the system calls sets the six MSRs of the fast system calls and nothing else.\<close>

definition syscall_msrs :: "dword_t set" where
  "syscall_msrs = {MSR_IA32_SYSENTER_CS, MSR_IA32_SYSENTER_EIP, MSR_IA32_SYSENTER_ESP, MSR_IA32_LSTAR,
     MSR_IA32_STAR, MSR_IA32_EFER}"

definition syscalls_initialized :: "env \<Rightarrow> world \<Rightarrow> world" where
  "syscalls_initialized E w = w\<lparr>msrs := (msrs w)(
     MSR_IA32_SYSENTER_CS := ucast (seg_cs w),
     MSR_IA32_SYSENTER_EIP := sysenter_handler_addr E,
     MSR_IA32_SYSENTER_ESP := kernel_stack_addr E + STACK_SIZE,
     MSR_IA32_LSTAR := syscall_handler_addr E,
     MSR_IA32_STAR := push_bit 32 (ucast (seg_cs w)),
     MSR_IA32_EFER := msrs w MSR_IA32_EFER OR 1)\<rparr>"

lemma init_syscalls_eq: "init_syscalls (bare hlt) E w = Done () (syscalls_initialized E w)"
  by (simp add: init_syscalls_def bare_def syscalls_initialized_def write_msr_eq read_msr_eq read_cs_def)

section \<open>Returning from a system call\<close>

text \<open>A property of the machine that logging keeps and every handler keeps, holds after the dispatch.\<close>

lemma dispatch_handler_keeps:
  assumes "\<And>h v. P v \<Longrightarrow> \<exists>v'. call h v = Done () v' \<and> P v'"
    and "\<And>v l n s. P v \<Longrightarrow> P (logged l syscalls_c n s v)"
    and "P w" and "unat number < 2147483648"
  obtains w' where "dispatch_handler call number w = Done () w'" and "P w'"
proof -
  consider (rejected) "number > of_nat SSDT_SIZE"
    | (missing) "\<not> number > of_nat SSDT_SIZE" "load64 (mem w) (ssdt_entry number) = 0"
    | (found) "\<not> number > of_nat SSDT_SIZE" "load64 (mem w) (ssdt_entry number) \<noteq> 0"
    by blast
  then show ?thesis
  proof cases
    case rejected
    with assms that show ?thesis by (auto simp: dispatch_handler_def out_of_bounds_logged)
  next
    case missing
    with assms that show ?thesis by (auto simp: dispatch_handler_def no_handler_logged)
  next
    case found
    with assms(1) [OF assms(3), of "load64 (mem w) (ssdt_entry number)"] show ?thesis
      by (auto simp: dispatch_handler_def intro: that)
  qed
qed

text \<open>C28. Returning from a system call, on the bare processor and for a number that is not negative as an
  \<open>int\<close>. When every handler returns and keeps the caller's two pushed words, the entry code jumps to the address the processor saved in RCX, with the caller's stack
  pointer, and the flags of R11 restored.\<close>

theorem syscall_handler_returns:
  assumes "\<And>h v. \<exists>v'. call h v = Done () v' \<and>
      load64 (mem v') (rsp - 8) = load64 (mem v) (rsp - 8) \<and>
      load64 (mem v') (rsp - 16) = load64 (mem v) (rsp - 16)"
    and "unat number < 2147483648"
  shows "\<exists>w'. syscall_handler (bare hlt) call rsp rcx r11 number w = Done (rcx, rsp) w' \<and>
    rflags w' AND popf_mask = r11 AND popf_mask"
proof -
  let ?m = "store64 (rsp - 16) r11 (store64 (rsp - 8) rcx (mem w))"
  let ?P = "\<lambda>v. load64 (mem v) (rsp - 8) = rcx \<and> load64 (mem v) (rsp - 16) = r11"
  have "apart (rsp - 16 + of_nat 0) 8 (rsp - 16 + of_nat 8) 8"
    by (rule apart_offsets) simp_all
  then have p0: "?P (w\<lparr>mem := ?m\<rparr>)"
    by (simp add: qword_cell.load_store qword_cell.load_store_apart)
  have keep: "\<exists>v'. call h v = Done () v' \<and> ?P v'" if "?P v" for h v
    using assms(1) [of h v] that by metis
  have lg: "?P (logged l syscalls_c n s v)" if "?P v" for v l n s
    using that by simp
  obtain w' where d: "dispatch_handler call number (w\<lparr>mem := ?m\<rparr>) = Done () w'" and p: "?P w'"
    by (rule dispatch_handler_keeps [where P = ?P, OF keep lg p0 assms(2)])
  have "(x AND popf_mask OR y AND NOT popf_mask AND NOT 0x10000) AND popf_mask = x AND popf_mask" for x y
    by (rule bit_word_eqI) (auto simp: bit_simps)
  then have "rflags (popf r11 w') AND popf_mask = r11 AND popf_mask"
    unfolding popf_def by simp
  with d p show ?thesis
    by (simp add: syscall_handler_def bare_def Let_def popf_def)
qed

lemma syscall_handler_returns_witness:
  "\<exists>w'. syscall_handler (bare (Done ())) (\<lambda>_. Done ()) 0x9000 0x101010 0x202 42 zero_world = Done (0x101010, 0x9000) w' \<and>
    rflags w' AND popf_mask = 0x202 AND popf_mask"
  by (rule syscall_handler_returns) simp_all

end
