(* ===== verification/Vmexit.thy ===== *)
theory Vmexit
  imports Syscalls
begin

text \<open>
  The handlers of the VM exits, \<open>src/vmm/vmexit.c\<close>, and the hook of \<open>src/vmm/hooks.c\<close>.

  A handler gets the address of the guest's state. \<open>guest_view\<close> is the map of its registers; the
  lemmas say what each handler does to that map, to the rest of memory and to the log.
\<close>

section \<open>Code\<close>

datatype handler_status = HANDLER_SUCCESS | HANDLER_FAILURE

abbreviation (input) PROTECET_SYSCALL :: qword_t where "PROTECET_SYSCALL \<equiv> 0"

definition vmexit_c :: string where "vmexit_c = ''src/vmm/vmexit.c''"
definition hooks_c :: string where "hooks_c = ''src/vmm/hooks.c''"

definition ALIGN_DOWN :: "qword_t \<Rightarrow> qword_t" where
  "ALIGN_DOWN address = push_bit 12 (drop_bit 12 address)"

definition assign :: "qword_t \<Rightarrow> register \<Rightarrow> qword_t \<Rightarrow> world \<Rightarrow> world" where
  "assign gs r v w = w\<lparr>mem := set_reg gs r v (mem w)\<rparr>"

text \<open>\<open>guest_state->registers.rip += vmread(VMCS_VM_EXIT_INSTRUCTION_LEN)\<close>\<close>

definition skip_instruction :: "qword_t \<Rightarrow> world \<Rightarrow> world" where
  "skip_instruction gs w =
     assign gs RIP (get_reg gs RIP (mem w) + vmread VMCS_VM_EXIT_INSTRUCTION_LEN w) w"

definition halt_handler :: "qword_t \<Rightarrow> world \<Rightarrow> handler_status res" where
  "halt_handler gs w =
     bindR (LOG_DEBUG vmexit_c 13 ''handling halt'' [] w) (\<lambda>_ w.
       Done HANDLER_SUCCESS (skip_instruction gs w))"

definition rdmsr_handler :: "qword_t \<Rightarrow> world \<Rightarrow> handler_status res" where
  "rdmsr_handler gs w =
     (let w = skip_instruction gs w
      in bindR (LOG_DEBUG vmexit_c 20 ''handling rdmsr from msr: %u'' [ArgQword (get_reg gs RCX (mem w))] w)
           (\<lambda>_. Done HANDLER_SUCCESS))"

definition wrmsr_handler :: "qword_t \<Rightarrow> world \<Rightarrow> handler_status res" where
  "wrmsr_handler gs w =
     (let w = skip_instruction gs w
      in bindR (LOG_DEBUG vmexit_c 27 ''handling wrmsr from msr: %u'' [ArgQword (get_reg gs RCX (mem w))] w)
           (\<lambda>_. Done HANDLER_SUCCESS))"

definition ept_violation_handler :: "qword_t \<Rightarrow> world \<Rightarrow> handler_status res" where
  "ept_violation_handler gs w =
     (let w = skip_instruction gs w;
          physical_address = vmread VMCS_GUEST_PHYSICAL_ADDRESS w
      in bindR (LOG_DEBUG vmexit_c 35 ''tried to update guest physical address %u'' [ArgQword physical_address] w)
           (\<lambda>_. Done HANDLER_SUCCESS))"

definition ept_misconfig_handler :: "env \<Rightarrow> qword_t \<Rightarrow> world \<Rightarrow> handler_status res" where
  "ept_misconfig_handler E gs w =
     (let w = skip_instruction gs w;
          physical_address = vmread VMCS_GUEST_PHYSICAL_ADDRESS w
      in if ssdt_of gs \<le> physical_address \<and> physical_address < ssdt_of gs + 0x1000 then
           let w = assign gs RDI ((physical_address - ALIGN_DOWN physical_address) div 8) w;
               w = assign gs RSI (load64 (mem w) physical_address) w;
               w = assign gs RAX (ssdt_hook_addr E) w
           in Done HANDLER_SUCCESS w
         else
           bindR (LOG_DEBUG vmexit_c 51 ''guest tried to access physical address at %u''
               [ArgQword physical_address] w)
             (\<lambda>_. Done HANDLER_SUCCESS))"

definition vmcall_handler :: "qword_t \<Rightarrow> world \<Rightarrow> handler_status res" where
  "vmcall_handler gs w =
     (let w = skip_instruction gs w
      in if get_reg gs RDI (mem w) = PROTECET_SYSCALL then
           bindR (LOG_DEBUG vmexit_c 62 ''protecting IA32_SYSENTER_EIP and IA32_LSTAR msrs from writes'' [] w)
             (\<lambda>_ w.
           bindR (monitor_wrmsr (msr_bitmaps_of (load64 (mem w) (cpu_data_pointer gs))) MSR_IA32_SYSENTER_EIP w)
             (\<lambda>_ w.
           bindR (monitor_wrmsr (msr_bitmaps_of (load64 (mem w) (cpu_data_pointer gs))) MSR_IA32_LSTAR w)
             (\<lambda>_. Done HANDLER_SUCCESS)))
         else
           bindR (LOG_ERROR vmexit_c 68 ''unsupported vmcall'' [] w) (\<lambda>_. Done HANDLER_FAILURE))"

definition ssdt_hook :: "code \<Rightarrow> dword_t \<Rightarrow> qword_t \<Rightarrow> world \<Rightarrow> unit res" where
  "ssdt_hook call number handler w =
     bindR (LOG_INFO hooks_c 7 ''hooked ssdt read at entry %d'' [ArgInt number] w)
       (\<lambda>_. call handler)"

section \<open>The guest's registers\<close>

definition guest_view :: "qword_t \<Rightarrow> memory \<Rightarrow> register \<Rightarrow> qword_t" where
  "guest_view gs m r = get_reg gs r m"

lemma guest_view_set_reg [simp]: "guest_view gs (set_reg gs r v m) = (guest_view gs m)(r := v)"
  by (auto simp: guest_view_def fun_eq_iff)

lemma guest_view_assign [simp]:
  "guest_view gs (mem (assign gs r v w)) = (guest_view gs (mem w))(r := v)"
  by (simp add: assign_def)

lemma skip_instruction_view [simp]:
  "guest_view gs (mem (skip_instruction gs w)) =
     (guest_view gs (mem w))(RIP := guest_view gs (mem w) RIP + vmread VMCS_VM_EXIT_INSTRUCTION_LEN w)"
  by (simp add: skip_instruction_def) (simp add: guest_view_def)

text \<open>What an assignment to a register leaves alone: everything outside the registers.\<close>

definition outside_registers :: "qword_t \<Rightarrow> world \<Rightarrow> world \<Rightarrow> bool" where
  "outside_registers gs w w' \<longleftrightarrow>
     (\<forall>x. 136 \<le> unat (x - gs) \<longrightarrow> mem w' x = mem w x) \<and> w'\<lparr>mem := mem w\<rparr> = w"

lemma outside_registers_refl [simp, intro]: "outside_registers gs w w"
  by (simp add: outside_registers_def)

lemma outside_registers_assign [intro!]:
  "outside_registers gs w w' \<Longrightarrow> outside_registers gs w (assign gs r v w')"
  by (auto simp: outside_registers_def assign_def set_reg_byte)

lemma outside_registers_skip [intro!]:
  "outside_registers gs w w' \<Longrightarrow> outside_registers gs w (skip_instruction gs w')"
  unfolding skip_instruction_def by (rule outside_registers_assign)

lemma outside_registers_mem:
  assumes "outside_registers gs w w'"
  obtains m where "w' = w\<lparr>mem := m\<rparr>"
  using other_parts [where w' = w' and m = "mem w" and w = w and n = "mem w'"] assms that
  by (simp add: outside_registers_def)

lemma outside_registers_logged:
  assumes "outside_registers gs w w'"
  shows "outside_registers gs (logged l f n s w) (logged l f n s w')"
proof -
  obtain m where "w' = w\<lparr>mem := m\<rparr>" using assms by (rule outside_registers_mem)
  with assms show ?thesis by (simp add: outside_registers_def logged_def emit_def)
qed

lemma outside_registers_same:
  assumes "outside_registers gs w w'"
  shows "vmcs w' = vmcs w" "vmcs_loaded w' = vmcs_loaded w" "min_level w' = min_level w" "msrs w' = msrs w"
    "port_writes w' = port_writes w"
proof -
  obtain m where "w' = w\<lparr>mem := m\<rparr>" using assms by (rule outside_registers_mem)
  then show "vmcs w' = vmcs w" "vmcs_loaded w' = vmcs_loaded w" "min_level w' = min_level w" "msrs w' = msrs w"
    "port_writes w' = port_writes w"
    by simp_all
qed

lemma vmread_outside: "outside_registers gs w w' \<Longrightarrow> vmread f w' = vmread f w"
  by (simp add: vmread_def vmcs_get_def outside_registers_same)

lemma load64_outside:
  assumes "outside_registers gs w w'" and "apart gs 136 a 8"
  shows "load64 (mem w') a = load64 (mem w) a"
  using assms by (intro qword_cell.load_cong) (simp add: outside_registers_def apart_byte)

lemma assign_logged: "logged l f n s (assign gs r v w) = assign gs r v (logged l f n s w)"
  by (simp add: assign_def logged_def emit_def)

lemma skip_logged: "logged l f n s (skip_instruction gs w) = skip_instruction gs (logged l f n s w)"
  by (simp add: skip_instruction_def assign_logged)

lemma vmexit_log_ok: "plain s \<Longrightarrow> length s < 200 \<Longrightarrow> 0 \<le> sint line \<Longrightarrow> log_ok vmexit_c line s"
  by (simp add: log_ok_def vmexit_c_def)

text \<open>The result of a handler that logs one line, skips the guest's instruction and succeeds.\<close>

definition skipped :: "qword_t \<Rightarrow> dword_t \<Rightarrow> string \<Rightarrow> world \<Rightarrow> handler_status res \<Rightarrow> bool" where
  "skipped gs line message w r \<longleftrightarrow>
     (\<exists>w'. r = Done HANDLER_SUCCESS w' \<and>
        guest_view gs (mem w') =
          (guest_view gs (mem w))(RIP := guest_view gs (mem w) RIP + vmread VMCS_VM_EXIT_INSTRUCTION_LEN w) \<and>
        outside_registers gs (logged DEBUG_LEVEL vmexit_c line message w) w')"

lemma skipped_logged: "skipped gs line message w
    (Done HANDLER_SUCCESS (logged DEBUG_LEVEL vmexit_c line message (skip_instruction gs w)))"
  unfolding skipped_def skip_logged by auto

section \<open>What the handlers do\<close>

text \<open>The handlers of \<open>hlt\<close>, \<open>rdmsr\<close>, \<open>wrmsr\<close> and EPT violations succeed. Each logs one line,
  with the MSR number or the physical address in hexadecimal, and advances the guest's RIP by the
  length of the instruction. No other register, no other byte of memory, no MSR and no VMCS
  field changes; the guest's access has no effect.\<close>

lemma skipping_handlers:
  "skipped gs 13 ''handling halt'' w (halt_handler gs w) \<and>
   skipped gs 20 (''handling rdmsr from msr: '' @ unsigned_hex (ucast (guest_view gs (mem w) RCX)))
     w (rdmsr_handler gs w) \<and>
   skipped gs 27 (''handling wrmsr from msr: '' @ unsigned_hex (ucast (guest_view gs (mem w) RCX)))
     w (wrmsr_handler gs w) \<and>
   skipped gs 35 (''tried to update guest physical address '' @
       unsigned_hex (ucast (vmread VMCS_GUEST_PHYSICAL_ADDRESS w)))
     w (ept_violation_handler gs w)"
proof (intro conjI)
  let ?w = "skip_instruction gs w"
  have rcx: "get_reg gs RCX (mem ?w) = guest_view gs (mem w) RCX"
    by (simp add: skip_instruction_def assign_def guest_view_def)
  have pa: "vmread f ?w = vmread f w" for f
    by (rule vmread_outside) auto
  have "halt_handler gs w = Done HANDLER_SUCCESS (logged DEBUG_LEVEL vmexit_c 13 ''handling halt'' ?w)"
    by (simp add: halt_handler_def log_log_plain vmexit_log_ok skip_logged)
  then show "skipped gs 13 ''handling halt'' w (halt_handler gs w)"
    by (simp only: skipped_logged)
  have "LOG_DEBUG vmexit_c 20 (''handling rdmsr from msr: '' @ ''%u'') [ArgQword x] v =
      Done () (logged DEBUG_LEVEL vmexit_c 20 (''handling rdmsr from msr: '' @ unsigned_hex (ucast x)) v)" for x v
    by (intro log_log_hex vmexit_log_ok) simp_all
  then show "skipped gs 20 (''handling rdmsr from msr: '' @ unsigned_hex (ucast (guest_view gs (mem w) RCX)))
     w (rdmsr_handler gs w)"
    using skipped_logged by (simp add: rdmsr_handler_def Let_def rcx)
  have "LOG_DEBUG vmexit_c 27 (''handling wrmsr from msr: '' @ ''%u'') [ArgQword x] v =
      Done () (logged DEBUG_LEVEL vmexit_c 27 (''handling wrmsr from msr: '' @ unsigned_hex (ucast x)) v)" for x v
    by (intro log_log_hex vmexit_log_ok) simp_all
  then show "skipped gs 27 (''handling wrmsr from msr: '' @ unsigned_hex (ucast (guest_view gs (mem w) RCX)))
     w (wrmsr_handler gs w)"
    using skipped_logged by (simp add: wrmsr_handler_def Let_def rcx)
  have "LOG_DEBUG vmexit_c 35 (''tried to update guest physical address '' @ ''%u'') [ArgQword x] v =
      Done () (logged DEBUG_LEVEL vmexit_c 35
        (''tried to update guest physical address '' @ unsigned_hex (ucast x)) v)" for x v
    by (intro log_log_hex vmexit_log_ok) simp_all
  then show "skipped gs 35 (''tried to update guest physical address '' @
       unsigned_hex (ucast (vmread VMCS_GUEST_PHYSICAL_ADDRESS w))) w (ept_violation_handler gs w)"
    using skipped_logged by (simp add: ept_violation_handler_def Let_def pa)
qed

text \<open>The read hook. When the guest reads entry \<open>n\<close> of its table of system calls, the handler skips
  the instruction and gives the guest the address of \<open>ssdt_hook\<close> in RAX as what it read, with the
  number of the entry and the handler registered there as the hook's two arguments in RDI and
  RSI. The table itself and all other memory stay the same, and nothing is logged.\<close>

lemma ept_misconfig_handler_hooks:
  assumes "page_address (ssdt_of gs)" and "n < SSDT_SIZE"
    and "vmread VMCS_GUEST_PHYSICAL_ADDRESS w = ssdt_of gs + of_nat (8 * n)"
  shows "\<exists>w'. ept_misconfig_handler E gs w = Done HANDLER_SUCCESS w' \<and>
    guest_view gs (mem w') = (guest_view gs (mem w))(
      RIP := guest_view gs (mem w) RIP + vmread VMCS_VM_EXIT_INSTRUCTION_LEN w,
      RDI := of_nat n,
      RSI := load64 (mem w) (ssdt_of gs + of_nat (8 * n)),
      RAX := ssdt_hook_addr E) \<and>
    outside_registers gs w w'"
proof -
  let ?pa = "ssdt_of gs + of_nat (8 * n)"
  let ?w = "assign gs RDI (of_nat n) (skip_instruction gs w)"
  have pa: "vmread VMCS_GUEST_PHYSICAL_ADDRESS (skip_instruction gs w) = ?pa"
    unfolding assms(3) [symmetric] by (rule vmread_outside) auto
  have u: "unat ?pa = unat (ssdt_of gs) + 8 * n"
    using assms(1,2) by (simp add: unat_word_ariths unat_of_nat page_address_def)
  have inside: "ssdt_of gs \<le> ?pa" "?pa < ssdt_of gs + 0x1000"
    using assms(1,2) u by (simp_all add: word_le_nat_alt word_less_nat_alt unat_word_ariths page_address_def)
  have "ALIGN_DOWN ?pa = ssdt_of gs"
  proof -
    obtain k where k: "unat (ssdt_of gs) = k * 4096"
      using assms(1) by (auto simp: page_address_def elim: dvdE)
    have "(k * 4096 + 8 * n) div 4096 = k" using assms(2) by simp
    with u k have "?pa div 4096 = of_nat k" by (simp add: word_arith_nat_div)
    then have "ALIGN_DOWN ?pa = of_nat (k * 4096)"
      by (simp add: ALIGN_DOWN_def push_bit_eq_mult drop_bit_eq_div)
    then show ?thesis unfolding k [symmetric] by simp
  qed
  then have "?pa - ALIGN_DOWN ?pa = of_nat (8 * n)" by (simp only: add_diff_cancel_left')
  then have rdi: "(?pa - ALIGN_DOWN ?pa) div 8 = of_nat n"
    using assms(2) by (simp only:) (simp add: word_arith_nat_div unat_of_nat_small del: of_nat_mult)
  have "outside_registers gs w ?w" by auto
  moreover have "apart gs 136 ?pa 8"
    using apart_offsets [of 0 136 "0x9000 + 8 * n" 8 gs] assms(2) by (simp add: layout add.assoc)
  ultimately have rsi: "load64 (mem ?w) ?pa = load64 (mem w) ?pa"
    by (rule load64_outside)
  have "ept_misconfig_handler E gs w = Done HANDLER_SUCCESS
      (assign gs RAX (ssdt_hook_addr E) (assign gs RSI (load64 (mem w) ?pa) ?w))"
    unfolding ept_misconfig_handler_def Let_def pa rdi rsi by (simp only: inside simp_thms if_True)
  then show ?thesis by (intro exI conjI) auto
qed

text \<open>A misconfiguration at any other address has no effect but a log line and the skipped
  instruction.\<close>

lemma ept_misconfig_handler_elsewhere:
  assumes "\<not> (ssdt_of gs \<le> vmread VMCS_GUEST_PHYSICAL_ADDRESS w \<and>
    vmread VMCS_GUEST_PHYSICAL_ADDRESS w < ssdt_of gs + 0x1000)"
  shows "skipped gs 51 (''guest tried to access physical address at '' @
      unsigned_hex (ucast (vmread VMCS_GUEST_PHYSICAL_ADDRESS w)))
    w (ept_misconfig_handler E gs w)"
proof -
  have pa: "vmread f (skip_instruction gs w) = vmread f w" for f
    by (rule vmread_outside) auto
  have "LOG_DEBUG vmexit_c 51 (''guest tried to access physical address at '' @ ''%u'') [ArgQword x] v =
      Done () (logged DEBUG_LEVEL vmexit_c 51
        (''guest tried to access physical address at '' @ unsigned_hex (ucast x)) v)" for x v
    by (intro log_log_hex vmexit_log_ok) simp_all
  with assms show ?thesis
    using skipped_logged by (auto simp: ept_misconfig_handler_def Let_def pa)
qed

section \<open>Protecting the system calls\<close>

lemma guest_view_cong:
  assumes "\<And>i. i < 136 \<Longrightarrow> m (gs + of_nat i) = m' (gs + of_nat i)"
  shows "guest_view gs m = guest_view gs m'"
proof
  fix r
  have "m (gs + of_nat (8 * register_index r) + of_nat i) = m' (gs + of_nat (8 * register_index r) + of_nat i)"
    if "i < 8" for i
    using assms [of "8 * register_index r + i"] that register_index_less [of r] by (simp add: add.assoc)
  then show "guest_view gs m r = guest_view gs m' r"
    unfolding guest_view_def get_reg_def layout by (rule qword_cell.load_cong)
qed

lemma monitored_cong:
  assumes "\<And>i. i < 4096 \<Longrightarrow> m (b + of_nat i) = m' (b + of_nat i)"
  shows "monitored b m = monitored b m'"
proof -
  have "msr_bit_position acc msr div 8 < 4096" for acc msr
    using msr_bit_position_less [of acc msr] by (simp add: less_mult_imp_div_less)
  with assms show ?thesis by (simp add: monitored_def)
qed

text \<open>The pages of the guest's registers and of the bitmaps, and the pointer, are apart.\<close>

lemma bitmaps_outside_registers:
  assumes "i < 4096"
  shows "136 \<le> unat (msr_bitmaps_of cd + of_nat i - guest_cpu_state_of cd)"
proof -
  have "msr_bitmaps_of cd + of_nat i - guest_cpu_state_of cd = of_nat i - of_nat 4096"
    by (simp add: layout)
  moreover have "unat (of_nat i - of_nat 4096 :: qword_t) = 2 ^ 64 - (4096 - i)"
    using assms by (intro unat_diff_of_nat_neg) simp_all
  ultimately show ?thesis by (simp only:) simp
qed

lemma registers_outside_bitmaps:
  assumes "i < 0x100000"
  shows "4096 \<le> unat (guest_cpu_state_of cd + of_nat i - msr_bitmaps_of cd)"
proof -
  have "guest_cpu_state_of cd + of_nat i - msr_bitmaps_of cd = of_nat (4096 + i)"
    by (simp add: layout)
  moreover have "unat (of_nat (4096 + i) :: qword_t) = 4096 + i"
    using assms by (intro unat_of_nat_small) simp
  ultimately show ?thesis by (simp only: le_add1)
qed

lemma monitor_wrmsr_view:
  assumes "msr_in_range msr"
  obtains w' where "monitor_wrmsr (msr_bitmaps_of cd) msr w = Done () w'"
    and "monitored (msr_bitmaps_of cd) (mem w') = insert (Write_Msr, msr) (monitored (msr_bitmaps_of cd) (mem w))"
    and "guest_view (guest_cpu_state_of cd) (mem w') = guest_view (guest_cpu_state_of cd) (mem w)"
    and "load64 (mem w') (cpu_data_pointer (guest_cpu_state_of cd)) =
      load64 (mem w) (cpu_data_pointer (guest_cpu_state_of cd))"
    and "\<And>x. 4096 \<le> unat (x - msr_bitmaps_of cd) \<Longrightarrow> mem w' x = mem w x"
    and "w'\<lparr>mem := mem w\<rparr> = w"
proof -
  let ?gs = "guest_cpu_state_of cd"
  obtain w' where w': "monitor (msr_bitmaps_of cd) (Write_Msr, msr) w = Done () w'"
      "monitored (msr_bitmaps_of cd) (mem w') = insert (Write_Msr, msr) (monitored (msr_bitmaps_of cd) (mem w))"
      "\<And>x. 4096 \<le> unat (x - msr_bitmaps_of cd) \<Longrightarrow> mem w' x = mem w x" "w'\<lparr>mem := mem w\<rparr> = w"
    using monitor_Done [OF assms, of "msr_bitmaps_of cd" Write_Msr w] by blast
  have same: "mem w' (?gs + of_nat i) = mem w (?gs + of_nat i)" if "i < 0x100000" for i
    using that by (intro w'(3) registers_outside_bitmaps)
  have "mem w' (?gs + of_nat 0xA000 + of_nat i) = mem w (?gs + of_nat 0xA000 + of_nat i)" if "i < 8" for i
    using same [of "0xA000 + i"] that by (simp add: add.assoc)
  then have "load64 (mem w') (?gs + of_nat 0xA000) = load64 (mem w) (?gs + of_nat 0xA000)"
    by (rule qword_cell.load_cong)
  with w' same show ?thesis
    by (intro that guest_view_cong) (simp_all add: monitor_def layout)
qed

text \<open>The hypercall that protects the system calls. Afterwards the guest's writes of
  IA32_SYSENTER_EIP and IA32_LSTAR exit, and no other access does that did not before. The
  guest's registers change only in RIP, and nothing outside the registers and the bitmaps does.\<close>

lemma vmcall_protects_system_calls:
  assumes "load64 (mem w) (cpu_data_pointer (guest_cpu_state_of cd)) = cd"
    and "guest_view (guest_cpu_state_of cd) (mem w) RDI = PROTECET_SYSCALL"
  shows "\<exists>w'. vmcall_handler (guest_cpu_state_of cd) w = Done HANDLER_SUCCESS w' \<and>
    monitored (msr_bitmaps_of cd) (mem w') =
      {(Write_Msr, MSR_IA32_SYSENTER_EIP), (Write_Msr, MSR_IA32_LSTAR)} \<union> monitored (msr_bitmaps_of cd) (mem w) \<and>
    guest_view (guest_cpu_state_of cd) (mem w') = (guest_view (guest_cpu_state_of cd) (mem w))(
      RIP := guest_view (guest_cpu_state_of cd) (mem w) RIP + vmread VMCS_VM_EXIT_INSTRUCTION_LEN w) \<and>
    (\<forall>x. 4096 \<le> unat (x - msr_bitmaps_of cd) \<and> 136 \<le> unat (x - guest_cpu_state_of cd) \<longrightarrow>
      mem w' x = mem w x) \<and>
    w'\<lparr>mem := mem w\<rparr> = logged DEBUG_LEVEL vmexit_c 62
      ''protecting IA32_SYSENTER_EIP and IA32_LSTAR msrs from writes'' w"
proof -
  let ?gs = "guest_cpu_state_of cd"
  let ?b = "msr_bitmaps_of cd"
  let ?s = "''protecting IA32_SYSENTER_EIP and IA32_LSTAR msrs from writes''"
  let ?w = "skip_instruction ?gs (logged DEBUG_LEVEL vmexit_c 62 ?s w)"
  have out: "outside_registers ?gs (logged DEBUG_LEVEL vmexit_c 62 ?s w) ?w" by auto
  have "apart ?gs 136 (cpu_data_pointer ?gs) 8"
    using apart_offsets [of 0 136 "0xA000" 8 ?gs] by (simp add: layout)
  from load64_outside [OF out this] assms(1)
  have p: "load64 (mem ?w) (cpu_data_pointer ?gs) = cd" by simp
  have mon: "monitored ?b (mem ?w) = monitored ?b (mem w)"
    using out bitmaps_outside_registers [of _ cd] by (intro monitored_cong) (simp add: outside_registers_def)
  have rdi: "get_reg ?gs RDI (mem (skip_instruction ?gs w)) = PROTECET_SYSCALL"
    using assms(2) by (simp add: skip_instruction_def assign_def guest_view_def)
  obtain w1 where w1: "monitor_wrmsr ?b MSR_IA32_SYSENTER_EIP ?w = Done () w1"
      "monitored ?b (mem w1) = insert (Write_Msr, MSR_IA32_SYSENTER_EIP) (monitored ?b (mem ?w))"
      "guest_view ?gs (mem w1) = guest_view ?gs (mem ?w)"
      "load64 (mem w1) (cpu_data_pointer ?gs) = load64 (mem ?w) (cpu_data_pointer ?gs)"
      "\<And>x. 4096 \<le> unat (x - ?b) \<Longrightarrow> mem w1 x = mem ?w x" "w1\<lparr>mem := mem ?w\<rparr> = ?w"
    by (rule monitor_wrmsr_view [of MSR_IA32_SYSENTER_EIP cd ?w]) (simp_all add: msr_in_range_iff)
  obtain w2 where w2: "monitor_wrmsr ?b MSR_IA32_LSTAR w1 = Done () w2"
      "monitored ?b (mem w2) = insert (Write_Msr, MSR_IA32_LSTAR) (monitored ?b (mem w1))"
      "guest_view ?gs (mem w2) = guest_view ?gs (mem w1)"
      "\<And>x. 4096 \<le> unat (x - ?b) \<Longrightarrow> mem w2 x = mem w1 x" "w2\<lparr>mem := mem w1\<rparr> = w1"
    by (rule monitor_wrmsr_view [of MSR_IA32_LSTAR cd w1]) (simp_all add: msr_in_range_iff)
  have "vmcall_handler ?gs w = Done HANDLER_SUCCESS w2"
    using w1(1,4) w2(1) p rdi
    by (simp add: vmcall_handler_def Let_def log_log_plain vmexit_log_ok skip_logged)
  moreover have "mem w2 x = mem w x" if "4096 \<le> unat (x - ?b) \<and> 136 \<le> unat (x - ?gs)" for x
    using that w1(5) w2(4) out by (simp add: outside_registers_def)
  moreover have "w2\<lparr>mem := mem w\<rparr> = logged DEBUG_LEVEL vmexit_c 62 ?s w"
  proof -
    have "w2\<lparr>mem := mem w\<rparr> = w1\<lparr>mem := mem w\<rparr>" using w2(5) by (rule other_parts)
    also have "\<dots> = ?w\<lparr>mem := mem w\<rparr>" using w1(6) by (rule other_parts)
    also have "\<dots> = logged DEBUG_LEVEL vmexit_c 62 ?s w" using out by (simp add: outside_registers_def)
    finally show ?thesis .
  qed
  ultimately show ?thesis
    using w1(2,3) w2(2,3) mon by (intro exI [of _ w2] conjI) (simp_all add: insert_commute)
qed

text \<open>Any other hypercall fails: the handler logs an error and reports the failure.\<close>

lemma vmcall_unsupported:
  assumes "guest_view gs (mem w) RDI \<noteq> PROTECET_SYSCALL"
  shows "vmcall_handler gs w = Done HANDLER_FAILURE
    (skip_instruction gs (logged ERROR_LEVEL vmexit_c 68 ''unsupported vmcall'' w))"
proof -
  have "get_reg gs RDI (mem (skip_instruction gs w)) \<noteq> PROTECET_SYSCALL"
    using assms by (simp add: skip_instruction_def assign_def guest_view_def)
  then show ?thesis
    by (simp add: vmcall_handler_def Let_def log_log_plain vmexit_log_ok skip_logged)
qed

text \<open>The hook logs the number of the entry and calls the handler it was given, once.\<close>

lemma ssdt_hook_eq:
  assumes "unat number < 2147483648"
  shows "ssdt_hook call number handler w =
    call handler (logged INFO_LEVEL hooks_c 7 (''hooked ssdt read at entry '' @ digits_text 10 number) w)"
  using log_log_decimal [of hooks_c 7 "''hooked ssdt read at entry ''" "[]" number INFO_LEVEL w] assms
  by (simp add: ssdt_hook_def log_ok_def hooks_c_def sint_nonneg_iff)

end
