(* ===== verification/Vmm.thy ===== *)
theory Vmm
  imports Vmexit
begin

text \<open>
  \<open>src/vmm/vmm.c\<close>: entering VMX operation, the contents of the VMCS, and the launch of the guest.

  \<open>configure_vmcs\<close> is a sequence of VMCS writes, each a field and the value the code computes for
  it. The lemmas read the finished VMCS back: what the guest and the host start with, that the
  control fields pass the processor's checks, and where the code and its intent part.
\<close>

section \<open>Constants\<close>

abbreviation (input) CR4_VMX_ENABLE :: qword_t where "CR4_VMX_ENABLE \<equiv> 0x2000"
abbreviation (input) CR0_NE_ENABLE :: qword_t where "CR0_NE_ENABLE \<equiv> 0x20"
abbreviation (input) IA32_FEATURE_CONTROL_LOCK_BIT :: dword_t where
  "IA32_FEATURE_CONTROL_LOCK_BIT \<equiv> 1"
abbreviation (input) IA32_FEATURE_CONTROL_ENABLE_VMXON_INSIDE_SMX :: dword_t where
  "IA32_FEATURE_CONTROL_ENABLE_VMXON_INSIDE_SMX \<equiv> 2"
abbreviation (input) IA32_FEATURE_CONTROL_ENABLE_VMXON_OUTSIDE_SMX :: dword_t where
  "IA32_FEATURE_CONTROL_ENABLE_VMXON_OUTSIDE_SMX \<equiv> 4"
abbreviation (input) STACK_TOP :: qword_t where "STACK_TOP \<equiv> 0x7BFF"
abbreviation (input) CANONICAL_ADDRESS :: qword_t where "CANONICAL_ADDRESS \<equiv> 0xffffffff"
abbreviation (input) CANONICAL_SELECTOR :: qword_t where "CANONICAL_SELECTOR \<equiv> 0xff"
abbreviation (input) VMCS_SELECTOR_UNUSABLE :: qword_t where "VMCS_SELECTOR_UNUSABLE \<equiv> 0x10000"
abbreviation (input) DESCRIPTOR_MAX_LIMIT :: qword_t where "DESCRIPTOR_MAX_LIMIT \<equiv> 0xfffff"
abbreviation (input) GUEST_DS_ACCESS_RIGHTS :: qword_t where "GUEST_DS_ACCESS_RIGHTS \<equiv> 0xc093"
abbreviation (input) GUEST_CS_ACCESS_RIGHTS :: qword_t where "GUEST_CS_ACCESS_RIGHTS \<equiv> 0xa09b"
abbreviation (input) GUEST_TR_ACCESS_RIGHTS :: qword_t where "GUEST_TR_ACCESS_RIGHTS \<equiv> 0xc08b"
abbreviation (input) RFLAGS_DEFAULT0 :: qword_t where "RFLAGS_DEFAULT0 \<equiv> 0xfffd7fd7"
abbreviation (input) RFLAGS_DEFAULT1 :: qword_t where "RFLAGS_DEFAULT1 \<equiv> 2"
abbreviation (input) DEFAULT_INTERRUPTIBILITY_STATE :: qword_t where
  "DEFAULT_INTERRUPTIBILITY_STATE \<equiv> 0"
abbreviation (input) IA32_DEBUGCTL_DEFAULT0 :: qword_t where "IA32_DEBUGCTL_DEFAULT0 \<equiv> 0xffc3"
abbreviation (input) CPU_STATE_ACTIVE :: qword_t where "CPU_STATE_ACTIVE \<equiv> 0"

definition vmm_c :: string where "vmm_c = ''src/vmm/vmm.c''"

section \<open>Entering VMX operation\<close>

text \<open>
  The feature control MSR is read into an \<open>int\<close>: its low half, which the write sign-extends.
\<close>

definition support_vmxon :: "world \<Rightarrow> unit res" where
  "support_vmxon w =
     (let feature_control_msr = (ucast (read_msr MSR_IA32_FEATURE_CONTROL w) :: dword_t)
      in if feature_control_msr AND IA32_FEATURE_CONTROL_LOCK_BIT \<noteq> 0 then
           if feature_control_msr AND IA32_FEATURE_CONTROL_ENABLE_VMXON_INSIDE_SMX \<noteq> 0 then
             LOG_INFO vmm_c 95 ''support of vmxon inside smx operation'' [] w
           else if feature_control_msr AND IA32_FEATURE_CONTROL_ENABLE_VMXON_OUTSIDE_SMX \<noteq> 0 then
             LOG_INFO vmm_c 97 ''support of vmxon outside smx operation'' [] w
           else PANIC vmm_c 99 ''no support for vmxon instruction'' [] w
         else
           let w = write_msr MSR_IA32_FEATURE_CONTROL
                 (scast (feature_control_msr OR IA32_FEATURE_CONTROL_LOCK_BIT OR
                    IA32_FEATURE_CONTROL_ENABLE_VMXON_INSIDE_SMX OR
                    IA32_FEATURE_CONTROL_ENABLE_VMXON_OUTSIDE_SMX)) w
           in LOG_INFO vmm_c 110 ''support of vmxon inside and outside of smx operation'' [] w)"

definition start_vmx :: "env \<Rightarrow> qword_t \<Rightarrow> world \<Rightarrow> unit res" where
  "start_vmx E cpu_data w =
     (let w = write_msr MSR_IA32_DEBUGCTL (read_msr MSR_IA32_DEBUGCTL w AND IA32_DEBUGCTL_DEFAULT0) w;
          w = write_dr7 (read_dr7 w AND 0xffffffff) w;
          w = w\<lparr>mem := store32 (vmxon_region cpu_data) (ucast (read_msr MSR_IA32_VMX_BASIC w)) (mem w)\<rparr>;
          w = w\<lparr>mem := store32 (vmcs_region cpu_data) (ucast (read_msr MSR_IA32_VMX_BASIC w)) (mem w)\<rparr>;
          (r, w) = vmxon E (vmxon_region cpu_data) w
      in bindR (ASSERT vmm_c 122 ''vmxon((void *)cpu_data->vmxon_region) == VM_SUCCESS''
                  (r \<noteq> VM_SUCCESS) w) (\<lambda>_ w.
      let (r, w) = vmclear E (vmcs_region cpu_data) w
      in bindR (ASSERT vmm_c 123 ''vmclear((void *)cpu_data->vmcs) == VM_SUCCESS''
                  (r \<noteq> VM_SUCCESS) w) (\<lambda>_ w.
      let (r, w) = vmptrld E (vmcs_region cpu_data) w
      in bindR (ASSERT vmm_c 124 ''vmptrld((void *)cpu_data->vmcs) == VM_SUCCESS''
                  (r \<noteq> VM_SUCCESS) w) (\<lambda>_ w.
      LOG_INFO vmm_c 126 ''entered VMX-root operation'' [] w))))"

definition enter_vmx_root :: "env \<Rightarrow> qword_t \<Rightarrow> world \<Rightarrow> unit res" where
  "enter_vmx_root E cpu_data w =
     (let w = write_cr0 ((read_cr0 w OR CR0_NE_ENABLE OR read_msr MSR_IA32_VMX_CR0_FIXED0 w) AND
                read_msr MSR_IA32_VMX_CR0_FIXED1 w) w;
          w = write_cr4 ((read_cr4 w OR CR4_VMX_ENABLE OR read_msr MSR_IA32_VMX_CR4_FIXED0 w) AND
                read_msr MSR_IA32_VMX_CR4_FIXED1 w) w
      in bindR (support_vmxon w) (\<lambda>_. start_vmx E cpu_data))"

section \<open>The VMCS\<close>

definition get_default_bits :: "dword_t \<Rightarrow> dword_t \<Rightarrow> world \<Rightarrow> dword_t" where
  "get_default_bits default_bits_msr true_default_bits_msr w =
     (let default1 = (ucast (read_msr default_bits_msr w AND 0xffffffff) :: dword_t);
          default0 = (ucast (drop_bit 32 (read_msr default_bits_msr w)) :: dword_t);
          (default1, default0) =
            if BIT_N (read_msr MSR_IA32_VMX_BASIC w) 55 \<noteq> 0
            then (ucast (read_msr true_default_bits_msr w AND 0xffffffff),
                  ucast (drop_bit 32 (read_msr true_default_bits_msr w)))
            else (default1, default0)
      in default1 AND default0)"

text \<open>Writes of VMCS fields in order, each of a value that is read off the machine.\<close>

definition vmwrites :: "(qword_t \<times> (world \<Rightarrow> qword_t)) list \<Rightarrow> world \<Rightarrow> world" where
  "vmwrites fvs = fold (\<lambda>(f, v) w. vmwrite f (v w) w) fvs"

text \<open>
  The test of the assertion at line 134. \<open>ASSERT\<close> and \<open>BIT_N\<close> do not put their arguments in
  parentheses, so it is \<open>!(default_bits & 1LL << 1) >> 1 && \<dots>\<close>, where \<open>!\<close> binds before \<open>>>\<close>.
\<close>

definition pin_based_test :: "dword_t \<Rightarrow> bool" where
  "pin_based_test default_bits \<longleftrightarrow>
     drop_bit 1 (of_bool (\<not> (ucast default_bits AND push_bit 1 1 :: qword_t) \<noteq> 0) :: dword_t) \<noteq> 0 \<and>
     BIT_N (ucast default_bits) 2 \<noteq> 0 \<and> BIT_N (ucast default_bits) 4 \<noteq> 0"

definition control_fields :: "(qword_t \<times> (world \<Rightarrow> qword_t)) list" where
  "control_fields = [
     (VMCS_PIN_BASED_VM_EXEC_CONTROL, \<lambda>w. ucast
        (get_default_bits MSR_IA32_VMX_PINBASED_CTLS MSR_IA32_VMX_TRUE_PINBASED_CTLS w)),
     (VMCS_CPU_BASED_VM_EXEC_CONTROL, \<lambda>w. ucast
        (get_default_bits MSR_IA32_VMX_PROCBASED_CTLS MSR_IA32_VMX_TRUE_PROCBASED_CTLS w) OR
        CPU_BASED_HLT_EXITING OR CPU_BASED_ACTIVATE_MSR_BITMAP OR CPU_BASED_ACTIVATE_SECONDARY_CONTROLS),
     (VMCS_SECONDARY_VM_EXEC_CONTROL, \<lambda>w. ucast
        (get_default_bits MSR_IA32_VMX_PROCBASED_CTLS2 MSR_IA32_VMX_PROCBASED_CTLS2 w) OR
        CPU_BASED_CTL2_ENABLE_EPT OR CPU_BASED_CTL2_UNRESTRICTED_GUEST),
     (VMCS_VM_EXIT_CONTROLS, \<lambda>w. ucast
        (get_default_bits MSR_IA32_VMX_EXIT_CTLS MSR_IA32_VMX_TRUE_EXIT_CTLS w) OR VM_EXIT_IA32E_MODE),
     (VMCS_VM_ENTRY_CONTROLS, \<lambda>w. ucast
        (get_default_bits MSR_IA32_VMX_ENTRY_CTLS MSR_IA32_VMX_TRUE_ENTRY_CTLS w) OR VM_ENTRY_IA32E_MODE)]"

definition host_fields :: "env \<Rightarrow> qword_t \<Rightarrow> (qword_t \<times> (world \<Rightarrow> qword_t)) list" where
  "host_fields E cpu_data = [
     (VMCS_HOST_CR0, read_cr0),
     (VMCS_HOST_CR4, read_cr4),
     (VMCS_HOST_CR3, read_cr3),
     (VMCS_HOST_RIP, \<lambda>_. vmexit_wrapper_addr E),
     (VMCS_HOST_RSP, \<lambda>_. STACK_TOP),
     (VMCS_HOST_SYSENTER_CS, \<lambda>_. CANONICAL_SELECTOR),
     (VMCS_HOST_SYSENTER_EIP, \<lambda>_. CANONICAL_ADDRESS),
     (VMCS_HOST_SYSENTER_ESP, \<lambda>_. CANONICAL_ADDRESS),
     (VMCS_HOST_CS_SELECTOR, \<lambda>w. ucast (read_cs w)),
     (VMCS_HOST_SS_SELECTOR, \<lambda>w. ucast (read_ss w)),
     (VMCS_HOST_DS_SELECTOR, \<lambda>w. ucast (read_ds w)),
     (VMCS_HOST_ES_SELECTOR, \<lambda>w. ucast (read_es w)),
     (VMCS_HOST_FS_SELECTOR, \<lambda>w. ucast (read_fs w)),
     (VMCS_HOST_GS_SELECTOR, \<lambda>w. ucast (read_gs w)),
     (VMCS_HOST_TR_SELECTOR, \<lambda>w. ucast (read_ds w)),
     (VMCS_HOST_FS_BASE, \<lambda>_. guest_cpu_state_of cpu_data),
     (VMCS_HOST_GS_BASE, \<lambda>_. 0),
     (VMCS_HOST_TR_BASE, \<lambda>w. ucast (read_ds w))]"

definition table_fields ::
    "descriptor_table \<Rightarrow> descriptor_table \<Rightarrow> (qword_t \<times> (world \<Rightarrow> qword_t)) list" where
  "table_fields gdt idt = [
     (VMCS_HOST_GDTR_BASE, \<lambda>_. dt_base gdt),
     (VMCS_HOST_IDTR_BASE, \<lambda>_. dt_base idt)]"

definition guest_fields ::
    "env \<Rightarrow> qword_t \<Rightarrow> descriptor_table \<Rightarrow> descriptor_table \<Rightarrow> (qword_t \<times> (world \<Rightarrow> qword_t)) list" where
  "guest_fields E cpu_data gdt idt = [
     (VMCS_GUEST_CR0, read_cr0),
     (VMCS_GUEST_CR3, read_cr3),
     (VMCS_GUEST_CR4, read_cr4),
     (VMCS_GUEST_DR7, read_dr7),
     (VMCS_GUEST_RIP, \<lambda>_. kmain_addr E),
     (VMCS_GUEST_RSP, \<lambda>_. stack_top (guest_cpu_state_of cpu_data)),
     (VMCS_GUEST_RFLAGS, \<lambda>w. (read_rflags w OR RFLAGS_DEFAULT1) AND RFLAGS_DEFAULT0),
     (VMCS_GUEST_IA32_DEBUGCTL, \<lambda>w. read_msr MSR_IA32_DEBUGCTL w AND 0xffffffff),
     (VMCS_GUEST_IA32_DEBUGCTL_HIGH, \<lambda>w. drop_bit 32 (read_msr MSR_IA32_DEBUGCTL w)),
     (VMCS_GUEST_SYSENTER_CS, \<lambda>w. ucast (read_cs w)),
     (VMCS_GUEST_SYSENTER_EIP, \<lambda>_. CANONICAL_ADDRESS),
     (VMCS_GUEST_SYSENTER_ESP, \<lambda>_. CANONICAL_ADDRESS),
     (VMCS_GUEST_CS_SELECTOR, \<lambda>w. ucast (read_cs w)),
     (VMCS_GUEST_CS_BASE, \<lambda>_. 0),
     (VMCS_GUEST_CS_LIMIT, \<lambda>_. DESCRIPTOR_MAX_LIMIT),
     (VMCS_GUEST_CS_AR_BYTES, \<lambda>_. GUEST_CS_ACCESS_RIGHTS),
     (VMCS_GUEST_SS_SELECTOR, \<lambda>w. ucast (read_ss w)),
     (VMCS_GUEST_SS_BASE, \<lambda>_. 0),
     (VMCS_GUEST_SS_LIMIT, \<lambda>_. DESCRIPTOR_MAX_LIMIT),
     (VMCS_GUEST_SS_AR_BYTES, \<lambda>_. GUEST_DS_ACCESS_RIGHTS),
     (VMCS_GUEST_DS_SELECTOR, \<lambda>w. ucast (read_ds w)),
     (VMCS_GUEST_DS_BASE, \<lambda>_. 0),
     (VMCS_GUEST_DS_LIMIT, \<lambda>_. DESCRIPTOR_MAX_LIMIT),
     (VMCS_GUEST_DS_AR_BYTES, \<lambda>_. GUEST_DS_ACCESS_RIGHTS),
     (VMCS_GUEST_ES_SELECTOR, \<lambda>w. ucast (read_es w)),
     (VMCS_GUEST_ES_BASE, \<lambda>_. 0),
     (VMCS_GUEST_ES_LIMIT, \<lambda>_. DESCRIPTOR_MAX_LIMIT),
     (VMCS_GUEST_ES_AR_BYTES, \<lambda>_. GUEST_DS_ACCESS_RIGHTS),
     (VMCS_GUEST_FS_SELECTOR, \<lambda>w. ucast (read_fs w)),
     (VMCS_GUEST_FS_BASE, \<lambda>_. 0),
     (VMCS_GUEST_FS_LIMIT, \<lambda>_. DESCRIPTOR_MAX_LIMIT),
     (VMCS_GUEST_FS_AR_BYTES, \<lambda>_. GUEST_DS_ACCESS_RIGHTS),
     (VMCS_GUEST_GS_SELECTOR, \<lambda>w. ucast (read_gs w)),
     (VMCS_GUEST_GS_BASE, \<lambda>_. 0),
     (VMCS_GUEST_GS_LIMIT, \<lambda>_. DESCRIPTOR_MAX_LIMIT),
     (VMCS_GUEST_GS_AR_BYTES, \<lambda>_. GUEST_DS_ACCESS_RIGHTS),
     (VMCS_GUEST_TR_SELECTOR, \<lambda>w. ucast (read_ds w)),
     (VMCS_GUEST_TR_BASE, \<lambda>_. 0),
     (VMCS_GUEST_TR_LIMIT, \<lambda>_. DESCRIPTOR_MAX_LIMIT),
     (VMCS_GUEST_TR_AR_BYTES, \<lambda>_. GUEST_TR_ACCESS_RIGHTS),
     (VMCS_GUEST_LDTR_SELECTOR, \<lambda>_. 0),
     (VMCS_GUEST_LDTR_BASE, \<lambda>_. 0),
     (VMCS_GUEST_LDTR_LIMIT, \<lambda>_. 0xff),
     (VMCS_GUEST_LDTR_AR_BYTES, \<lambda>_. VMCS_SELECTOR_UNUSABLE),
     (VMCS_GUEST_GDTR_BASE, \<lambda>_. dt_base gdt),
     (VMCS_GUEST_IDTR_LIMIT, \<lambda>_. ucast (dt_limit gdt)),
     (VMCS_GUEST_IDTR_BASE, \<lambda>_. dt_base idt),
     (VMCS_GUEST_IDTR_LIMIT, \<lambda>_. ucast (dt_limit idt)),
     (VMCS_GUEST_ACTIVITY_STATE, \<lambda>_. CPU_STATE_ACTIVE),
     (VMCS_GUEST_INTERRUPTIBILITY_INFO, \<lambda>_. DEFAULT_INTERRUPTIBILITY_STATE),
     (VMCS_VMCS_LINK_POINTER, \<lambda>_. - 1),
     (VMCS_MSR_BITMAP, \<lambda>_. msr_bitmaps_of cpu_data)]"

definition configure_vmcs :: "env \<Rightarrow> qword_t \<Rightarrow> world \<Rightarrow> unit res" where
  "configure_vmcs E cpu_data w =
     bindR (ASSERT vmm_c 134
         (''(default_bits & 1LL << 1) >> 1 && (default_bits & 1LL << 2) >> 2 && '' @
          ''(default_bits & 1LL << 4) >> 4'')
         (pin_based_test
           (get_default_bits MSR_IA32_VMX_PINBASED_CTLS MSR_IA32_VMX_TRUE_PINBASED_CTLS w)) w) (\<lambda>_ w.
     let w = vmwrites control_fields w;
         w = vmwrites (host_fields E cpu_data) w;
         gdt = read_gdtr w;
         idt = read_idtr w
     in bindR (LOG_DEBUG vmm_c 177 ''gdtr base: %x, limit: %x''
           [ArgQword (dt_base gdt), ArgInt (ucast (dt_limit gdt))] w) (\<lambda>_ w.
        bindR (LOG_DEBUG vmm_c 178 ''idtr base: %x, limit: %x''
           [ArgQword (dt_base idt), ArgInt (ucast (dt_limit idt))] w) (\<lambda>_ w.
        let w = vmwrites (table_fields gdt idt) w;
            w = vmwrites (guest_fields E cpu_data gdt idt) w
        in bindR (initialize_extended_page_tables (epts_of cpu_data) w) (\<lambda>eptp w.
             Done () (vmwrite VMCS_EPT_POINTER eptp w)))))"

section \<open>Launching the guest\<close>

datatype vm_instruction_error =
    UNDEFINE_VM_INSTRUCTION_ERROR
  | VMCALL_EXECUTED_IN_VMX_ROOT_OPERATION
  | VMCLEAR_WITH_INVALID_PHYSICAL_ADDRESS
  | VMCLEAR_WITH_VMXON_POINTER
  | VMLAUNCH_WITH_NON_CLEAR_VMCS
  | VMRESUME_WITH_NON_LAUNCHED_VMCS
  | VMRESUME_AFTER_VMXOFF
  | VMENTRY_WITH_INVALID_CONTROL_FIELDS
  | VM_ENTRY_WITH_INVALID_HOST_STATE_FIELDS
  | VMPTRLD_WITH_INVALID_PHYSICAL_ADDRESS
  | VMPTRLD_WITH_VMXON_POINTER
  | VMPTRLD_WITH_INCORRECT_VMCS_REVISION_IDENTIFIER
  | VMREAD_OR_VMWRITE_TO_UNSUPPORTED_VMCS_COMPONENT
  | VMWRITE_TO_READ_ONLY_VMCS_COMPONENT
  | VMXON_EXECUTED_IN_VMX_ROOT_OPERATION
  | VM_ENTRY_WITH_INVALID_EXECUTIVE_VMCS_POINTER
  | VM_ENTRY_WITH_NON_LAUNCHED_EXECUTIVE_VMCS
  | VM_ENTRY_WITH_WXECUTIVE_VMCS_POINTER_NOT_VMXON_POINTER
  | VMCALL_WITH_NON_CLEAR_VMCS
  | VMCALL_WITH_INVALID_VM_EXIT_CONTROL_FIELDS
  | VMCALL_WITH_INCORRECT_MSEG_REVISION_IDENTIFIER
  | VMXOFF_UNSER_DUAL_MONITOR_TREATMENT
  | VMCALL_WITH_INVALID_SMM_MONITOR
  | VM_ENTRY_WITH_INVALID_VM_EXECUTION_CONTROL_FIELDS
  | VM_ENTRY_WITH_EVENTS_BLOCKED_BY_MOV_SS
  | INVALID_OPERAND_TO_INVEPT_OR_IVVPID

text \<open>The enumerators in the order of their values, and the table of their names.\<close>

definition vm_instruction_errors :: "vm_instruction_error list" where
  "vm_instruction_errors = [
     UNDEFINE_VM_INSTRUCTION_ERROR,
     VMCALL_EXECUTED_IN_VMX_ROOT_OPERATION,
     VMCLEAR_WITH_INVALID_PHYSICAL_ADDRESS,
     VMCLEAR_WITH_VMXON_POINTER,
     VMLAUNCH_WITH_NON_CLEAR_VMCS,
     VMRESUME_WITH_NON_LAUNCHED_VMCS,
     VMRESUME_AFTER_VMXOFF,
     VMENTRY_WITH_INVALID_CONTROL_FIELDS,
     VM_ENTRY_WITH_INVALID_HOST_STATE_FIELDS,
     VMPTRLD_WITH_INVALID_PHYSICAL_ADDRESS,
     VMPTRLD_WITH_VMXON_POINTER,
     VMPTRLD_WITH_INCORRECT_VMCS_REVISION_IDENTIFIER,
     VMREAD_OR_VMWRITE_TO_UNSUPPORTED_VMCS_COMPONENT,
     VMWRITE_TO_READ_ONLY_VMCS_COMPONENT,
     VMXON_EXECUTED_IN_VMX_ROOT_OPERATION,
     VM_ENTRY_WITH_INVALID_EXECUTIVE_VMCS_POINTER,
     VM_ENTRY_WITH_NON_LAUNCHED_EXECUTIVE_VMCS,
     VM_ENTRY_WITH_WXECUTIVE_VMCS_POINTER_NOT_VMXON_POINTER,
     VMCALL_WITH_NON_CLEAR_VMCS,
     VMCALL_WITH_INVALID_VM_EXIT_CONTROL_FIELDS,
     VMCALL_WITH_INCORRECT_MSEG_REVISION_IDENTIFIER,
     VMXOFF_UNSER_DUAL_MONITOR_TREATMENT,
     VMCALL_WITH_INVALID_SMM_MONITOR,
     VM_ENTRY_WITH_INVALID_VM_EXECUTION_CONTROL_FIELDS,
     VM_ENTRY_WITH_EVENTS_BLOCKED_BY_MOV_SS,
     INVALID_OPERAND_TO_INVEPT_OR_IVVPID]"

definition VM_INSTRUCTION_ERROR_STRINGS :: "string list" where
  "VM_INSTRUCTION_ERROR_STRINGS = [
     ''UNDEFINE_VM_INSTRUCTION_ERROR'',
     ''VMCALL_EXECUTED_IN_VMX_ROOT_OPERATION'',
     ''VMCLEAR_WITH_INVALID_PHYSICAL_ADDRESS'',
     ''VMCLEAR_WITH_VMXON_POINTER'',
     ''VMLAUNCH_WITH_NON_CLEAR_VMCS'',
     ''VMRESUME_WITH_NON_LAUNCHED_VMCS'',
     ''VMRESUME_AFTER_VMXOFF'',
     ''VMENTRY_WITH_INVALID_CONTROL_FIELDS'',
     ''VM_ENTRY_WITH_INVALID_HOST_STATE_FIELDS'',
     ''VMPTRLD_WITH_INVALID_PHYSICAL_ADDRESS'',
     ''VMPTRLD_WITH_VMXON_POINTER'',
     ''VMPTRLD_WITH_INCORRECT_VMCS_REVISION_IDENTIFIER'',
     ''VMREAD_OR_VMWRITE_TO_UNSUPPORTED_VMCS_COMPONENT'',
     ''VMWRITE_TO_READ_ONLY_VMCS_COMPONENT'',
     ''VMXON_EXECUTED_IN_VMX_ROOT_OPERATION'',
     ''VM_ENTRY_WITH_INVALID_EXECUTIVE_VMCS_POINTER'',
     ''VM_ENTRY_WITH_NON_LAUNCHED_EXECUTIVE_VMCS'',
     ''VM_ENTRY_WITH_WXECUTIVE_VMCS_POINTER_NOT_VMXON_POINTER'',
     ''VMCALL_WITH_NON_CLEAR_VMCS'',
     ''VMCALL_WITH_INVALID_VM_EXIT_CONTROL_FIELDS'',
     ''VMCALL_WITH_INCORRECT_MSEG_REVISION_IDENTIFIER'',
     ''VMXOFF_UNSER_DUAL_MONITOR_TREATMENT'',
     ''VMCALL_WITH_INVALID_SMM_MONITOR'',
     ''VM_ENTRY_WITH_INVALID_VM_EXECUTION_CONTROL_FIELDS'',
     ''VM_ENTRY_WITH_EVENTS_BLOCKED_BY_MOV_SS'',
     ''INVALID_OPERAND_TO_INVEPT_OR_IVVPID'']"

definition check_vm_instruction_error :: "world \<Rightarrow> dword_t" where
  "check_vm_instruction_error w = ucast (vmread VMCS_VM_INSTRUCTION_ERROR w)"

definition launch_vm :: "env \<Rightarrow> world \<Rightarrow> unit res" where
  "launch_vm E w =
     bindR (LOG_INFO vmm_c 294 ''Launching the VM'' [] w) (\<lambda>_ w.
     bindR (vmlaunch E w) (\<lambda>_ w.
       let i = unat (check_vm_instruction_error w)
       in if i < length VM_INSTRUCTION_ERROR_STRINGS
          then PANIC vmm_c 296 ''VM launch faild, VM-instruction error: %s''
                 [lit (VM_INSTRUCTION_ERROR_STRINGS ! i)] w
          else Stop Undefined w))"

section \<open>Reading the configured VMCS\<close>

text \<open>Worlds that agree in everything but memory, the VMCS and what was written to the ports.\<close>

definition same_machine :: "world \<Rightarrow> world \<Rightarrow> bool" where
  "same_machine w u \<longleftrightarrow> u\<lparr>mem := mem w, vmcs := vmcs w, port_writes := port_writes w\<rparr> = w"

lemma same_machine_refl [simp, intro]: "same_machine w w"
  by (simp add: same_machine_def)

lemma same_machine_vmwrite [intro]: "same_machine w u \<Longrightarrow> same_machine w (vmwrite f x u)"
  by (simp add: same_machine_def vmwrite_def Let_def)

lemma same_machine_logged [intro]: "same_machine w u \<Longrightarrow> same_machine w (logged l n k s u)"
  by (simp add: same_machine_def logged_def emit_def)

lemma same_machine_mem [intro]: "same_machine w u \<Longrightarrow> same_machine w (u\<lparr>mem := m\<rparr>)"
  by (simp add: same_machine_def)

lemma same_machine_parts:
  "same_machine w u \<Longrightarrow> cr0 u = cr0 w \<and> cr3 u = cr3 w \<and> cr4 u = cr4 w \<and> dr7 u = dr7 w \<and> rflags u = rflags w \<and>
     seg_cs u = seg_cs w \<and> seg_ss u = seg_ss w \<and> seg_ds u = seg_ds w \<and> seg_es u = seg_es w \<and>
     seg_fs u = seg_fs w \<and> seg_gs u = seg_gs w \<and> gdtr u = gdtr w \<and> idtr u = idtr w \<and>
     msrs u = msrs w \<and> vmcs_loaded u = vmcs_loaded w \<and> min_level u = min_level w"
proof -
  assume "same_machine w u"
  then obtain m c p where "w = u\<lparr>mem := m, vmcs := c, port_writes := p\<rparr>"
    unfolding same_machine_def by metis
  then show ?thesis by simp
qed

text \<open>Values that depend on the other parts only.\<close>

definition stable :: "(world \<Rightarrow> qword_t) \<Rightarrow> bool" where
  "stable v \<longleftrightarrow> (\<forall>w u. same_machine w u \<longrightarrow> v u = v w)"

lemma stable_values:
  "list_all (\<lambda>(f, v). stable v) control_fields"
  "list_all (\<lambda>(f, v). stable v) (host_fields E cpu_data)"
  "list_all (\<lambda>(f, v). stable v) (table_fields gdt idt)"
  "list_all (\<lambda>(f, v). stable v) (guest_fields E cpu_data gdt idt)"
  by (simp_all add: stable_def control_fields_def host_fields_def table_fields_def guest_fields_def
      register_defs read_msr_eq get_default_bits_def same_machine_parts)

abbreviation values_at :: "(qword_t \<times> (world \<Rightarrow> qword_t)) list \<Rightarrow> world \<Rightarrow> (qword_t \<times> qword_t) list" where
  "values_at fvs w \<equiv> map (\<lambda>(f, v). (f, v w)) fvs"

abbreviation vmcs_fold :: "(qword_t \<times> qword_t) list \<Rightarrow> world \<Rightarrow> world" where
  "vmcs_fold \<equiv> fold (\<lambda>(f, x). vmwrite f x)"

lemma stable_values_at:
  "list_all (\<lambda>(f, v). stable v) fvs \<Longrightarrow> same_machine w u \<Longrightarrow> values_at fvs u = values_at fvs w"
  by (auto simp: list_all_iff stable_def)

lemma same_machine_fold [intro]: "same_machine w u \<Longrightarrow> same_machine w (vmcs_fold kvs u)"
  by (induction kvs arbitrary: u) (auto simp: split_beta)

lemma vmwrites_values:
  assumes "list_all (\<lambda>(f, v). stable v) fvs" and "same_machine w u"
  shows "vmwrites fvs u = vmcs_fold (values_at fvs w) u"
  using assms
proof (induction fvs arbitrary: u)
  case Nil
  then show ?case by (simp add: vmwrites_def)
next
  case (Cons fv fvs)
  obtain f v where fv: "fv = (f, v)" by (cases fv)
  have "vmwrites fvs (vmwrite f (v u) u) = vmcs_fold (values_at fvs w) (vmwrite f (v u) u)"
    using Cons.prems by (intro Cons.IH) auto
  moreover have "v u = v w" using Cons.prems by (simp add: fv stable_def)
  ultimately show ?case by (simp add: fv vmwrites_def)
qed

text \<open>All the writes, in order.\<close>

definition configured :: "env \<Rightarrow> qword_t \<Rightarrow> world \<Rightarrow> (qword_t \<times> qword_t) list" where
  "configured E cpu_data w =
     values_at
       (control_fields @ host_fields E cpu_data @ table_fields (gdtr w) (idtr w) @
        guest_fields E cpu_data (gdtr w) (idtr w)) w @
     [(VMCS_EPT_POINTER, initial_eptp (epts_of cpu_data))]"

lemma vmcs_vmwrite_cong:
  "vmcs w = vmcs u \<Longrightarrow> vmcs_loaded w = vmcs_loaded u \<Longrightarrow> vmcs (vmwrite f x w) = vmcs (vmwrite f x u)"
  by (simp add: vmwrite_def Let_def)

lemma vmcs_fold_frame [simp]:
  "vmcs_loaded (vmcs_fold kvs w) = vmcs_loaded w" "mem (vmcs_fold kvs w) = mem w"
  by (induction kvs arbitrary: w) (simp_all add: split_beta)

lemma vmcs_fold_vmcs:
  "vmcs w = vmcs u \<Longrightarrow> vmcs_loaded w = vmcs_loaded u \<Longrightarrow> vmcs (vmcs_fold kvs w) = vmcs (vmcs_fold kvs u)"
proof (induction kvs arbitrary: w u)
  case (Cons kv kvs)
  obtain f x where kv: "kv = (f, x)" by (cases kv)
  have "vmcs (vmwrite f x w) = vmcs (vmwrite f x u)"
    using Cons.prems by (rule vmcs_vmwrite_cong)
  then have "vmcs (vmcs_fold kvs (vmwrite f x w)) = vmcs (vmcs_fold kvs (vmwrite f x u))"
    using Cons.prems(2) by (intro Cons.IH) simp_all
  then show ?case by (simp add: kv)
qed simp

definition programmed :: "env \<Rightarrow> qword_t \<Rightarrow> world \<Rightarrow> world" where
  "programmed E cpu_data w = vmcs_fold (configured E cpu_data w) w"

lemma configured_fields:
  assumes "(f, v) \<in> set (configured E cpu_data w)"
  shows "f = VMCS_GUEST_IA32_DEBUGCTL_HIGH \<or> full_field f = f"
proof -
  have "list_all (\<lambda>f. f = VMCS_GUEST_IA32_DEBUGCTL_HIGH \<or> full_field f = f) (map fst (configured E cpu_data w))"
    by (simp add: configured_def control_fields_def host_fields_def table_fields_def guest_fields_def full_field_def)
  with assms show ?thesis by (auto simp: list_all_iff)
qed

lemma read_configured:
  assumes "vmcs_loaded w" and "full_field j = j" and "j \<noteq> VMCS_GUEST_IA32_DEBUGCTL"
  shows "vmread j (programmed E cpu_data w) =
    (case last_write j (configured E cpu_data w) of None \<Rightarrow> vmread j w | Some v \<Rightarrow> field_norm j v)"
  unfolding programmed_def
proof (rule vmcs_file.get_fold_last [OF assms(1)])
  fix k v
  assume "(k, v) \<in> set (configured E cpu_data w)"
  then have "k = VMCS_GUEST_IA32_DEBUGCTL_HIGH \<or> full_field k = k" by (rule configured_fields)
  moreover have "full_field VMCS_GUEST_IA32_DEBUGCTL_HIGH = VMCS_GUEST_IA32_DEBUGCTL"
    by (simp add: full_field_def)
  ultimately show "k = j \<or> separate_fields k j"
    using assms(2,3) by (auto simp: separate_fields_def)
qed

lemmas configured_defs =
  configured_def control_fields_def host_fields_def table_fields_def guest_fields_def

lemmas field_shape = full_field_def field_norm_def high_access_def field_width_def get_field_def

text \<open>Only vmread looks at the VMCS, so equal VMCSs read equal.\<close>

lemma vmread_cong: "vmcs w = vmcs u \<Longrightarrow> vmcs_loaded w = vmcs_loaded u \<Longrightarrow> vmread f w = vmread f u"
  by (simp add: vmread_def vmcs_get_def)

section \<open>The configuration returns\<close>

text \<open>The shifted negation is zero, so the assertion at line 134 cannot fail.\<close>

lemma pin_based_test_never [simp]: "\<not> pin_based_test default_bits"
  by (simp add: pin_based_test_def)

text \<open>The descriptor tables' bases that the log can print: not the least \<open>int\<close>, which has no negation.\<close>

definition loggable :: "qword_t \<Rightarrow> bool" where
  "loggable v \<longleftrightarrow> (ucast v :: dword_t) \<noteq> 0x80000000"

lemma log_table:
  assumes "log_ok file line (s @ t)" and "length (s @ t) < 150" and "loggable base"
  shows "\<exists>message. log_log level file line (s @ ''%x'' @ t @ ''%x'') [ArgQword base, ArgInt (ucast (lim :: word_t))] w =
    Done () (logged level file line message w)"
proof -
  obtain x where x: "integer_text (ucast base) 16 False = Some x"
    using assms(3) by (simp add: integer_text_def loggable_def)
  have l: "integer_text (ucast lim) 16 False = Some (unsigned_hex (ucast lim))"
  proof -
    have "unat lim < 65536" using unsigned_less [of lim] by simp
    then have "unat (ucast lim :: dword_t) < 2147483648"
      by (simp add: unsigned_ucast_eq take_bit_eq_mod)
    then show ?thesis by (simp add: unsigned_hex_text sint_nonneg_iff)
  qed
  have p: "plain s" "plain t" using assms(1) unfolding log_ok_def by (induction s) simp_all
  have r: "render False (s @ ''%x'' @ t @ ''%x'') [ArgQword base, ArgInt (ucast lim)] =
      Some (s @ x @ t @ unsigned_hex (ucast lim))"
    using p x l by (simp add: render_plain conversion_base_def)
  have c: "cstring (s @ x @ t @ unsigned_hex (ucast lim))"
    using p cstring_integer_text [OF _ x] cstring_integer_text [OF _ l] by (simp add: plain_cstring)
  have "length (s @ x @ t @ unsigned_hex (ucast lim)) < 0x100"
    using assms(2) integer_text_length [OF _ x] integer_text_length [OF _ l] by simp
  from log_log_rendered [OF r c this] show ?thesis
    using assms(1) unfolding log_ok_def by blast
qed

lemma log_tables:
  assumes "loggable base"
  shows "\<exists>message. LOG_DEBUG vmm_c 177 ''gdtr base: %x, limit: %x'' [ArgQword base, ArgInt (ucast (lim :: word_t))] w =
      Done () (logged DEBUG_LEVEL vmm_c 177 message w)"
    and "\<exists>message. LOG_DEBUG vmm_c 178 ''idtr base: %x, limit: %x'' [ArgQword base, ArgInt (ucast lim)] w =
      Done () (logged DEBUG_LEVEL vmm_c 178 message w)"
  using assms log_table [of vmm_c 177 "''gdtr base: ''" "'', limit: ''" base DEBUG_LEVEL lim w]
    log_table [of vmm_c 178 "''idtr base: ''" "'', limit: ''" base DEBUG_LEVEL lim w]
  by (simp_all add: log_ok_def vmm_c_def)

text \<open>
  The configuration returns, with the VMCS programmed and the page tables initialised. Besides
  them only the log changes.
\<close>

lemma configure_vmcs_Done:
  assumes "loggable (dt_base (gdtr w))" and "loggable (dt_base (idtr w))"
  obtains w' where "configure_vmcs E cpu_data w = Done () w'"
    and "\<And>f. vmread f w' = vmread f (programmed E cpu_data w)"
    and "mem w' = initialized (epts_of cpu_data) (mem w)"
    and "same_machine w w'"
proof -
  let ?pre = "values_at (control_fields @ host_fields E cpu_data) w"
  let ?post = "values_at (table_fields (gdtr w) (idtr w) @ guest_fields E cpu_data (gdtr w) (idtr w)) w"
  let ?eptp = "initial_eptp (epts_of cpu_data)"
  obtain w1 where w1: "w1 = vmcs_fold ?pre w" by simp
  have m1: "same_machine w w1" unfolding w1 by auto
  have head: "vmwrites (host_fields E cpu_data) (vmwrites control_fields w) = w1"
    unfolding w1 by (simp add: vmwrites_values [of _ w] stable_values same_machine_fold)
  obtain s1 s2 where logs:
      "LOG_DEBUG vmm_c 177 ''gdtr base: %x, limit: %x''
         [ArgQword (dt_base (gdtr w)), ArgInt (ucast (dt_limit (gdtr w)))] w1 =
       Done () (logged DEBUG_LEVEL vmm_c 177 s1 w1)"
      "LOG_DEBUG vmm_c 178 ''idtr base: %x, limit: %x''
         [ArgQword (dt_base (idtr w)), ArgInt (ucast (dt_limit (idtr w)))] (logged DEBUG_LEVEL vmm_c 177 s1 w1) =
       Done () (logged DEBUG_LEVEL vmm_c 178 s2 (logged DEBUG_LEVEL vmm_c 177 s1 w1))"
    using log_tables assms by metis
  obtain w2 where w2: "w2 = logged DEBUG_LEVEL vmm_c 178 s2 (logged DEBUG_LEVEL vmm_c 177 s1 w1)" by simp
  have m2: "same_machine w w2" unfolding w2 using m1 by auto
  obtain w3 where w3: "w3 = vmcs_fold ?post w2" by simp
  have m3: "same_machine w w3" unfolding w3 using m2 by auto
  have tail: "vmwrites (guest_fields E cpu_data (gdtr w) (idtr w))
      (vmwrites (table_fields (gdtr w) (idtr w)) w2) = w3"
    unfolding w3 using m2 by (simp add: vmwrites_values [of _ w] stable_values same_machine_fold)
  let ?w4 = "vmwrite VMCS_EPT_POINTER ?eptp (w3\<lparr>mem := initialized (epts_of cpu_data) (mem w3)\<rparr>)"
  have "configure_vmcs E cpu_data w = Done () ?w4"
    using logs m1 by (simp add: configure_vmcs_def head Let_def read_gdtr_def read_idtr_def
        same_machine_parts w2 [symmetric] tail initialize_eq)
  moreover have "vmread f ?w4 = vmread f (programmed E cpu_data w)" for f
  proof (rule vmread_cong)
    have p: "programmed E cpu_data w = vmwrite VMCS_EPT_POINTER ?eptp (vmcs_fold ?post w1)"
      by (simp add: programmed_def configured_def w1)
    have "vmcs w3 = vmcs (vmcs_fold ?post w1)"
      unfolding w3 by (rule vmcs_fold_vmcs) (simp_all add: w2)
    then show "vmcs ?w4 = vmcs (programmed E cpu_data w)"
      unfolding p by (intro vmcs_vmwrite_cong) (simp_all add: w3 w2)
    show "vmcs_loaded ?w4 = vmcs_loaded (programmed E cpu_data w)"
      by (simp add: p w3 w2)
  qed
  moreover have "mem ?w4 = initialized (epts_of cpu_data) (mem w)"
    by (simp add: w3 w2 w1)
  moreover have "same_machine w ?w4" using m3 by auto
  ultimately show ?thesis by (rule that)
qed

section \<open>Properties of the configuration\<close>

lemma mask_64 [simp]: "mask 64 = (- 1 :: qword_t)"
  by (rule bit_word_eqI) (simp add: bit_simps)

lemma read_control:
  assumes "vmcs_loaded w"
  shows "vmread VMCS_PIN_BASED_VM_EXEC_CONTROL (programmed E cpu_data w) =
      ucast (get_default_bits MSR_IA32_VMX_PINBASED_CTLS MSR_IA32_VMX_TRUE_PINBASED_CTLS w)"
    and "vmread VMCS_CPU_BASED_VM_EXEC_CONTROL (programmed E cpu_data w) =
      ucast (get_default_bits MSR_IA32_VMX_PROCBASED_CTLS MSR_IA32_VMX_TRUE_PROCBASED_CTLS w) OR 0x90000080"
    and "vmread VMCS_SECONDARY_VM_EXEC_CONTROL (programmed E cpu_data w) =
      ucast (get_default_bits MSR_IA32_VMX_PROCBASED_CTLS2 MSR_IA32_VMX_PROCBASED_CTLS2 w) OR 0x82"
    and "vmread VMCS_VM_EXIT_CONTROLS (programmed E cpu_data w) =
      ucast (get_default_bits MSR_IA32_VMX_EXIT_CTLS MSR_IA32_VMX_TRUE_EXIT_CTLS w) OR 0x200"
    and "vmread VMCS_VM_ENTRY_CONTROLS (programmed E cpu_data w) =
      ucast (get_default_bits MSR_IA32_VMX_ENTRY_CTLS MSR_IA32_VMX_TRUE_ENTRY_CTLS w) OR 0x200"
  by (simp_all add: read_configured [OF assms] configured_defs field_shape take_bit_or)

text \<open>
  The capability MSR of a group of controls: its low half has the bits that must be one, its high
  half those that may be one. A capability is consistent when the former are among the latter.
\<close>

definition capability :: "dword_t \<Rightarrow> dword_t \<Rightarrow> world \<Rightarrow> qword_t" where
  "capability msr true_msr w = msrs w (if bit (msrs w MSR_IA32_VMX_BASIC) 55 then true_msr else msr)"

definition control_allowed :: "qword_t \<Rightarrow> qword_t \<Rightarrow> bool" where
  "control_allowed cap v \<longleftrightarrow>
     (\<forall>n < 32. (bit cap n \<longrightarrow> bit v n) \<and> (bit v n \<longrightarrow> bit cap (32 + n)))"

definition capable :: "qword_t \<Rightarrow> nat list \<Rightarrow> bool" where
  "capable cap wanted \<longleftrightarrow>
     (\<forall>n < 32. bit cap n \<longrightarrow> bit cap (32 + n)) \<and> list_all (\<lambda>n. bit cap (32 + n)) wanted"

lemma get_default_bits_eq:
  "get_default_bits msr true_msr w =
     ucast (capability msr true_msr w) AND ucast (drop_bit 32 (capability msr true_msr w))"
  by (simp add: get_default_bits_def capability_def read_msr_eq BIT_N_eq ucast_and_low32)

lemma bit_default_bits:
  "n < 32 \<Longrightarrow> bit (get_default_bits msr true_msr w) n \<longleftrightarrow>
     bit (capability msr true_msr w) n \<and> bit (capability msr true_msr w) (32 + n)"
  by (auto simp: get_default_bits_eq bit_simps)

lemma control_allowed_flags:
  assumes "capable (capability msr true_msr w) wanted"
    and "\<And>n. bit flags n \<longleftrightarrow> n \<in> set wanted"
  shows "control_allowed (capability msr true_msr w) (ucast (get_default_bits msr true_msr w) OR flags)"
  using assms by (auto simp: control_allowed_def capable_def list_all_iff bit_default_bits bit_simps)

lemma flag_bits:
  "bit (0x90000080 :: qword_t) n \<longleftrightarrow> n \<in> set [7, 28, 31]"
  "bit (0x82 :: qword_t) n \<longleftrightarrow> n \<in> set [1, 7]"
  "bit (0x200 :: qword_t) n \<longleftrightarrow> n \<in> set [9]"
  "bit (0 :: qword_t) n \<longleftrightarrow> n \<in> set []"
proof -
  have p: "bit (2 ^ k :: qword_t) n \<longleftrightarrow> n = k" if "k < 64" for k
    using that by (auto simp: bit_exp_iff)
  have e: "(0x90000080 :: qword_t) = 2 ^ 7 OR 2 ^ 28 OR 2 ^ 31"
    "(0x82 :: qword_t) = 2 ^ 1 OR 2 ^ 7" "(0x200 :: qword_t) = 2 ^ 9"
    by simp_all
  show "bit (0x90000080 :: qword_t) n \<longleftrightarrow> n \<in> set [7, 28, 31]"
    unfolding e(1) bit_or_iff using p [of 7] p [of 28] p [of 31] by simp
  show "bit (0x82 :: qword_t) n \<longleftrightarrow> n \<in> set [1, 7]"
    unfolding e(2) bit_or_iff using p [of 1] p [of 7] by simp
  show "bit (0x200 :: qword_t) n \<longleftrightarrow> n \<in> set [9]"
    unfolding e(3) using p [of 9] by simp
qed simp

text \<open>C17. The control fields pass the checks of VM entry. On a processor whose capability MSRs are
  consistent and offer the wanted features, every control that must be one is one and every
  control that is one may be, and the wanted ones are: HLT exiting, MSR bitmaps, secondary
  controls, EPT, unrestricted guest, and 64-bit mode on both sides.\<close>

theorem configure_vmcs_controls_allowed:
  assumes "vmcs_loaded w" and "loggable (dt_base (gdtr w))" and "loggable (dt_base (idtr w))"
    and "capable (capability MSR_IA32_VMX_PINBASED_CTLS MSR_IA32_VMX_TRUE_PINBASED_CTLS w) []"
    and "capable (capability MSR_IA32_VMX_PROCBASED_CTLS MSR_IA32_VMX_TRUE_PROCBASED_CTLS w) [7, 28, 31]"
    and "capable (msrs w MSR_IA32_VMX_PROCBASED_CTLS2) [1, 7]"
    and "capable (capability MSR_IA32_VMX_EXIT_CTLS MSR_IA32_VMX_TRUE_EXIT_CTLS w) [9]"
    and "capable (capability MSR_IA32_VMX_ENTRY_CTLS MSR_IA32_VMX_TRUE_ENTRY_CTLS w) [9]"
  shows "\<exists>w'. configure_vmcs E cpu_data w = Done () w' \<and>
    control_allowed (capability MSR_IA32_VMX_PINBASED_CTLS MSR_IA32_VMX_TRUE_PINBASED_CTLS w)
      (vmread VMCS_PIN_BASED_VM_EXEC_CONTROL w') \<and>
    control_allowed (capability MSR_IA32_VMX_PROCBASED_CTLS MSR_IA32_VMX_TRUE_PROCBASED_CTLS w)
      (vmread VMCS_CPU_BASED_VM_EXEC_CONTROL w') \<and>
    control_allowed (msrs w MSR_IA32_VMX_PROCBASED_CTLS2) (vmread VMCS_SECONDARY_VM_EXEC_CONTROL w') \<and>
    control_allowed (capability MSR_IA32_VMX_EXIT_CTLS MSR_IA32_VMX_TRUE_EXIT_CTLS w)
      (vmread VMCS_VM_EXIT_CONTROLS w') \<and>
    control_allowed (capability MSR_IA32_VMX_ENTRY_CTLS MSR_IA32_VMX_TRUE_ENTRY_CTLS w)
      (vmread VMCS_VM_ENTRY_CONTROLS w') \<and>
    list_all (bit (vmread VMCS_CPU_BASED_VM_EXEC_CONTROL w')) [7, 28, 31] \<and>
    list_all (bit (vmread VMCS_SECONDARY_VM_EXEC_CONTROL w')) [1, 7] \<and>
    bit (vmread VMCS_VM_EXIT_CONTROLS w') 9 \<and> bit (vmread VMCS_VM_ENTRY_CONTROLS w') 9"
proof (rule configure_vmcs_Done [OF assms(2,3), of E cpu_data])
  fix w'
  assume d: "configure_vmcs E cpu_data w = Done () w'" and r: "\<And>f. vmread f w' = vmread f (programmed E cpu_data w)"
  note read = r [of VMCS_PIN_BASED_VM_EXEC_CONTROL] r [of VMCS_CPU_BASED_VM_EXEC_CONTROL]
    r [of VMCS_SECONDARY_VM_EXEC_CONTROL] r [of VMCS_VM_EXIT_CONTROLS] r [of VMCS_VM_ENTRY_CONTROLS]
  have c2: "capability MSR_IA32_VMX_PROCBASED_CTLS2 MSR_IA32_VMX_PROCBASED_CTLS2 w = msrs w MSR_IA32_VMX_PROCBASED_CTLS2"
    by (simp add: capability_def)
  show ?thesis
    unfolding read read_control [OF assms(1)]
    using control_allowed_flags [OF assms(4) flag_bits(4)] control_allowed_flags [OF assms(5) flag_bits(1)]
      control_allowed_flags [OF assms(6) [folded c2] flag_bits(2)]
      control_allowed_flags [OF assms(7) flag_bits(3)] control_allowed_flags [OF assms(8) flag_bits(3)]
    by (intro exI [of _ w'] conjI d) (simp_all add: r read_control [OF assms(1)] c2 bit_or_iff flag_bits)
qed

text \<open>The controls that the hypervisor relies on are on, whatever the capability MSRs say.\<close>

lemma programmed_controls:
  assumes "vmcs_loaded w"
  shows "list_all (bit (vmread VMCS_CPU_BASED_VM_EXEC_CONTROL (programmed E cpu_data w))) [7, 28, 31]"
    and "list_all (bit (vmread VMCS_SECONDARY_VM_EXEC_CONTROL (programmed E cpu_data w))) [1, 7]"
  by (simp_all add: read_control [OF assms] bit_or_iff flag_bits)

lemma programmed_entry_points:
  assumes "vmcs_loaded w"
  shows "vmread VMCS_HOST_RIP (programmed E cpu_data w) = vmexit_wrapper_addr E"
    and "vmread VMCS_HOST_RSP (programmed E cpu_data w) = STACK_TOP"
    and "vmread VMCS_HOST_FS_BASE (programmed E cpu_data w) = guest_cpu_state_of cpu_data"
    and "vmread VMCS_HOST_CR3 (programmed E cpu_data w) = cr3 w"
    and "vmread VMCS_GUEST_RIP (programmed E cpu_data w) = kmain_addr E"
    and "vmread VMCS_GUEST_RSP (programmed E cpu_data w) = stack_top (guest_cpu_state_of cpu_data)"
    and "vmread VMCS_GUEST_CR3 (programmed E cpu_data w) = cr3 w"
    and "vmread VMCS_MSR_BITMAP (programmed E cpu_data w) = msr_bitmaps_of cpu_data"
    and "vmread VMCS_EPT_POINTER (programmed E cpu_data w) = initial_eptp (epts_of cpu_data)"
    and "vmread VMCS_VMCS_LINK_POINTER (programmed E cpu_data w) = - 1"
  by (simp_all add: read_configured [OF assms] configured_defs field_shape register_defs)

text \<open>C19. The VMCS field of the guest's GDTR limit is never written: it keeps what the VMCS held before.
  The limit of the IDTR is written twice, and ends up with the limit of the host's IDT.\<close>

theorem configure_vmcs_omits_gdtr_limit:
  assumes "vmcs_loaded w" and "loggable (dt_base (gdtr w))" and "loggable (dt_base (idtr w))"
  shows "\<exists>w'. configure_vmcs E cpu_data w = Done () w' \<and>
    vmread VMCS_GUEST_GDTR_LIMIT w' = vmread VMCS_GUEST_GDTR_LIMIT w \<and>
    vmread VMCS_GUEST_GDTR_BASE w' = dt_base (gdtr w) \<and>
    vmread VMCS_GUEST_IDTR_LIMIT w' = ucast (dt_limit (idtr w)) \<and>
    vmread VMCS_GUEST_IDTR_BASE w' = dt_base (idtr w)"
proof (rule configure_vmcs_Done [OF assms(2,3), of E cpu_data])
  fix w'
  assume "configure_vmcs E cpu_data w = Done () w'" and r: "\<And>f. vmread f w' = vmread f (programmed E cpu_data w)"
  then show ?thesis
    by (intro exI [of _ w'] conjI) (simp_all add: r read_configured [OF assms(1)] configured_defs field_shape)
qed

text \<open>A machine with a current VMCS whose capability MSRs allow every control.\<close>

definition capable_world :: world where
  "capable_world = zero_world\<lparr>vmcs_loaded := True, msrs := \<lambda>_. NOT (mask 32)\<rparr>"

lemma capable_world_facts:
  "vmcs_loaded capable_world" "loggable (dt_base (gdtr capable_world))" "loggable (dt_base (idtr capable_world))"
  "cr3 capable_world = 0" "gdtr capable_world = \<lparr>dt_limit = 0, dt_base = 0\<rparr>"
  by (simp_all add: capable_world_def zero_world_def loggable_def)

lemma capable_all:
  "list_all (\<lambda>n. n < 32) wanted \<Longrightarrow> capable (capability msr true_msr capable_world) wanted"
  by (auto simp: capable_def capability_def capable_world_def bit_simps list_all_iff)

lemma capable_all2:
  "list_all (\<lambda>n. n < 32) wanted \<Longrightarrow> capable (msrs capable_world msr) wanted"
  using capable_all [of wanted msr msr] by (simp add: capability_def)

lemma configure_vmcs_omits_gdtr_limit_witness:
  "\<exists>w'. configure_vmcs example_env 0x1000000 capable_world = Done () w' \<and>
    vmread VMCS_GUEST_GDTR_LIMIT w' = vmread VMCS_GUEST_GDTR_LIMIT capable_world"
  using configure_vmcs_omits_gdtr_limit [OF capable_world_facts(1-3), of example_env "0x1000000"] by blast

lemma configure_vmcs_controls_allowed_witness:
  "\<exists>w'. configure_vmcs example_env 0x1000000 capable_world = Done () w' \<and>
    bit (vmread VMCS_SECONDARY_VM_EXEC_CONTROL w') 1"
proof -
  have "capable (capability msr true_msr capable_world) [7, 28, 31]"
      "capable (capability msr true_msr capable_world) []"
      "capable (capability msr true_msr capable_world) [9]" "capable (msrs capable_world msr) [1, 7]" for msr true_msr
    by (simp_all add: capable_all capable_all2)
  from configure_vmcs_controls_allowed [OF capable_world_facts(1-3) this(2,1,4,3,3), of example_env "0x1000000"]
  show ?thesis by auto
qed

text \<open>The guest's flags and its debug control MSR in the VMCS that the configuration programs.\<close>

lemma programmed_rflags:
  assumes "vmcs_loaded w"
  shows "bit (vmread VMCS_GUEST_RFLAGS (programmed E cpu_data w)) n =
    (n = 1 \<or> n < 32 \<and> n \<notin> {3, 5, 15, 17} \<and> bit (rflags w) n)"
proof -
  have f: "vmread VMCS_GUEST_RFLAGS (programmed E cpu_data w) = (rflags w OR 2) AND 0xfffd7fd7"
    by (simp add: read_configured [OF assms(1)] configured_defs field_shape register_defs)
  have e: "(0xfffd7fd7 :: qword_t) = mask 32 AND NOT (2 ^ 3 OR 2 ^ 5 OR 2 ^ 15 OR 2 ^ 17)"
    by (simp add: mask_eq_exp_minus_1)
  have m: "bit (0xfffd7fd7 :: qword_t) n \<longleftrightarrow> n < 32 \<and> n \<notin> {3, 5, 15, 17}"
    unfolding e bit_and_iff bit_not_iff bit_or_iff bit_mask_iff bit_exp_iff by auto
  have two: "bit (2 :: qword_t) n \<longleftrightarrow> n = 1"
    using bit_exp_iff [where 'a = qword_t, of 1 n] by auto
  show ?thesis unfolding f bit_and_iff bit_or_iff m two by auto
qed

lemma debugctl_halves: "set_field 32 32 (drop_bit 32 v) (v AND 0xffffffff) = (v :: qword_t)"
proof (rule bit_word_eqI)
  have low: "(0xffffffff :: qword_t) = mask 32" by (simp add: mask_eq_exp_minus_1)
  fix n assume "n < LENGTH(64)"
  then show "bit (set_field 32 32 (drop_bit 32 v) (v AND 0xffffffff)) n = bit v n"
    unfolding low by (auto simp: bit_set_field bit_simps)
qed

lemma programmed_debugctl:
  assumes "vmcs_loaded w"
  shows "vmread VMCS_GUEST_IA32_DEBUGCTL (programmed E cpu_data w) = msrs w MSR_IA32_DEBUGCTL"
proof -
  let ?kvs = "configured E cpu_data w"
  let ?v = "msrs w MSR_IA32_DEBUGCTL"
  have split: "?kvs = take 32 ?kvs @
      [(VMCS_GUEST_IA32_DEBUGCTL, ?v AND 0xffffffff), (VMCS_GUEST_IA32_DEBUGCTL_HIGH, drop_bit 32 ?v)] @ drop 34 ?kvs"
    by (simp add: configured_defs read_msr_eq)
  have rest: "list_all (\<lambda>(k, v). separate_fields k VMCS_GUEST_IA32_DEBUGCTL) (drop 34 ?kvs)"
    by (simp add: configured_defs separate_fields_def full_field_def)
  obtain s0 where s0: "s0 = vmcs_fold (take 32 ?kvs) w" by simp
  let ?s = "vmwrite VMCS_GUEST_IA32_DEBUGCTL_HIGH (drop_bit 32 ?v) (vmwrite VMCS_GUEST_IA32_DEBUGCTL (?v AND 0xffffffff) s0)"
  have "vmcs_fold ?kvs w = vmcs_fold (drop 34 ?kvs) ?s"
    by (subst split) (simp add: s0)
  then have "vmread VMCS_GUEST_IA32_DEBUGCTL (programmed E cpu_data w) = vmread VMCS_GUEST_IA32_DEBUGCTL ?s"
    using vmcs_file.get_fold_other [OF rest] by (simp add: programmed_def)
  also have "\<dots> = set_field 32 32 (drop_bit 32 ?v) (?v AND 0xffffffff)"
    using assms(1) by (simp add: s0 vmread_def vmcs_get_def vmwrite_def Let_def field_shape)
  finally show ?thesis unfolding debugctl_halves .
qed

text \<open>C18. The guest's flags are the host's with bit 1 set and the reserved bits 3, 5, 15 and the upper
  half cleared, and with VM (bit 17) cleared; its debug control MSR is the host's, written in two halves.\<close>

theorem configure_vmcs_flags_and_debugctl:
  assumes "vmcs_loaded w" and "loggable (dt_base (gdtr w))" and "loggable (dt_base (idtr w))"
  shows "\<exists>w'. configure_vmcs E cpu_data w = Done () w' \<and>
    (\<forall>n. bit (vmread VMCS_GUEST_RFLAGS w') n =
      (n = 1 \<or> n < 32 \<and> n \<notin> {3, 5, 15, 17} \<and> bit (rflags w) n)) \<and>
    vmread VMCS_GUEST_IA32_DEBUGCTL w' = msrs w MSR_IA32_DEBUGCTL"
proof (rule configure_vmcs_Done [OF assms(2,3), of E cpu_data])
  fix w'
  assume "configure_vmcs E cpu_data w = Done () w'" and r: "\<And>f. vmread f w' = vmread f (programmed E cpu_data w)"
  then show ?thesis
    unfolding r programmed_debugctl [OF assms(1)]
    by (intro exI [of _ w'] conjI allI) (simp_all only: r programmed_rflags [OF assms(1)] programmed_debugctl [OF assms(1)])
qed

lemma configure_vmcs_flags_and_debugctl_witness:
  "\<exists>w'. configure_vmcs example_env 0x1000000 capable_world = Done () w' \<and>
    bit (vmread VMCS_GUEST_RFLAGS w') 1 \<and> \<not> bit (vmread VMCS_GUEST_RFLAGS w') 17"
  using configure_vmcs_flags_and_debugctl [OF capable_world_facts(1-3), of example_env "0x1000000"] by auto

section \<open>Properties of entering VMX operation\<close>

lemma vmm_log_ok: "plain s \<Longrightarrow> length s < 200 \<Longrightarrow> 0 \<le> sint line \<Longrightarrow> log_ok vmm_c line s"
  by (simp add: log_ok_def vmm_c_def)

lemma feature_bits:
  "(ucast (x :: qword_t) :: dword_t) AND 1 \<noteq> 0 \<longleftrightarrow> bit x 0"
  "(ucast (x :: qword_t) :: dword_t) AND 2 \<noteq> 0 \<longleftrightarrow> bit x 1"
  "(ucast (x :: qword_t) :: dword_t) AND 4 \<noteq> 0 \<longleftrightarrow> bit x 2"
proof -
  have b: "(ucast x :: dword_t) AND 2 ^ k \<noteq> 0 \<longleftrightarrow> bit x k" if "k < 32" for k
    using and_exp_eq_0_iff_not_bit [of "ucast x :: dword_t" k] that by (simp add: bit_simps)
  from b [of 0] b [of 1] b [of 2]
  show "(ucast x :: dword_t) AND 1 \<noteq> 0 \<longleftrightarrow> bit x 0" "(ucast x :: dword_t) AND 2 \<noteq> 0 \<longleftrightarrow> bit x 1"
    "(ucast x :: dword_t) AND 4 \<noteq> 0 \<longleftrightarrow> bit x 2" by simp_all
qed

text \<open>The feature control MSR after the check: kept when it was locked, else locked with both features.\<close>

definition feature_control_after :: "qword_t \<Rightarrow> qword_t" where
  "feature_control_after fc = (if bit fc 0 then fc else scast (ucast fc OR 7 :: dword_t))"

lemma support_vmxon_Done:
  assumes "bit (msrs w MSR_IA32_FEATURE_CONTROL) 0 \<Longrightarrow>
      bit (msrs w MSR_IA32_FEATURE_CONTROL) 1 \<or> bit (msrs w MSR_IA32_FEATURE_CONTROL) 2"
  obtains line message where "support_vmxon w = Done () (logged INFO_LEVEL vmm_c line message
    (w\<lparr>msrs := (msrs w)(MSR_IA32_FEATURE_CONTROL := feature_control_after (msrs w MSR_IA32_FEATURE_CONTROL))\<rparr>))"
proof -
  let ?fc = "msrs w MSR_IA32_FEATURE_CONTROL"
  note s = support_vmxon_def Let_def read_msr_eq write_msr_eq feature_bits log_log_plain vmm_log_ok
    feature_control_after_def or.assoc
  consider (inside) "bit ?fc 0" "bit ?fc 1" | (outside) "bit ?fc 0" "\<not> bit ?fc 1" "bit ?fc 2"
    | (unlocked) "\<not> bit ?fc 0"
    using assms by blast
  then show ?thesis
  proof cases
    case inside
    then show ?thesis by (intro that [of 95 "''support of vmxon inside smx operation''"]) (simp add: s)
  next
    case outside
    then show ?thesis by (intro that [of 97 "''support of vmxon outside smx operation''"]) (simp add: s)
  next
    case unlocked
    then show ?thesis
      by (intro that [of 110 "''support of vmxon inside and outside of smx operation''"]) (simp add: s)
  qed
qed

text \<open>The three VMX instructions, and what the code does with their results.\<close>

definition vmx_works :: "env \<Rightarrow> bool" where
  "vmx_works E \<longleftrightarrow> (\<forall>r w. vmx_status (vmxon_rflags E r w) = VM_SUCCESS \<and>
     vmx_status (vmclear_rflags E r w) = VM_SUCCESS \<and> vmx_status (vmptrld_rflags E r w) = VM_SUCCESS)"

definition prepared :: "qword_t \<Rightarrow> world \<Rightarrow> world" where
  "prepared cpu_data w = w\<lparr>
     msrs := (msrs w)(MSR_IA32_DEBUGCTL := msrs w MSR_IA32_DEBUGCTL AND IA32_DEBUGCTL_DEFAULT0),
     dr7 := dr7 w AND 0xffffffff,
     mem := store32 (vmcs_region cpu_data) (ucast (msrs w MSR_IA32_VMX_BASIC))
       (store32 (vmxon_region cpu_data) (ucast (msrs w MSR_IA32_VMX_BASIC)) (mem w))\<rparr>"

lemma start_vmx_prepared:
  "start_vmx E cpu_data w =
    (let w = prepared cpu_data w; (r, w) = vmxon E (vmxon_region cpu_data) w
     in bindR (ASSERT vmm_c 122 ''vmxon((void *)cpu_data->vmxon_region) == VM_SUCCESS''
                  (r \<noteq> VM_SUCCESS) w) (\<lambda>_ w.
      let (r, w) = vmclear E (vmcs_region cpu_data) w
      in bindR (ASSERT vmm_c 123 ''vmclear((void *)cpu_data->vmcs) == VM_SUCCESS''
                  (r \<noteq> VM_SUCCESS) w) (\<lambda>_ w.
      let (r, w) = vmptrld E (vmcs_region cpu_data) w
      in bindR (ASSERT vmm_c 124 ''vmptrld((void *)cpu_data->vmcs) == VM_SUCCESS''
                  (r \<noteq> VM_SUCCESS) w) (\<lambda>_ w.
      LOG_INFO vmm_c 126 ''entered VMX-root operation'' [] w))))"
  by (simp add: start_vmx_def prepared_def Let_def write_msr_eq read_msr_eq write_dr7_def read_dr7_def)

lemma start_vmx_Done:
  assumes "vmx_works E"
  shows "start_vmx E cpu_data w =
    Done () (logged INFO_LEVEL vmm_c 126 ''entered VMX-root operation'' ((prepared cpu_data w)\<lparr>vmcs_loaded := True\<rparr>))"
  using assms
  by (simp add: start_vmx_prepared vmx_works_def vmxon_def vmclear_def vmptrld_def log_log_plain vmm_log_ok)

text \<open>A control register that has the bits that must be one and no bit that must be zero.\<close>

definition cr_allowed :: "qword_t \<Rightarrow> qword_t \<Rightarrow> qword_t \<Rightarrow> bool" where
  "cr_allowed fixed0 fixed1 v \<longleftrightarrow> (\<forall>n. (bit fixed0 n \<longrightarrow> bit v n) \<and> (bit v n \<longrightarrow> bit fixed1 n))"

lemma cr_allowed_masked:
  "(\<And>n. bit f0 n \<Longrightarrow> bit f1 n) \<Longrightarrow> cr_allowed f0 f1 ((v OR e OR f0) AND f1)"
  by (auto simp: cr_allowed_def bit_simps)

text \<open>The machine after the first steps: the control registers, the feature control MSR, one log line.\<close>

definition root_registers :: "world \<Rightarrow> world" where
  "root_registers w = w\<lparr>
     cr0 := (cr0 w OR CR0_NE_ENABLE OR msrs w MSR_IA32_VMX_CR0_FIXED0) AND msrs w MSR_IA32_VMX_CR0_FIXED1,
     cr4 := (cr4 w OR CR4_VMX_ENABLE OR msrs w MSR_IA32_VMX_CR4_FIXED0) AND msrs w MSR_IA32_VMX_CR4_FIXED1,
     msrs := (msrs w)(MSR_IA32_FEATURE_CONTROL := feature_control_after (msrs w MSR_IA32_FEATURE_CONTROL))\<rparr>"

definition root_entered :: "qword_t \<Rightarrow> world \<Rightarrow> world" where
  "root_entered cpu_data w =
     logged INFO_LEVEL vmm_c 126 ''entered VMX-root operation'' ((prepared cpu_data w)\<lparr>vmcs_loaded := True\<rparr>)"

lemma enter_vmx_root_Done:
  assumes "vmx_works E"
    and "bit (msrs w MSR_IA32_FEATURE_CONTROL) 0 \<Longrightarrow>
      bit (msrs w MSR_IA32_FEATURE_CONTROL) 1 \<or> bit (msrs w MSR_IA32_FEATURE_CONTROL) 2"
  obtains w1 where "enter_vmx_root E cpu_data w = Done () (root_entered cpu_data w1)"
    and "only_ports (root_registers w) w1"
proof -
  let ?w = "w\<lparr>cr0 := (cr0 w OR CR0_NE_ENABLE OR msrs w MSR_IA32_VMX_CR0_FIXED0) AND msrs w MSR_IA32_VMX_CR0_FIXED1,
     cr4 := (cr4 w OR CR4_VMX_ENABLE OR msrs w MSR_IA32_VMX_CR4_FIXED0) AND msrs w MSR_IA32_VMX_CR4_FIXED1\<rparr>"
  obtain line message where sup: "support_vmxon ?w = Done () (logged INFO_LEVEL vmm_c line message
      (?w\<lparr>msrs := (msrs ?w)(MSR_IA32_FEATURE_CONTROL := feature_control_after (msrs ?w MSR_IA32_FEATURE_CONTROL))\<rparr>))"
    by (rule support_vmxon_Done [of ?w]) (use assms(2) in auto)
  then have "support_vmxon ?w = Done () (logged INFO_LEVEL vmm_c line message (root_registers w))"
    by (simp add: root_registers_def)
  then have "enter_vmx_root E cpu_data w =
      Done () (root_entered cpu_data (logged INFO_LEVEL vmm_c line message (root_registers w)))"
    by (simp add: enter_vmx_root_def Let_def register_defs read_msr_eq start_vmx_Done [OF assms(1)] root_entered_def)
  then show ?thesis by (rule that) auto
qed

text \<open>C20. Entering VMX operation. On a processor whose fixed-bit MSRs are consistent, whose feature
  control MSR is not locked with VMXON disabled, and whose VMX instructions succeed, the
  call returns with a current VMCS; CR0 and CR4 satisfy the fixed bits, the feature control MSR is
  locked, the revision identifier is in both regions, and reserved debug bits are clear.\<close>

theorem enter_vmx_root_succeeds:
  assumes "vmx_works E"
    and "bit (msrs w MSR_IA32_FEATURE_CONTROL) 0 \<Longrightarrow>
      bit (msrs w MSR_IA32_FEATURE_CONTROL) 1 \<or> bit (msrs w MSR_IA32_FEATURE_CONTROL) 2"
    and "\<And>n. bit (msrs w MSR_IA32_VMX_CR0_FIXED0) n \<Longrightarrow> bit (msrs w MSR_IA32_VMX_CR0_FIXED1) n"
    and "\<And>n. bit (msrs w MSR_IA32_VMX_CR4_FIXED0) n \<Longrightarrow> bit (msrs w MSR_IA32_VMX_CR4_FIXED1) n"
  shows "\<exists>w'. enter_vmx_root E cpu_data w = Done () w' \<and> vmcs_loaded w' \<and>
    cr_allowed (msrs w MSR_IA32_VMX_CR0_FIXED0) (msrs w MSR_IA32_VMX_CR0_FIXED1) (cr0 w') \<and>
    cr_allowed (msrs w MSR_IA32_VMX_CR4_FIXED0) (msrs w MSR_IA32_VMX_CR4_FIXED1) (cr4 w') \<and>
    bit (cr4 w') 13 = bit (msrs w MSR_IA32_VMX_CR4_FIXED1) 13 \<and>
    bit (msrs w' MSR_IA32_FEATURE_CONTROL) 0 \<and>
    load32 (mem w') (vmxon_region cpu_data) = ucast (msrs w MSR_IA32_VMX_BASIC) \<and>
    load32 (mem w') (vmcs_region cpu_data) = ucast (msrs w MSR_IA32_VMX_BASIC) \<and>
    msrs w' MSR_IA32_DEBUGCTL = msrs w MSR_IA32_DEBUGCTL AND 0xffc3 \<and>
    dr7 w' = dr7 w AND 0xffffffff"
proof -
  obtain w1 where e: "enter_vmx_root E cpu_data w = Done () (root_entered cpu_data w1)"
    and r: "only_ports (root_registers w) w1"
    by (rule enter_vmx_root_Done [OF assms(1,2)])
  note w1 = only_ports_parts [OF r]
  have "apart (vmcs_region cpu_data) 4 (vmxon_region cpu_data) 4"
    using apart_offsets [of "0x1000" 4 0 4 cpu_data] by (simp add: layout)
  moreover have "bit (feature_control_after (msrs w MSR_IA32_FEATURE_CONTROL)) 0"
    by (simp add: feature_control_after_def bit_simps)
  moreover have "bit (cr4 (root_registers w)) 13 = bit (msrs w MSR_IA32_VMX_CR4_FIXED1) 13"
    using assms(4) [of 13] bit_exp_iff [where 'a = qword_t, of 13 13]
    by (auto simp: root_registers_def bit_and_iff bit_or_iff)
  ultimately show ?thesis
    using e cr_allowed_masked [OF assms(3)] cr_allowed_masked [OF assms(4)]
    by (intro exI [of _ "root_entered cpu_data w1"] conjI)
      (simp_all add: root_entered_def prepared_def w1 root_registers_def dword_cell.load_store
        dword_cell.load_store_apart)
qed

lemma enter_vmx_root_succeeds_witness:
  "\<exists>w'. enter_vmx_root example_env 0x1000000 zero_world = Done () w' \<and> vmcs_loaded w' \<and>
    bit (msrs w' MSR_IA32_FEATURE_CONTROL) 0"
proof -
  have "vmx_works example_env"
    by (simp add: vmx_works_def example_env_def vmx_status_success bit_iff_odd)
  from enter_vmx_root_succeeds [OF this, of zero_world "0x1000000"] show ?thesis
    by (auto simp: zero_world_def)
qed

text \<open>C21. A feature control MSR that is locked with VMXON disabled stops the hypervisor before it
  writes any MSR or any memory: the fatal message goes to the log and the call does not return.\<close>

theorem enter_vmx_root_unsupported:
  assumes "bit (msrs w MSR_IA32_FEATURE_CONTROL) 0"
    and "\<not> bit (msrs w MSR_IA32_FEATURE_CONTROL) 1" and "\<not> bit (msrs w MSR_IA32_FEATURE_CONTROL) 2"
  shows "enter_vmx_root E cpu_data w =
    Stop Halted (logged FATAL_LEVEL vmm_c 99 ''no support for vmxon instruction'' (w\<lparr>
      cr0 := (cr0 w OR CR0_NE_ENABLE OR msrs w MSR_IA32_VMX_CR0_FIXED0) AND msrs w MSR_IA32_VMX_CR0_FIXED1,
      cr4 := (cr4 w OR CR4_VMX_ENABLE OR msrs w MSR_IA32_VMX_CR4_FIXED0) AND msrs w MSR_IA32_VMX_CR4_FIXED1\<rparr>))"
  using assms
  by (simp add: enter_vmx_root_def support_vmxon_def Let_def register_defs read_msr_eq feature_bits
      PANIC_plain vmm_log_ok)

lemma enter_vmx_root_unsupported_witness:
  "\<exists>w'. enter_vmx_root example_env 0x1000000 (zero_world\<lparr>msrs := \<lambda>_. 1\<rparr>) = Stop Halted w'"
  using enter_vmx_root_unsupported [of "zero_world\<lparr>msrs := \<lambda>_. 1\<rparr>" example_env "0x1000000"]
  by (simp add: bit_1_iff)

text \<open>C22. When \<open>vmxon\<close>, \<open>vmclear\<close> or \<open>vmptrld\<close>, called on its region, fails with either flag, the
  hypervisor halts with the fatal message of that assertion. The message is the last thing that happens: no VMCS
  becomes current, no VMCS field is written, and no later instruction is tried.\<close>

theorem start_vmx_failure_halts:
  assumes "w0 = prepared cpu_data w"
    and "on = vmx_status (vmxon_rflags E (vmxon_region cpu_data) w0)"
    and "clear = vmx_status (vmclear_rflags E (vmcs_region cpu_data) w0)"
    and "ptrld = vmx_status (vmptrld_rflags E (vmcs_region cpu_data) w0)"
    and "on \<noteq> VM_SUCCESS \<or> clear \<noteq> VM_SUCCESS \<or> ptrld \<noteq> VM_SUCCESS"
  shows "start_vmx E cpu_data w = Stop Halted
      (if on \<noteq> VM_SUCCESS
       then logged FATAL_LEVEL vmm_c 122 ''Assertion failed: vmxon((void *)cpu_data->vmxon_region) == VM_SUCCESS'' w0
       else if clear \<noteq> VM_SUCCESS
       then logged FATAL_LEVEL vmm_c 123 ''Assertion failed: vmclear((void *)cpu_data->vmcs) == VM_SUCCESS'' w0
       else logged FATAL_LEVEL vmm_c 124 ''Assertion failed: vmptrld((void *)cpu_data->vmcs) == VM_SUCCESS'' w0) \<and>
    vmcs_loaded w0 = vmcs_loaded w \<and> vmcs w0 = vmcs w"
proof -
  have texts: "cstring ''vmxon((void *)cpu_data->vmxon_region) == VM_SUCCESS''"
      "cstring ''vmclear((void *)cpu_data->vmcs) == VM_SUCCESS''"
      "cstring ''vmptrld((void *)cpu_data->vmcs) == VM_SUCCESS''" by simp_all
  note s = start_vmx_prepared vmxon_def vmclear_def vmptrld_def ASSERT_fails vmm_log_ok
  from assms show ?thesis
    by (cases "on = VM_SUCCESS"; cases "clear = VM_SUCCESS") (simp_all add: s prepared_def [of cpu_data w])
qed

lemma start_vmx_failure_halts_witness:
  "\<exists>w'. start_vmx (example_env\<lparr>vmclear_rflags := \<lambda>_ _. 0x41\<rparr>) 0x1000000 zero_world =
      Stop Halted (logged FATAL_LEVEL vmm_c 123 ''Assertion failed: vmclear((void *)cpu_data->vmcs) == VM_SUCCESS'' w') \<and>
    \<not> vmcs_loaded w'"
proof -
  let ?E = "example_env\<lparr>vmclear_rflags := \<lambda>_ _. 0x41\<rparr>"
  have "vmx_status (vmclear_rflags ?E (vmcs_region 0x1000000) (prepared 0x1000000 zero_world)) \<noteq> VM_SUCCESS"
    "vmx_status (vmxon_rflags ?E (vmxon_region 0x1000000) (prepared 0x1000000 zero_world)) = VM_SUCCESS"
    by (simp_all add: vmx_status_def example_env_def)
  with start_vmx_failure_halts [where E = ?E and cpu_data = "0x1000000" and w = zero_world, OF refl refl refl refl] show ?thesis
    by (auto simp: zero_world_def)
qed

section \<open>Properties of the launch\<close>

text \<open>C23. A launch either enters the guest or, after one line in the log, halts with the name the table
  gives to the error number; it never returns to its caller. This is for an error number that the table
  has.\<close>

theorem launch_vm_never_returns:
  assumes "vmlaunch_rflags E v = None \<or>
      check_vm_instruction_error v < of_nat (length VM_INSTRUCTION_ERROR_STRINGS)"
    and "v = logged INFO_LEVEL vmm_c 294 ''Launching the VM'' w"
  shows "launch_vm E w =
    (case vmlaunch_rflags E v of
       None \<Rightarrow> Stop Entered_Guest v
     | Some flags \<Rightarrow> Stop Halted (logged FATAL_LEVEL vmm_c 296 (''VM launch faild, VM-instruction error: '' @
         VM_INSTRUCTION_ERROR_STRINGS ! unat (check_vm_instruction_error v)) v))"
proof (cases "vmlaunch_rflags E v")
  case None
  then show ?thesis
    using assms(2) by (simp add: launch_vm_def log_log_plain vmm_log_ok vmlaunch_def)
next
  case (Some flags)
  let ?i = "unat (check_vm_instruction_error v)"
  have i: "?i < length VM_INSTRUCTION_ERROR_STRINGS"
    using assms(1) Some by (simp add: VM_INSTRUCTION_ERROR_STRINGS_def word_less_nat_alt)
  have "list_all (\<lambda>s. cstring s \<and> length s < 60) VM_INSTRUCTION_ERROR_STRINGS"
    by (simp add: VM_INSTRUCTION_ERROR_STRINGS_def)
  with i have "cstring (VM_INSTRUCTION_ERROR_STRINGS ! ?i)" "length (VM_INSTRUCTION_ERROR_STRINGS ! ?i) < 60"
    by (simp_all add: list_all_length)
  then have "log_log FATAL_LEVEL vmm_c 296 (''VM launch faild, VM-instruction error: '' @ ''%s'')
      [lit (VM_INSTRUCTION_ERROR_STRINGS ! ?i)] v = Done () (logged FATAL_LEVEL vmm_c 296
        (''VM launch faild, VM-instruction error: '' @ VM_INSTRUCTION_ERROR_STRINGS ! ?i) v)"
    by (intro log_log_string vmm_log_ok) simp_all
  then show ?thesis
    using assms(2) Some i
    by (simp add: launch_vm_def log_log_plain vmm_log_ok vmlaunch_def PANIC_def hlt_loop_def)
qed

lemma launch_vm_never_returns_witness:
  "launch_vm example_env zero_world =
    Stop Entered_Guest (logged INFO_LEVEL vmm_c 294 ''Launching the VM'' zero_world)"
  using launch_vm_never_returns [of example_env "logged INFO_LEVEL vmm_c 294 ''Launching the VM'' zero_world" zero_world]
  by (simp add: example_env_def)

text \<open>C24. The table of error names has 26 entries. For an error number from 26 on, such as 26 (VM entry
  with events blocked by MOV SS) or 28, a failed launch reads past its end.\<close>

theorem launch_vm_unnamed_error:
  assumes "vmlaunch_rflags E v = Some flags" and "v = logged INFO_LEVEL vmm_c 294 ''Launching the VM'' w"
    and "26 \<le> check_vm_instruction_error v"
  shows "launch_vm E w = Stop Undefined v"
  using assms by (simp add: launch_vm_def log_log_plain vmm_log_ok vmlaunch_def
      VM_INSTRUCTION_ERROR_STRINGS_def word_le_nat_alt)

lemma launch_vm_unnamed_error_witness:
  "\<exists>v. launch_vm (example_env\<lparr>vmlaunch_rflags := \<lambda>_. Some 0x42\<rparr>)
      (zero_world\<lparr>vmcs_loaded := True, vmcs := \<lambda>_. 26\<rparr>) = Stop Undefined v"
proof -
  let ?w = "zero_world\<lparr>vmcs_loaded := True, vmcs := \<lambda>_. 26\<rparr>"
  let ?v = "logged INFO_LEVEL vmm_c 294 ''Launching the VM'' ?w"
  have "26 \<le> check_vm_instruction_error ?v"
    by (simp add: check_vm_instruction_error_def vmread_def vmcs_get_def high_access_def)
  from launch_vm_unnamed_error [OF _ refl this, of "example_env\<lparr>vmlaunch_rflags := \<lambda>_. Some 0x42\<rparr>" "0x42"]
  show ?thesis by simp
qed

end
