(* ===== verification/Exits.thy ===== *)
theory Exits
  imports Vmm
begin

text \<open>
  A VM exit from the guest's last instruction to its next: \<open>include/hardware/exit_reason.h\<close>, the
  handler of \<open>src/vmm/vmm.c\<close> that dispatches on the reason, and \<open>src/vmm/wrappers.asm\<close>, which
  saves the guest's registers before the handler and restores them after it.

  \<open>vmexit_wrapper\<close> maps the guest's registers at the exit to its registers at the resumption; the
  lemmas say which registers change for each reason. The stack of the C code, at the
  host's RSP, is the compiler's and is not part of the modelled memory.
\<close>

section \<open>Exit reasons\<close>

abbreviation (input) EXIT_REASON_EXCEPTION_NMI :: nat where "EXIT_REASON_EXCEPTION_NMI \<equiv> 0"
abbreviation (input) EXIT_REASON_EXTERNAL_INTERRUPT :: nat where "EXIT_REASON_EXTERNAL_INTERRUPT \<equiv> 1"
abbreviation (input) EXIT_REASON_TRIPLE_FAULT :: nat where "EXIT_REASON_TRIPLE_FAULT \<equiv> 2"
abbreviation (input) EXIT_REASON_INIT :: nat where "EXIT_REASON_INIT \<equiv> 3"
abbreviation (input) EXIT_REASON_SIPI :: nat where "EXIT_REASON_SIPI \<equiv> 4"
abbreviation (input) EXIT_REASON_IO_SMI :: nat where "EXIT_REASON_IO_SMI \<equiv> 5"
abbreviation (input) EXIT_REASON_OTHER_SMI :: nat where "EXIT_REASON_OTHER_SMI \<equiv> 6"
abbreviation (input) EXIT_REASON_PENDING_VIRT_INTR :: nat where "EXIT_REASON_PENDING_VIRT_INTR \<equiv> 7"
abbreviation (input) EXIT_REASON_PENDING_VIRT_NMI :: nat where "EXIT_REASON_PENDING_VIRT_NMI \<equiv> 8"
abbreviation (input) EXIT_REASON_TASK_SWITCH :: nat where "EXIT_REASON_TASK_SWITCH \<equiv> 9"
abbreviation (input) EXIT_REASON_CPUID :: nat where "EXIT_REASON_CPUID \<equiv> 10"
abbreviation (input) EXIT_REASON_GETSEC :: nat where "EXIT_REASON_GETSEC \<equiv> 11"
abbreviation (input) EXIT_REASON_HLT :: nat where "EXIT_REASON_HLT \<equiv> 12"
abbreviation (input) EXIT_REASON_INVD :: nat where "EXIT_REASON_INVD \<equiv> 13"
abbreviation (input) EXIT_REASON_INVLPG :: nat where "EXIT_REASON_INVLPG \<equiv> 14"
abbreviation (input) EXIT_REASON_RDPMC :: nat where "EXIT_REASON_RDPMC \<equiv> 15"
abbreviation (input) EXIT_REASON_RDTSC :: nat where "EXIT_REASON_RDTSC \<equiv> 16"
abbreviation (input) EXIT_REASON_RSM :: nat where "EXIT_REASON_RSM \<equiv> 17"
abbreviation (input) EXIT_REASON_VMCALL :: nat where "EXIT_REASON_VMCALL \<equiv> 18"
abbreviation (input) EXIT_REASON_VMCLEAR :: nat where "EXIT_REASON_VMCLEAR \<equiv> 19"
abbreviation (input) EXIT_REASON_VMLAUNCH :: nat where "EXIT_REASON_VMLAUNCH \<equiv> 20"
abbreviation (input) EXIT_REASON_VMPTRLD :: nat where "EXIT_REASON_VMPTRLD \<equiv> 21"
abbreviation (input) EXIT_REASON_VMPTRST :: nat where "EXIT_REASON_VMPTRST \<equiv> 22"
abbreviation (input) EXIT_REASON_VMREAD :: nat where "EXIT_REASON_VMREAD \<equiv> 23"
abbreviation (input) EXIT_REASON_VMRESUME :: nat where "EXIT_REASON_VMRESUME \<equiv> 24"
abbreviation (input) EXIT_REASON_VMWRITE :: nat where "EXIT_REASON_VMWRITE \<equiv> 25"
abbreviation (input) EXIT_REASON_VMXOFF :: nat where "EXIT_REASON_VMXOFF \<equiv> 26"
abbreviation (input) EXIT_REASON_VMXON :: nat where "EXIT_REASON_VMXON \<equiv> 27"
abbreviation (input) EXIT_REASON_CR_ACCESS :: nat where "EXIT_REASON_CR_ACCESS \<equiv> 28"
abbreviation (input) EXIT_REASON_DR_ACCESS :: nat where "EXIT_REASON_DR_ACCESS \<equiv> 29"
abbreviation (input) EXIT_REASON_IO_INSTRUCTION :: nat where "EXIT_REASON_IO_INSTRUCTION \<equiv> 30"
abbreviation (input) EXIT_REASON_MSR_READ :: nat where "EXIT_REASON_MSR_READ \<equiv> 31"
abbreviation (input) EXIT_REASON_MSR_WRITE :: nat where "EXIT_REASON_MSR_WRITE \<equiv> 32"
abbreviation (input) EXIT_REASON_INVALID_GUEST_STATE :: nat where "EXIT_REASON_INVALID_GUEST_STATE \<equiv> 33"
abbreviation (input) EXIT_REASON_MSR_LOADING :: nat where "EXIT_REASON_MSR_LOADING \<equiv> 34"
abbreviation (input) EXIT_REASON_MWAIT_INSTRUCTION :: nat where "EXIT_REASON_MWAIT_INSTRUCTION \<equiv> 36"
abbreviation (input) EXIT_REASON_MONITOR_TRAP_FLAG :: nat where "EXIT_REASON_MONITOR_TRAP_FLAG \<equiv> 37"
abbreviation (input) EXIT_REASON_MONITOR_INSTRUCTION :: nat where "EXIT_REASON_MONITOR_INSTRUCTION \<equiv> 39"
abbreviation (input) EXIT_REASON_PAUSE_INSTRUCTION :: nat where "EXIT_REASON_PAUSE_INSTRUCTION \<equiv> 40"
abbreviation (input) EXIT_REASON_MCE_DURING_VMENTRY :: nat where "EXIT_REASON_MCE_DURING_VMENTRY \<equiv> 41"
abbreviation (input) EXIT_REASON_TPR_BELOW_THRESHOLD :: nat where "EXIT_REASON_TPR_BELOW_THRESHOLD \<equiv> 43"
abbreviation (input) EXIT_REASON_APIC_ACCESS :: nat where "EXIT_REASON_APIC_ACCESS \<equiv> 44"
abbreviation (input) EXIT_REASON_ACCESS_GDTR_OR_IDTR :: nat where "EXIT_REASON_ACCESS_GDTR_OR_IDTR \<equiv> 46"
abbreviation (input) EXIT_REASON_ACCESS_LDTR_OR_TR :: nat where "EXIT_REASON_ACCESS_LDTR_OR_TR \<equiv> 47"
abbreviation (input) EXIT_REASON_EPT_VIOLATION :: nat where "EXIT_REASON_EPT_VIOLATION \<equiv> 48"
abbreviation (input) EXIT_REASON_EPT_MISCONFIG :: nat where "EXIT_REASON_EPT_MISCONFIG \<equiv> 49"
abbreviation (input) EXIT_REASON_INVEPT :: nat where "EXIT_REASON_INVEPT \<equiv> 50"
abbreviation (input) EXIT_REASON_RDTSCP :: nat where "EXIT_REASON_RDTSCP \<equiv> 51"
abbreviation (input) EXIT_REASON_VMX_PREEMPTION_TIMER_EXPIRED :: nat where "EXIT_REASON_VMX_PREEMPTION_TIMER_EXPIRED \<equiv> 52"
abbreviation (input) EXIT_REASON_INVVPID :: nat where "EXIT_REASON_INVVPID \<equiv> 53"
abbreviation (input) EXIT_REASON_WBINVD :: nat where "EXIT_REASON_WBINVD \<equiv> 54"
abbreviation (input) EXIT_REASON_XSETBV :: nat where "EXIT_REASON_XSETBV \<equiv> 55"
abbreviation (input) EXIT_REASON_APIC_WRITE :: nat where "EXIT_REASON_APIC_WRITE \<equiv> 56"
abbreviation (input) EXIT_REASON_RDRAND :: nat where "EXIT_REASON_RDRAND \<equiv> 57"
abbreviation (input) EXIT_REASON_INVPCID :: nat where "EXIT_REASON_INVPCID \<equiv> 58"
abbreviation (input) EXIT_REASON_RDSEED :: nat where "EXIT_REASON_RDSEED \<equiv> 61"
abbreviation (input) EXIT_REASON_PML_FULL :: nat where "EXIT_REASON_PML_FULL \<equiv> 62"
abbreviation (input) EXIT_REASON_XSAVES :: nat where "EXIT_REASON_XSAVES \<equiv> 63"
abbreviation (input) EXIT_REASON_XRSTORS :: nat where "EXIT_REASON_XRSTORS \<equiv> 64"
abbreviation (input) EXIT_REASON_PCOMMIT :: nat where "EXIT_REASON_PCOMMIT \<equiv> 65"
abbreviation (input) EXIT_REASON_UMWAIT :: nat where "EXIT_REASON_UMWAIT \<equiv> 67"
abbreviation (input) EXIT_REASON_TPAUSE :: nat where "EXIT_REASON_TPAUSE \<equiv> 68"

text \<open>The initialisers of the table of names; the entries between them are null pointers.\<close>

definition exit_reason_initializers :: "(nat \<times> string) list" where
  "exit_reason_initializers = [
     (EXIT_REASON_EXCEPTION_NMI, ''EXIT_REASON_EXCEPTION_NMI''),
     (EXIT_REASON_EXTERNAL_INTERRUPT, ''EXIT_REASON_EXTERNAL_INTERRUPT''),
     (EXIT_REASON_TRIPLE_FAULT, ''EXIT_REASON_TRIPLE_FAULT''),
     (EXIT_REASON_INIT, ''EXIT_REASON_INIT''),
     (EXIT_REASON_SIPI, ''EXIT_REASON_SIPI''),
     (EXIT_REASON_IO_SMI, ''EXIT_REASON_IO_SMI''),
     (EXIT_REASON_OTHER_SMI, ''EXIT_REASON_OTHER_SMI''),
     (EXIT_REASON_PENDING_VIRT_INTR, ''EXIT_REASON_PENDING_VIRT_INTR''),
     (EXIT_REASON_PENDING_VIRT_NMI, ''EXIT_REASON_PENDING_VIRT_NMI''),
     (EXIT_REASON_TASK_SWITCH, ''EXIT_REASON_TASK_SWITCH''),
     (EXIT_REASON_CPUID, ''EXIT_REASON_CPUID''),
     (EXIT_REASON_GETSEC, ''EXIT_REASON_GETSEC''),
     (EXIT_REASON_HLT, ''EXIT_REASON_HLT''),
     (EXIT_REASON_INVD, ''EXIT_REASON_INVD''),
     (EXIT_REASON_INVLPG, ''EXIT_REASON_INVLPG''),
     (EXIT_REASON_RDPMC, ''EXIT_REASON_RDPMC''),
     (EXIT_REASON_RDTSC, ''EXIT_REASON_RDTSC''),
     (EXIT_REASON_RSM, ''EXIT_REASON_RSM''),
     (EXIT_REASON_VMCALL, ''EXIT_REASON_VMCALL''),
     (EXIT_REASON_VMCLEAR, ''EXIT_REASON_VMCLEAR''),
     (EXIT_REASON_VMLAUNCH, ''EXIT_REASON_VMLAUNCH''),
     (EXIT_REASON_VMPTRLD, ''EXIT_REASON_VMPTRLD''),
     (EXIT_REASON_VMPTRST, ''EXIT_REASON_VMPTRST''),
     (EXIT_REASON_VMREAD, ''EXIT_REASON_VMREAD''),
     (EXIT_REASON_VMRESUME, ''EXIT_REASON_VMRESUME''),
     (EXIT_REASON_VMWRITE, ''EXIT_REASON_VMWRITE''),
     (EXIT_REASON_VMXOFF, ''EXIT_REASON_VMXOFF''),
     (EXIT_REASON_VMXON, ''EXIT_REASON_VMXON''),
     (EXIT_REASON_CR_ACCESS, ''EXIT_REASON_CR_ACCESS''),
     (EXIT_REASON_DR_ACCESS, ''EXIT_REASON_DR_ACCESS''),
     (EXIT_REASON_IO_INSTRUCTION, ''EXIT_REASON_IO_INSTRUCTION''),
     (EXIT_REASON_MSR_READ, ''EXIT_REASON_MSR_READ''),
     (EXIT_REASON_MSR_WRITE, ''EXIT_REASON_MSR_WRITE''),
     (EXIT_REASON_INVALID_GUEST_STATE, ''EXIT_REASON_INVALID_GUEST_STATE''),
     (EXIT_REASON_MSR_LOADING, ''EXIT_REASON_MSR_LOADING''),
     (EXIT_REASON_MWAIT_INSTRUCTION, ''EXIT_REASON_MWAIT_INSTRUCTION''),
     (EXIT_REASON_MONITOR_TRAP_FLAG, ''EXIT_REASON_MONITOR_TRAP_FLAG''),
     (EXIT_REASON_MONITOR_INSTRUCTION, ''EXIT_REASON_MONITOR_INSTRUCTION''),
     (EXIT_REASON_PAUSE_INSTRUCTION, ''EXIT_REASON_PAUSE_INSTRUCTION''),
     (EXIT_REASON_MCE_DURING_VMENTRY, ''EXIT_REASON_MCE_DURING_VMENTRY''),
     (EXIT_REASON_TPR_BELOW_THRESHOLD, ''EXIT_REASON_TPR_BELOW_THRESHOLD''),
     (EXIT_REASON_APIC_ACCESS, ''EXIT_REASON_APIC_ACCESS''),
     (EXIT_REASON_ACCESS_GDTR_OR_IDTR, ''EXIT_REASON_ACCESS_GDTR_OR_IDTR''),
     (EXIT_REASON_ACCESS_LDTR_OR_TR, ''EXIT_REASON_ACCESS_LDTR_OR_TR''),
     (EXIT_REASON_EPT_VIOLATION, ''EXIT_REASON_EPT_VIOLATION''),
     (EXIT_REASON_EPT_MISCONFIG, ''EXIT_REASON_EPT_MISCONFIG''),
     (EXIT_REASON_INVEPT, ''EXIT_REASON_INVEPT''),
     (EXIT_REASON_RDTSCP, ''EXIT_REASON_RDTSCP''),
     (EXIT_REASON_VMX_PREEMPTION_TIMER_EXPIRED, ''EXIT_REASON_VMX_PREEMPTION_TIMER_EXPIRED''),
     (EXIT_REASON_INVVPID, ''EXIT_REASON_INVVPID''),
     (EXIT_REASON_WBINVD, ''EXIT_REASON_WBINVD''),
     (EXIT_REASON_XSETBV, ''EXIT_REASON_XSETBV''),
     (EXIT_REASON_APIC_WRITE, ''EXIT_REASON_APIC_WRITE''),
     (EXIT_REASON_RDRAND, ''EXIT_REASON_RDRAND''),
     (EXIT_REASON_INVPCID, ''EXIT_REASON_INVPCID''),
     (EXIT_REASON_RDSEED, ''EXIT_REASON_RDSEED''),
     (EXIT_REASON_PML_FULL, ''EXIT_REASON_PML_FULL''),
     (EXIT_REASON_XSAVES, ''EXIT_REASON_XSAVES''),
     (EXIT_REASON_XRSTORS, ''EXIT_REASON_XRSTORS''),
     (EXIT_REASON_PCOMMIT, ''EXIT_REASON_PCOMMIT''),
     (EXIT_REASON_UMWAIT, ''EXIT_REASON_UMWAIT''),
     (EXIT_REASON_TPAUSE, ''EXIT_REASON_TPAUSE'')]"

definition EXIT_REASON_STRINGS :: "string option list" where
  "EXIT_REASON_STRINGS = map (map_of exit_reason_initializers) [0..<Suc EXIT_REASON_TPAUSE]"

text \<open>The bit-field \<open>basic_exit_reason\<close> of \<open>exit_reason_t\<close>.\<close>

definition basic_exit_reason :: "qword_t \<Rightarrow> nat" where
  "basic_exit_reason exit_reason = unat (get_field 0 16 exit_reason)"

section \<open>Code\<close>

definition dispatch_exit :: "env \<Rightarrow> nat \<Rightarrow> qword_t \<Rightarrow> world \<Rightarrow> handler_status res" where
  "dispatch_exit E reason guest_state w =
     (if reason = EXIT_REASON_HLT then halt_handler guest_state w
      else if reason = EXIT_REASON_MSR_READ then rdmsr_handler guest_state w
      else if reason = EXIT_REASON_MSR_WRITE then wrmsr_handler guest_state w
      else if reason = EXIT_REASON_EPT_VIOLATION then ept_violation_handler guest_state w
      else if reason = EXIT_REASON_EPT_MISCONFIG then ept_misconfig_handler E guest_state w
      else if reason = EXIT_REASON_VMCALL then vmcall_handler guest_state w
      else PANIC vmm_c 285 ''unsupported exit reason'' [] w)"

definition vmexit_handler :: "env \<Rightarrow> world \<Rightarrow> unit res" where
  "vmexit_handler E w =
     (let guest_state = vmread VMCS_HOST_FS_BASE w;
          exit_reason = vmread_with_ptr VMCS_VM_EXIT_REASON 0 w;
          reason = basic_exit_reason exit_reason
      in if length EXIT_REASON_STRINGS \<le> reason then Stop Undefined w
         else
           bindR (LOG_INFO vmm_c 257 ''VM-exit reason: %s''
               [ArgStr (map_option (\<lambda>s. s @ [NUL]) (EXIT_REASON_STRINGS ! reason))] w) (\<lambda>_ w.
           bindR (dispatch_exit E reason guest_state w) (\<lambda>status w.
           if status = HANDLER_FAILURE then PANIC vmm_c 289 ''Faild to handle VM-exit'' [] w
           else Done () w)))"

text \<open>The stores and the loads of the wrapper, in order.\<close>

definition wrapper_saves :: "(nat \<times> register) list" where
  "wrapper_saves = [
     (0x00, RAX), (0x08, RBX), (0x10, RCX), (0x18, RDX), (0x20, RSI), (0x28, RDI), (0x30, RBP),
     (0x38, R8), (0x40, R9), (0x48, R10), (0x50, R11), (0x58, R12), (0x60, R13), (0x68, R14),
     (0x70, R15)]"

definition wrapper_restores :: "(register \<times> nat) list" where
  "wrapper_restores = [
     (RAX, 0x00), (RBX, 0x08), (RCX, 0x10), (RDX, 0x18), (RSI, 0x20), (RDI, 0x28), (RBP, 0x30),
     (R8, 0x38), (R9, 0x40), (R10, 0x48), (R11, 0x50), (R12, 0x58), (R13, 0x60), (R14, 0x68),
     (R15, 0x70)]"

definition save_guest :: "qword_t \<Rightarrow> (register \<Rightarrow> qword_t) \<Rightarrow> world \<Rightarrow> world" where
  "save_guest fs regs w =
     (let w = w\<lparr>mem := fold (\<lambda>(off, r). store64 (fs + of_nat off) (regs r)) wrapper_saves (mem w)\<rparr>;
          w = w\<lparr>mem := store64 (fs + 0x78) (vmread VMCS_GUEST_RSP w) (mem w)\<rparr>
      in w\<lparr>mem := store64 (fs + 0x80) (vmread VMCS_GUEST_RIP w) (mem w)\<rparr>)"

text \<open>
  \<open>vmresume\<close> loads RSP and RIP from the VMCS; the other registers are the restored ones. The code does not
  test whether it succeeded: after a failure the processor goes on with the two instructions of
  \<open>__vmcall\<close> that follow, on the host's empty stack.
\<close>

definition restore_guest :: "qword_t \<Rightarrow> world \<Rightarrow> (register \<Rightarrow> qword_t) res" where
  "restore_guest fs w =
     (let w = vmwrite VMCS_GUEST_RSP (load64 (mem w) (fs + 0x78)) w;
          w = vmwrite VMCS_GUEST_RIP (load64 (mem w) (fs + 0x80)) w;
          regs = fold (\<lambda>(r, off) regs. regs(r := load64 (mem w) (fs + of_nat off))) wrapper_restores (\<lambda>_. 0)
      in Done (regs(RSP := vmread VMCS_GUEST_RSP w, RIP := vmread VMCS_GUEST_RIP w)) w)"

definition vmexit_wrapper :: "env \<Rightarrow> (register \<Rightarrow> qword_t) \<Rightarrow> world \<Rightarrow> (register \<Rightarrow> qword_t) res" where
  "vmexit_wrapper E regs w =
     (let fs = vmread VMCS_HOST_FS_BASE w
      in bindR (vmexit_handler E (save_guest fs regs w)) (\<lambda>_ w.
         bindR (restore_guest fs w) (\<lambda>regs w.
         case vmresume_rflags E w of None \<Rightarrow> Done regs w | Some flags \<Rightarrow> Stop Undefined w)))"

section \<open>Saving and restoring\<close>

lemma save_guest_mem:
  "mem (save_guest fs regs w) =
     set_reg fs RIP (vmread VMCS_GUEST_RIP w) (set_reg fs RSP (vmread VMCS_GUEST_RSP w)
       (fold (\<lambda>r. set_reg fs r (regs r)) [RAX, RBX, RCX, RDX, RSI, RDI, RBP, R8, R9, R10, R11, R12, R13, R14, R15]
         (mem w)))"
  by (simp add: save_guest_def wrapper_saves_def set_reg_def layout Let_def vmread_def vmcs_get_def)

lemma save_guest_view:
  "guest_view fs (mem (save_guest fs regs w)) =
     regs(RSP := vmread VMCS_GUEST_RSP w, RIP := vmread VMCS_GUEST_RIP w)"
proof
  fix r
  show "guest_view fs (mem (save_guest fs regs w)) r =
      (regs(RSP := vmread VMCS_GUEST_RSP w, RIP := vmread VMCS_GUEST_RIP w)) r"
    unfolding save_guest_mem by (cases r) simp_all
qed

lemma save_guest_outside: "outside_registers fs w (save_guest fs regs w)"
proof -
  have "mem (save_guest fs regs w) x = mem w x" if "136 \<le> unat (x - fs)" for x
    unfolding save_guest_mem using that by (simp add: set_reg_byte)
  moreover have "(save_guest fs regs w)\<lparr>mem := mem w\<rparr> = w"
    by (simp add: save_guest_def Let_def)
  ultimately show ?thesis by (simp add: outside_registers_def)
qed

definition resumed :: "qword_t \<Rightarrow> world \<Rightarrow> world" where
  "resumed fs w = vmwrite VMCS_GUEST_RIP (guest_view fs (mem w) RIP)
     (vmwrite VMCS_GUEST_RSP (guest_view fs (mem w) RSP) w)"

lemma resumed_reads:
  assumes "vmcs_loaded w"
  shows "mem (resumed fs w) = mem w"
    and "vmread VMCS_GUEST_RSP (resumed fs w) = guest_view fs (mem w) RSP"
    and "vmread VMCS_GUEST_RIP (resumed fs w) = guest_view fs (mem w) RIP"
    and "separate_fields VMCS_GUEST_RSP f \<Longrightarrow> separate_fields VMCS_GUEST_RIP f \<Longrightarrow>
      vmread f (resumed fs w) = vmread f w"
proof -
  have sep: "separate_fields VMCS_GUEST_RIP VMCS_GUEST_RSP"
    by (simp add: separate_fields_def full_field_def)
  show "mem (resumed fs w) = mem w" by (simp add: resumed_def)
  show "vmread VMCS_GUEST_RSP (resumed fs w) = guest_view fs (mem w) RSP"
    using assms by (simp add: resumed_def vmread_vmwrite vmread_vmwrite_other sep field_shape)
  show "vmread VMCS_GUEST_RIP (resumed fs w) = guest_view fs (mem w) RIP"
    using assms by (simp add: resumed_def vmread_vmwrite field_shape)
  show "vmread f (resumed fs w) = vmread f w"
    if "separate_fields VMCS_GUEST_RSP f" "separate_fields VMCS_GUEST_RIP f"
    using that by (simp add: resumed_def vmread_vmwrite_other)
qed

lemma restore_guest_view:
  assumes "vmcs_loaded w"
  shows "restore_guest fs w = Done (guest_view fs (mem w)) (resumed fs w)"
proof -
  have load: "load64 (mem w) (fs + of_nat (8 * register_index r)) = guest_view fs (mem w) r" for r
    by (simp add: guest_view_def get_reg_def layout)
  have r: "resumed fs w = vmwrite VMCS_GUEST_RIP (load64 (mem w) (fs + 0x80))
      (vmwrite VMCS_GUEST_RSP (load64 (mem w) (fs + 0x78)) w)"
    using load [of RIP] load [of RSP] by (simp add: resumed_def)
  have "fold (\<lambda>(r, off) regs. regs(r := load64 (mem w) (fs + of_nat off))) wrapper_restores regs r =
      guest_view fs (mem w) r" if "r \<noteq> RSP" "r \<noteq> RIP" for r regs
    using that load [of r] by (cases r) (simp_all add: wrapper_restores_def)
  then show ?thesis
    by (simp add: restore_guest_def Let_def r [symmetric] fun_eq_iff resumed_reads [OF assms])
qed

section \<open>Dispatching\<close>

definition exit_reason_of :: "world \<Rightarrow> nat" where
  "exit_reason_of w = basic_exit_reason (vmread VMCS_VM_EXIT_REASON w)"

definition exit_name :: "nat \<Rightarrow> string option" where
  "exit_name r = (if r < length EXIT_REASON_STRINGS then EXIT_REASON_STRINGS ! r else None)"

lemma exit_name_eq: "exit_name r = map_of exit_reason_initializers r"
proof -
  have "list_all (\<lambda>(k, _). k < 69) exit_reason_initializers" by (simp add: exit_reason_initializers_def)
  then have "map_of exit_reason_initializers r = None" if "69 \<le> r"
    using that by (auto simp: map_of_eq_None_iff list_all_iff)
  then show ?thesis
    by (simp add: exit_name_def EXIT_REASON_STRINGS_def not_less)
qed

lemma exit_name_short:
  assumes "exit_name r = Some name"
  shows "cstring name" and "length name < 60"
proof -
  have "list_all (\<lambda>(_, s). cstring s \<and> length s < 60) exit_reason_initializers"
    by (simp add: exit_reason_initializers_def)
  moreover have "(r, name) \<in> set exit_reason_initializers"
    using assms by (simp add: exit_name_eq map_of_SomeD)
  ultimately show "cstring name" "length name < 60" by (auto simp: list_all_iff)
qed

abbreviation (input) exit_logged :: "string \<Rightarrow> world \<Rightarrow> world" where
  "exit_logged name \<equiv> logged INFO_LEVEL vmm_c 257 (''VM-exit reason: '' @ name)"

abbreviation exit_line :: "string \<Rightarrow> string" where
  "exit_line name \<equiv> log_line INFO_LEVEL vmm_c (digits_text 10 257) (''VM-exit reason: '' @ name)"

text \<open>An exit with a name is logged and dispatched; one without reads a null pointer or past the table.\<close>

lemma vmexit_handler_named:
  assumes "vmcs_loaded w" and "exit_name (exit_reason_of w) = Some name"
  shows "vmexit_handler E w =
    bindR (dispatch_exit E (exit_reason_of w) (vmread VMCS_HOST_FS_BASE w) (exit_logged name w)) (\<lambda>status w.
      if status = HANDLER_FAILURE then PANIC vmm_c 289 ''Faild to handle VM-exit'' [] w else Done () w)"
proof -
  let ?r = "exit_reason_of w"
  have r: "vmread_with_ptr VMCS_VM_EXIT_REASON 0 w = vmread VMCS_VM_EXIT_REASON w"
    using assms(1) by (simp add: vmread_with_ptr_def vmread_def)
  have n: "?r < length EXIT_REASON_STRINGS" "EXIT_REASON_STRINGS ! ?r = Some name"
    using assms(2) by (simp_all add: exit_name_def split: if_splits)
  have "LOG_INFO vmm_c 257 (''VM-exit reason: '' @ ''%s'') [lit name] w = Done () (exit_logged name w)"
    using exit_name_short [OF assms(2)] by (intro log_log_string vmm_log_ok) simp_all
  then show ?thesis
    using n by (simp add: vmexit_handler_def Let_def r exit_reason_of_def [symmetric])
qed

lemma vmexit_handler_unnamed:
  assumes "vmcs_loaded w" and "exit_name (exit_reason_of w) = None" and "min_level w \<le> INFO_LEVEL"
  shows "vmexit_handler E w = Stop Undefined w"
proof -
  let ?r = "exit_reason_of w"
  have r: "vmread_with_ptr VMCS_VM_EXIT_REASON 0 w = vmread VMCS_VM_EXIT_REASON w"
    using assms(1) by (simp add: vmread_with_ptr_def vmread_def)
  show ?thesis
  proof (cases "?r < length EXIT_REASON_STRINGS")
    case False
    then show ?thesis by (simp add: vmexit_handler_def Let_def r exit_reason_of_def)
  next
    case True
    with assms(2) have n: "EXIT_REASON_STRINGS ! ?r = None" by (simp add: exit_name_def)
    have "vsprintf str p ''%s'' [ArgStr None] False w = Stop Undefined w" for str p
      by (simp add: vsprintf.simps(2))
    then have null: "vsprintf (replicate 0x100 NUL) 0 ''VM-exit reason: %s'' [ArgStr None] False w = Stop Undefined w"
      by (simp add: vsprintf.simps(2))
    have "LOG_INFO vmm_c 257 ''VM-exit reason: %s'' [ArgStr None] w = Stop Undefined w"
      using assms(3) null by (simp add: log_log.simps)
    with True n show ?thesis
      by (simp add: vmexit_handler_def Let_def r exit_reason_of_def [symmetric])
  qed
qed

section \<open>A whole exit\<close>

definition guest_registers_at :: "(register \<Rightarrow> qword_t) \<Rightarrow> world \<Rightarrow> register \<Rightarrow> qword_t" where
  "guest_registers_at regs w = regs(RSP := vmread VMCS_GUEST_RSP w, RIP := vmread VMCS_GUEST_RIP w)"

lemma save_guest_reads [simp]:
  "vmread f (save_guest fs regs w) = vmread f w" "vmcs_loaded (save_guest fs regs w) = vmcs_loaded w"
  "exit_reason_of (save_guest fs regs w) = exit_reason_of w" "min_level (save_guest fs regs w) = min_level w"
  "msrs (save_guest fs regs w) = msrs w" "port_writes (save_guest fs regs w) = port_writes w"
  using vmread_outside [OF save_guest_outside] outside_registers_same [OF save_guest_outside]
  by (simp_all add: exit_reason_of_def)

lemma resumed_frame [simp]:
  "mem (resumed fs w) = mem w" "msrs (resumed fs w) = msrs w" "vmcs_loaded (resumed fs w) = vmcs_loaded w"
  "min_level (resumed fs w) = min_level w" "port_writes (resumed fs w) = port_writes w"
  by (simp_all add: resumed_def)

lemma vmexit_wrapper_success:
  assumes "vmcs_loaded w" and "exit_name (exit_reason_of w) = Some name"
    and "dispatch_exit E (exit_reason_of w) (vmread VMCS_HOST_FS_BASE w)
      (exit_logged name (save_guest (vmread VMCS_HOST_FS_BASE w) regs w)) = Done HANDLER_SUCCESS w1"
    and "vmcs_loaded w1" and "vmresume_works E"
  shows "vmexit_wrapper E regs w =
    Done (guest_view (vmread VMCS_HOST_FS_BASE w) (mem w1)) (resumed (vmread VMCS_HOST_FS_BASE w) w1)"
  using assms vmexit_handler_named [of "save_guest (vmread VMCS_HOST_FS_BASE w) regs w" name E]
  by (simp add: vmexit_wrapper_def Let_def restore_guest_view vmresume_works_def)

lemma vmexit_wrapper_halts:
  assumes "vmcs_loaded w" and "exit_name (exit_reason_of w) = Some name"
    and "dispatch_exit E (exit_reason_of w) (vmread VMCS_HOST_FS_BASE w)
      (exit_logged name (save_guest (vmread VMCS_HOST_FS_BASE w) regs w)) = Done HANDLER_FAILURE w1 \<or>
     dispatch_exit E (exit_reason_of w) (vmread VMCS_HOST_FS_BASE w)
      (exit_logged name (save_guest (vmread VMCS_HOST_FS_BASE w) regs w)) = Stop Halted w1"
  shows "\<exists>w'. vmexit_wrapper E regs w = Stop Halted w'"
  using assms vmexit_handler_named [of "save_guest (vmread VMCS_HOST_FS_BASE w) regs w" name E]
  by (auto simp: vmexit_wrapper_def Let_def PANIC_plain vmm_log_ok)

text \<open>The state before the handler: the guest's registers in memory, a line in the log.\<close>

lemma saved_view:
  "guest_view fs (mem (exit_logged name (save_guest fs regs w))) = guest_registers_at regs w"
  by (simp add: save_guest_view guest_registers_at_def)

lemma says_exit_logged:
  "min_level w \<le> INFO_LEVEL \<Longrightarrow> says (exit_line name) w (exit_logged name (save_guest fs regs w))"
  using says_logged [of w INFO_LEVEL "[]" "save_guest fs regs w" vmm_c 257 "''VM-exit reason: '' @ name"]
  by (simp add: says_def)

lemma vmexit_wrapper_skipped:
  assumes "vmcs_loaded w" and "exit_name (exit_reason_of w) = Some name"
    and "skipped (vmread VMCS_HOST_FS_BASE w) line message
      (exit_logged name (save_guest (vmread VMCS_HOST_FS_BASE w) regs w))
      (dispatch_exit E (exit_reason_of w) (vmread VMCS_HOST_FS_BASE w)
        (exit_logged name (save_guest (vmread VMCS_HOST_FS_BASE w) regs w)))"
    and "vmresume_works E"
  obtains w' where "vmexit_wrapper E regs w = Done ((guest_registers_at regs w)
      (RIP := vmread VMCS_GUEST_RIP w + vmread VMCS_VM_EXIT_INSTRUCTION_LEN w)) w'"
    and "\<And>x. 136 \<le> unat (x - vmread VMCS_HOST_FS_BASE w) \<Longrightarrow> mem w' x = mem w x"
    and "msrs w' = msrs w" and "min_level w' = min_level w"
    and "min_level w = DEBUG_LEVEL \<Longrightarrow>
      says (exit_line name @ log_line DEBUG_LEVEL vmexit_c (digits_text 10 line) message) w w'"
proof -
  let ?fs = "vmread VMCS_HOST_FS_BASE w"
  let ?w = "exit_logged name (save_guest ?fs regs w)"
  obtain w1 where d: "dispatch_exit E (exit_reason_of w) ?fs ?w = Done HANDLER_SUCCESS w1"
    and v: "guest_view ?fs (mem w1) =
      (guest_view ?fs (mem ?w))(RIP := guest_view ?fs (mem ?w) RIP + vmread VMCS_VM_EXIT_INSTRUCTION_LEN ?w)"
    and o1: "outside_registers ?fs (logged DEBUG_LEVEL vmexit_c line message ?w) w1"
    using assms(3) unfolding skipped_def by blast
  have "vmcs_loaded w1" using outside_registers_same(2) [OF o1] assms(1) by simp
  from vmexit_wrapper_success [OF assms(1,2) d this assms(4)]
  have "vmexit_wrapper E regs w = Done (guest_view ?fs (mem w1)) (resumed ?fs w1)" .
  moreover have "guest_view ?fs (mem w1) = (guest_registers_at regs w)
      (RIP := vmread VMCS_GUEST_RIP w + vmread VMCS_VM_EXIT_INSTRUCTION_LEN w)"
    unfolding v saved_view by (simp add: guest_registers_at_def)
  moreover have "mem w1 x = mem w x" if "136 \<le> unat (x - ?fs)" for x
    using that o1 save_guest_outside [of ?fs w regs] by (simp add: outside_registers_def)
  moreover have "msrs w1 = msrs w" "min_level w1 = min_level w" using outside_registers_same(3,4) [OF o1] by simp_all
  moreover have "says (exit_line name @ log_line DEBUG_LEVEL vmexit_c (digits_text 10 line) message) w (resumed ?fs w1)"
    if "min_level w = DEBUG_LEVEL"
    using says_exit_logged [of w name ?fs regs] that outside_registers_same(3-5) [OF o1]
      says_logged [of w DEBUG_LEVEL "exit_line name" ?w vmexit_c line message]
      says_cong(1) [of "resumed ?fs w1" "logged DEBUG_LEVEL vmexit_c line message ?w"] by simp
  ultimately show ?thesis by (intro that [of "resumed ?fs w1"]) simp_all
qed

lemma misconfig_exit_hooks:
  assumes "vmcs_loaded w" and "exit_reason_of w = EXIT_REASON_EPT_MISCONFIG"
    and "vmread VMCS_HOST_FS_BASE w = gs" and "page_address (ssdt_of gs)" and "n < SSDT_SIZE"
    and "vmread VMCS_GUEST_PHYSICAL_ADDRESS w = ssdt_of gs + of_nat (8 * n)"
    and resume: "vmresume_works E"
  shows "\<exists>w'. vmexit_wrapper E regs w = Done ((guest_registers_at regs w)(
      RIP := vmread VMCS_GUEST_RIP w + vmread VMCS_VM_EXIT_INSTRUCTION_LEN w,
      RDI := of_nat n,
      RSI := load64 (mem w) (ssdt_of gs + of_nat (8 * n)),
      RAX := ssdt_hook_addr E)) w' \<and>
    (\<forall>x. 136 \<le> unat (x - gs) \<longrightarrow> mem w' x = mem w x) \<and>
    (min_level w \<le> INFO_LEVEL \<longrightarrow> says (exit_line ''EXIT_REASON_EPT_MISCONFIG'') w w')"
proof -
  let ?name = "''EXIT_REASON_EPT_MISCONFIG''"
  let ?w = "exit_logged ?name (save_guest gs regs w)"
  have n: "exit_name (exit_reason_of w) = Some ?name"
    by (simp add: assms(2) exit_name_eq exit_reason_initializers_def)
  obtain w1 where d: "ept_misconfig_handler E gs ?w = Done HANDLER_SUCCESS w1"
    and v: "guest_view gs (mem w1) = (guest_view gs (mem ?w))(
      RIP := guest_view gs (mem ?w) RIP + vmread VMCS_VM_EXIT_INSTRUCTION_LEN ?w,
      RDI := of_nat n, RSI := load64 (mem ?w) (ssdt_of gs + of_nat (8 * n)), RAX := ssdt_hook_addr E)"
    and o1: "outside_registers gs ?w w1"
    using ept_misconfig_handler_hooks [OF assms(4,5), of ?w E] assms(6) by auto
  have "apart gs 136 (ssdt_of gs + of_nat (8 * n)) 8"
    using apart_offsets [of 0 136 "0x9000 + 8 * n" 8 gs] assms(5) by (simp add: layout add.assoc)
  then have l: "load64 (mem ?w) (ssdt_of gs + of_nat (8 * n)) = load64 (mem w) (ssdt_of gs + of_nat (8 * n))"
    using load64_outside [OF save_guest_outside, of gs _ regs w] by simp
  have "vmcs_loaded w1" using outside_registers_same(2) [OF o1] assms(1) by simp
  with d have "vmexit_wrapper E regs w = Done (guest_view gs (mem w1)) (resumed gs w1)"
    using vmexit_wrapper_success [OF assms(1) n, of E regs w1] assms(2,3) resume by (simp add: dispatch_exit_def)
  moreover have "guest_view gs (mem w1) = (guest_registers_at regs w)(
      RIP := vmread VMCS_GUEST_RIP w + vmread VMCS_VM_EXIT_INSTRUCTION_LEN w,
      RDI := of_nat n, RSI := load64 (mem w) (ssdt_of gs + of_nat (8 * n)), RAX := ssdt_hook_addr E)"
    unfolding v l saved_view by (simp add: guest_registers_at_def)
  moreover have "mem w1 x = mem w x" if "136 \<le> unat (x - gs)" for x
    using that o1 save_guest_outside [of gs w regs] by (simp add: outside_registers_def)
  moreover have "says (exit_line ?name) w (resumed gs w1)" if "min_level w \<le> INFO_LEVEL"
    using says_exit_logged [OF that, of ?name gs regs] outside_registers_same(3-5) [OF o1]
      says_cong(1) [of "resumed gs w1" ?w] by simp
  ultimately show ?thesis by simp
qed

lemma vmcall_exit_protects:
  assumes "vmcs_loaded w" and "exit_reason_of w = EXIT_REASON_VMCALL"
    and "vmread VMCS_HOST_FS_BASE w = guest_cpu_state_of cd"
    and "load64 (mem w) (cpu_data_pointer (guest_cpu_state_of cd)) = cd"
    and "regs RDI = PROTECET_SYSCALL"
    and resume: "vmresume_works E"
  shows "\<exists>w'. vmexit_wrapper E regs w = Done ((guest_registers_at regs w)
      (RIP := vmread VMCS_GUEST_RIP w + vmread VMCS_VM_EXIT_INSTRUCTION_LEN w)) w' \<and>
    monitored (msr_bitmaps_of cd) (mem w') =
      {(Write_Msr, MSR_IA32_SYSENTER_EIP), (Write_Msr, MSR_IA32_LSTAR)} \<union> monitored (msr_bitmaps_of cd) (mem w) \<and>
    (\<forall>x. 4096 \<le> unat (x - msr_bitmaps_of cd) \<and> 136 \<le> unat (x - guest_cpu_state_of cd) \<longrightarrow>
      mem w' x = mem w x)"
proof -
  let ?gs = "guest_cpu_state_of cd"
  let ?name = "''EXIT_REASON_VMCALL''"
  let ?w = "exit_logged ?name (save_guest ?gs regs w)"
  have n: "exit_name (exit_reason_of w) = Some ?name"
    by (simp add: assms(2) exit_name_eq exit_reason_initializers_def)
  have so: "outside_registers ?gs w (save_guest ?gs regs w)" by (rule save_guest_outside)
  have "apart ?gs 136 (cpu_data_pointer ?gs) 8"
    using apart_offsets [of 0 136 "0xA000" 8 ?gs] by (simp add: layout)
  with assms(4) have p: "load64 (mem ?w) (cpu_data_pointer ?gs) = cd"
    using load64_outside [OF so] by simp
  have rdi: "guest_view ?gs (mem ?w) RDI = PROTECET_SYSCALL"
    unfolding saved_view using assms(5) by (simp add: guest_registers_at_def)
  have mon: "monitored (msr_bitmaps_of cd) (mem ?w) = monitored (msr_bitmaps_of cd) (mem w)"
    using so bitmaps_outside_registers [of _ cd] by (intro monitored_cong) (simp add: outside_registers_def)
  obtain w1 where d: "vmcall_handler ?gs ?w = Done HANDLER_SUCCESS w1"
    and m: "monitored (msr_bitmaps_of cd) (mem w1) =
      {(Write_Msr, MSR_IA32_SYSENTER_EIP), (Write_Msr, MSR_IA32_LSTAR)} \<union> monitored (msr_bitmaps_of cd) (mem ?w)"
    and v: "guest_view ?gs (mem w1) = (guest_view ?gs (mem ?w))(
      RIP := guest_view ?gs (mem ?w) RIP + vmread VMCS_VM_EXIT_INSTRUCTION_LEN ?w)"
    and f: "\<forall>x. 4096 \<le> unat (x - msr_bitmaps_of cd) \<and> 136 \<le> unat (x - ?gs) \<longrightarrow> mem w1 x = mem ?w x"
    and e: "w1\<lparr>mem := mem ?w\<rparr> = logged DEBUG_LEVEL vmexit_c 62
      ''protecting IA32_SYSENTER_EIP and IA32_LSTAR msrs from writes'' ?w"
    using vmcall_protects_system_calls [OF p rdi] by blast
  have "vmcs_loaded (w1\<lparr>mem := mem ?w\<rparr>)" unfolding e using assms(1) by simp
  then have "vmcs_loaded w1" by simp
  with d have "vmexit_wrapper E regs w = Done (guest_view ?gs (mem w1)) (resumed ?gs w1)"
    using vmexit_wrapper_success [OF assms(1) n, of E regs w1] assms(2,3) resume by (simp add: dispatch_exit_def)
  moreover have "guest_view ?gs (mem w1) = (guest_registers_at regs w)
      (RIP := vmread VMCS_GUEST_RIP w + vmread VMCS_VM_EXIT_INSTRUCTION_LEN w)"
    unfolding v saved_view by (simp add: guest_registers_at_def)
  moreover have "mem w1 x = mem w x"
    if "4096 \<le> unat (x - msr_bitmaps_of cd) \<and> 136 \<le> unat (x - ?gs)" for x
    using that f so by (simp add: outside_registers_def)
  ultimately show ?thesis using m mon by (intro exI [of _ "resumed ?gs w1"] conjI) simp_all
qed

text \<open>A failed \<open>vmresume\<close> goes unnoticed: no message, and control leaves the wrapper's code.\<close>

lemma vmexit_wrapper_resume_fails:
  assumes "vmexit_handler E (save_guest (vmread VMCS_HOST_FS_BASE w) regs w) = Done () w1" and "vmcs_loaded w1"
    and "vmresume_rflags E (resumed (vmread VMCS_HOST_FS_BASE w) w1) = Some flags"
  shows "vmexit_wrapper E regs w = Stop Undefined (resumed (vmread VMCS_HOST_FS_BASE w) w1)"
  using assms by (simp add: vmexit_wrapper_def Let_def restore_guest_view)

section \<open>Properties\<close>

text \<open>C12. Saving the guest's registers and restoring them. A restore gives every register the value that
  the structure holds for it, leaves memory alone, writes RSP and RIP of the structure into their VMCS
  fields, where \<open>vmresume\<close> takes them from, and changes no other field. A save puts the registers, with
  RSP and RIP from the VMCS, into their slots, so that a restore right after it gives the guest's registers
  back; no byte outside the seventeen slots changes.\<close>

theorem wrapper_round_trip:
  assumes "vmcs_loaded w"
  shows "(\<exists>w'. restore_guest fs w = Done (guest_view fs (mem w)) w' \<and> mem w' = mem w \<and>
      vmread VMCS_GUEST_RSP w' = guest_view fs (mem w) RSP \<and>
      vmread VMCS_GUEST_RIP w' = guest_view fs (mem w) RIP \<and>
      (\<forall>f. separate_fields VMCS_GUEST_RSP f \<and> separate_fields VMCS_GUEST_RIP f \<longrightarrow> vmread f w' = vmread f w)) \<and>
    (\<exists>w'. restore_guest fs (save_guest fs regs w) =
      Done (regs(RSP := vmread VMCS_GUEST_RSP w, RIP := vmread VMCS_GUEST_RIP w)) w' \<and>
      guest_view fs (mem w') = regs(RSP := vmread VMCS_GUEST_RSP w, RIP := vmread VMCS_GUEST_RIP w) \<and>
      (\<forall>x. 136 \<le> unat (x - fs) \<longrightarrow> mem w' x = mem w x))"
  using restore_guest_view [OF assms] restore_guest_view [of "save_guest fs regs w" fs] assms
    resumed_reads [OF assms] save_guest_outside [of fs w regs]
  by (auto simp: save_guest_view outside_registers_def)

lemma wrapper_round_trip_witness:
  "(\<exists>w'. restore_guest 0x1809000 (save_guest 0x1809000 (\<lambda>_. 7) (zero_world\<lparr>vmcs_loaded := True\<rparr>)) =
      Done ((\<lambda>_. 7)(RSP := 0, RIP := 0)) w') \<and>
   (\<exists>w' regs. restore_guest 0x1809000 (zero_world\<lparr>vmcs_loaded := True, mem := set_reg 0x1809000 RIP 0x1234 (\<lambda>_. 0)\<rparr>) =
      Done regs w' \<and> vmread VMCS_GUEST_RIP w' = 0x1234)"
proof
  have z: "vmread f (zero_world\<lparr>vmcs_loaded := True\<rparr>) = 0" for f
    by (simp add: vmread_def vmcs_get_def zero_world_def)
  show "\<exists>w'. restore_guest 0x1809000 (save_guest 0x1809000 (\<lambda>_. 7) (zero_world\<lparr>vmcs_loaded := True\<rparr>)) =
      Done ((\<lambda>_. 7)(RSP := 0, RIP := 0)) w'"
    using wrapper_round_trip [of "zero_world\<lparr>vmcs_loaded := True\<rparr>" "0x1809000" "\<lambda>_. 7"] by (auto simp: z)
  let ?w = "zero_world\<lparr>vmcs_loaded := True, mem := set_reg 0x1809000 RIP 0x1234 (\<lambda>_. 0)\<rparr>"
  show "\<exists>w' regs. restore_guest 0x1809000 ?w = Done regs w' \<and> vmread VMCS_GUEST_RIP w' = 0x1234"
    using conjunct1 [OF wrapper_round_trip [of ?w "0x1809000"]] by auto
qed

text \<open>The exits that the hypervisor handles, all with a name in the table.\<close>

abbreviation handled_reasons :: "nat set" where
  "handled_reasons \<equiv> {EXIT_REASON_HLT, EXIT_REASON_VMCALL, EXIT_REASON_MSR_READ, EXIT_REASON_MSR_WRITE,
     EXIT_REASON_EPT_VIOLATION, EXIT_REASON_EPT_MISCONFIG}"

lemma handled_reasons_named: "reason \<in> handled_reasons \<Longrightarrow> \<exists>name. exit_name reason = Some name"
  by (elim insertE emptyE) (simp_all add: exit_name_eq exit_reason_initializers_def)

lemma dispatch_skips:
  assumes "reason \<in> {EXIT_REASON_HLT, EXIT_REASON_MSR_READ, EXIT_REASON_MSR_WRITE, EXIT_REASON_EPT_VIOLATION} \<or>
      reason = EXIT_REASON_EPT_MISCONFIG \<and>
        \<not> (ssdt_of fs \<le> vmread VMCS_GUEST_PHYSICAL_ADDRESS w \<and>
           vmread VMCS_GUEST_PHYSICAL_ADDRESS w < ssdt_of fs + 0x1000)"
  shows "\<exists>line message. skipped fs line message w (dispatch_exit E reason fs w)"
  using assms skipping_handlers [of fs w] ept_misconfig_handler_elsewhere [of fs w E]
  by (auto simp: dispatch_exit_def)

lemma skipping_exit:
  assumes "vmcs_loaded w"
    and "exit_reason_of w \<in> {EXIT_REASON_HLT, EXIT_REASON_MSR_READ, EXIT_REASON_MSR_WRITE, EXIT_REASON_EPT_VIOLATION} \<or>
      exit_reason_of w = EXIT_REASON_EPT_MISCONFIG \<and>
        \<not> (ssdt_of (vmread VMCS_HOST_FS_BASE w) \<le> vmread VMCS_GUEST_PHYSICAL_ADDRESS w \<and>
           vmread VMCS_GUEST_PHYSICAL_ADDRESS w < ssdt_of (vmread VMCS_HOST_FS_BASE w) + 0x1000)"
    and "vmresume_works E"
  shows "\<exists>w'. vmexit_wrapper E regs w = Done ((guest_registers_at regs w)
      (RIP := vmread VMCS_GUEST_RIP w + vmread VMCS_VM_EXIT_INSTRUCTION_LEN w)) w' \<and>
    (\<forall>x. 136 \<le> unat (x - vmread VMCS_HOST_FS_BASE w) \<longrightarrow> mem w' x = mem w x) \<and>
    msrs w' = msrs w \<and> min_level w' = min_level w"
proof -
  let ?fs = "vmread VMCS_HOST_FS_BASE w"
  have "exit_reason_of w \<in> handled_reasons" using assms(2) by blast
  then obtain name where n: "exit_name (exit_reason_of w) = Some name" using handled_reasons_named by blast
  let ?w = "exit_logged name (save_guest ?fs regs w)"
  obtain line message where "skipped ?fs line message ?w (dispatch_exit E (exit_reason_of w) ?fs ?w)"
    using dispatch_skips [of "exit_reason_of w" ?fs ?w E] assms(2) by auto
  then show ?thesis by (rule vmexit_wrapper_skipped [OF assms(1) n _ assms(3)]) blast
qed

text \<open>C13. An exit for \<open>hlt\<close>, \<open>rdmsr\<close>, \<open>wrmsr\<close>, an EPT violation, or a misconfiguration outside the guest's
  table of system calls, skips the guest's instruction: the guest resumes with RIP advanced by its
  length and every other register as it was. No MSR changes, and no memory but the saved registers.\<close>

theorem exit_skips_instruction:
  assumes "vmcs_loaded w"
    and "exit_reason_of w \<in> {EXIT_REASON_HLT, EXIT_REASON_MSR_READ, EXIT_REASON_MSR_WRITE, EXIT_REASON_EPT_VIOLATION} \<or>
      exit_reason_of w = EXIT_REASON_EPT_MISCONFIG \<and>
        \<not> (ssdt_of (vmread VMCS_HOST_FS_BASE w) \<le> vmread VMCS_GUEST_PHYSICAL_ADDRESS w \<and>
           vmread VMCS_GUEST_PHYSICAL_ADDRESS w < ssdt_of (vmread VMCS_HOST_FS_BASE w) + 0x1000)"
    and "vmresume_works E"
  shows "\<exists>w'. vmexit_wrapper E regs w = Done ((guest_registers_at regs w)
      (RIP := vmread VMCS_GUEST_RIP w + vmread VMCS_VM_EXIT_INSTRUCTION_LEN w)) w' \<and>
    (\<forall>x. 136 \<le> unat (x - vmread VMCS_HOST_FS_BASE w) \<longrightarrow> mem w' x = mem w x) \<and> msrs w' = msrs w"
  using skipping_exit [OF assms] by blast

text \<open>A machine at a VM exit with the given reason and guest-physical address.\<close>

definition exiting :: "qword_t \<Rightarrow> qword_t \<Rightarrow> world" where
  "exiting reason pa = zero_world\<lparr>vmcs_loaded := True, vmcs := (\<lambda>_. 0)(VMCS_VM_EXIT_REASON := reason,
     VMCS_GUEST_PHYSICAL_ADDRESS := pa, VMCS_HOST_FS_BASE := 0x1809000, VMCS_VM_EXIT_INSTRUCTION_LEN := 3),
     mem := store64 0x1813000 0x1000000 (\<lambda>_. 0)\<rparr>"

lemma exiting_reads [simp]:
  "vmcs_loaded (exiting reason pa)"
  "vmread VMCS_VM_EXIT_REASON (exiting reason pa) = reason"
  "vmread VMCS_GUEST_PHYSICAL_ADDRESS (exiting reason pa) = pa"
  "vmread VMCS_HOST_FS_BASE (exiting reason pa) = 0x1809000"
  "vmread VMCS_VM_EXIT_INSTRUCTION_LEN (exiting reason pa) = 3"
  "vmread VMCS_GUEST_RIP (exiting reason pa) = 0"
  "vmread VMCS_GUEST_RSP (exiting reason pa) = 0"
  "min_level (exiting reason pa) = DEBUG_LEVEL"
  "load64 (mem (exiting reason pa)) 0x1813000 = 0x1000000"
  by (simp_all add: exiting_def vmread_def vmcs_get_def high_access_def full_field_def zero_world_def
      qword_cell.load_store)

lemma exit_reason_of_exiting [simp]: "exit_reason_of (exiting reason pa) = unat (take_bit 16 reason)"
  by (simp add: exit_reason_of_def basic_exit_reason_def get_field_def)

lemma exit_skips_instruction_witness:
  "\<exists>w'. vmexit_wrapper example_env (\<lambda>_. 7) (exiting 12 0) = Done ((\<lambda>_. 7)(RSP := 0, RIP := 3)) w'"
  using exit_skips_instruction [of "exiting 12 0" example_env "\<lambda>_. 7"] by (auto simp: guest_registers_at_def vmresume_works_def example_env_def)

text \<open>C14. A hypercall with any other number, and an exit for any other named reason, stops the machine: the
  guest is not resumed. Besides the saved registers, all that has happened is the lines in the log: the
  name of the exit reason, for a hypercall the handler's complaint, and at last the fatal message.\<close>

theorem exit_unsupported_halts:
  assumes "vmcs_loaded w" and "exit_name (exit_reason_of w) = Some name"
    and "exit_reason_of w \<notin> {EXIT_REASON_HLT, EXIT_REASON_MSR_READ, EXIT_REASON_MSR_WRITE,
        EXIT_REASON_EPT_VIOLATION, EXIT_REASON_EPT_MISCONFIG, EXIT_REASON_VMCALL} \<or>
      exit_reason_of w = EXIT_REASON_VMCALL \<and> regs RDI \<noteq> PROTECET_SYSCALL"
  shows "\<exists>w'. vmexit_wrapper E regs w = Stop Halted w' \<and>
    outside_registers (vmread VMCS_HOST_FS_BASE w)
      (if exit_reason_of w = EXIT_REASON_VMCALL
       then logged FATAL_LEVEL vmm_c 289 ''Faild to handle VM-exit''
         (logged ERROR_LEVEL vmexit_c 68 ''unsupported vmcall'' (exit_logged name w))
       else logged FATAL_LEVEL vmm_c 285 ''unsupported exit reason'' (exit_logged name w)) w'"
proof -
  let ?fs = "vmread VMCS_HOST_FS_BASE w"
  let ?w = "exit_logged name (save_guest ?fs regs w)"
  have "vmexit_wrapper E regs w = bindR (dispatch_exit E (exit_reason_of w) ?fs ?w) (\<lambda>status w.
      if status = HANDLER_FAILURE then Stop Halted (logged FATAL_LEVEL vmm_c 289 ''Faild to handle VM-exit'' w)
      else Stop Undefined w)" if "\<forall>w1. dispatch_exit E (exit_reason_of w) ?fs ?w \<noteq> Done HANDLER_SUCCESS w1"
    using assms(1,2) vmexit_handler_named [of "save_guest ?fs regs w" name E] that
    by (cases "dispatch_exit E (exit_reason_of w) ?fs ?w")
      (auto simp: vmexit_wrapper_def Let_def PANIC_plain vmm_log_ok, metis handler_status.exhaust)
  note wrapper = this
  from assms(3) show ?thesis
  proof
    assume r: "exit_reason_of w \<notin> {EXIT_REASON_HLT, EXIT_REASON_MSR_READ, EXIT_REASON_MSR_WRITE,
        EXIT_REASON_EPT_VIOLATION, EXIT_REASON_EPT_MISCONFIG, EXIT_REASON_VMCALL}"
    then have "dispatch_exit E (exit_reason_of w) ?fs ?w =
        Stop Halted (logged FATAL_LEVEL vmm_c 285 ''unsupported exit reason'' ?w)"
      by (simp add: dispatch_exit_def PANIC_plain vmm_log_ok)
    with wrapper r show ?thesis by (auto intro!: outside_registers_logged save_guest_outside)
  next
    assume r: "exit_reason_of w = EXIT_REASON_VMCALL \<and> regs RDI \<noteq> PROTECET_SYSCALL"
    have "guest_view ?fs (mem ?w) RDI \<noteq> PROTECET_SYSCALL"
      unfolding saved_view using r by (simp add: guest_registers_at_def)
    from vmcall_unsupported [OF this] r have "dispatch_exit E (exit_reason_of w) ?fs ?w =
        Done HANDLER_FAILURE (skip_instruction ?fs (logged ERROR_LEVEL vmexit_c 68 ''unsupported vmcall'' ?w))"
      by (simp add: dispatch_exit_def)
    with wrapper r show ?thesis
      by (auto intro!: outside_registers_logged outside_registers_skip save_guest_outside)
  qed
qed

lemma exit_unsupported_halts_witness:
  "\<exists>w'. vmexit_wrapper example_env (\<lambda>_. 7) (exiting 10 0) = Stop Halted w' \<and>
    outside_registers 0x1809000 (logged FATAL_LEVEL vmm_c 285 ''unsupported exit reason''
      (exit_logged ''EXIT_REASON_CPUID'' (exiting 10 0))) w'"
  using exit_unsupported_halts [of "exiting 10 0" "''EXIT_REASON_CPUID''" "\<lambda>_. 7" example_env]
  by (simp add: exit_name_eq exit_reason_initializers_def)

text \<open>C15. The table of names has gaps, such as 35 and 60, and ends at 68. An exit for a reason without a
  name formats a null pointer or reads past the table, before any handler runs.\<close>

theorem exit_without_name:
  assumes "vmcs_loaded w" and "min_level w \<le> INFO_LEVEL"
    and "exit_reason_of w \<in> {35, 38, 42, 45, 59, 60, 66} \<or> 69 \<le> exit_reason_of w"
  shows "vmexit_wrapper E regs w = Stop Undefined (save_guest (vmread VMCS_HOST_FS_BASE w) regs w)"
proof -
  have "exit_name (exit_reason_of w) = None"
    using assms(3)
  proof
    assume "exit_reason_of w \<in> {35, 38, 42, 45, 59, 60, 66}"
    then show ?thesis
      by (elim insertE emptyE) (simp_all add: exit_name_eq exit_reason_initializers_def)
  next
    assume "69 \<le> exit_reason_of w"
    then show ?thesis by (simp add: exit_name_def EXIT_REASON_STRINGS_def)
  qed
  then show ?thesis
    using vmexit_handler_unnamed [of "save_guest (vmread VMCS_HOST_FS_BASE w) regs w" E] assms(1,2)
    by (simp add: vmexit_wrapper_def Let_def)
qed

lemma exit_without_name_witness:
  "\<exists>w'. vmexit_wrapper example_env (\<lambda>_. 7) (exiting 60 0) = Stop Undefined w'"
proof -
  have "exit_reason_of (exiting 60 0) \<in> {35, 38, 42, 45, 59, 60, 66} \<or> 69 \<le> exit_reason_of (exiting 60 0)" by simp
  from exit_without_name [OF _ _ this, of example_env "\<lambda>_. 7"] show ?thesis by auto
qed

end
