(* ===== verification/Host.thy ===== *)
theory Host
  imports Exits
begin

text \<open>
  The start of the hypervisor: \<open>src/vmm/initialize_host.c\<close>, called by the boot code in 64-bit mode.

  \<open>initialize_host\<close> lays out the processor's data at \<open>CPU_DATA_ADDRESS\<close>, enters VMX operation,
  configures the VMCS, registers the guest's system call 42, hides the table of system calls from
  the guest's reads, and launches the guest. \<open>initialize_bios\<close> and \<open>load_mbr\<close>, whose calls are commented
  out, are in the theory \<open>Bios\<close>.

  The lemmas follow memory through the steps; the properties at the end describe the machine at
  the entry of the guest.
\<close>

section \<open>Code\<close>

abbreviation (input) CPU_DATA_ADDRESS :: qword_t where "CPU_DATA_ADDRESS \<equiv> 0x01000000"

definition host_c :: string where "host_c = ''src/vmm/initialize_host.c''"

definition initialize_ssdt :: "env \<Rightarrow> qword_t \<Rightarrow> world \<Rightarrow> world" where
  "initialize_ssdt E ssdt w = set_syscall_handler 42 (print_a_crab_addr E) w"

definition ssdt_page_flags :: ept_flags where
  "ssdt_page_flags = no_flags\<lparr>read_access := 0, write_access := 1, memory_type := ucast EPT_MEMORY_TYPE_WRITEBACK\<rparr>"

definition initialize_read_hook :: "qword_t \<Rightarrow> qword_t \<Rightarrow> world \<Rightarrow> unit res" where
  "initialize_read_hook epts ssdt w = update_gpa_access_rights epts ssdt ssdt_page_flags w"

definition initialize_host :: "env \<Rightarrow> world \<Rightarrow> unit res" where
  "initialize_host E w =
     (let w = set_log_level DEBUG_LEVEL w
      in bindR (LOG_INFO host_c 28 ''initializing machine'' [] w) (\<lambda>_ w.
     let cpu_data = CPU_DATA_ADDRESS; gs = guest_cpu_state_of cpu_data;
         w = w\<lparr>mem := store64 (cpu_data_pointer gs) cpu_data (mem w)\<rparr>
      in bindR (LOG_INFO host_c 32 ''VMM memory size is %x and its layout is as follows:''
            [ArgQword (of_nat sizeof_cpu_data)] w) (\<lambda>_ w.
         bindR (LOG_INFO host_c 33 ''[vmxon region]: %u'' [ArgQword (vmxon_region cpu_data)] w) (\<lambda>_ w.
         bindR (LOG_INFO host_c 34 ''[vmcs]: %u'' [ArgQword (vmcs_region cpu_data)] w) (\<lambda>_ w.
         bindR (LOG_INFO host_c 35 ''[extended paging tables]: %u'' [ArgQword (epts_of cpu_data)] w) (\<lambda>_ w.
         bindR (LOG_INFO host_c 36 ''[msr bitmaps]: %u'' [ArgQword (msr_bitmaps_of cpu_data)] w) (\<lambda>_ w.
         bindR (LOG_INFO host_c 37 ''[guest registers]: %u'' [ArgQword (registers_of gs)] w) (\<lambda>_ w.
         bindR (LOG_INFO host_c 38 ''[guest stack]: %u'' [ArgQword (stack_top gs)] w) (\<lambda>_ w.
         bindR (LOG_INFO host_c 39 ''[guest ssdt]: %u'' [ArgQword (ssdt_of gs)] w) (\<lambda>_ w.
         bindR (enter_vmx_root E cpu_data w) (\<lambda>_ w.
         bindR (configure_vmcs E cpu_data w) (\<lambda>_ w.
         let w = initialize_ssdt E (ssdt_of gs) w
         in bindR (initialize_read_hook (epts_of cpu_data) (ssdt_of gs) w) (\<lambda>_ w.
            launch_vm E w)))))))))))))"

section \<open>The first steps\<close>

lemma host_log_ok: "plain s \<Longrightarrow> length s < 200 \<Longrightarrow> 0 \<le> sint line \<Longrightarrow> log_ok host_c line s"
  by (simp add: log_ok_def host_c_def)

text \<open>The machine when \<open>enter_vmx_root\<close> is called: the pointer is stored, the log level set.\<close>

definition host_ready :: "world \<Rightarrow> world" where
  "host_ready w = w\<lparr>min_level := DEBUG_LEVEL,
     mem := store64 (cpu_data_pointer (guest_cpu_state_of CPU_DATA_ADDRESS)) CPU_DATA_ADDRESS (mem w)\<rparr>"

lemma only_ports_mem: "only_ports w u \<Longrightarrow> only_ports (w\<lparr>mem := m\<rparr>) (u\<lparr>mem := m\<rparr>)"
proof -
  assume "only_ports w u"
  then obtain xs where "u = w\<lparr>port_writes := port_writes w @ xs\<rparr>" unfolding only_ports_def ..
  then have "u\<lparr>mem := m\<rparr> = w\<lparr>mem := m, port_writes := port_writes (w\<lparr>mem := m\<rparr>) @ xs\<rparr>" by simp
  then show ?thesis unfolding only_ports_def ..
qed

lemma host_log:
  assumes "plain s" and "length s < 200" and "0 \<le> sint line" and "only_ports w u"
  shows "\<exists>u'. LOG_INFO host_c line (s @ ''%u'') [ArgQword v] u = Done () u' \<and> only_ports w u'"
  using log_log_hex [OF host_log_ok [OF assms(1-3)], of INFO_LEVEL v u] assms(4) by auto

lemma host_log_size:
  assumes "only_ports w u"
  shows "\<exists>u'. LOG_INFO host_c 32 ''VMM memory size is %x and its layout is as follows:''
      [ArgQword (of_nat sizeof_cpu_data)] u = Done () u' \<and> only_ports w u'"
proof -
  have "va_int [ArgQword (of_nat sizeof_cpu_data)] = Some (0x814000, [])" by (simp add: layout)
  moreover have "integer_text 0x814000 (conversion_base (CHR ''x'')) (CHR ''x'' \<in> set ''uU'') =
      Some (unsigned_hex 0x814000)"
    by (simp add: conversion_base_def unsigned_hex_text)
  moreover have "log_ok host_c 32 (''VMM memory size is '' @ '' and its layout is as follows:'')"
    by (rule host_log_ok) simp_all
  ultimately show ?thesis
    using log_log_integer [of host_c 32 "''VMM memory size is ''" "'' and its layout is as follows:''" "CHR ''x''"]
      assms by auto
qed

definition host_rest :: "env \<Rightarrow> world \<Rightarrow> unit res" where
  "host_rest E w =
     bindR (enter_vmx_root E CPU_DATA_ADDRESS w) (\<lambda>_ w.
     bindR (configure_vmcs E CPU_DATA_ADDRESS w) (\<lambda>_ w.
     let w = initialize_ssdt E (ssdt_of (guest_cpu_state_of CPU_DATA_ADDRESS)) w
     in bindR (initialize_read_hook (epts_of CPU_DATA_ADDRESS) (ssdt_of (guest_cpu_state_of CPU_DATA_ADDRESS)) w)
          (\<lambda>_ w. launch_vm E w)))"

lemma initialize_host_logs:
  obtains u where "initialize_host E w = host_rest E u" and "only_ports (host_ready w) u"
proof -
  let ?w = "w\<lparr>min_level := DEBUG_LEVEL\<rparr>"
  let ?mem = "store64 (cpu_data_pointer (guest_cpu_state_of CPU_DATA_ADDRESS)) CPU_DATA_ADDRESS"
  obtain v where v: "LOG_INFO host_c 28 ''initializing machine'' [] ?w = Done () v" and ov: "only_ports ?w v"
    using log_log_plain [OF host_log_ok [of "''initializing machine''" 28]] by (auto simp: only_ports_logged)
  obtain u0 where u0: "u0 = v\<lparr>mem := ?mem (mem v)\<rparr>" by simp
  have "mem v = mem w" using only_ports_parts(1) [OF ov] by simp
  then have o0: "only_ports (host_ready w) u0"
    unfolding u0 host_ready_def by (simp only: only_ports_mem [OF ov])
  obtain u1 where u1: "LOG_INFO host_c 32 ''VMM memory size is %x and its layout is as follows:''
      [ArgQword (of_nat sizeof_cpu_data)] u0 = Done () u1"
    and o1: "only_ports (host_ready w) u1" using host_log_size [OF o0] by blast
  note l = host_log [of _ _ "host_ready w"]
  obtain u2 where u2: "LOG_INFO host_c 33 ''[vmxon region]: %u'' [ArgQword (vmxon_region CPU_DATA_ADDRESS)] u1 = Done () u2"
    and o2: "only_ports (host_ready w) u2" using l [OF _ _ _ o1, of "''[vmxon region]: ''" 33] by auto
  obtain u3 where u3: "LOG_INFO host_c 34 ''[vmcs]: %u'' [ArgQword (vmcs_region CPU_DATA_ADDRESS)] u2 = Done () u3"
    and o3: "only_ports (host_ready w) u3" using l [OF _ _ _ o2, of "''[vmcs]: ''" 34] by auto
  obtain u4 where u4: "LOG_INFO host_c 35 ''[extended paging tables]: %u'' [ArgQword (epts_of CPU_DATA_ADDRESS)] u3 = Done () u4"
    and o4: "only_ports (host_ready w) u4" using l [OF _ _ _ o3, of "''[extended paging tables]: ''" 35] by auto
  obtain u5 where u5: "LOG_INFO host_c 36 ''[msr bitmaps]: %u'' [ArgQword (msr_bitmaps_of CPU_DATA_ADDRESS)] u4 = Done () u5"
    and o5: "only_ports (host_ready w) u5" using l [OF _ _ _ o4, of "''[msr bitmaps]: ''" 36] by auto
  let ?gs = "guest_cpu_state_of CPU_DATA_ADDRESS"
  obtain u6 where u6: "LOG_INFO host_c 37 ''[guest registers]: %u'' [ArgQword (registers_of ?gs)] u5 = Done () u6"
    and o6: "only_ports (host_ready w) u6" using l [OF _ _ _ o5, of "''[guest registers]: ''" 37] by auto
  obtain u7 where u7: "LOG_INFO host_c 38 ''[guest stack]: %u'' [ArgQword (stack_top ?gs)] u6 = Done () u7"
    and o7: "only_ports (host_ready w) u7" using l [OF _ _ _ o6, of "''[guest stack]: ''" 38] by auto
  obtain u8 where u8: "LOG_INFO host_c 39 ''[guest ssdt]: %u'' [ArgQword (ssdt_of ?gs)] u7 = Done () u8"
    and o8: "only_ports (host_ready w) u8" using l [OF _ _ _ o7, of "''[guest ssdt]: ''" 39] by auto
  have "initialize_host E w = host_rest E u8"
    unfolding initialize_host_def host_rest_def Let_def set_log_level_def
    by (simp only: v u0 [symmetric] u1 u2 u3 u4 u5 u6 u7 u8 bindR.simps)
  with o8 show ?thesis by (rule that [rotated])
qed

section \<open>Memory at the entry of the guest\<close>

lemma apart_inside: "apart q k p n \<Longrightarrow> unat (x - p) < n \<Longrightarrow> k \<le> unat (x - q)"
  using apart_byte [of q k p n] by (auto elim: offset_cases)

lemma load64_outside_structure:
  assumes "\<And>x. sizeof_epts \<le> unat (x - epts) \<Longrightarrow> m' x = m x" and "apart epts sizeof_epts a 8"
  shows "load64 m' a = load64 m a"
  by (rule qword_cell.load_cong) (intro assms(1) apart_byte [OF assms(2)])

text \<open>The parts of the processor's data that the start writes to.\<close>

lemma part_offsets:
  "vmxon_region cd = cd + of_nat 0" "vmcs_region cd = cd + of_nat 0x1000"
  "epts_of cd = cd + of_nat 0x2000" "msr_bitmaps_of cd = cd + of_nat 0x808000"
  "ssdt_of (guest_cpu_state_of cd) = cd + of_nat 0x812000"
  "cpu_data_pointer (guest_cpu_state_of cd) = cd + of_nat 0x813000"
  by (simp_all add: layout)

lemma parts_apart:
  "apart (vmxon_region cd) 4 (epts_of cd) sizeof_epts" "apart (vmcs_region cd) 4 (epts_of cd) sizeof_epts"
  "apart (ssdt_of (guest_cpu_state_of cd)) 4096 (epts_of cd) sizeof_epts"
  "apart (cpu_data_pointer (guest_cpu_state_of cd)) 8 (epts_of cd) sizeof_epts"
  "apart (epts_of cd) sizeof_epts (ssdt_of (guest_cpu_state_of cd)) 4096"
  "apart (epts_of cd) sizeof_epts (msr_bitmaps_of cd) 4096"
  "apart (epts_of cd) sizeof_epts (cpu_data_pointer (guest_cpu_state_of cd)) 8"
  "apart (vmxon_region cd) 4 (ssdt_of (guest_cpu_state_of cd)) 4096"
  "apart (vmcs_region cd) 4 (ssdt_of (guest_cpu_state_of cd)) 4096"
  "apart (cpu_data_pointer (guest_cpu_state_of cd)) 8 (ssdt_of (guest_cpu_state_of cd)) 4096"
  "apart (vmxon_region cd) 4 (cpu_data_pointer (guest_cpu_state_of cd)) 8"
  "apart (vmcs_region cd) 4 (cpu_data_pointer (guest_cpu_state_of cd)) 8"
  "apart (ssdt_of (guest_cpu_state_of cd)) 4096 (cpu_data_pointer (guest_cpu_state_of cd)) 8"
  unfolding part_offsets by (rule apart_offsets; simp add: small_sizes)+

text \<open>
  Memory after the start, in two steps: before the page tables are built, and at the entry of the
  guest. \<open>ssdt_leaf\<close> is the page-table entry of the guest's table of system calls.
\<close>

abbreviation (input) host_epts :: qword_t where "host_epts \<equiv> epts_of CPU_DATA_ADDRESS"
abbreviation (input) host_state :: qword_t where "host_state \<equiv> guest_cpu_state_of CPU_DATA_ADDRESS"
abbreviation (input) ssdt_leaf :: qword_t where "ssdt_leaf \<equiv> entry_at (pts host_epts) (page_number SSDT_ADDRESS)"

definition regions_memory :: "dword_t \<Rightarrow> memory \<Rightarrow> memory" where
  "regions_memory revision m =
     store32 (vmcs_region CPU_DATA_ADDRESS) revision (store32 (vmxon_region CPU_DATA_ADDRESS) revision
       (store64 (cpu_data_pointer host_state) CPU_DATA_ADDRESS m))"

definition host_memory :: "env \<Rightarrow> dword_t \<Rightarrow> memory \<Rightarrow> memory" where
  "host_memory E revision m =
     set_entry_flags ssdt_leaf ssdt_page_flags
       (store64 (ssdt_entry 42) (print_a_crab_addr E) (initialized host_epts (regions_memory revision m)))"

lemma ssdt_in_place: "ssdt_of host_state = SSDT_ADDRESS"
  by (simp add: layout)

lemma ssdt_leaf_inside: "page_number SSDT_ADDRESS < 4 * 512 * 512"
  by (simp add: page_number_def)

lemma regions_memory_structure: "unat (x - host_epts) < sizeof_epts \<Longrightarrow> regions_memory r m x = m x"
  unfolding regions_memory_def
  using apart_inside [OF parts_apart(1), of x CPU_DATA_ADDRESS] apart_inside [OF parts_apart(2), of x CPU_DATA_ADDRESS]
    apart_inside [OF parts_apart(4), of x CPU_DATA_ADDRESS]
  by (simp only: dword_cell.store_byte qword_cell.store_byte)

lemma regions_memory_ssdt: "unat (x - SSDT_ADDRESS) < 4096 \<Longrightarrow> regions_memory r m x = m x"
  unfolding regions_memory_def ssdt_in_place [symmetric]
  using apart_inside [OF parts_apart(8), of x CPU_DATA_ADDRESS] apart_inside [OF parts_apart(9), of x CPU_DATA_ADDRESS]
    apart_inside [OF parts_apart(10), of x CPU_DATA_ADDRESS]
  by (simp only: dword_cell.store_byte qword_cell.store_byte)

lemma regions_memory_pointer:
  "load64 (regions_memory r m) (cpu_data_pointer host_state) = CPU_DATA_ADDRESS"
proof -
  let ?p = "cpu_data_pointer host_state"
  let ?m = "store64 ?p CPU_DATA_ADDRESS m"
  have "regions_memory r m (?p + of_nat i) = ?m (?p + of_nat i)" if "i < 8" for i
    unfolding regions_memory_def
    using apart_byte [OF parts_apart(11) that] apart_byte [OF parts_apart(12) that]
    by (simp only: dword_cell.store_byte)
  then have "load64 (regions_memory r m) ?p = load64 ?m ?p" by (rule qword_cell.load_cong)
  then show ?thesis by (simp only: qword_cell.load_store)
qed

text \<open>The read hook changes one entry inside the structure; the new handler, one in the table.\<close>

lemma set_leaf_outside:
  assumes "i < 4 * 512 * 512" and "sizeof_epts \<le> unat (x - epts)"
  shows "set_entry_flags (entry_at (pts epts) i) flags m x = m x"
  using qword_cell.store_outside [of "0x6000 + 8 * i" sizeof_epts x epts] assms
  unfolding set_entry_flags_def entry_offsets by (simp add: small_sizes)

lemma handler_outside_structure:
  assumes "unat (x - host_epts) < sizeof_epts"
  shows "store64 (ssdt_entry 42) h m x = m x"
proof -
  have "4096 \<le> unat (x - SSDT_ADDRESS)"
    unfolding ssdt_in_place [symmetric] using apart_inside [OF parts_apart(3) assms] .
  then show ?thesis
    using qword_cell.store_outside [of "8 * 42" 4096 x SSDT_ADDRESS h m] by (simp add: ssdt_entry_def)
qed

lemma host_memory_outside_structure:
  assumes "sizeof_epts \<le> unat (x - host_epts)"
  shows "host_memory E r m x = store64 (ssdt_entry 42) (print_a_crab_addr E) (regions_memory r m) x"
proof -
  have "store64 a v (initialized host_epts m') x = store64 a v m' x" for a v m'
  proof (cases "8 \<le> unat (x - a)")
    case True
    then show ?thesis by (simp only: qword_cell.store_byte initialized_outside [OF assms])
  next
    case False
    then obtain i where "i < 8" and "x = a + of_nat i" by (auto simp: not_le elim: offset_cases)
    then show ?thesis by (simp add: store64_def store_bytes_nth)
  qed
  then show ?thesis
    unfolding host_memory_def by (simp only: set_leaf_outside [OF ssdt_leaf_inside assms])
qed

lemma host_memory_pointer:
  "load64 (host_memory E r m) (cpu_data_pointer host_state) = CPU_DATA_ADDRESS"
proof -
  let ?p = "cpu_data_pointer host_state"
  have "load64 (host_memory E r m) ?p = load64 (store64 (ssdt_entry 42) (print_a_crab_addr E) (regions_memory r m)) ?p"
    by (rule load64_outside_structure [OF host_memory_outside_structure parts_apart(7)])
  also have "\<dots> = load64 (regions_memory r m) ?p"
  proof -
    have "apart (ssdt_entry 42) 8 ?p 8"
      using apart_offsets [of "0x812150" 8 "0x813000" 8 CPU_DATA_ADDRESS]
      by (simp add: ssdt_entry_def layout)
    then show ?thesis by (rule qword_cell.load_store_apart)
  qed
  finally show ?thesis by (simp only: regions_memory_pointer)
qed

lemma host_memory_handlers:
  "handlers (host_memory E r m) = (handlers m)(42 := if print_a_crab_addr E = 0 then None else Some (print_a_crab_addr E))"
proof -
  let ?m = "store64 (ssdt_entry 42) (print_a_crab_addr E) (regions_memory r m)"
  have e: "load64 (host_memory E r m) (SSDT_ADDRESS + of_nat (8 * n)) =
      (if n = 42 then print_a_crab_addr E else load64 m (SSDT_ADDRESS + of_nat (8 * n)))" if n: "n < 512" for n
  proof -
    have in_table: "unat (SSDT_ADDRESS + of_nat (8 * n) + of_nat i - SSDT_ADDRESS) < 4096" if "i < 8" for i
      using n that by (simp add: unat_of_nat_small del: of_nat_mult flip: of_nat_add)
    have a: "apart host_epts sizeof_epts (SSDT_ADDRESS + of_nat (8 * n)) 8"
      using apart_offsets [of "0x2000" sizeof_epts "0x812000 + 8 * n" 8 CPU_DATA_ADDRESS] n
      by (simp add: small_sizes part_offsets(3) add.assoc)
    have "load64 (host_memory E r m) (SSDT_ADDRESS + of_nat (8 * n)) = load64 ?m (SSDT_ADDRESS + of_nat (8 * n))"
      by (rule load64_outside_structure [OF host_memory_outside_structure a])
    also have "\<dots> = (if n = 42 then print_a_crab_addr E else load64 (regions_memory r m) (SSDT_ADDRESS + of_nat (8 * n)))"
      using entries_apart [of 42 n] n
      by (auto simp: ssdt_entry_def qword_cell.load_store qword_cell.load_store_apart)
    also have "load64 (regions_memory r m) (SSDT_ADDRESS + of_nat (8 * n)) = load64 m (SSDT_ADDRESS + of_nat (8 * n))"
      by (rule qword_cell.load_cong) (rule regions_memory_ssdt [OF in_table])
    finally show ?thesis .
  qed
  have "handlers (host_memory E r m) n =
      ((handlers m)(42 := if print_a_crab_addr E = 0 then None else Some (print_a_crab_addr E))) n" for n
    using e [of n] unfolding handlers_def by (cases "n < 512") (auto simp only: Let_def fun_upd_apply, auto)
  then show ?thesis by (rule ext)
qed

text \<open>The walk through the final tables: the guest's table of system calls is hidden, nothing else.\<close>

lemma handled_tables:
  assumes "clear_tables host_epts m"
  shows "identity_directories host_epts
      (store64 (ssdt_entry 42) h (initialized host_epts (regions_memory r m)))" (is ?dirs)
    and "unat a < 2 ^ 32 \<Longrightarrow>
      load64 (store64 (ssdt_entry 42) h (initialized host_epts (regions_memory r m)))
        (entry_at (pts host_epts) (page_number a)) =
      load64 (initialized host_epts (regions_memory r m)) (entry_at (pts host_epts) (page_number a))"
    and "clear_tables host_epts (regions_memory r m)" (is ?clear)
proof -
  let ?i = "initialized host_epts (regions_memory r m)"
  have same: "store64 (ssdt_entry 42) h ?i x = ?i x" if "unat (x - host_epts) < sizeof_epts" for x
    using that by (rule handler_outside_structure)
  have placed: "epts_placed host_epts"
    by (simp add: epts_placed_def page_address_def layout)
  show ?clear using regions_memory_structure assms by (rule clear_tables_cong)
  with same initialized_directories [OF placed] show ?dirs by (blast intro: identity_directories_cong)
  assume "unat a < 2 ^ 32"
  from walk_indices(7) [OF this] show "load64 (store64 (ssdt_entry 42) h ?i) (entry_at (pts host_epts) (page_number a)) =
      load64 ?i (entry_at (pts host_epts) (page_number a))"
    by (intro same_entries(4) [OF same]) (simp_all add: page_number_def)
qed

lemma host_memory_directories:
  "clear_tables host_epts m \<Longrightarrow> identity_directories host_epts (host_memory E r m)"
  unfolding host_memory_def using handled_tables(1) by (intro update_keeps_directories ssdt_leaf_inside)

lemma host_epts_page: "page_address host_epts"
  by (simp add: page_address_def layout)

lemma host_memory_walk:
  assumes "clear_tables host_epts m" and "unat g < 2 ^ 32"
  shows "ept_walk xo (host_memory E r m) (initial_eptp host_epts) g =
    (if page_number g = page_number SSDT_ADDRESS then Misconfigured
     else Translated \<lparr>host_address = g, can_read = True, can_write = True, can_execute = True,
       caching = EPT_MEMORY_TYPE_WRITEBACK\<rparr>)"
proof -
  let ?m = "store64 (ssdt_entry 42) (print_a_crab_addr E) (initialized host_epts (regions_memory r m))"
  note dirs = handled_tables(1) [OF assms(1), of "print_a_crab_addr E" r]
    and leaf = handled_tables(2) [OF assms(1), of _ "print_a_crab_addr E" r]
    and clear = handled_tables(3) [OF assms(1), of r]
  have s: "unat SSDT_ADDRESS < 2 ^ 32" by simp
  have "unnamed_bits_clear (load64 ?m ssdt_leaf)"
    unfolding leaf [OF s] by (rule initialized_leaf_clear [OF s clear])
  from set_entry_flags_walk [OF dirs host_epts_page s assms(2) this]
  have "ept_walk xo (host_memory E r m) (initial_eptp host_epts) g =
      (if page_number g \<noteq> page_number SSDT_ADDRESS then ept_walk xo ?m (initial_eptp host_epts) g
       else page_outcome xo ssdt_page_flags (entry_address (load64 ?m ssdt_leaf) + get_field 0 12 g))"
    unfolding host_memory_def .
  moreover have "ept_walk xo ?m (initial_eptp host_epts) g =
      Translated \<lparr>host_address = g, can_read = True, can_write = True, can_execute = True,
        caching = EPT_MEMORY_TYPE_WRITEBACK\<rparr>"
    unfolding walk_flat [OF dirs host_epts_page assms(2)] leaf [OF assms(2)]
    by (rule initialized_leaf [OF assms(2) clear])
  ultimately show ?thesis
    by (simp add: page_outcome_def ssdt_page_flags_def no_flags_def)
qed

section \<open>The steps to the guest\<close>

lemma launch_vm_enters:
  "vmlaunch_rflags E (logged INFO_LEVEL vmm_c 294 ''Launching the VM'' w) = None \<Longrightarrow>
   launch_vm E w = Stop Entered_Guest (logged INFO_LEVEL vmm_c 294 ''Launching the VM'' w)"
  by (simp add: launch_vm_def log_log_plain vmm_log_ok vmlaunch_def)

text \<open>What the start needs of the processor and of the boot code.\<close>

definition host_can_start :: "env \<Rightarrow> world \<Rightarrow> bool" where
  "host_can_start E w \<longleftrightarrow>
     vmx_works E \<and> (\<forall>v. vmlaunch_rflags E v = None) \<and> vmresume_works E \<and>
     (bit (msrs w MSR_IA32_FEATURE_CONTROL) 0 \<longrightarrow>
        bit (msrs w MSR_IA32_FEATURE_CONTROL) 1 \<or> bit (msrs w MSR_IA32_FEATURE_CONTROL) 2) \<and>
     loggable (dt_base (gdtr w)) \<and> loggable (dt_base (idtr w))"

lemma host_rest_enters:
  assumes "host_can_start E u"
  obtains v w' where "host_rest E u = Stop Entered_Guest w'" and "vmcs_loaded v" and "vmcs_loaded w'"
    and "\<And>f. vmread f w' = vmread f (programmed E CPU_DATA_ADDRESS v)"
    and "cr3 v = cr3 u" and "min_level w' = min_level u" and "seg_cs w' = seg_cs u"
    and "mem w' = set_entry_flags ssdt_leaf ssdt_page_flags
      (store64 (ssdt_entry 42) (print_a_crab_addr E)
        (initialized host_epts (store32 (vmcs_region CPU_DATA_ADDRESS) (ucast (msrs u MSR_IA32_VMX_BASIC))
          (store32 (vmxon_region CPU_DATA_ADDRESS) (ucast (msrs u MSR_IA32_VMX_BASIC)) (mem u)))))"
proof -
  from assms have works: "vmx_works E" and launch: "\<And>v. vmlaunch_rflags E v = None"
    and fc: "bit (msrs u MSR_IA32_FEATURE_CONTROL) 0 \<Longrightarrow>
      bit (msrs u MSR_IA32_FEATURE_CONTROL) 1 \<or> bit (msrs u MSR_IA32_FEATURE_CONTROL) 2"
    and gdt: "loggable (dt_base (gdtr u))" and idt: "loggable (dt_base (idtr u))"
    by (auto simp: host_can_start_def)
  obtain w1 where e: "enter_vmx_root E CPU_DATA_ADDRESS u = Done () (root_entered CPU_DATA_ADDRESS w1)"
    and o: "only_ports (root_registers u) w1"
    by (rule enter_vmx_root_Done [OF works fc])
  note w1 = only_ports_parts [OF o]
  let ?v = "root_entered CPU_DATA_ADDRESS w1"
  have v: "vmcs_loaded ?v" "cr3 ?v = cr3 u" "gdtr ?v = gdtr u" "idtr ?v = idtr u"
      "min_level ?v = min_level u" "seg_cs ?v = seg_cs u"
      "mem ?v = store32 (vmcs_region CPU_DATA_ADDRESS) (ucast (msrs u MSR_IA32_VMX_BASIC))
        (store32 (vmxon_region CPU_DATA_ADDRESS) (ucast (msrs u MSR_IA32_VMX_BASIC)) (mem u))"
    using w1(12,13) by (simp_all add: root_entered_def prepared_def w1 root_registers_def)
  obtain w2 where c: "configure_vmcs E CPU_DATA_ADDRESS ?v = Done () w2"
    and r: "\<And>f. vmread f w2 = vmread f (programmed E CPU_DATA_ADDRESS ?v)"
    and m2: "mem w2 = initialized host_epts (mem ?v)" and s2: "same_machine ?v w2"
    using configure_vmcs_Done [of ?v E CPU_DATA_ADDRESS] gdt idt v(3,4) by metis
  let ?m = "set_entry_flags ssdt_leaf ssdt_page_flags (store64 (ssdt_entry 42) (print_a_crab_addr E) (mem w2))"
  let ?w3 = "w2\<lparr>mem := ?m\<rparr>"
  let ?w' = "logged INFO_LEVEL vmm_c 294 ''Launching the VM'' ?w3"
  have "initialize_read_hook host_epts SSDT_ADDRESS (initialize_ssdt E SSDT_ADDRESS w2) = Done () ?w3"
    by (simp add: initialize_read_hook_def update_eq initialize_ssdt_def set_syscall_handler_def)
  with e c have "host_rest E u = Stop Entered_Guest ?w'"
    unfolding host_rest_def Let_def ssdt_in_place by (simp add: launch_vm_enters launch)
  moreover have "vmread f ?w' = vmread f (programmed E CPU_DATA_ADDRESS ?v)" for f
    unfolding r [symmetric] vmread_logged by (rule vmread_cong) simp_all
  moreover have "vmcs_loaded ?w'" using same_machine_parts [OF s2] v(1) by simp
  moreover have "min_level ?w' = min_level u" "seg_cs ?w' = seg_cs u"
    using same_machine_parts [OF s2] v(5,6) by simp_all
  ultimately show ?thesis using v(1,2) by (intro that [of ?w' ?v]) (simp_all add: m2 v(7))
qed

lemma initialize_host_enters:
  assumes "host_can_start E w"
  obtains v w' where "initialize_host E w = Stop Entered_Guest w'" and "vmcs_loaded v" and "vmcs_loaded w'"
    and "\<And>f. vmread f w' = vmread f (programmed E CPU_DATA_ADDRESS v)"
    and "cr3 v = cr3 w" and "mem w' = host_memory E (ucast (msrs w MSR_IA32_VMX_BASIC)) (mem w)"
    and "min_level w' = DEBUG_LEVEL" and "seg_cs w' = seg_cs w"
proof -
  obtain u where i: "initialize_host E w = host_rest E u" and o: "only_ports (host_ready w) u"
    by (rule initialize_host_logs)
  note u = only_ports_parts [OF o]
  have "host_can_start E u"
    using assms by (simp add: host_can_start_def u host_ready_def)
  then show ?thesis
  proof (rule host_rest_enters)
    fix v w'
    assume "host_rest E u = Stop Entered_Guest w'" "vmcs_loaded v" "vmcs_loaded w'"
      "\<And>f. vmread f w' = vmread f (programmed E CPU_DATA_ADDRESS v)" "cr3 v = cr3 u"
      "min_level w' = min_level u" "seg_cs w' = seg_cs u"
      "mem w' = set_entry_flags ssdt_leaf ssdt_page_flags
        (store64 (ssdt_entry 42) (print_a_crab_addr E)
          (initialized host_epts (store32 (vmcs_region CPU_DATA_ADDRESS) (ucast (msrs u MSR_IA32_VMX_BASIC))
            (store32 (vmxon_region CPU_DATA_ADDRESS) (ucast (msrs u MSR_IA32_VMX_BASIC)) (mem u)))))"
    then show ?thesis
      using i by (intro that [of w' v]) (simp_all add: u host_ready_def host_memory_def regions_memory_def)
  qed
qed

section \<open>Properties\<close>

text \<open>C5. The start, from the boot code to the entry of the guest. On a processor whose VMX
  instructions succeed, the hypervisor enters the guest: its VMCS sends VM exits to the exit
  wrapper with FS at the guest's state, starts the guest at \<open>kmain\<close> with RSP at the base of its array
  \<open>stack_top\<close>, and names the bitmaps and page tables of the structure; the guest's state points to that structure, and the one change to the
  table of system calls is the handler of number 42.\<close>

theorem initialize_host_enters_guest:
  assumes "host_can_start E w"
  shows "\<exists>w'. initialize_host E w = Stop Entered_Guest w' \<and> vmcs_loaded w' \<and>
    vmread VMCS_HOST_RIP w' = vmexit_wrapper_addr E \<and>
    vmread VMCS_HOST_FS_BASE w' = guest_cpu_state_of CPU_DATA_ADDRESS \<and>
    vmread VMCS_HOST_RSP w' = STACK_TOP \<and>
    vmread VMCS_GUEST_RIP w' = kmain_addr E \<and>
    vmread VMCS_GUEST_RSP w' = stack_top (guest_cpu_state_of CPU_DATA_ADDRESS) \<and>
    vmread VMCS_GUEST_CR3 w' = cr3 w \<and>
    vmread VMCS_MSR_BITMAP w' = msr_bitmaps_of CPU_DATA_ADDRESS \<and>
    vmread VMCS_EPT_POINTER w' = initial_eptp (epts_of CPU_DATA_ADDRESS) \<and>
    load64 (mem w') (cpu_data_pointer (guest_cpu_state_of CPU_DATA_ADDRESS)) = CPU_DATA_ADDRESS \<and>
    handlers (mem w') = (handlers (mem w))
      (42 := if print_a_crab_addr E = 0 then None else Some (print_a_crab_addr E))"
  by (rule initialize_host_enters [OF assms])
    (simp add: programmed_entry_points host_memory_pointer host_memory_handlers)

lemma example_host_can_start: "host_can_start example_env zero_world"
  by (simp add: host_can_start_def vmx_works_def vmresume_works_def example_env_def vmx_status_success bit_iff_odd
      zero_world_def loggable_def)

lemma initialize_host_enters_guest_witness:
  "\<exists>w'. initialize_host example_env zero_world = Stop Entered_Guest w' \<and>
    handlers (mem w') 42 = Some 0x104000"
  using initialize_host_enters_guest [OF example_host_can_start] by (auto simp: example_env_def)

end
