(* ===== verification/System.thy ===== *)
theory System
  imports Host
begin

text \<open>
  The guest under the hypervisor: the instructions of the guest that the hypervisor's configuration
  makes exit, composed with the exit wrapper, and their runs.

  \<open>execute\<close> is one instruction of the guest. The processor decides from the state that the code set
  up whether it exits: \<open>vmcall\<close> always does, \<open>hlt\<close> with its control on, \<open>rdmsr\<close> and \<open>wrmsr\<close> as the
  bitmaps say (always, without the control for the bitmaps), and an access to memory as the walk through the
  extended page tables says, when EPT is on. That the configuration turns these controls on, and that
  they stay on, is part of the invariant \<open>ready\<close>. On an exit the
  processor fills the exit fields of the VMCS and runs the code of \<open>vmexit_wrapper\<close>. The guest's linear
  addresses are guest-physical ones, as the boot code's identity mapping makes them.

  \<open>guest_step\<close> is the guest's transition relation: besides the instructions above it computes in its
  registers, changes its flags and segments, and writes to ports. Its properties are invariants of all reachable states.
\<close>

section \<open>Instructions of the guest\<close>

type_synonym guest_registers = "register \<Rightarrow> qword_t"

datatype instruction = Hlt | Vmcall | Rdmsr | Wrmsr | Load qword_t | Store qword_t qword_t

text \<open>
  What the processor puts into the VMCS on an exit. The length of the instruction is valid for exits
  that an instruction causes. For EPT violations and misconfigurations the SDM leaves it undefined, while the
  handlers of \<open>vmexit.c\<close> add it to RIP all the same; the model gives them the length, as current processors do.
\<close>

definition exit_fields :: "nat \<Rightarrow> qword_t \<Rightarrow> guest_registers \<Rightarrow> world \<Rightarrow> world" where
  "exit_fields reason len regs w = w\<lparr>vmcs := (vmcs w)(
     VMCS_VM_EXIT_REASON := of_nat reason, VMCS_VM_EXIT_INSTRUCTION_LEN := len,
     VMCS_GUEST_RIP := regs RIP, VMCS_GUEST_RSP := regs RSP)\<rparr>"

definition vm_exit :: "env \<Rightarrow> nat \<Rightarrow> qword_t \<Rightarrow> guest_registers \<Rightarrow> world \<Rightarrow> guest_registers res" where
  "vm_exit E reason len regs w = vmexit_wrapper E regs (exit_fields reason len regs w)"

definition ept_exit :: "env \<Rightarrow> nat \<Rightarrow> qword_t \<Rightarrow> qword_t \<Rightarrow> guest_registers \<Rightarrow> world \<Rightarrow> guest_registers res" where
  "ept_exit E reason a len regs w =
     vm_exit E reason len regs (w\<lparr>vmcs := (vmcs w)(VMCS_GUEST_PHYSICAL_ADDRESS := a)\<rparr>)"

definition advance :: "qword_t \<Rightarrow> guest_registers \<Rightarrow> guest_registers" where
  "advance len regs = regs(RIP := regs RIP + len)"

text \<open>
  The controls of the VMCS that decide: HLT exiting, the use of the MSR bitmaps (without them every
  access to an MSR exits), and the activation of the secondary controls with EPT among them
  (without it guest-physical addresses are physical ones).
\<close>

definition exits_on_hlt :: "world \<Rightarrow> bool" where
  "exits_on_hlt w \<longleftrightarrow> bit (vmread VMCS_CPU_BASED_VM_EXEC_CONTROL w) 7"

definition uses_msr_bitmaps :: "world \<Rightarrow> bool" where
  "uses_msr_bitmaps w \<longleftrightarrow> bit (vmread VMCS_CPU_BASED_VM_EXEC_CONTROL w) 28"

definition uses_ept :: "world \<Rightarrow> bool" where
  "uses_ept w \<longleftrightarrow> bit (vmread VMCS_CPU_BASED_VM_EXEC_CONTROL w) 31 \<and> bit (vmread VMCS_SECONDARY_VM_EXEC_CONTROL w) 1"

definition exits_on_msr :: "msr_access \<Rightarrow> dword_t \<Rightarrow> world \<Rightarrow> bool" where
  "exits_on_msr acc msr w \<longleftrightarrow>
     \<not> uses_msr_bitmaps w \<or> \<not> msr_in_range msr \<or>
     bit (mem w (vmread VMCS_MSR_BITMAP w + of_nat (msr_bit_position acc msr div 8))) (msr_bit_position acc msr mod 8)"

lemma exits_on_msr_iff:
  "exits_on_msr acc msr w \<longleftrightarrow>
     \<not> uses_msr_bitmaps w \<or> \<not> msr_in_range msr \<or> (acc, msr) \<in> monitored (vmread VMCS_MSR_BITMAP w) (mem w)"
  by (auto simp: exits_on_msr_def monitored_def)

definition walk_of :: "bool \<Rightarrow> qword_t \<Rightarrow> world \<Rightarrow> outcome" where
  "walk_of xo a w =
     (if uses_ept w then ept_walk xo (mem w) (vmread VMCS_EPT_POINTER w) a
      else Translated \<lparr>host_address = a, can_read = True, can_write = True, can_execute = True,
        caching = EPT_MEMORY_TYPE_WRITEBACK\<rparr>)"

primrec execute :: "env \<Rightarrow> bool \<Rightarrow> qword_t \<Rightarrow> instruction \<Rightarrow> guest_registers \<Rightarrow> world \<Rightarrow> guest_registers res" where
  "execute E xo len Hlt regs w =
     (if exits_on_hlt w then vm_exit E EXIT_REASON_HLT len regs w else Stop Halted w)"
| "execute E xo len Vmcall regs w = vm_exit E EXIT_REASON_VMCALL len regs w"
| "execute E xo len Rdmsr regs w =
     (let msr = ucast (regs RCX)
      in if exits_on_msr Read_Msr msr w then vm_exit E EXIT_REASON_MSR_READ len regs w
         else Done (advance len (regs(RAX := take_bit 32 (msrs w msr), RDX := drop_bit 32 (msrs w msr)))) w)"
| "execute E xo len Wrmsr regs w =
     (let msr = ucast (regs RCX)
      in if exits_on_msr Write_Msr msr w then vm_exit E EXIT_REASON_MSR_WRITE len regs w
         else Done (advance len regs) (wrmsr msr (ucast (regs RDX)) (ucast (regs RAX)) w))"
| "execute E xo len (Load a) regs w =
     (case walk_of xo a w of
        Misconfigured \<Rightarrow> ept_exit E EXIT_REASON_EPT_MISCONFIG a len regs w
      | Not_Present \<Rightarrow> ept_exit E EXIT_REASON_EPT_VIOLATION a len regs w
      | Translated t \<Rightarrow>
          if can_read t then Done (advance len (regs(RAX := load64 (mem w) (host_address t)))) w
          else ept_exit E EXIT_REASON_EPT_VIOLATION a len regs w)"
| "execute E xo len (Store a v) regs w =
     (case walk_of xo a w of
        Misconfigured \<Rightarrow> ept_exit E EXIT_REASON_EPT_MISCONFIG a len regs w
      | Not_Present \<Rightarrow> ept_exit E EXIT_REASON_EPT_VIOLATION a len regs w
      | Translated t \<Rightarrow>
          if can_write t then Done (advance len regs) (w\<lparr>mem := store64 (host_address t) v (mem w)\<rparr>)
          else ept_exit E EXIT_REASON_EPT_VIOLATION a len regs w)"

text \<open>
  A run of the guest. Its accesses to memory stay in a page, so that one walk translates them. The
  relation takes the addresses that the guest does not store to, \<open>off_limits\<close>: the extended page tables
  do not keep it from them.
\<close>

primrec in_one_page :: "instruction \<Rightarrow> bool" where
  "in_one_page Hlt = True"
| "in_one_page Vmcall = True"
| "in_one_page Rdmsr = True"
| "in_one_page Wrmsr = True"
| "in_one_page (Load a) = (unat a mod 4096 \<le> 4088)"
| "in_one_page (Store a v) = (unat a mod 4096 \<le> 4088)"

primrec stores_to :: "bool \<Rightarrow> world \<Rightarrow> instruction \<Rightarrow> qword_t set" where
  "stores_to xo w Hlt = {}"
| "stores_to xo w Vmcall = {}"
| "stores_to xo w Rdmsr = {}"
| "stores_to xo w Wrmsr = {}"
| "stores_to xo w (Load a) = {}"
| "stores_to xo w (Store a v) =
     (case walk_of xo a w of Translated t \<Rightarrow> {x. unat (x - host_address t) < 8} | _ \<Rightarrow> {})"

inductive guest_step ::
    "env \<Rightarrow> bool \<Rightarrow> qword_t set \<Rightarrow> guest_registers \<times> world \<Rightarrow> guest_registers \<times> world \<Rightarrow> bool"
  for E xo off_limits where
  compute: "guest_step E xo off_limits (regs, w) (regs', w\<lparr>rflags := flags, seg_cs := cs, seg_ss := ss\<rparr>)"
| write_port: "guest_step E xo off_limits (regs, w) (regs, out_port p b w)"
| perform: "execute E xo len i regs w = Done regs' w' \<Longrightarrow> in_one_page i \<Longrightarrow>
    stores_to xo w i \<inter> off_limits = {} \<Longrightarrow>
    guest_step E xo off_limits (regs, w) (regs', w')"

lemma set_registers: "guest_step E xo off_limits (regs, w) (regs', w)"
  using compute [of E xo off_limits regs w regs', where flags = "rflags w" and cs = "seg_cs w" and ss = "seg_ss w"]
  by simp

inductive_cases guest_stepE: "guest_step E xo off_limits (regs, w) s"

abbreviation guest_run ::
    "env \<Rightarrow> bool \<Rightarrow> qword_t set \<Rightarrow> guest_registers \<times> world \<Rightarrow> guest_registers \<times> world \<Rightarrow> bool" where
  "guest_run E xo off_limits \<equiv> (guest_step E xo off_limits)\<^sup>*\<^sup>*"

text \<open>
  \<open>dispatch_handler\<close> as the guest's processor runs it: each of its two reads of the table is a load
  into RAX, which may exit, and the call leaves RDI and RSI as they are, so that the code of
  \<open>ssdt_hook\<close> finds its arguments there.
\<close>

definition guest_dispatch ::
    "env \<Rightarrow> bool \<Rightarrow> code \<Rightarrow> qword_t \<Rightarrow> qword_t \<Rightarrow> dword_t \<Rightarrow> guest_registers \<Rightarrow> world \<Rightarrow> unit res" where
  "guest_dispatch E xo call len1 len2 number regs w =
     (if number > of_nat SSDT_SIZE then
        LOG_ERROR syscalls_c 42 ''out of bounds syscall number: %d'' [ArgInt number] w
      else bindR (execute E xo len1 (Load (ssdt_entry number)) regs w) (\<lambda>regs w.
        if regs RAX = 0 then LOG_ERROR syscalls_c 44 ''syscall %d doesn't have a handler'' [ArgInt number] w
        else bindR (execute E xo len2 (Load (ssdt_entry number)) regs w) (\<lambda>regs w.
          let handler = regs RAX
          in if handler = ssdt_hook_addr E then ssdt_hook call (ucast (regs RDI)) (regs RSI) w
             else call handler w)))"

section \<open>What an exit leaves alone\<close>

text \<open>
  \<open>kept cd w w'\<close>: the fields of the VMCS that the hypervisor relies on, the MSRs, and memory but the
  saved registers and the bitmaps are the same, and no access that exited is allowed.
\<close>

definition host_fields_of :: "qword_t list" where
  "host_fields_of = [VMCS_HOST_FS_BASE, VMCS_MSR_BITMAP, VMCS_EPT_POINTER, VMCS_HOST_RIP,
     VMCS_CPU_BASED_VM_EXEC_CONTROL, VMCS_SECONDARY_VM_EXEC_CONTROL]"

definition kept :: "qword_t \<Rightarrow> world \<Rightarrow> world \<Rightarrow> bool" where
  "kept cd w w' \<longleftrightarrow>
     vmcs_loaded w' = vmcs_loaded w \<and> msrs w' = msrs w \<and> min_level w' = min_level w \<and>
     list_all (\<lambda>f. vmread f w' = vmread f w) host_fields_of \<and>
     monitored (msr_bitmaps_of cd) (mem w) \<subseteq> monitored (msr_bitmaps_of cd) (mem w') \<and>
     (\<forall>x. 4096 \<le> unat (x - msr_bitmaps_of cd) \<and> 136 \<le> unat (x - guest_cpu_state_of cd) \<longrightarrow> mem w' x = mem w x)"

lemma kept_refl [simp, intro]: "kept cd w w"
  by (simp add: kept_def list_all_iff)

lemma kept_trans: "kept cd u v \<Longrightarrow> kept cd v w \<Longrightarrow> kept cd u w"
  by (auto simp: kept_def list_all_iff)

lemma kept_outside:
  assumes "outside_registers (guest_cpu_state_of cd) w w'"
  shows "kept cd w w'"
proof -
  have "monitored (msr_bitmaps_of cd) (mem w') = monitored (msr_bitmaps_of cd) (mem w)"
    using assms bitmaps_outside_registers [of _ cd] by (intro monitored_cong) (simp add: outside_registers_def)
  then show ?thesis
    using assms outside_registers_same [OF assms] vmread_outside [OF assms]
    by (simp add: kept_def list_all_iff outside_registers_def)
qed

lemma kept_logged [intro]: "kept cd w u \<Longrightarrow> kept cd w (logged l file n s u)"
  by (simp add: kept_def list_all_iff)

lemma kept_skipped:
  "skipped (guest_cpu_state_of cd) line message w (Done status w') \<Longrightarrow> kept cd w w'"
  using kept_trans [OF kept_logged [OF kept_refl] kept_outside] unfolding skipped_def by blast

lemma ept_misconfig_handler_inside:
  assumes "ssdt_of gs \<le> vmread VMCS_GUEST_PHYSICAL_ADDRESS w"
    and "vmread VMCS_GUEST_PHYSICAL_ADDRESS w < ssdt_of gs + 0x1000"
  shows "\<exists>w'. ept_misconfig_handler E gs w = Done HANDLER_SUCCESS w' \<and> outside_registers gs w w'"
proof -
  have "vmread f (skip_instruction gs w) = vmread f w" for f by (rule vmread_outside) auto
  with assms show ?thesis by (auto simp: ept_misconfig_handler_def Let_def)
qed

lemma vmcall_handler_kept:
  assumes "vmcall_handler (guest_cpu_state_of cd) w = Done status w'"
    and "load64 (mem w) (cpu_data_pointer (guest_cpu_state_of cd)) = cd"
  shows "kept cd w w'"
proof (cases "guest_view (guest_cpu_state_of cd) (mem w) RDI = PROTECET_SYSCALL")
  case False
  have "kept cd w (skip_instruction (guest_cpu_state_of cd) (logged l f n s w))" for l f n s
    by (rule kept_trans [OF kept_logged [OF kept_refl] kept_outside]) auto
  with assms(1) vmcall_unsupported [OF False] show ?thesis by auto
next
  case True
  let ?log = "logged DEBUG_LEVEL vmexit_c 62 ''protecting IA32_SYSENTER_EIP and IA32_LSTAR msrs from writes'' w"
  obtain w1 where d: "vmcall_handler (guest_cpu_state_of cd) w = Done HANDLER_SUCCESS w1"
    and m: "monitored (msr_bitmaps_of cd) (mem w1) =
      {(Write_Msr, MSR_IA32_SYSENTER_EIP), (Write_Msr, MSR_IA32_LSTAR)} \<union> monitored (msr_bitmaps_of cd) (mem w)"
    and f: "\<forall>x. 4096 \<le> unat (x - msr_bitmaps_of cd) \<and> 136 \<le> unat (x - guest_cpu_state_of cd) \<longrightarrow> mem w1 x = mem w x"
    and e: "w1\<lparr>mem := mem w\<rparr> = ?log"
    using vmcall_protects_system_calls [OF assms(2) True] by blast
  have "vmcs_loaded (w1\<lparr>mem := mem w\<rparr>) = vmcs_loaded w" "msrs (w1\<lparr>mem := mem w\<rparr>) = msrs w"
    "min_level (w1\<lparr>mem := mem w\<rparr>) = min_level w"
    unfolding e by simp_all
  moreover have "vmread f w1 = vmread f w" for f
  proof -
    have "vmread f w1 = vmread f (w1\<lparr>mem := mem w\<rparr>)" by (rule vmread_cong) simp_all
    also have "\<dots> = vmread f w" unfolding e by simp
    finally show ?thesis .
  qed
  ultimately show ?thesis
    using assms(1) d m f by (auto simp: kept_def list_all_iff)
qed

text \<open>Every handler, and so every dispatched exit.\<close>

lemma dispatch_kept:
  assumes "dispatch_exit E reason (guest_cpu_state_of cd) w = Done status w'"
    and "load64 (mem w) (cpu_data_pointer (guest_cpu_state_of cd)) = cd"
  shows "kept cd w w'"
proof -
  let ?gs = "guest_cpu_state_of cd"
  note skips = skipping_handlers [of ?gs w]
  consider (skip) "\<exists>line message. skipped ?gs line message w (Done status w')"
    | (misconfig) "ept_misconfig_handler E ?gs w = Done status w'"
    | (vmcall) "vmcall_handler ?gs w = Done status w'"
    using assms(1) skips
    by (auto simp: dispatch_exit_def PANIC_plain vmm_log_ok split: if_splits)
  then show ?thesis
  proof cases
    case skip
    then show ?thesis by (auto intro: kept_skipped)
  next
    case misconfig
    then show ?thesis
      using ept_misconfig_handler_inside [of ?gs w E] ept_misconfig_handler_elsewhere [of ?gs w E]
      by (cases "ssdt_of ?gs \<le> vmread VMCS_GUEST_PHYSICAL_ADDRESS w \<and>
          vmread VMCS_GUEST_PHYSICAL_ADDRESS w < ssdt_of ?gs + 0x1000")
        (auto intro: kept_outside kept_skipped)
  next
    case vmcall
    then show ?thesis using assms(2) by (rule vmcall_handler_kept)
  qed
qed

lemma kept_resumed:
  assumes "vmcs_loaded w"
  shows "kept cd w (resumed fs w)"
  using assms
  by (simp add: kept_def host_fields_of_def resumed_def vmread_vmwrite_other separate_fields_def full_field_def)

lemma vmexit_wrapper_kept:
  assumes "vmexit_wrapper E regs w = Done regs' w'" and "vmcs_loaded w"
    and "exit_name (exit_reason_of w) = Some name"
    and "vmread VMCS_HOST_FS_BASE w = guest_cpu_state_of cd"
    and "load64 (mem w) (cpu_data_pointer (guest_cpu_state_of cd)) = cd"
  shows "kept cd w w'"
proof -
  let ?gs = "guest_cpu_state_of cd"
  let ?w = "exit_logged name (save_guest ?gs regs w)"
  have k: "kept cd w ?w"
    by (rule kept_logged [OF kept_outside [OF save_guest_outside]])
  have "apart ?gs 136 (cpu_data_pointer ?gs) 8"
    using apart_offsets [of 0 136 "0xA000" 8 ?gs] by (simp add: layout)
  from load64_outside [OF save_guest_outside this] assms(5)
  have p: "load64 (mem ?w) (cpu_data_pointer ?gs) = cd" by simp
  obtain status w1 where d: "dispatch_exit E (exit_reason_of w) ?gs ?w = Done status w1"
    and r: "restore_guest ?gs w1 = Done regs' w'"
    using assms(1,2) vmexit_handler_named [of "save_guest ?gs regs w" name E] assms(3,4)
    by (auto simp: vmexit_wrapper_def Let_def bindR_Done_iff split: if_splits option.splits)
      (auto simp: PANIC_plain vmm_log_ok)
  have k1: "kept cd w w1" using k dispatch_kept [OF d p] by (rule kept_trans)
  then have "vmcs_loaded w1" using assms(2) by (simp add: kept_def)
  moreover from this r have "w' = resumed ?gs w1" by (simp add: restore_guest_view)
  ultimately show ?thesis using kept_trans [OF k1 kept_resumed] by blast
qed

lemma exit_fields_kept: "kept cd w (exit_fields reason len regs w)"
  by (simp add: kept_def host_fields_of_def exit_fields_def vmread_def vmcs_get_def full_field_def)

lemma physical_address_kept: "kept cd w (w\<lparr>vmcs := (vmcs w)(VMCS_GUEST_PHYSICAL_ADDRESS := a)\<rparr>)"
  by (simp add: kept_def host_fields_of_def vmread_def vmcs_get_def full_field_def)

lemma exit_fields_reads:
  assumes "vmcs_loaded w" and "reason < 65536"
  shows "exit_reason_of (exit_fields reason len regs w) = reason"
    and "vmread VMCS_VM_EXIT_INSTRUCTION_LEN (exit_fields reason len regs w) = len"
    and "vmread VMCS_GUEST_RIP (exit_fields reason len regs w) = regs RIP"
    and "vmread VMCS_GUEST_RSP (exit_fields reason len regs w) = regs RSP"
    and "vmread VMCS_GUEST_PHYSICAL_ADDRESS (exit_fields reason len regs w) = vmread VMCS_GUEST_PHYSICAL_ADDRESS w"
    and "vmread VMCS_HOST_FS_BASE (exit_fields reason len regs w) = vmread VMCS_HOST_FS_BASE w"
    and "mem (exit_fields reason len regs w) = mem w" and "vmcs_loaded (exit_fields reason len regs w)"
    and "guest_registers_at regs (exit_fields reason len regs w) = regs"
proof -
  let ?w = "exit_fields reason len regs w"
  have r: "vmread f ?w = vmcs ?w f" if "full_field f = f" "\<not> high_access f" for f
    using assms(1) that by (simp add: vmread_def vmcs_get_def exit_fields_def)
  have "unat (get_field 0 16 (of_nat reason :: qword_t)) = reason"
    unfolding unat_get_field using assms(2) by (simp add: unat_of_nat_small)
  then show "exit_reason_of ?w = reason"
    by (simp add: exit_reason_of_def basic_exit_reason_def r full_field_def high_access_def) (simp add: exit_fields_def)
  show "vmread VMCS_VM_EXIT_INSTRUCTION_LEN ?w = len"
    by (simp add: r full_field_def high_access_def) (simp add: exit_fields_def)
  show rip: "vmread VMCS_GUEST_RIP ?w = regs RIP"
    by (simp add: r full_field_def high_access_def) (simp add: exit_fields_def)
  show rsp: "vmread VMCS_GUEST_RSP ?w = regs RSP"
    by (simp add: r full_field_def high_access_def) (simp add: exit_fields_def)
  show "vmread VMCS_GUEST_PHYSICAL_ADDRESS ?w = vmread VMCS_GUEST_PHYSICAL_ADDRESS w"
    "vmread VMCS_HOST_FS_BASE ?w = vmread VMCS_HOST_FS_BASE w"
    using assms(1) by (simp_all add: vmread_def vmcs_get_def exit_fields_def full_field_def)
  show "mem ?w = mem w" "vmcs_loaded ?w" using assms(1) by (simp_all add: exit_fields_def)
  show "guest_registers_at regs ?w = regs" by (simp add: guest_registers_at_def rip rsp)
qed

lemma vm_exit_kept:
  assumes "vm_exit E reason len regs w = Done regs' w'" and "vmcs_loaded w"
    and "reason \<in> handled_reasons"
    and "vmread VMCS_HOST_FS_BASE w = guest_cpu_state_of cd"
    and "load64 (mem w) (cpu_data_pointer (guest_cpu_state_of cd)) = cd"
  shows "kept cd w w'"
proof -
  obtain name where "exit_name reason = Some name" using handled_reasons_named [OF assms(3)] by blast
  moreover have "reason < 65536" using assms(3) by auto
  note f = exit_fields_reads [OF assms(2) this]
  ultimately have "kept cd (exit_fields reason len regs w) w'"
    using assms by (intro vmexit_wrapper_kept [of E regs _ regs' _ name])
      (simp_all add: vm_exit_def f)
  with exit_fields_kept show ?thesis by (rule kept_trans)
qed

section \<open>Invariants of the guest's runs\<close>

text \<open>
  \<open>ready\<close>: the VMCS and the pointer are as the start leaves them. \<open>guards\<close>: the accesses that the
  hypercall makes exit. \<open>guarded\<close>: the bitmaps and the pointer, which the guest must not overwrite.
\<close>

definition controls_on :: "world \<Rightarrow> bool" where
  "controls_on w \<longleftrightarrow> exits_on_hlt w \<and> uses_msr_bitmaps w \<and> uses_ept w"

lemma controls_on_cong:
  assumes "vmread VMCS_CPU_BASED_VM_EXEC_CONTROL u = vmread VMCS_CPU_BASED_VM_EXEC_CONTROL w"
    and "vmread VMCS_SECONDARY_VM_EXEC_CONTROL u = vmread VMCS_SECONDARY_VM_EXEC_CONTROL w"
  shows "controls_on u = controls_on w"
  using assms by (simp add: controls_on_def exits_on_hlt_def uses_msr_bitmaps_def uses_ept_def)

definition ready :: "qword_t \<Rightarrow> world \<Rightarrow> bool" where
  "ready cd w \<longleftrightarrow>
     vmcs_loaded w \<and> controls_on w \<and> vmread VMCS_HOST_FS_BASE w = guest_cpu_state_of cd \<and>
     vmread VMCS_MSR_BITMAP w = msr_bitmaps_of cd \<and>
     load64 (mem w) (cpu_data_pointer (guest_cpu_state_of cd)) = cd"

lemma ready_controls: "ready cd w \<Longrightarrow> exits_on_hlt w \<and> uses_msr_bitmaps w \<and> uses_ept w"
  by (simp add: ready_def controls_on_def)

definition guards :: "(msr_access \<times> dword_t) set" where
  "guards = {(Write_Msr, MSR_IA32_SYSENTER_EIP), (Write_Msr, MSR_IA32_LSTAR)}"

definition guarded :: "qword_t \<Rightarrow> qword_t set" where
  "guarded cd = {x. unat (x - msr_bitmaps_of cd) < 4096} \<union>
     {x. unat (x - cpu_data_pointer (guest_cpu_state_of cd)) < 8}"

lemma pointer_apart:
  "apart (msr_bitmaps_of cd) 4096 (cpu_data_pointer (guest_cpu_state_of cd)) 8"
  "apart (guest_cpu_state_of cd) 136 (cpu_data_pointer (guest_cpu_state_of cd)) 8"
proof -
  have "guest_cpu_state_of cd = cd + of_nat 0x809000" by (simp add: layout)
  then show "apart (msr_bitmaps_of cd) 4096 (cpu_data_pointer (guest_cpu_state_of cd)) 8"
    "apart (guest_cpu_state_of cd) 136 (cpu_data_pointer (guest_cpu_state_of cd)) 8"
    unfolding part_offsets by (simp_all only:) (rule apart_offsets; simp)+
qed

lemma ready_kept:
  assumes "kept cd w w'" and "ready cd w"
  shows "ready cd w'"
proof -
  let ?p = "cpu_data_pointer (guest_cpu_state_of cd)"
  have "mem w' (?p + of_nat i) = mem w (?p + of_nat i)" if "i < 8" for i
  proof -
    have "4096 \<le> unat (?p + of_nat i - msr_bitmaps_of cd)"
      by (rule apart_byte [OF pointer_apart(1) that])
    moreover have "136 \<le> unat (?p + of_nat i - guest_cpu_state_of cd)"
      by (rule apart_byte [OF pointer_apart(2) that])
    ultimately show ?thesis using assms(1) by (simp add: kept_def)
  qed
  then have "load64 (mem w') ?p = load64 (mem w) ?p" by (rule qword_cell.load_cong)
  moreover have "controls_on w' = controls_on w"
    using assms(1) by (intro controls_on_cong) (simp_all add: kept_def host_fields_of_def)
  ultimately show ?thesis using assms by (simp add: ready_def kept_def host_fields_of_def)
qed

lemma guarded_same:
  assumes "\<And>x. x \<in> guarded cd \<Longrightarrow> m' x = m x"
  shows "monitored (msr_bitmaps_of cd) m' = monitored (msr_bitmaps_of cd) m"
    and "load64 m' (cpu_data_pointer (guest_cpu_state_of cd)) = load64 m (cpu_data_pointer (guest_cpu_state_of cd))"
proof -
  show "monitored (msr_bitmaps_of cd) m' = monitored (msr_bitmaps_of cd) m"
    by (rule monitored_cong) (simp add: assms guarded_def unat_of_nat_small)
  show "load64 m' (cpu_data_pointer (guest_cpu_state_of cd)) = load64 m (cpu_data_pointer (guest_cpu_state_of cd))"
    by (rule qword_cell.load_cong) (simp add: assms guarded_def unat_of_nat_small)
qed

lemma vm_exit_ready:
  assumes "ready cd w" and "vm_exit E reason len regs w = Done regs' w'"
    and "reason \<in> handled_reasons"
  shows "kept cd w w'"
  using assms(1) by (intro vm_exit_kept [OF assms(2) _ assms(3)]) (simp_all add: ready_def)

lemma ept_exit_ready:
  assumes "ready cd w" and "ept_exit E reason a len regs w = Done regs' w'"
    and "reason \<in> {EXIT_REASON_EPT_VIOLATION, EXIT_REASON_EPT_MISCONFIG}"
  shows "kept cd w w'"
  using kept_trans [OF physical_address_kept
      vm_exit_ready [OF ready_kept [OF physical_address_kept assms(1)] assms(2) [unfolded ept_exit_def]]] assms(3)
  by blast

text \<open>What one instruction does to the state the hypervisor relies on.\<close>

lemma execute_Wrmsr:
  assumes "execute E xo len Wrmsr regs w = Done regs' w'" and "ready cd w"
  shows "kept cd w w' \<or> (\<exists>msr v. \<not> exits_on_msr Write_Msr msr w \<and> w' = w\<lparr>msrs := (msrs w)(msr := v)\<rparr>)"
proof (cases "exits_on_msr Write_Msr (ucast (regs RCX)) w")
  case True
  with assms(1) have "vm_exit E EXIT_REASON_MSR_WRITE len regs w = Done regs' w'" by simp
  from vm_exit_ready [OF assms(2) this] show ?thesis by simp
next
  case False
  with assms(1) have "w' = wrmsr (ucast (regs RCX)) (ucast (regs RDX)) (ucast (regs RAX)) w"
    by (simp add: Let_def)
  then have "\<exists>v. w' = w\<lparr>msrs := (msrs w)(ucast (regs RCX) := v)\<rparr>" unfolding wrmsr_def by blast
  with False show ?thesis by blast
qed

lemma execute_Load:
  assumes "execute E xo len (Load a) regs w = Done regs' w'" and "ready cd w"
  shows "kept cd w w'"
proof -
  consider "w' = w" | "ept_exit E EXIT_REASON_EPT_VIOLATION a len regs w = Done regs' w'"
    | "ept_exit E EXIT_REASON_EPT_MISCONFIG a len regs w = Done regs' w'"
    using assms(1) by (auto split: outcome.splits if_splits)
  then show ?thesis
    by cases (auto intro: ept_exit_ready [OF assms(2)])
qed

lemma execute_Store:
  assumes "execute E xo len (Store a v) regs w = Done regs' w'" and "ready cd w"
  shows "kept cd w w' \<or> w' = w\<lparr>mem := mem w'\<rparr> \<and> (\<forall>x. x \<notin> stores_to xo w (Store a v) \<longrightarrow> mem w' x = mem w x)"
proof -
  consider (exit) "ept_exit E EXIT_REASON_EPT_VIOLATION a len regs w = Done regs' w' \<or>
      ept_exit E EXIT_REASON_EPT_MISCONFIG a len regs w = Done regs' w'"
    | (store) t where "walk_of xo a w = Translated t" "w' = w\<lparr>mem := store64 (host_address t) v (mem w)\<rparr>"
    using assms(1) by (auto split: outcome.splits if_splits)
  then show ?thesis
  proof cases
    case exit
    then show ?thesis by (auto intro: ept_exit_ready [OF assms(2)])
  next
    case store
    then show ?thesis by (auto simp: not_less intro: qword_cell.store_byte)
  qed
qed

lemma execute_cases:
  assumes "execute E xo len i regs w = Done regs' w'" and "ready cd w" and "stores_to xo w i \<inter> S = {}"
  shows "kept cd w w' \<or>
    (\<exists>msr v. \<not> exits_on_msr Write_Msr msr w \<and> w' = w\<lparr>msrs := (msrs w)(msr := v)\<rparr>) \<or>
    (\<exists>m. w' = w\<lparr>mem := m\<rparr> \<and> (\<forall>x \<in> S. m x = mem w x))"
proof (cases i)
  case Rdmsr
  consider "w' = w" | "vm_exit E EXIT_REASON_MSR_READ len regs w = Done regs' w'"
    using assms(1) Rdmsr by (auto simp: Let_def split: if_splits)
  then have "kept cd w w'" by cases (auto intro: vm_exit_ready [OF assms(2)])
  then show ?thesis by blast
next
  case Wrmsr
  with assms(1) have "execute E xo len Wrmsr regs w = Done regs' w'" by (simp only:)
  from execute_Wrmsr [OF this assms(2)] show ?thesis by blast
next
  case (Load a)
  with assms(1) have "execute E xo len (Load a) regs w = Done regs' w'" by (simp only:)
  from execute_Load [OF this assms(2)] show ?thesis by blast
next
  case (Store a v)
  with assms(1) have "execute E xo len (Store a v) regs w = Done regs' w'" by (simp only:)
  from execute_Store [OF this assms(2)] assms(3) show ?thesis unfolding Store by blast
qed (use assms in \<open>auto intro: vm_exit_ready split: if_splits\<close>)

text \<open>The state after the hypercall: the two MSRs are guarded, and have their values.\<close>

definition protected :: "qword_t \<Rightarrow> qword_t \<times> qword_t \<Rightarrow> world \<Rightarrow> bool" where
  "protected cd entries w \<longleftrightarrow>
     ready cd w \<and> guards \<subseteq> monitored (msr_bitmaps_of cd) (mem w) \<and>
     (msrs w MSR_IA32_SYSENTER_EIP, msrs w MSR_IA32_LSTAR) = entries"

lemma ready_same:
  assumes "ready cd w" and "vmcs u = vmcs w" and "vmcs_loaded u = vmcs_loaded w"
    and "\<And>x. x \<in> guarded cd \<Longrightarrow> mem u x = mem w x"
  shows "ready cd u"
  using assms(1) vmread_cong [OF assms(2,3)] controls_on_cong [of u w] guarded_same(2) [of cd "mem u" "mem w"] assms(3,4)
  unfolding ready_def by simp

lemma execute_ready:
  assumes "execute E xo len i regs w = Done regs' w'" and "stores_to xo w i \<inter> guarded cd = {}" and "ready cd w"
  shows "ready cd w'"
  using execute_cases [OF assms(1,3,2)]
proof (elim disjE exE conjE)
  assume "kept cd w w'"
  then show ?thesis using assms(3) by (rule ready_kept)
next
  fix msr v
  assume "w' = w\<lparr>msrs := (msrs w)(msr := v)\<rparr>"
  then show ?thesis using ready_same [OF assms(3), of w'] by simp
next
  fix m
  assume "w' = w\<lparr>mem := m\<rparr>" and "\<forall>x \<in> guarded cd. m x = mem w x"
  then show ?thesis using ready_same [OF assms(3), of w'] by simp
qed

lemma execute_protected:
  assumes "execute E xo len i regs w = Done regs' w'" and "stores_to xo w i \<inter> guarded cd = {}"
    and "protected cd entries w"
  shows "protected cd entries w'"
proof -
  have r: "ready cd w" using assms(3) by (simp add: protected_def)
  from execute_cases [OF assms(1) r assms(2)] show ?thesis
  proof (elim disjE exE conjE)
    assume k: "kept cd w w'"
    then show ?thesis using assms(3) ready_kept [OF k r] by (auto simp: protected_def kept_def)
  next
    fix msr v
    assume n: "\<not> exits_on_msr Write_Msr msr w" and w': "w' = w\<lparr>msrs := (msrs w)(msr := v)\<rparr>"
    have "(Write_Msr, msr) \<notin> guards"
      using n assms(3) r by (auto simp: exits_on_msr_iff protected_def ready_def)
    then have "msr \<noteq> MSR_IA32_SYSENTER_EIP" "msr \<noteq> MSR_IA32_LSTAR" by (auto simp: guards_def)
    moreover have "ready cd w'" using execute_ready [OF assms(1,2) r] .
    ultimately show ?thesis using assms(3) by (simp add: protected_def w')
  next
    fix m
    assume w': "w' = w\<lparr>mem := m\<rparr>" and m: "\<forall>x \<in> guarded cd. m x = mem w x"
    have "monitored (msr_bitmaps_of cd) m = monitored (msr_bitmaps_of cd) (mem w)"
      using m by (intro guarded_same(1)) simp
    moreover have "ready cd w'" using execute_ready [OF assms(1,2) r] .
    ultimately show ?thesis using assms(3) by (simp add: protected_def w')
  qed
qed

text \<open>Invariants of the step relation hold after every run.\<close>

lemma guest_run_invariant:
  assumes "guest_run E xo off_limits s s'" and "P (snd s)"
    and "\<And>w flags cs ss. P w \<Longrightarrow> P (w\<lparr>rflags := flags, seg_cs := cs, seg_ss := ss\<rparr>)"
    and "\<And>w p b. P w \<Longrightarrow> P (out_port p b w)"
    and "\<And>len i regs w regs' w'. execute E xo len i regs w = Done regs' w' \<Longrightarrow> in_one_page i \<Longrightarrow>
      stores_to xo w i \<inter> off_limits = {} \<Longrightarrow> P w \<Longrightarrow> P w'"
  shows "P (snd s')"
  using assms(1,2)
proof (induction rule: rtranclp_induct)
  case (step s1 s2)
  from step.hyps(2) step.IH [OF step.prems] assms(3-5) show ?case
    by (cases rule: guest_step.cases) auto
qed

text \<open>Ports, flags and segments have no part in the invariants.\<close>

lemma inner_steps_ready [simp]:
  "ready cd (out_port p b w) = ready cd w"
  "ready cd (w\<lparr>rflags := flags, seg_cs := cs, seg_ss := ss\<rparr>) = ready cd w"
  by (simp_all add: ready_def controls_on_def exits_on_hlt_def uses_msr_bitmaps_def uses_ept_def out_port_def
      vmread_def vmcs_get_def)

lemma inner_steps_protected [simp]:
  "protected cd entries (out_port p b w) = protected cd entries w"
  "protected cd entries (w\<lparr>rflags := flags, seg_cs := cs, seg_ss := ss\<rparr>) = protected cd entries w"
  by (simp_all add: protected_def) (simp add: out_port_def)

lemma guest_run_ready:
  "guest_run E xo (guarded cd) (regs, w) (regs', w') \<Longrightarrow> ready cd w \<Longrightarrow> ready cd w'"
  using guest_run_invariant [of E xo "guarded cd" "(regs, w)" "(regs', w')" "ready cd"] execute_ready
  by auto

lemma guest_run_protected:
  "guest_run E xo (guarded cd) (regs, w) (regs', w') \<Longrightarrow> protected cd entries w \<Longrightarrow> protected cd entries w'"
  using guest_run_invariant [of E xo "guarded cd" "(regs, w)" "(regs', w')" "protected cd entries"] execute_protected
  by auto

section \<open>The guest after the start\<close>

lemma started_ready:
  assumes "host_can_start E w" and "initialize_host E w = Stop Entered_Guest w0"
  shows "ready CPU_DATA_ADDRESS w0"
proof (rule initialize_host_enters [OF assms(1)])
  fix v w'
  assume "initialize_host E w = Stop Entered_Guest w'" and l: "vmcs_loaded v" "vmcs_loaded w'"
    and r: "\<And>f. vmread f w' = vmread f (programmed E CPU_DATA_ADDRESS v)"
    and m: "mem w' = host_memory E (ucast (msrs w MSR_IA32_VMX_BASIC)) (mem w)"
  then have "w0 = w'" using assms(2) by simp
  moreover have "controls_on w'"
    using programmed_controls [OF l(1), of E CPU_DATA_ADDRESS]
    by (simp add: controls_on_def exits_on_hlt_def uses_msr_bitmaps_def uses_ept_def r)
  ultimately show ?thesis
    using l(2) by (simp add: ready_def r programmed_entry_points [OF l(1)] m host_memory_pointer)
qed

lemma vmcall_protects:
  assumes "ready cd w" and "regs RDI = PROTECET_SYSCALL"
    and "vmresume_works E"
  shows "\<exists>w'. execute E xo len Vmcall regs w = Done (advance len regs) w' \<and>
    protected cd (msrs w MSR_IA32_SYSENTER_EIP, msrs w MSR_IA32_LSTAR) w'"
proof -
  have l: "vmcs_loaded w" using assms(1) by (simp add: ready_def)
  note f = exit_fields_reads [OF l, where reason = EXIT_REASON_VMCALL and len = len and regs = regs]
  obtain w' where w': "vmexit_wrapper E regs (exit_fields EXIT_REASON_VMCALL len regs w) =
      Done ((guest_registers_at regs (exit_fields EXIT_REASON_VMCALL len regs w))
        (RIP := vmread VMCS_GUEST_RIP (exit_fields EXIT_REASON_VMCALL len regs w) +
          vmread VMCS_VM_EXIT_INSTRUCTION_LEN (exit_fields EXIT_REASON_VMCALL len regs w))) w'"
    and m: "monitored (msr_bitmaps_of cd) (mem w') =
      {(Write_Msr, MSR_IA32_SYSENTER_EIP), (Write_Msr, MSR_IA32_LSTAR)} \<union>
      monitored (msr_bitmaps_of cd) (mem (exit_fields EXIT_REASON_VMCALL len regs w))"
    using vmcall_exit_protects [of "exit_fields EXIT_REASON_VMCALL len regs w" cd regs E] assms f
    by (auto simp: ready_def)
  have e: "execute E xo len Vmcall regs w = Done (advance len regs) w'"
    using w' f by (simp add: vm_exit_def advance_def)
  then have "vm_exit E EXIT_REASON_VMCALL len regs w = Done (advance len regs) w'" by simp
  from vm_exit_ready [OF assms(1) this] have k: "kept cd w w'" by simp
  with e m ready_kept [OF k assms(1)] show ?thesis
    by (auto simp: protected_def guards_def kept_def)
qed

text \<open>A guarded write exits, and the exit skips it.\<close>

lemma guarded_write_skipped:
  assumes "protected cd entries w" and "(Write_Msr, ucast (regs RCX)) \<in> guards"
    and resume: "vmresume_works E"
  shows "\<exists>w'. execute E xo len Wrmsr regs w = Done (advance len regs) w' \<and> msrs w' = msrs w"
proof -
  let ?w = "exit_fields EXIT_REASON_MSR_WRITE len regs w"
  have r: "ready cd w" using assms(1) by (simp add: protected_def)
  then have l: "vmcs_loaded w" by (simp add: ready_def)
  note f = exit_fields_reads [OF l, where reason = EXIT_REASON_MSR_WRITE and len = len and regs = regs]
  have "exits_on_msr Write_Msr (ucast (regs RCX)) w"
    using assms r by (auto simp: exits_on_msr_iff protected_def ready_def)
  then have e: "execute E xo len Wrmsr regs w = vmexit_wrapper E regs ?w"
    by (simp add: vm_exit_def)
  have "exit_reason_of ?w = EXIT_REASON_MSR_WRITE" "vmcs_loaded ?w" by (simp_all add: f)
  then obtain w' where "vmexit_wrapper E regs ?w = Done ((guest_registers_at regs ?w)
      (RIP := vmread VMCS_GUEST_RIP ?w + vmread VMCS_VM_EXIT_INSTRUCTION_LEN ?w)) w'" and "msrs w' = msrs ?w"
    using skipping_exit [of ?w E regs] resume by auto
  moreover have "msrs ?w = msrs w" by (simp add: exit_fields_def)
  ultimately show ?thesis unfolding e by (simp add: f advance_def)
qed

text \<open>The page tables as the start leaves them, and the walk through them at any later time.\<close>

definition table_bytes :: "qword_t set" where
  "table_bytes = {x. unat (x - host_epts) < sizeof_epts}"

definition tables_kept :: "memory \<Rightarrow> world \<Rightarrow> bool" where
  "tables_kept m w \<longleftrightarrow>
     ready CPU_DATA_ADDRESS w \<and> vmread VMCS_EPT_POINTER w = initial_eptp host_epts \<and>
     (\<forall>x \<in> table_bytes. mem w x = m x)"

lemma kept_tables:
  assumes "kept CPU_DATA_ADDRESS w w'" and "tables_kept m w"
  shows "tables_kept m w'"
proof -
  have "mem w' x = mem w x" if "x \<in> table_bytes" for x
  proof -
    have "apart (msr_bitmaps_of CPU_DATA_ADDRESS) 4096 host_epts sizeof_epts"
      "apart (CPU_DATA_ADDRESS + of_nat 0x809000) 136 host_epts sizeof_epts"
      unfolding part_offsets by (rule apart_offsets; simp add: small_sizes)+
    then have "4096 \<le> unat (x - msr_bitmaps_of CPU_DATA_ADDRESS)"
        "136 \<le> unat (x - (CPU_DATA_ADDRESS + of_nat 0x809000))"
      using apart_inside that unfolding table_bytes_def by blast+
    then show ?thesis using assms(1) by (simp add: kept_def layout)
  qed
  then show ?thesis
    using assms ready_kept [OF assms(1)] by (simp add: tables_kept_def kept_def host_fields_of_def)
qed

lemma execute_tables:
  assumes "execute E xo len i regs w = Done regs' w'"
    and "stores_to xo w i \<inter> (guarded CPU_DATA_ADDRESS \<union> table_bytes) = {}" and "tables_kept m w"
  shows "tables_kept m w'"
proof -
  have r: "ready CPU_DATA_ADDRESS w" using assms(3) by (simp add: tables_kept_def)
  from execute_cases [OF assms(1) r assms(2)] show ?thesis
  proof (elim disjE exE conjE)
    assume "kept CPU_DATA_ADDRESS w w'"
    then show ?thesis using assms(3) by (rule kept_tables)
  next
    fix msr v
    assume "w' = w\<lparr>msrs := (msrs w)(msr := v)\<rparr>"
    then show ?thesis
      using assms(3) ready_same [OF r, of w'] vmread_cong [of w' w] by (simp add: tables_kept_def)
  next
    fix m'
    assume "w' = w\<lparr>mem := m'\<rparr>" and "\<forall>x \<in> guarded CPU_DATA_ADDRESS \<union> table_bytes. m' x = mem w x"
    then show ?thesis
      using assms(3) ready_same [OF r, of w'] vmread_cong [of w' w] by (simp add: tables_kept_def)
  qed
qed

lemma guest_run_tables:
  assumes "guest_run E xo (guarded CPU_DATA_ADDRESS \<union> table_bytes) (regs, w) (regs', w')" and "tables_kept m w"
  shows "tables_kept m w'"
proof -
  have "tables_kept m (out_port p b v)" "tables_kept m (v\<lparr>rflags := flags, seg_cs := cs, seg_ss := ss\<rparr>)"
    if "tables_kept m v" for p b v flags cs ss
    using that vmread_cong [of "out_port p b v" v] vmread_cong [of "v\<lparr>rflags := flags, seg_cs := cs, seg_ss := ss\<rparr>" v]
    by (simp_all add: tables_kept_def) (simp_all add: out_port_def)
  with guest_run_invariant [OF assms(1), of "tables_kept m"] assms(2) execute_tables show ?thesis by auto
qed

text \<open>A guest that stays off more addresses has fewer runs.\<close>

lemma guest_run_mono:
  assumes "guest_run E xo S s s'" and "T \<subseteq> S"
  shows "guest_run E xo T s s'"
proof -
  have "guest_step E xo S \<le> guest_step E xo T"
    using assms(2) by (auto elim!: guest_step.cases intro: guest_step.intros)
  from rtranclp_mono [OF this] assms(1) show ?thesis by blast
qed

text \<open>A state of the guest after the start: the table is hidden, all else below 4 GiB is mapped to itself.\<close>

lemma started_walk:
  assumes "host_can_start E w" and "clear_tables host_epts (mem w)" and "initialize_host E w = Stop Entered_Guest w0"
    and "guest_run E xo S (regs0, w0) (regs1, w1)" and "guarded CPU_DATA_ADDRESS \<union> table_bytes \<subseteq> S"
  shows "ready CPU_DATA_ADDRESS w1"
    and "unat g < 2 ^ 32 \<Longrightarrow> walk_of xo g w1 =
      (if page_number g = page_number SSDT_ADDRESS then Misconfigured
       else Translated \<lparr>host_address = g, can_read = True, can_write = True, can_execute = True,
         caching = EPT_MEMORY_TYPE_WRITEBACK\<rparr>)"
proof -
  obtain r where p: "vmread VMCS_EPT_POINTER w0 = initial_eptp host_epts"
    and m: "mem w0 = host_memory E r (mem w)"
  proof (rule initialize_host_enters [OF assms(1)])
    fix v w'
    assume "initialize_host E w = Stop Entered_Guest w'" "vmcs_loaded v"
      "\<And>f. vmread f w' = vmread f (programmed E CPU_DATA_ADDRESS v)"
      "mem w' = host_memory E (ucast (msrs w MSR_IA32_VMX_BASIC)) (mem w)"
    then show ?thesis using assms(3) by (intro that) (simp_all add: programmed_entry_points)
  qed
  have "tables_kept (mem w0) w0"
    using started_ready [OF assms(1,3)] p by (simp add: tables_kept_def)
  with guest_run_mono [OF assms(4,5)] have k: "tables_kept (mem w0) w1" by (rule guest_run_tables)
  then show "ready CPU_DATA_ADDRESS w1" by (simp add: tables_kept_def)
  assume g: "unat g < 2 ^ 32"
  have "walk_of xo g w1 = ept_walk xo (mem w0) (initial_eptp host_epts) g"
    unfolding walk_of_def
    using k ready_controls [of CPU_DATA_ADDRESS w1] walk_cong [OF _ host_memory_directories [OF assms(2)] host_epts_page g, of "mem w1" E r xo]
    by (simp add: tables_kept_def m table_bytes_def)
  then show "walk_of xo g w1 =
      (if page_number g = page_number SSDT_ADDRESS then Misconfigured
       else Translated \<lparr>host_address = g, can_read = True, can_write = True, can_execute = True,
         caching = EPT_MEMORY_TYPE_WRITEBACK\<rparr>)"
    by (simp add: m host_memory_walk [OF assms(2) g])
qed

text \<open>One load from the hidden table.\<close>

lemma hidden_load:
  assumes "ready CPU_DATA_ADDRESS w" and "n < SSDT_SIZE"
    and "walk_of xo (SSDT_ADDRESS + of_nat (8 * n)) w = Misconfigured"
    and resume: "vmresume_works E"
  shows "\<exists>w2. execute E xo len (Load (SSDT_ADDRESS + of_nat (8 * n))) regs w = Done (regs(
      RIP := regs RIP + len, RDI := of_nat n, RSI := load64 (mem w) (SSDT_ADDRESS + of_nat (8 * n)),
      RAX := ssdt_hook_addr E)) w2 \<and>
    (\<forall>x. 136 \<le> unat (x - host_state) \<longrightarrow> mem w2 x = mem w x) \<and>
    (min_level w \<le> INFO_LEVEL \<longrightarrow> says (exit_line ''EXIT_REASON_EPT_MISCONFIG'') w w2)"
proof -
  let ?a = "SSDT_ADDRESS + of_nat (8 * n)"
  let ?w = "w\<lparr>vmcs := (vmcs w)(VMCS_GUEST_PHYSICAL_ADDRESS := ?a)\<rparr>"
  let ?u = "exit_fields EXIT_REASON_EPT_MISCONFIG len regs ?w"
  have r: "ready CPU_DATA_ADDRESS ?w" by (rule ready_kept [OF physical_address_kept assms(1)])
  then have l: "vmcs_loaded ?w" by (simp add: ready_def)
  have f: "exit_reason_of ?u = EXIT_REASON_EPT_MISCONFIG" "vmcs_loaded ?u" "mem ?u = mem w"
      "vmread VMCS_HOST_FS_BASE ?u = host_state" "vmread VMCS_GUEST_PHYSICAL_ADDRESS ?u = ?a"
      "guest_registers_at regs ?u = regs" "vmread VMCS_GUEST_RIP ?u = regs RIP"
      "vmread VMCS_VM_EXIT_INSTRUCTION_LEN ?u = len"
    using exit_fields_reads [OF l, where reason = EXIT_REASON_EPT_MISCONFIG and len = len and regs = regs] r
    by (simp_all add: ready_def) (simp add: vmread_def vmcs_get_def full_field_def high_access_def l)
  have "page_address (ssdt_of host_state)" by (simp add: page_address_def layout)
  moreover have "min_level ?u = min_level w" "\<And>t v. says t ?u v = says t w v"
    by (simp_all add: exit_fields_def says_def)
  ultimately show ?thesis
    using misconfig_exit_hooks [OF f(2,1,4) _ assms(2) _ resume, of regs] f
    by (simp only: execute.simps assms(3) outcome.case ept_exit_def vm_exit_def ssdt_in_place simp_thms)
qed

lemma started_load:
  assumes "host_can_start E w" and "clear_tables host_epts (mem w)" and "initialize_host E w = Stop Entered_Guest w0"
    and "guest_run E xo S (regs0, w0) (regs1, w1)" and "guarded CPU_DATA_ADDRESS \<union> table_bytes \<subseteq> S"
    and "n < SSDT_SIZE"
  obtains w2 where "execute E xo len (Load (SSDT_ADDRESS + of_nat (8 * n))) regs1 w1 = Done (regs1(
      RIP := regs1 RIP + len, RDI := of_nat n, RSI := load64 (mem w1) (SSDT_ADDRESS + of_nat (8 * n)),
      RAX := ssdt_hook_addr E)) w2"
    and "\<forall>x. 136 \<le> unat (x - host_state) \<longrightarrow> mem w2 x = mem w1 x"
    and "min_level w1 \<le> INFO_LEVEL \<longrightarrow> says (exit_line ''EXIT_REASON_EPT_MISCONFIG'') w1 w2"
    and "guest_run E xo S (regs0, w0) (regs1(
      RIP := regs1 RIP + len, RDI := of_nat n, RSI := load64 (mem w1) (SSDT_ADDRESS + of_nat (8 * n)),
      RAX := ssdt_hook_addr E), w2)"
proof -
  let ?a = "SSDT_ADDRESS + of_nat (8 * n)"
  have u: "unat ?a = 0x1812000 + 8 * n" using assms(6) by (simp add: unat_word_ariths unat_of_nat)
  have resume: "vmresume_works E" using assms(1) by (simp add: host_can_start_def)
  from u have "page_number ?a = page_number SSDT_ADDRESS" "unat ?a < 2 ^ 32"
    using assms(6) unfolding page_number_def by simp_all
  with started_walk(2) [OF assms(1-5), of ?a] have "walk_of xo ?a w1 = Misconfigured" by simp
  from hidden_load [OF started_walk(1) [OF assms(1-5)] assms(6) this resume] obtain w2 where
    e: "execute E xo len (Load ?a) regs1 w1 = Done (regs1(
      RIP := regs1 RIP + len, RDI := of_nat n, RSI := load64 (mem w1) ?a, RAX := ssdt_hook_addr E)) w2"
    and m: "\<forall>x. 136 \<le> unat (x - host_state) \<longrightarrow> mem w2 x = mem w1 x"
    and l: "min_level w1 \<le> INFO_LEVEL \<longrightarrow> says (exit_line ''EXIT_REASON_EPT_MISCONFIG'') w1 w2" by blast
  have "unat ?a mod 4096 = 8 * n" unfolding u using assms(6) by (simp add: mod_add_left_eq [symmetric] del: mod_add_left_eq)
  then have "in_one_page (Load ?a)" using assms(6) by simp
  from e m l rtranclp.rtrancl_into_rtrancl [OF assms(4) perform [OF e this]] show ?thesis
    by (intro that) simp_all
qed

text \<open>The log level, and the page of the table of system calls.\<close>

lemma execute_level:
  assumes "execute E xo len i regs w = Done regs' w'" and "ready cd w"
  shows "min_level w' = min_level w"
  using execute_cases [OF assms, of "{}"] by (auto simp: kept_def)

lemma guest_run_level:
  assumes "guest_run E xo S (regs, w) (regs', w')" and "guarded cd \<subseteq> S" and "ready cd w"
  shows "min_level w' = min_level w"
proof -
  have "ready cd (snd (regs', w')) \<and> min_level (snd (regs', w')) = min_level w"
  proof (rule guest_run_invariant [OF assms(1)])
    fix len i u regs u' regs'
    assume e: "execute E xo len i regs u = Done regs' u'" and "stores_to xo u i \<inter> S = {}"
      and u: "ready cd u \<and> min_level u = min_level w"
    with assms(2) have "stores_to xo u i \<inter> guarded cd = {}" by blast
    with e u show "ready cd u' \<and> min_level u' = min_level w"
      using execute_ready [OF e _ conjunct1 [OF u]] execute_level [OF e conjunct1 [OF u]] by simp
  qed (use assms(3) in simp_all, simp add: out_port_def)
  then show ?thesis by simp
qed

definition ssdt_bytes :: "qword_t set" where
  "ssdt_bytes = {x. unat (x - SSDT_ADDRESS) < 4096}"

lemma execute_table:
  assumes "execute E xo len i regs w = Done regs' w'" and "ready CPU_DATA_ADDRESS w"
    and "stores_to xo w i \<inter> ssdt_bytes = {}" and "x \<in> ssdt_bytes"
  shows "mem w' x = mem w x"
proof -
  have "4096 \<le> unat (x - msr_bitmaps_of CPU_DATA_ADDRESS)" "136 \<le> unat (x - host_state)"
  proof -
    have "apart (msr_bitmaps_of CPU_DATA_ADDRESS) 4096 (ssdt_of host_state) 4096"
      "apart (CPU_DATA_ADDRESS + of_nat 0x809000) 136 (ssdt_of host_state) 4096"
      unfolding part_offsets by (rule apart_offsets; simp)+
    from this [THEN apart_inside, of x] assms(4)
    show "4096 \<le> unat (x - msr_bitmaps_of CPU_DATA_ADDRESS)" "136 \<le> unat (x - host_state)"
      by (simp_all add: ssdt_bytes_def layout)
  qed
  with execute_cases [OF assms(1-3)] assms(4) show ?thesis by (auto simp: kept_def)
qed

lemma guest_run_table:
  assumes "guest_run E xo S (regs, w) (regs', w')" and "guarded CPU_DATA_ADDRESS \<union> ssdt_bytes \<subseteq> S"
    and "ready CPU_DATA_ADDRESS w"
  shows "\<forall>x \<in> ssdt_bytes. mem w' x = mem w x"
proof -
  have "ready CPU_DATA_ADDRESS (snd (regs', w')) \<and> (\<forall>x \<in> ssdt_bytes. mem (snd (regs', w')) x = mem w x)"
  proof (rule guest_run_invariant [OF assms(1)])
    fix len i u regs u' regs'
    assume e: "execute E xo len i regs u = Done regs' u'" and s: "stores_to xo u i \<inter> S = {}"
      and u: "ready CPU_DATA_ADDRESS u \<and> (\<forall>x \<in> ssdt_bytes. mem u x = mem w x)"
    have "stores_to xo u i \<inter> guarded CPU_DATA_ADDRESS = {}" "stores_to xo u i \<inter> ssdt_bytes = {}"
      using s assms(2) by blast+
    with e u show "ready CPU_DATA_ADDRESS u' \<and> (\<forall>x \<in> ssdt_bytes. mem u' x = mem w x)"
      using execute_ready [OF e _ conjunct1 [OF u]] execute_table [OF e conjunct1 [OF u]] by simp
  qed (use assms(3) in simp_all, simp add: out_port_def)
  then show ?thesis by simp
qed

text \<open>
  The dispatcher under the hook: both reads exit, and the hook is called with the number and the handler
  registered in the table. Its call is a state of the same run.
\<close>

lemma started_dispatch:
  assumes "host_can_start E w" and "clear_tables host_epts (mem w)" and "initialize_host E w = Stop Entered_Guest w0"
    and "guest_run E xo S (regs0, w0) (regs1, w1)" and "guarded CPU_DATA_ADDRESS \<union> table_bytes \<subseteq> S"
    and "unat number < SSDT_SIZE" and "ssdt_hook_addr E \<noteq> 0"
  obtains regs2 w2 where "guest_dispatch E xo call len1 len2 number regs1 w1 =
      call (load64 (mem w1) (ssdt_entry number))
        (logged INFO_LEVEL hooks_c 7 (''hooked ssdt read at entry '' @ digits_text 10 number) w2)"
    and "\<forall>x. 136 \<le> unat (x - host_state) \<longrightarrow> mem w2 x = mem w1 x"
    and "min_level w1 \<le> INFO_LEVEL \<longrightarrow>
      says (exit_line ''EXIT_REASON_EPT_MISCONFIG'' @ exit_line ''EXIT_REASON_EPT_MISCONFIG'') w1 w2"
    and "guest_run E xo S (regs0, w0) (regs2, w2)"
proof -
  let ?n = "unat number"
  let ?a = "SSDT_ADDRESS + of_nat (8 * ?n)"
  let ?line = "exit_line ''EXIT_REASON_EPT_MISCONFIG''"
  obtain regs2 w2 where e2: "execute E xo len1 (Load ?a) regs1 w1 = Done regs2 w2"
    and v2: "regs2 RAX = ssdt_hook_addr E"
    and m2: "\<forall>x. 136 \<le> unat (x - host_state) \<longrightarrow> mem w2 x = mem w1 x"
    and s2: "min_level w1 \<le> INFO_LEVEL \<longrightarrow> says ?line w1 w2"
    and r2: "guest_run E xo S (regs0, w0) (regs2, w2)"
    by (rule started_load [OF assms(1-6), of len1]) simp
  obtain regs3 w3 where e3: "execute E xo len2 (Load ?a) regs2 w2 = Done regs3 w3"
    and v3: "regs3 RAX = ssdt_hook_addr E" "regs3 RDI = of_nat ?n" "regs3 RSI = load64 (mem w2) ?a"
    and m3: "\<forall>x. 136 \<le> unat (x - host_state) \<longrightarrow> mem w3 x = mem w2 x"
    and s3: "min_level w2 \<le> INFO_LEVEL \<longrightarrow> says ?line w2 w3"
    and r3: "guest_run E xo S (regs0, w0) (regs3, w3)"
    by (rule started_load [OF assms(1-3) r2 assms(5,6), of len2]) simp
  have "apart host_state 136 ?a 8"
    using apart_offsets [of "0x809000" 136 "0x812000 + 8 * ?n" 8 CPU_DATA_ADDRESS] assms(6)
    by (simp add: layout add.assoc)
  with m2 have l: "load64 (mem w2) ?a = load64 (mem w1) ?a"
    by (intro qword_cell.load_cong) (simp add: apart_byte)
  have "\<not> number > of_nat SSDT_SIZE" unfolding in_table using assms(6) by simp
  then have "guest_dispatch E xo call len1 len2 number regs1 w1 =
      ssdt_hook call (ucast (of_nat ?n :: qword_t)) (load64 (mem w2) ?a) w3"
    using assms(7)
    by (simp add: guest_dispatch_def ssdt_entry_def e2 e3 v2 v3 Let_def del: execute.simps of_nat_mult)
  also have "ucast (of_nat ?n :: qword_t) = number" by (rule bit_word_eqI) (simp add: bit_simps)
  also note l
  also have "ssdt_hook call number (load64 (mem w1) ?a) w3 = call (load64 (mem w1) ?a)
      (logged INFO_LEVEL hooks_c 7 (''hooked ssdt read at entry '' @ digits_text 10 number) w3)"
    using assms(6) by (intro ssdt_hook_eq) simp
  finally show ?thesis
    using m2 m3 s2 s3 r3 says_trans [of ?line w1 w2 ?line w3]
    by (intro that [of w3 regs3]) (auto simp: ssdt_entry_def says_def)
qed

text \<open>C2. Protection of the system calls. After the start and any run of the guest, the hypercall that
  asks for the protection returns, and whatever the guest does from then on, as long as it does not
  store into the bitmaps or the pointer, IA32_SYSENTER_EIP and IA32_LSTAR keep their values: a write
  of either exits and is skipped, and the guest goes on after it.\<close>

theorem system_calls_stay_protected:
  assumes "host_can_start E w" and "initialize_host E w = Stop Entered_Guest w0"
    and "guest_run E xo (guarded CPU_DATA_ADDRESS) (regs0, w0) (regs1, w1)" and "regs1 RDI = PROTECET_SYSCALL"
  shows "\<exists>w2. execute E xo len Vmcall regs1 w1 = Done (advance len regs1) w2 \<and>
    (\<forall>regs3 w3. guest_run E xo (guarded CPU_DATA_ADDRESS) (advance len regs1, w2) (regs3, w3) \<longrightarrow>
       msrs w3 MSR_IA32_SYSENTER_EIP = msrs w1 MSR_IA32_SYSENTER_EIP \<and>
       msrs w3 MSR_IA32_LSTAR = msrs w1 MSR_IA32_LSTAR \<and>
       (ucast (regs3 RCX) \<in> {MSR_IA32_SYSENTER_EIP, MSR_IA32_LSTAR} \<longrightarrow>
          (\<exists>w4. execute E xo len3 Wrmsr regs3 w3 = Done (advance len3 regs3) w4 \<and> msrs w4 = msrs w3)))"
proof -
  have resume: "vmresume_works E" using assms(1) by (simp add: host_can_start_def)
  let ?entries = "(msrs w1 MSR_IA32_SYSENTER_EIP, msrs w1 MSR_IA32_LSTAR)"
  have "ready CPU_DATA_ADDRESS w1"
    by (rule guest_run_ready [OF assms(3) started_ready [OF assms(1,2)]])
  then obtain w2 where e: "execute E xo len Vmcall regs1 w1 = Done (advance len regs1) w2"
    and p: "protected CPU_DATA_ADDRESS ?entries w2"
    using vmcall_protects [where regs = regs1] assms(4) resume by blast
  show ?thesis
  proof (rule exI [of _ w2], intro conjI e allI impI)
    fix regs3 w3
    assume "guest_run E xo (guarded CPU_DATA_ADDRESS) (advance len regs1, w2) (regs3, w3)"
    then have k: "protected CPU_DATA_ADDRESS ?entries w3" using p by (rule guest_run_protected)
    then show "msrs w3 MSR_IA32_SYSENTER_EIP = msrs w1 MSR_IA32_SYSENTER_EIP" "msrs w3 MSR_IA32_LSTAR = msrs w1 MSR_IA32_LSTAR"
      by (simp_all add: protected_def)
    assume "ucast (regs3 RCX) \<in> {MSR_IA32_SYSENTER_EIP, MSR_IA32_LSTAR}"
    then show "\<exists>w4. execute E xo len3 Wrmsr regs3 w3 = Done (advance len3 regs3) w4 \<and> msrs w4 = msrs w3"
      by (intro guarded_write_skipped [OF k _ resume]) (auto simp: guards_def)
  qed
qed

lemma example_start: "\<exists>w0. initialize_host example_env zero_world = Stop Entered_Guest w0"
  by (rule initialize_host_enters [OF example_host_can_start]) blast

lemma system_calls_stay_protected_witness:
  "\<exists>w0 w2. initialize_host example_env zero_world = Stop Entered_Guest w0 \<and>
    execute example_env False 3 Vmcall (\<lambda>_. 0) w0 = Done (advance 3 (\<lambda>_. 0)) w2 \<and>
    (\<forall>regs3 w3. guest_run example_env False (guarded 0x1000000) (advance 3 (\<lambda>_. 0), w2) (regs3, w3) \<longrightarrow>
      msrs w3 MSR_IA32_LSTAR = msrs w0 MSR_IA32_LSTAR)"
proof -
  obtain w0 where s: "initialize_host example_env zero_world = Stop Entered_Guest w0"
    using example_start by blast
  have "guest_run example_env False (guarded 0x1000000) (\<lambda>_. 0, w0) (\<lambda>_. 0, w0)" by simp
  from system_calls_stay_protected [OF example_host_can_start s this, of 3] s
  show ?thesis by (simp del: execute.simps) blast
qed

text \<open>C1. The read hook, end to end. After the start and any run of the guest that leaves the page tables
  alone, a load of an entry of the table of system calls gives the guest the address of \<open>ssdt_hook\<close>,
  with the number of the entry and the handler registered there in RDI and RSI; the other
  registers are as they were, and memory but the saved registers.\<close>

theorem table_loads_are_hooked:
  assumes "host_can_start E w" and "clear_tables (epts_of CPU_DATA_ADDRESS) (mem w)"
    and "initialize_host E w = Stop Entered_Guest w0"
    and "guest_run E xo (guarded CPU_DATA_ADDRESS \<union> table_bytes) (regs0, w0) (regs1, w1)" and "n < SSDT_SIZE"
  shows "\<exists>w2. execute E xo len (Load (SSDT_ADDRESS + of_nat (8 * n))) regs1 w1 = Done (regs1(
      RIP := regs1 RIP + len, RDI := of_nat n, RSI := load64 (mem w1) (SSDT_ADDRESS + of_nat (8 * n)),
      RAX := ssdt_hook_addr E)) w2 \<and>
    (\<forall>x. 136 \<le> unat (x - guest_cpu_state_of CPU_DATA_ADDRESS) \<longrightarrow> mem w2 x = mem w1 x)"
  using started_load [OF assms(1-4) _ assms(5)] by blast

lemma table_loads_are_hooked_witness:
  "\<exists>w0 regs w2. initialize_host example_env zero_world = Stop Entered_Guest w0 \<and>
    execute example_env True 4 (Load 0x1812150) (\<lambda>_. 7) w0 = Done regs w2 \<and>
    regs RAX = 0x103000 \<and> regs RDI = 42 \<and> regs RBX = 7"
proof -
  obtain w0 where s: "initialize_host example_env zero_world = Stop Entered_Guest w0"
    using example_start by blast
  have c: "clear_tables (epts_of 0x1000000) (mem zero_world)" by (simp add: zero_world_def zero_memory_clear)
  have "guest_run example_env True (guarded 0x1000000 \<union> table_bytes) (\<lambda>_. 7, w0) (\<lambda>_. 7, w0)" by simp
  from table_loads_are_hooked [OF example_host_can_start c s this, of 42 4] s
  show ?thesis by (auto simp: example_env_def)
qed

text \<open>C8. The protection is not complete. The page tables map the hypervisor's own data for the guest to
  write, so one store of the guest into the bitmaps page lifts it: afterwards writes of
  IA32_SYSENTER_EIP do not exit.\<close>

theorem guest_store_lifts_protection:
  assumes "host_can_start E w" and "clear_tables (epts_of CPU_DATA_ADDRESS) (mem w)"
    and "initialize_host E w = Stop Entered_Guest w0"
    and "guest_run E xo (guarded CPU_DATA_ADDRESS \<union> table_bytes) (regs0, w0) (regs1, w1)"
  shows "\<exists>w2. execute E xo len (Store (msr_bitmaps_of CPU_DATA_ADDRESS + 0x828) 0) regs1 w1 =
      Done (advance len regs1) w2 \<and>
    \<not> exits_on_msr Write_Msr MSR_IA32_SYSENTER_EIP w2"
proof -
  let ?b = "msr_bitmaps_of CPU_DATA_ADDRESS"
  let ?w2 = "w1\<lparr>mem := store64 (?b + 0x828) 0 (mem w1)\<rparr>"
  have "walk_of xo (?b + 0x828) w1 = Translated \<lparr>host_address = ?b + 0x828, can_read = True, can_write = True,
      can_execute = True, caching = EPT_MEMORY_TYPE_WRITEBACK\<rparr>"
    using started_walk(2) [OF assms subset_refl, of "?b + 0x828"] by (simp add: layout page_number_def)
  then have "execute E xo len (Store (?b + 0x828) 0) regs1 w1 = Done (advance len regs1) ?w2" by simp
  moreover have r: "ready CPU_DATA_ADDRESS w1" by (rule started_walk(1) [OF assms subset_refl])
  then have "vmread VMCS_MSR_BITMAP ?w2 = ?b" using vmread_cong [of ?w2 w1] by (simp add: ready_def)
  moreover have "uses_msr_bitmaps ?w2"
    using ready_controls [OF r] vmread_cong [of ?w2 w1] by (simp add: uses_msr_bitmaps_def)
  moreover have "?b + 0x828 + of_nat 6 = ?b + 0x82E" by (simp add: add.assoc)
  from this [symmetric] have "mem ?w2 (?b + 0x82E) = 0"
    using store_bytes_nth [of 6 "word_bytes 8 (0 :: qword_t)" "?b + 0x828" "mem w1"]
    by (simp add: store64_def word_bytes_def add.commute)
  ultimately show ?thesis
    by (intro exI [of _ ?w2]) (simp add: exits_on_msr_def msr_in_range_def msr_bit_position_def bit_31)
qed

lemma guest_store_lifts_protection_witness:
  "\<exists>w0 w2. initialize_host example_env zero_world = Stop Entered_Guest w0 \<and>
    execute example_env False 4 (Store (msr_bitmaps_of 0x1000000 + 0x828) 0) (\<lambda>_. 0) w0 =
      Done (advance 4 (\<lambda>_. 0)) w2 \<and>
    \<not> exits_on_msr Write_Msr MSR_IA32_SYSENTER_EIP w2"
proof -
  obtain w0 where s: "initialize_host example_env zero_world = Stop Entered_Guest w0"
    using example_start by blast
  have c: "clear_tables (epts_of 0x1000000) (mem zero_world)" by (simp add: zero_world_def zero_memory_clear)
  have "guest_run example_env False (guarded 0x1000000 \<union> table_bytes) (\<lambda>_. 0, w0) (\<lambda>_. 0, w0)" by simp
  from guest_store_lifts_protection [OF example_host_can_start c s this, of 4] s
  show ?thesis by auto
qed

text \<open>C6. A system call of the guest under the hook. Both reads of the table by the dispatcher exit, and the
  address it calls is the hook's: the hook logs the number and calls the handler registered in
  the table. It calls it even when there is none: the dispatcher's own test for a null handler
  sees the hook, so an unregistered number calls address 0.\<close>

theorem system_call_goes_through_hook:
  assumes "host_can_start E w" and "clear_tables (epts_of CPU_DATA_ADDRESS) (mem w)"
    and "initialize_host E w = Stop Entered_Guest w0"
    and "guest_run E xo (guarded CPU_DATA_ADDRESS \<union> table_bytes) (regs0, w0) (regs1, w1)"
    and "unat number < SSDT_SIZE" and "ssdt_hook_addr E \<noteq> 0"
  shows "\<exists>w2. guest_dispatch E xo call len1 len2 number regs1 w1 =
      call (load64 (mem w1) (ssdt_entry number))
        (logged INFO_LEVEL hooks_c 7 (''hooked ssdt read at entry '' @ digits_text 10 number) w2) \<and>
    (\<forall>x. 136 \<le> unat (x - guest_cpu_state_of CPU_DATA_ADDRESS) \<longrightarrow> mem w2 x = mem w1 x)"
proof (rule started_dispatch [OF assms(1-4) subset_refl assms(5,6), of call len1 len2])
  fix regs2 w2
  assume "guest_dispatch E xo call len1 len2 number regs1 w1 = call (load64 (mem w1) (ssdt_entry number))
      (logged INFO_LEVEL hooks_c 7 (''hooked ssdt read at entry '' @ digits_text 10 number) w2)"
    and "\<forall>x. 136 \<le> unat (x - host_state) \<longrightarrow> mem w2 x = mem w1 x"
  then show ?thesis by (intro exI [of _ w2] conjI)
qed

lemma system_call_goes_through_hook_witness:
  "\<exists>w0 w2. initialize_host example_env zero_world = Stop Entered_Guest w0 \<and>
    guest_dispatch example_env False (\<lambda>h v. Done () (v\<lparr>cr2 := h\<rparr>)) 4 4 7 (\<lambda>_. 0) w0 =
      Done () (w2\<lparr>cr2 := load64 (mem w0) (ssdt_entry 7)\<rparr>)"
proof -
  obtain w0 where s: "initialize_host example_env zero_world = Stop Entered_Guest w0"
    using example_start by blast
  have c: "clear_tables (epts_of 0x1000000) (mem zero_world)" by (simp add: zero_world_def zero_memory_clear)
  have r: "guest_run example_env False (guarded 0x1000000 \<union> table_bytes) (\<lambda>_. 0, w0) (\<lambda>_. 0, w0)" by simp
  from system_call_goes_through_hook [OF example_host_can_start c s r, of 7 "\<lambda>h v. Done () (v\<lparr>cr2 := h\<rparr>)" 4 4] s
  show ?thesis by (auto simp: example_env_def)
qed

end
