(* ===== verification/Guest.thy ===== *)
theory Guest
  imports Syscalls
begin

text \<open>
  The guest's kernel: \<open>src/guest/kmain.c\<close>, with the stubs \<open>__syscall\<close> and \<open>__sysenter\<close> of
  \<open>src/guest/syscall_handler.asm\<close>.

  \<open>kmain\<close> registers the entry points of the system calls, makes system call 42 by each of the two
  instructions, and stops. The instructions \<open>syscall\<close> and \<open>sysenter\<close> are modelled from the MSRs that
  \<open>init_syscalls\<close> and \<open>inject_mallwares\<close> write: the address there selects the code that runs. The
  record \<open>kernel\<close> holds the addresses that the compiler chooses, among them the return addresses of the two
  stubs. What else code at an address does is an argument \<open>other\<close>.

  The locale \<open>kernel_platform\<close> is the interface between the kernel's code and the processor it runs on, and
  \<open>booting_platform\<close> extends it by the accesses to MSRs. The kernel is proved over the interface; \<open>bare\<close> is
  one instance, and the guest of the hypervisor, in the theory \<open>Hosted\<close>, the others.
\<close>

section \<open>Code\<close>

record kernel =
  syscall_mallware_addr :: qword_t
  sysenter_mallware_addr :: qword_t
  syscall_ret :: qword_t
  after_syscall :: qword_t
  after_sysenter :: qword_t
  after_handler :: qword_t
  mallware_frame :: qword_t

definition exit_loop :: "world \<Rightarrow> unit res" where
  "exit_loop w = Stop Halted w"

definition inject_mallwares :: "platform \<Rightarrow> kernel \<Rightarrow> world \<Rightarrow> unit res" where
  "inject_mallwares P K = run_all [
     on_write_msr P MSR_IA32_SYSENTER_EIP (sysenter_mallware_addr K),
     on_write_msr P MSR_IA32_LSTAR (syscall_mallware_addr K)]"

text \<open>The end of \<open>kmain\<close>, from the return address of \<open>__sysenter\<close> on, and a call through a pointer.\<close>

definition kmain_end :: "platform \<Rightarrow> world \<Rightarrow> unit res" where
  "kmain_end P w = bindR (on_hlt P w) (\<lambda>_. exit_loop)"

definition guest_code :: "platform \<Rightarrow> env \<Rightarrow> kernel \<Rightarrow> code \<Rightarrow> code" where
  "guest_code P E K other a =
     (if a = print_a_crab_addr E then print_a_crab
      else if a = after_sysenter K then kmain_end P
      else other a)"

text \<open>
  \<open>syscall_mallware\<close> calls \<open>__syscall_handler\<close>, which pushes the return address below the frame of the
  malware. The handler jumps to the address that \<open>syscall\<close> left in RCX, the \<open>ret\<close> of \<open>__syscall\<close>, and that
  pops what is on the stack there.
\<close>

definition syscall_mallware ::
    "platform \<Rightarrow> env \<Rightarrow> kernel \<Rightarrow> code \<Rightarrow> qword_t \<Rightarrow> qword_t \<Rightarrow> qword_t \<Rightarrow> dword_t \<Rightarrow> world \<Rightarrow> unit res" where
  "syscall_mallware P E K other rsp rcx r11 number w =
     (let rsp = rsp - mallware_frame K - 8; w = w\<lparr>mem := store64 rsp (after_handler K) (mem w)\<rparr>
      in bindR (syscall_handler P (guest_code P E K other) rsp rcx r11 number w) (\<lambda>(rip, rsp) w.
         if rip = syscall_ret K \<and> load64 (mem w) rsp = after_handler K
         then LOG_INFO kmain_c 38 ''MALLWARE infected syscall :)'' [] w
         else other rip w))"

definition sysenter_mallware :: "platform \<Rightarrow> env \<Rightarrow> code \<Rightarrow> dword_t \<Rightarrow> world \<Rightarrow> unit res" where
  "sysenter_mallware P E call number w =
     bindR (LOG_INFO kmain_c 42 ''MALLWARE infected sysenter :)'' [] w) (\<lambda>_ w.
       sysenter_handler P E call number w)"

text \<open>
  \<open>__syscall(number)\<close> from \<open>kmain\<close>, whose stack pointer is \<open>rsp\<close>: the call pushes its return address, \<open>syscall\<close>
  enters the code at IA32_LSTAR with RCX and R11 set, and \<open>ret\<close> goes back to \<open>kmain\<close>.
\<close>

definition syscall_instruction :: "world \<Rightarrow> qword_t res" where
  "syscall_instruction w =
     (if bit (msrs w MSR_IA32_EFER) 0 then
        let selector = ucast (drop_bit 32 (msrs w MSR_IA32_STAR))
        in Done (msrs w MSR_IA32_LSTAR) (w\<lparr>rflags := rflags w AND NOT (msrs w MSR_IA32_FMASK),
             seg_cs := selector AND 0xFFFC, seg_ss := selector + 8\<rparr>)
      else Stop Invalid_Opcode w)"

definition syscall_stub :: "platform \<Rightarrow> env \<Rightarrow> kernel \<Rightarrow> code \<Rightarrow> qword_t \<Rightarrow> dword_t \<Rightarrow> world \<Rightarrow> unit res" where
  "syscall_stub P E K other rsp number w =
     (let rsp = rsp - 8; w = w\<lparr>mem := store64 rsp (after_syscall K) (mem w)\<rparr>; r11 = rflags w
      in bindR (syscall_instruction w) (\<lambda>entry w.
         if entry = syscall_handler_addr E then
           bindR (syscall_handler P (guest_code P E K other) rsp (syscall_ret K) r11 number w) (\<lambda>(rip, rsp) w.
             if rip = syscall_ret K \<and> load64 (mem w) rsp = after_syscall K then Done () w else other rip w)
         else if entry = syscall_mallware_addr K then
           bindR (syscall_mallware P E K other rsp (syscall_ret K) r11 number w) (\<lambda>_ w.
             if load64 (mem w) rsp = after_syscall K then Done () w else other (load64 (mem w) rsp) w)
         else other entry w))"

text \<open>
  \<open>__sysenter(number)\<close>: \<open>sysenter\<close> enters the code at IA32_SYSENTER_EIP on the stack of IA32_SYSENTER_ESP,
  and does not come back by itself: the handler calls the return address that the call had pushed.
\<close>

definition sysenter_instruction :: "world \<Rightarrow> qword_t res" where
  "sysenter_instruction w =
     (let selector = ucast (msrs w MSR_IA32_SYSENTER_CS) AND 0xFFFC
      in if selector = 0 then Stop General_Protection w
         else Done (msrs w MSR_IA32_SYSENTER_EIP)
           (w\<lparr>rflags := rflags w AND NOT 0x20200, seg_cs := selector, seg_ss := selector + 8\<rparr>))"

definition sysenter_call :: "platform \<Rightarrow> env \<Rightarrow> kernel \<Rightarrow> code \<Rightarrow> qword_t \<Rightarrow> dword_t \<Rightarrow> world \<Rightarrow> unit res" where
  "sysenter_call P E K other rsp number w =
     (let rsp = rsp - 8; w = w\<lparr>mem := store64 rsp (after_sysenter K) (mem w)\<rparr>; w = sysenter_stub E rsp w
      in bindR (sysenter_instruction w) (\<lambda>entry w.
         if entry = sysenter_handler_addr E then sysenter_handler P E (guest_code P E K other) number w
         else if entry = sysenter_mallware_addr K then sysenter_mallware P E (guest_code P E K other) number w
         else other entry w))"

definition kmain :: "platform \<Rightarrow> env \<Rightarrow> kernel \<Rightarrow> code \<Rightarrow> qword_t \<Rightarrow> world \<Rightarrow> unit res" where
  "kmain P E K other rsp w =
     bindR (LOG_INFO kmain_c 18 ''Initializing OS'' [] w) (\<lambda>_ w.
     bindR (init_syscalls P E w) (\<lambda>_ w.
     bindR (syscall_stub P E K other rsp 42 w) (\<lambda>_ w.
       sysenter_call P E K other rsp 42 w)))"

section \<open>The stack\<close>

text \<open>\<open>stack_apart rsp n a\<close>: the \<open>n\<close> bytes below \<open>rsp\<close> do not overlap the qword at \<open>a\<close>.\<close>

definition stack_apart :: "qword_t \<Rightarrow> nat \<Rightarrow> qword_t \<Rightarrow> bool" where
  "stack_apart rsp n a \<longleftrightarrow> apart (rsp - of_nat n) n a 8"

lemma stack_cell:
  assumes "stack_apart rsp n a" and "8 \<le> d" and "d \<le> n"
  shows "apart (rsp - of_nat d) 8 a 8"
proof -
  let ?p = "rsp - of_nat n"
  have a: "n \<le> unat (a - ?p)" "apart a 8 ?p n"
    using assms(1) by (simp_all add: stack_apart_def apart_def)
  have d: "rsp - of_nat d = ?p + of_nat (n - d)" using assms(3) by (simp add: of_nat_diff)
  have "n < 2 ^ 64" using a(1) unat_lt64 [of "a - ?p"] by simp
  then have u: "unat (of_nat (n - d) :: qword_t) = n - d" by (simp add: unat_of_nat_small)
  then have "(of_nat (n - d) :: qword_t) \<le> a - ?p" using a(1) by (simp add: word_le_nat_alt)
  then have "unat (a - ?p - of_nat (n - d)) = unat (a - ?p) - (n - d)" by (simp add: unat_sub u)
  moreover have "a - (?p + of_nat (n - d)) = a - ?p - of_nat (n - d)" by simp
  ultimately have "unat (a - (?p + of_nat (n - d))) = unat (a - ?p) - (n - d)" by (simp only:)
  then have "8 \<le> unat (a - (?p + of_nat (n - d)))" using a(1) assms(2,3) by linarith
  moreover have "8 \<le> unat (?p + of_nat (n - d) - a)"
    using assms(2,3) by (intro apart_byte [OF a(2)]) simp
  ultimately show ?thesis unfolding d apart_def by blast
qed

text \<open>The stack below a pushed word.\<close>

lemma stack_apart_below:
  assumes "stack_apart rsp (k + d) a"
  shows "stack_apart (rsp - of_nat d) k a"
proof -
  have e: "rsp - of_nat d - of_nat k = rsp - of_nat (k + d)" by simp
  show ?thesis
    unfolding stack_apart_def e by (rule apart_mono [OF assms [unfolded stack_apart_def]]) simp_all
qed

lemma stack_cells:
  assumes "d + 8 \<le> e" and "e + 8 \<le> 2 ^ 64"
  shows "apart (rsp - of_nat e) 8 (rsp - of_nat d) 8"
proof -
  have "rsp - of_nat d = rsp - of_nat e + of_nat (e - d)" using assms(1) by (simp add: of_nat_diff)
  moreover have "apart (rsp - of_nat e) 8 (rsp - of_nat e + of_nat (e - d)) 8"
    using apart_offsets [of 0 8 "e - d" 8 "rsp - of_nat e"] assms by simp
  ultimately show ?thesis by (simp only:)
qed

lemma stack_apart_less: "stack_apart rsp n a \<Longrightarrow> n + 8 \<le> 2 ^ 64"
proof -
  assume "stack_apart rsp n a"
  then have "n \<le> unat (a - (rsp - of_nat n))" and "8 \<le> unat (rsp - of_nat n - a)"
    by (simp_all add: stack_apart_def apart_def)
  moreover from this have "rsp - of_nat n \<noteq> a" by auto
  then have "unat (a - (rsp - of_nat n)) + unat (rsp - of_nat n - a) = 2 ^ 64"
    using unat_lt64 [of a] unat_lt64 [of "rsp - of_nat n"]
    by (cases "unat (rsp - of_nat n) < unat a") (auto simp: unat_sub_if' word_unat_eq_iff)
  ultimately show ?thesis by simp
qed

section \<open>Messages of the kernel\<close>

abbreviation kernel_line :: "dword_t \<Rightarrow> string \<Rightarrow> string" where
  "kernel_line n s \<equiv> log_line INFO_LEVEL kmain_c (digits_text 10 n) s"

lemma kernel_log_ok: "plain s \<Longrightarrow> length s < 200 \<Longrightarrow> 0 \<le> sint line \<Longrightarrow> log_ok kmain_c line s"
  by (simp add: log_ok_def kmain_c_def)

lemma print_a_crab_logs: "print_a_crab w = Done () (logged INFO_LEVEL kmain_c 52 crab w)"
  by (simp add: print_a_crab_def log_log_plain kernel_log_ok crab_def)

definition can_syscall :: "world \<Rightarrow> bool" where
  "can_syscall w \<longleftrightarrow> bit (msrs w MSR_IA32_EFER) 0"

definition can_sysenter :: "world \<Rightarrow> bool" where
  "can_sysenter w \<longleftrightarrow> ucast (msrs w MSR_IA32_SYSENTER_CS) AND 0xFFFC \<noteq> (0 :: word_t)"

lemma syscalls_initialized_msrs:
  "can_syscall (syscalls_initialized E w)"
  "can_sysenter (syscalls_initialized E w) \<longleftrightarrow> seg_cs w AND 0xFFFC \<noteq> 0"
  "msrs (syscalls_initialized E w) MSR_IA32_LSTAR = syscall_handler_addr E"
  "msrs (syscalls_initialized E w) MSR_IA32_SYSENTER_EIP = sysenter_handler_addr E"
proof -
  have "ucast (ucast x :: qword_t) = (x :: word_t)" for x by (rule bit_word_eqI) (simp add: bit_simps)
  then show "can_syscall (syscalls_initialized E w)"
    "can_sysenter (syscalls_initialized E w) \<longleftrightarrow> seg_cs w AND 0xFFFC \<noteq> 0"
    "msrs (syscalls_initialized E w) MSR_IA32_LSTAR = syscall_handler_addr E"
    "msrs (syscalls_initialized E w) MSR_IA32_SYSENTER_EIP = sysenter_handler_addr E"
    by (simp_all add: syscalls_initialized_def can_syscall_def can_sysenter_def bit_simps)
qed

section \<open>The kernel over its platform\<close>

text \<open>
  The interface. \<open>fit\<close> is what the platform keeps of the machine, \<open>cells\<close> the addresses of the qwords that
  are the kernel's own, and \<open>shown\<close> the text that system call 42 sends to the serial port.
\<close>

locale kernel_platform =
  fixes P :: platform and E :: env and K :: kernel and other :: code
    and fit :: "world \<Rightarrow> bool" and cells :: "qword_t set" and shown :: string
  assumes level: "fit w \<Longrightarrow> min_level w \<le> INFO_LEVEL"
    and fit_store: "fit w \<Longrightarrow> a \<in> cells \<Longrightarrow> fit (w\<lparr>mem := store64 a v (mem w)\<rparr>)"
    and fit_registers: "fit w \<Longrightarrow> fit (w\<lparr>rflags := flags, seg_cs := cs, seg_ss := ss\<rparr>)"
    and fit_logged: "fit w \<Longrightarrow> fit (logged l file n s w)"
    and dispatch: "fit w \<Longrightarrow> \<exists>w'. on_dispatch P (guest_code P E K other) 42 w = Done () w' \<and>
      says shown w w' \<and> fit w' \<and> (\<forall>a \<in> cells. load64 (mem w') a = load64 (mem w) a)"
begin

lemma fit_flags: "fit w \<Longrightarrow> fit (w\<lparr>rflags := flags\<rparr>)"
  using fit_registers [of w, where flags = flags and cs = "seg_cs w" and ss = "seg_ss w"] by simp

lemma fit_stores:
  assumes "fit w" and "a \<in> cells" and "b \<in> cells"
  shows "fit (w\<lparr>mem := store64 b u (store64 a v (mem w))\<rparr>)"
  using fit_store [OF fit_store [OF assms(1,2), of v] assms(3), of u] by simp

text \<open>\<open>__syscall_handler\<close>: back to the address in RCX, the caller's stack pointer restored.\<close>

lemma handler_prints:
  assumes "fit w" and "rsp - 8 \<in> cells" and "rsp - 16 \<in> cells"
  obtains w' where "syscall_handler P (guest_code P E K other) rsp rcx r11 42 w = Done (rcx, rsp) w'"
    and "says shown w w'" and "fit w'"
    and "\<forall>a \<in> cells. apart (rsp - 8) 8 a 8 \<longrightarrow> apart (rsp - 16) 8 a 8 \<longrightarrow> load64 (mem w') a = load64 (mem w) a"
proof -
  let ?m = "store64 (rsp - 16) r11 (store64 (rsp - 8) rcx (mem w))"
  have "apart (rsp - 16) 8 (rsp - 8) 8" using stack_cells [of 8 16 rsp] by simp
  then have l: "load64 ?m (rsp - 8) = rcx" "load64 ?m (rsp - 16) = r11"
    by (simp_all add: qword_cell.load_store_apart qword_cell.load_store)
  obtain u where u: "on_dispatch P (guest_code P E K other) 42 (w\<lparr>mem := ?m\<rparr>) = Done () u"
      "says shown (w\<lparr>mem := ?m\<rparr>) u" "fit u" "\<forall>a \<in> cells. load64 (mem u) a = load64 ?m a"
    using dispatch [OF fit_stores [OF assms(1-3), of r11 rcx]] by auto
  have "load64 (mem u) (rsp - 8) = rcx" "load64 (mem u) (rsp - 16) = r11"
    using u(4) assms(2,3) l by simp_all
  then have "syscall_handler P (guest_code P E K other) rsp rcx r11 42 w = Done (rcx, rsp) (popf r11 u)"
    using u(1) by (simp add: syscall_handler_def Let_def popf_def)
  moreover have "says shown w (popf r11 u)" using u(2) by (simp add: says_def popf_def)
  moreover have "fit (popf r11 u)" unfolding popf_def by (rule fit_flags [OF u(3)])
  moreover have "load64 (mem (popf r11 u)) a = load64 (mem w) a"
    if "a \<in> cells" "apart (rsp - 8) 8 a 8" "apart (rsp - 16) 8 a 8" for a
    using u(4) that by (simp add: popf_def qword_cell.load_store_apart)
  ultimately show ?thesis by (intro that) blast+
qed

text \<open>\<open>__syscall\<close> with the kernel's own entry point in place.\<close>

lemma syscall_enters:
  assumes "fit w" and "can_syscall w"
  obtains u where "syscall_instruction w = Done (msrs w MSR_IA32_LSTAR) u" and "mem u = mem w"
    and "says [] w u" and "fit u"
proof -
  let ?selector = "ucast (drop_bit 32 (msrs w MSR_IA32_STAR)) :: word_t"
  let ?u = "w\<lparr>rflags := rflags w AND NOT (msrs w MSR_IA32_FMASK), seg_cs := ?selector AND 0xFFFC, seg_ss := ?selector + 8\<rparr>"
  have "syscall_instruction w = Done (msrs w MSR_IA32_LSTAR) ?u"
    using assms(2) by (simp add: syscall_instruction_def can_syscall_def Let_def)
  moreover have "fit ?u" using assms(1) by (rule fit_registers)
  ultimately show ?thesis by (intro that) (simp_all add: says_def)
qed

lemma syscall_stub_prints:
  assumes "fit w" and "can_syscall w" and "msrs w MSR_IA32_LSTAR = syscall_handler_addr E"
    and "rsp - 8 \<in> cells" and "rsp - 16 \<in> cells" and "rsp - 24 \<in> cells"
  obtains w' where "syscall_stub P E K other rsp 42 w = Done () w'" and "says shown w w'" and "fit w'"
proof -
  let ?w = "w\<lparr>mem := store64 (rsp - 8) (after_syscall K) (mem w)\<rparr>"
  have "fit ?w" by (rule fit_store [OF assms(1,4)])
  moreover have "can_syscall ?w" using assms(2) by (simp add: can_syscall_def)
  ultimately obtain u where u: "syscall_instruction ?w = Done (msrs ?w MSR_IA32_LSTAR) u" "mem u = mem ?w"
      "says [] ?w u" "fit u"
    by (rule syscall_enters)
  have "rsp - 8 - 8 \<in> cells" "rsp - 8 - 16 \<in> cells" using assms(5,6) by simp_all
  then obtain w' where w': "syscall_handler P (guest_code P E K other) (rsp - 8) (syscall_ret K) (rflags w) 42 u =
      Done (syscall_ret K, rsp - 8) w'" "says shown u w'" "fit w'"
      "\<forall>a \<in> cells. apart (rsp - 8 - 8) 8 a 8 \<longrightarrow> apart (rsp - 8 - 16) 8 a 8 \<longrightarrow> load64 (mem w') a = load64 (mem u) a"
    by (rule handler_prints [OF u(4)])
  have "load64 (mem w') (rsp - 8) = after_syscall K"
    using w'(4) assms(4) stack_cells [of 8 16 rsp] stack_cells [of 8 24 rsp]
    by (simp add: u(2) qword_cell.load_store)
  then have "syscall_stub P E K other rsp 42 w = Done () w'"
    using u(1) w'(1) by (simp add: syscall_stub_def Let_def assms(3))
  moreover have "says shown w w'" using says_trans [OF u(3) w'(2)] by (simp add: says_def)
  ultimately show ?thesis using w'(3) by (rule that)
qed

text \<open>\<open>__sysenter\<close>: the handler finds the way back to \<open>kmain\<close> over the stored stack pointer.\<close>

lemma sysenter_enters:
  assumes "fit w" and "can_sysenter w"
  obtains u where "sysenter_instruction w = Done (msrs w MSR_IA32_SYSENTER_EIP) u" and "mem u = mem w"
    and "says [] w u" and "fit u"
proof -
  let ?selector = "ucast (msrs w MSR_IA32_SYSENTER_CS) AND 0xFFFC :: word_t"
  let ?u = "w\<lparr>rflags := rflags w AND NOT 0x20200, seg_cs := ?selector, seg_ss := ?selector + 8\<rparr>"
  have "sysenter_instruction w = Done (msrs w MSR_IA32_SYSENTER_EIP) ?u"
    using assms(2) by (simp add: sysenter_instruction_def can_sysenter_def Let_def)
  moreover have "fit ?u" using assms(1) by (rule fit_registers)
  ultimately show ?thesis by (intro that) (simp_all add: says_def)
qed

lemma sysenter_call_prints:
  assumes "fit w" and "can_sysenter w" and "msrs w MSR_IA32_SYSENTER_EIP = sysenter_handler_addr E"
    and "after_sysenter K \<noteq> print_a_crab_addr E"
    and "rsp - 8 \<in> cells" and "sysenter_rsp_addr E \<in> cells" and "apart (rsp - 8) 8 (sysenter_rsp_addr E) 8"
  obtains w' where "sysenter_call P E K other rsp 42 w = kmain_end P w'" and "says shown w w'" and "fit w'"
proof -
  let ?m = "store64 (sysenter_rsp_addr E) (rsp - 8) (store64 (rsp - 8) (after_sysenter K) (mem w))"
  let ?w = "w\<lparr>mem := ?m\<rparr>"
  have "fit ?w" using assms(1,5,6) by (rule fit_stores)
  moreover have "can_sysenter ?w" using assms(2) by (simp add: can_sysenter_def)
  ultimately obtain u where u: "sysenter_instruction ?w = Done (msrs ?w MSR_IA32_SYSENTER_EIP) u" "mem u = ?m"
      "says [] ?w u" "fit u"
    by (rule sysenter_enters) simp
  obtain w' where w': "on_dispatch P (guest_code P E K other) 42 u = Done () w'" "says shown u w'" "fit w'"
      "\<forall>a \<in> cells. load64 (mem w') a = load64 ?m a"
    using dispatch [OF u(4)] u(2) by auto
  have "load64 (mem w') (load64 (mem w') (sysenter_rsp_addr E)) = after_sysenter K"
    using w'(4) assms(5-7) by (simp add: qword_cell.load_store qword_cell.load_store_apart apart_sym)
  moreover have "guest_code P E K other (after_sysenter K) = kmain_end P" using assms(4) by (simp add: guest_code_def)
  ultimately have "sysenter_call P E K other rsp 42 w = kmain_end P w'"
    using u(1) w'(1) by (simp add: sysenter_call_def sysenter_stub_def sysenter_handler_def Let_def assms(3))
  moreover have "says shown w w'" using says_trans [OF u(3) w'(2)] by (simp add: says_def)
  ultimately show ?thesis using w'(3) by (rule that)
qed

text \<open>
  The malware at the stack pointer that \<open>syscall\<close> left, one word below that of \<open>kmain\<close>: the kernel's
  handler runs, and its jump through RCX comes back to the malware.
\<close>

lemma syscall_mallware_prints:
  assumes "fit w" and "rsp - 8 \<in> cells" and "unat (mallware_frame K) + 40 \<le> 2 ^ 64"
    and "\<forall>d \<in> {16, 24, 32}. rsp - mallware_frame K - d \<in> cells"
  obtains w' where "syscall_mallware P E K other (rsp - 8) (syscall_ret K) r11 42 w = Done () w'"
    and "says (shown @ kernel_line 38 ''MALLWARE infected syscall :)'') w w'" and "fit w'"
    and "load64 (mem w') (rsp - 8) = load64 (mem w) (rsp - 8)"
proof -
  let ?f = "unat (mallware_frame K)"
  obtain s where s: "s = rsp - mallware_frame K - 16" by simp
  have pos: "rsp - 8 - mallware_frame K - 8 = s" "s - 8 = rsp - mallware_frame K - 24" "s - 16 = rsp - mallware_frame K - 32"
    by (simp_all add: s)
  have at: "s = rsp - of_nat (?f + 16)" "s - 8 = rsp - of_nat (?f + 24)" "s - 16 = rsp - of_nat (?f + 32)"
    by (simp_all add: s)
  have cells: "s \<in> cells" "s - 8 \<in> cells" "s - 16 \<in> cells" using assms(4) unfolding pos(2,3) s by simp_all
  have near: "apart (s - 8) 8 s 8" "apart (s - 16) 8 s 8"
    using stack_cells [of 8 16 "s + 8"] stack_cells [of 8 24 "s + 8"] by simp_all
  have far: "apart s 8 (rsp - 8) 8" "apart (s - 8) 8 (rsp - 8) 8" "apart (s - 16) 8 (rsp - 8) 8"
    using stack_cells [of 8 "?f + 16" rsp] stack_cells [of 8 "?f + 24" rsp] stack_cells [of 8 "?f + 32" rsp] assms(3)
    unfolding at by (simp_all add: algebra_simps)
  let ?w = "w\<lparr>mem := store64 s (after_handler K) (mem w)\<rparr>"
  have "fit ?w" using assms(1) cells(1) by (rule fit_store)
  then obtain v where v: "syscall_handler P (guest_code P E K other) s (syscall_ret K) r11 42 ?w = Done (syscall_ret K, s) v"
      "says shown ?w v" "fit v"
      "\<forall>a \<in> cells. apart (s - 8) 8 a 8 \<longrightarrow> apart (s - 16) 8 a 8 \<longrightarrow> load64 (mem v) a = load64 (mem ?w) a"
    using cells(2,3) by (rule handler_prints)
  let ?v = "logged INFO_LEVEL kmain_c 38 ''MALLWARE infected syscall :)'' v"
  have "load64 (mem v) s = after_handler K"
    using v(4) cells(1) near by (simp add: qword_cell.load_store)
  then have "syscall_mallware P E K other (rsp - 8) (syscall_ret K) r11 42 w = Done () ?v"
    unfolding syscall_mallware_def Let_def pos(1) by (simp add: v(1) log_log_plain kernel_log_ok)
  moreover have "says (shown @ kernel_line 38 ''MALLWARE infected syscall :)'') w ?v"
    using v(2) by (intro says_logged level [OF assms(1)]) (simp add: says_def)
  moreover have "fit ?v" using v(3) by (rule fit_logged)
  moreover have "load64 (mem ?v) (rsp - 8) = load64 (mem w) (rsp - 8)"
    using v(4) assms(2) far by (simp add: qword_cell.load_store_apart)
  ultimately show ?thesis by (rule that)
qed

lemma syscall_stub_infected:
  assumes "fit w" and "can_syscall w" and "msrs w MSR_IA32_LSTAR = syscall_mallware_addr K"
    and "syscall_mallware_addr K \<noteq> syscall_handler_addr E"
    and "rsp - 8 \<in> cells" and "unat (mallware_frame K) + 40 \<le> 2 ^ 64"
    and "\<forall>d \<in> {16, 24, 32}. rsp - mallware_frame K - d \<in> cells"
  obtains w' where "syscall_stub P E K other rsp 42 w = Done () w'"
    and "says (shown @ kernel_line 38 ''MALLWARE infected syscall :)'') w w'" and "fit w'"
proof -
  let ?w = "w\<lparr>mem := store64 (rsp - 8) (after_syscall K) (mem w)\<rparr>"
  have "fit ?w" by (rule fit_store [OF assms(1,5)])
  moreover have "can_syscall ?w" using assms(2) by (simp add: can_syscall_def)
  ultimately obtain u where u: "syscall_instruction ?w = Done (msrs ?w MSR_IA32_LSTAR) u" "mem u = mem ?w"
      "says [] ?w u" "fit u"
    by (rule syscall_enters)
  obtain w' where w': "syscall_mallware P E K other (rsp - 8) (syscall_ret K) (rflags w) 42 u = Done () w'"
      "says (shown @ kernel_line 38 ''MALLWARE infected syscall :)'') u w'" "fit w'"
      "load64 (mem w') (rsp - 8) = load64 (mem u) (rsp - 8)"
    by (rule syscall_mallware_prints [OF u(4) assms(5-7)])
  have "load64 (mem w') (rsp - 8) = after_syscall K" by (simp add: w'(4) u(2) qword_cell.load_store)
  then have "syscall_stub P E K other rsp 42 w = Done () w'"
    using u(1) w'(1) assms(4) by (simp add: syscall_stub_def Let_def assms(3))
  moreover have "says (shown @ kernel_line 38 ''MALLWARE infected syscall :)'') w w'"
    using says_trans [OF u(3) w'(2)] by (simp add: says_def)
  ultimately show ?thesis using w'(3) by (rule that)
qed

end

text \<open>A platform on which the accesses of \<open>init_syscalls\<close> and \<open>inject_mallwares\<close> to MSRs have their effect.\<close>

locale booting_platform = kernel_platform +
  assumes write_msr: "fit w \<Longrightarrow> msr \<in> syscall_msrs \<Longrightarrow> on_write_msr P msr v w = Done () (write_msr msr v w)"
    and fit_write: "fit w \<Longrightarrow> msr \<in> syscall_msrs \<Longrightarrow> fit (write_msr msr v w)"
    and read_msr: "fit w \<Longrightarrow> on_read_msr P MSR_IA32_EFER w = Done (read_msr MSR_IA32_EFER w) w"
begin

lemma init_syscalls_done:
  assumes "fit w"
  shows "init_syscalls P E w = Done () (syscalls_initialized E w)" and "fit (syscalls_initialized E w)"
proof -
  let ?w1 = "write_msr MSR_IA32_SYSENTER_CS (ucast (seg_cs w)) w"
  let ?w4 = "write_msr MSR_IA32_LSTAR (syscall_handler_addr E) (write_msr MSR_IA32_SYSENTER_ESP (kernel_stack_addr E + STACK_SIZE)
    (write_msr MSR_IA32_SYSENTER_EIP (sysenter_handler_addr E) ?w1))"
  let ?w5 = "write_msr MSR_IA32_STAR (push_bit 32 (ucast (seg_cs w))) ?w4"
  let ?w6 = "write_msr MSR_IA32_EFER (msrs w MSR_IA32_EFER OR 1) ?w5"
  have six: "MSR_IA32_SYSENTER_CS \<in> syscall_msrs" "MSR_IA32_SYSENTER_EIP \<in> syscall_msrs"
    "MSR_IA32_SYSENTER_ESP \<in> syscall_msrs" "MSR_IA32_LSTAR \<in> syscall_msrs" "MSR_IA32_STAR \<in> syscall_msrs"
    "MSR_IA32_EFER \<in> syscall_msrs"
    by (simp_all add: syscall_msrs_def)
  have f1: "fit ?w1" by (rule fit_write [OF assms six(1)])
  have f4: "fit ?w4" by (intro fit_write f1 six)
  have f5: "fit ?w5" by (rule fit_write [OF f4 six(5)])
  have "msrs ?w5 MSR_IA32_EFER = msrs w MSR_IA32_EFER" "seg_cs ?w4 = seg_cs w" by (simp_all add: write_msr_eq)
  then have "init_syscalls P E w = Done () ?w6"
    using assms f1 f4 f5 fit_write [OF f1 six(2)] fit_write [OF fit_write [OF f1 six(2)] six(3)] six
    by (simp add: init_syscalls_def write_msr read_msr read_msr_eq read_cs_def)
  moreover have "?w6 = syscalls_initialized E w" by (simp add: syscalls_initialized_def write_msr_eq)
  moreover have "fit ?w6" by (rule fit_write [OF f5 six(6)])
  ultimately show "init_syscalls P E w = Done () (syscalls_initialized E w)" and "fit (syscalls_initialized E w)" by simp_all
qed

lemma inject_mallwares_done:
  assumes "fit w"
  shows "inject_mallwares P K w = Done () (w\<lparr>msrs := (msrs w)(MSR_IA32_SYSENTER_EIP := sysenter_mallware_addr K,
      MSR_IA32_LSTAR := syscall_mallware_addr K)\<rparr>)"
    and "fit (w\<lparr>msrs := (msrs w)(MSR_IA32_SYSENTER_EIP := sysenter_mallware_addr K,
      MSR_IA32_LSTAR := syscall_mallware_addr K)\<rparr>)"
proof -
  have six: "MSR_IA32_SYSENTER_EIP \<in> syscall_msrs" "MSR_IA32_LSTAR \<in> syscall_msrs"
    by (simp_all add: syscall_msrs_def)
  from fit_write [OF assms six(1)] fit_write [OF fit_write [OF assms six(1)] six(2)]
  show "inject_mallwares P K w = Done () (w\<lparr>msrs := (msrs w)(MSR_IA32_SYSENTER_EIP := sysenter_mallware_addr K,
      MSR_IA32_LSTAR := syscall_mallware_addr K)\<rparr>)"
    and "fit (w\<lparr>msrs := (msrs w)(MSR_IA32_SYSENTER_EIP := sysenter_mallware_addr K,
      MSR_IA32_LSTAR := syscall_mallware_addr K)\<rparr>)"
    using assms six by (simp_all add: inject_mallwares_def write_msr) (simp_all add: write_msr_eq)
qed

text \<open>The whole of \<open>kmain\<close>, up to its last two instructions.\<close>

lemma kmain_runs:
  assumes "fit w" and "seg_cs w AND 0xFFFC \<noteq> 0" and "after_sysenter K \<noteq> print_a_crab_addr E"
    and "rsp - 8 \<in> cells" and "rsp - 16 \<in> cells" and "rsp - 24 \<in> cells"
    and "sysenter_rsp_addr E \<in> cells" and "apart (rsp - 8) 8 (sysenter_rsp_addr E) 8"
  obtains w' where "kmain P E K other rsp w = kmain_end P w'" and "fit w'"
    and "port_writes w' = port_writes w @ map (\<lambda>c. (COM1, of_char c))
      (kernel_line 18 ''Initializing OS'' @ shown @ shown)"
    and "msrs w' = msrs (syscalls_initialized E w)" and "min_level w' = min_level w"
proof -
  let ?l = "logged INFO_LEVEL kmain_c 18 ''Initializing OS'' w"
  let ?i = "syscalls_initialized E ?l"
  have f: "fit ?l" by (rule fit_logged [OF assms(1)])
  note i = init_syscalls_done [OF f] syscalls_initialized_msrs [of E ?l]
  obtain u where u: "syscall_stub P E K other rsp 42 ?i = Done () u" "says shown ?i u" "fit u"
    by (rule syscall_stub_prints [OF i(2,3,5) assms(4-6)])
  have s: "can_sysenter u" "msrs u MSR_IA32_SYSENTER_EIP = sysenter_handler_addr E"
    using u(2) i(4,6) assms(2) by (simp_all add: says_def can_sysenter_def)
  obtain w' where w': "sysenter_call P E K other rsp 42 u = kmain_end P w'" "says shown u w'" "fit w'"
    by (rule sysenter_call_prints [OF u(3) s assms(3,4,7,8)])
  have "kmain P E K other rsp w = kmain_end P w'"
    by (simp add: kmain_def log_log_plain kernel_log_ok i(1) u(1) w'(1))
  moreover have "says (kernel_line 18 ''Initializing OS'') w ?l"
    using says_logged [OF level [OF assms(1)], of "[]" w] by simp
  ultimately show ?thesis
    using u(2) w'(2,3) by (intro that [of w']) (simp_all add: says_def syscalls_initialized_def)
qed

end

section \<open>The kernel on a bare processor\<close>

text \<open>\<open>crab_registered\<close>: entry 42 of the table is the handler \<open>print_a_crab\<close>.\<close>

definition crab_registered :: "env \<Rightarrow> world \<Rightarrow> bool" where
  "crab_registered E w \<longleftrightarrow> print_a_crab_addr E \<noteq> 0 \<and> load64 (mem w) (ssdt_entry 42) = print_a_crab_addr E"

lemma guest_code_crab: "guest_code P E K other (print_a_crab_addr E) w = Done () (logged INFO_LEVEL kmain_c 52 crab w)"
  by (simp add: guest_code_def print_a_crab_logs)

definition bare_fit :: "env \<Rightarrow> world \<Rightarrow> bool" where
  "bare_fit E w \<longleftrightarrow> crab_registered E w \<and> min_level w \<le> INFO_LEVEL"

interpretation bare: booting_platform "bare hlt" E K other "bare_fit E" "{a. apart a 8 (ssdt_entry 42) 8}"
  "kernel_line 52 crab" for hlt E K other
proof unfold_locales
  fix w
  assume "bare_fit E w"
  then have "on_dispatch (bare hlt) (guest_code (bare hlt) E K other) 42 w = Done () (logged INFO_LEVEL kmain_c 52 crab w)"
    by (simp add: bare_def bare_fit_def crab_registered_def dispatch_handler_def guest_code_crab)
  moreover have "says ([] @ kernel_line 52 crab) w (logged INFO_LEVEL kmain_c 52 crab w)"
    using \<open>bare_fit E w\<close> by (intro says_logged) (simp_all add: bare_fit_def)
  ultimately show "\<exists>w'. on_dispatch (bare hlt) (guest_code (bare hlt) E K other) 42 w = Done () w' \<and>
      says (kernel_line 52 crab) w w' \<and> bare_fit E w' \<and>
      (\<forall>a \<in> {a. apart a 8 (ssdt_entry 42) 8}. load64 (mem w') a = load64 (mem w) a)"
    using \<open>bare_fit E w\<close> by (simp add: bare_fit_def crab_registered_def)
qed (auto simp: bare_fit_def crab_registered_def qword_cell.load_store_apart write_msr_eq bare_def)

text \<open>A stack that does not overlap entry 42 is the kernel's own.\<close>

lemma bare_cell:
  assumes "stack_apart rsp n (ssdt_entry 42)" and "8 \<le> d" and "d \<le> n"
  shows "rsp - of_nat d \<in> {a. apart a 8 (ssdt_entry 42) 8}"
  using stack_cell [OF assms] by simp

text \<open>An example: the addresses of a kernel, and a machine with \<open>print_a_crab\<close> in entry 42.\<close>

definition example_kernel :: kernel where
  "example_kernel = \<lparr>syscall_mallware_addr = 0x10A000, sysenter_mallware_addr = 0x10B000,
     syscall_ret = 0x109010, after_syscall = 0x101020, after_sysenter = 0x101030,
     after_handler = 0x10A020, mallware_frame = 0x18\<rparr>"

definition crab_world :: world where
  "crab_world = zero_world\<lparr>mem := store64 (ssdt_entry 42) 0x104000 (\<lambda>_. 0), seg_cs := 8,
     msrs := (\<lambda>_. 0)(MSR_IA32_EFER := 1)\<rparr>"

lemma crab_world_facts: "bare_fit example_env crab_world" "can_syscall crab_world"
  by (simp_all add: bare_fit_def crab_registered_def can_syscall_def example_env_def crab_world_def zero_world_def
      qword_cell.load_store)

text \<open>C9. The malware does what it says. On a processor without the hypervisor, with its entry point in
  IA32_LSTAR, system call 42 still prints a crab and returns to \<open>kmain\<close>, and the malware's message follows:
  the handler's jump through RCX comes back to the malware over the return address on the stack.\<close>

theorem mallware_infects_system_calls:
  assumes "can_syscall w" and "crab_registered E w" and "min_level w \<le> INFO_LEVEL"
    and "syscall_mallware_addr K \<noteq> syscall_handler_addr E"
    and "stack_apart rsp (unat (mallware_frame K) + 32) (ssdt_entry 42)"
  shows "\<exists>u w'. inject_mallwares (bare hlt) K w = Done () u \<and>
    syscall_stub (bare hlt) E K other rsp 42 u = Done () w' \<and>
    says (kernel_line 52 crab @ kernel_line 38 ''MALLWARE infected syscall :)'') u w'"
proof -
  let ?u = "w\<lparr>msrs := (msrs w)(MSR_IA32_SYSENTER_EIP := sysenter_mallware_addr K,
      MSR_IA32_LSTAR := syscall_mallware_addr K)\<rparr>"
  let ?f = "unat (mallware_frame K)"
  have fit: "bare_fit E w" using assms(2,3) by (simp add: bare_fit_def)
  note i = bare.inject_mallwares_done [OF fit, where K = K]
  have can: "can_syscall ?u" "msrs ?u MSR_IA32_LSTAR = syscall_mallware_addr K"
    using assms(1) by (simp_all add: can_syscall_def)
  have frame: "?f + 40 \<le> 2 ^ 64" using stack_apart_less [OF assms(5)] by simp
  have cells: "\<forall>d \<in> {16, 24, 32}. rsp - mallware_frame K - d \<in> {a. apart a 8 (ssdt_entry 42) 8}"
    using bare_cell [OF assms(5), of "?f + 16"] bare_cell [OF assms(5), of "?f + 24"]
      bare_cell [OF assms(5), of "?f + 32"] by (simp add: diff_diff_eq)
  have "rsp - 8 \<in> {a. apart a 8 (ssdt_entry 42) 8}" using bare_cell [OF assms(5), of 8] by simp
  from bare.syscall_stub_infected [OF i(2) can assms(4) this frame cells]
  obtain w' where "syscall_stub (bare hlt) E K other rsp 42 ?u = Done () w'"
    "says (kernel_line 52 crab @ kernel_line 38 ''MALLWARE infected syscall :)'') ?u w'" by blast
  with i(1) show ?thesis by blast
qed

lemma mallware_infects_system_calls_witness:
  "\<exists>u w'. inject_mallwares (bare (Done ())) example_kernel crab_world = Done () u \<and>
    syscall_stub (bare (Done ())) example_env example_kernel (\<lambda>_. Done ()) 0x180A000 42 u = Done () w' \<and>
    says (kernel_line 52 crab @ kernel_line 38 ''MALLWARE infected syscall :)'') u w'"
  by (rule mallware_infects_system_calls [OF crab_world_facts(2)])
    (use crab_world_facts(1) in \<open>simp_all add: bare_fit_def example_kernel_def example_env_def stack_apart_def
      apart_def ssdt_entry_def\<close>)

end
