(* ===== verification/Boot.thy ===== *)
theory Boot
  imports Ept
begin

text \<open>
  The boot code that runs before any C: \<open>src/boot/entrypoint.asm\<close>, \<open>macros.asm\<close>, \<open>gdt.asm\<close> and
  \<open>paging.asm\<close>. It builds page tables of 2 MiB pages for the first 4 GiB at \<open>IA32e_PAGING_BASE\<close>, turns on
  physical-address extension, long mode and paging, and loads the 64-bit segments.

  \<open>linear_walk\<close> is the specification of the page tables, the walk that the processor makes from CR3
  for a linear address in long mode. The main fact is that the tables map the first 4 GiB to
  themselves. The words that the boot code pushes on the boot loader's stack, whose place the code
  does not set, are not in the modelled memory.
\<close>

section \<open>Code\<close>

definition LONG_MODE :: qword_t where "LONG_MODE = push_bit 8 1"
definition PAGING :: qword_t where "PAGING = push_bit 31 1"
definition PAE :: qword_t where "PAE = push_bit 5 1"
definition PROTECTION_ENABLE :: qword_t where "PROTECTION_ENABLE = push_bit 0 1"
abbreviation (input) PAGE_LENGTH :: dword_t where "PAGE_LENGTH \<equiv> 0x1000"
abbreviation (input) BOOT_MEMORY_SIZE :: dword_t where "BOOT_MEMORY_SIZE \<equiv> 4"
abbreviation (input) LARGE_PAGE_SIZE :: dword_t where "LARGE_PAGE_SIZE \<equiv> push_bit 21 1"
abbreviation (input) IA32e_PAGING_BASE :: dword_t where "IA32e_PAGING_BASE \<equiv> 0x110000"
abbreviation (input) PAGE_PRESENT :: dword_t where "PAGE_PRESENT \<equiv> push_bit 0 1"
abbreviation (input) PAGE_WRITE :: dword_t where "PAGE_WRITE \<equiv> push_bit 1 1"
abbreviation (input) ENTRY_PAGE_SIZE :: dword_t where "ENTRY_PAGE_SIZE \<equiv> push_bit 7 1"

definition store_qword_little :: "dword_t \<Rightarrow> dword_t \<Rightarrow> dword_t \<Rightarrow> memory \<Rightarrow> memory" where
  "store_qword_little address higher lower m =
     store32 (ucast (address + 4)) higher (store32 (ucast address) lower m)"

text \<open>\<open>loop\<close> decrements ECX and goes on unless it is zero, so the body runs at least once.\<close>

definition create_tables :: "dword_t \<Rightarrow> dword_t \<Rightarrow> dword_t \<Rightarrow> dword_t \<Rightarrow> dword_t \<Rightarrow> memory \<Rightarrow> memory" where
  "create_tables edi ebx edx ecx eax m =
     (let (edi, ebx, m) = for_n (Suc (unat (ecx - 1)))
            (\<lambda>_ (edi, ebx, m). (edi + eax, ebx + 8, store_qword_little ebx 0 (edi OR edx) m)) (edi, ebx, m)
      in m)"

definition setup_pml4_map :: "memory \<Rightarrow> memory" where
  "setup_pml4_map m =
     (let m = create_tables (IA32e_PAGING_BASE + PAGE_LENGTH) IA32e_PAGING_BASE (PAGE_WRITE OR PAGE_PRESENT)
            1 PAGE_LENGTH m;
          m = create_tables (IA32e_PAGING_BASE + 2 * PAGE_LENGTH) (IA32e_PAGING_BASE + PAGE_LENGTH)
            (PAGE_WRITE OR PAGE_PRESENT) BOOT_MEMORY_SIZE PAGE_LENGTH m
      in create_tables 0 (IA32e_PAGING_BASE + 2 * PAGE_LENGTH) (ENTRY_PAGE_SIZE OR PAGE_WRITE OR PAGE_PRESENT)
           (push_bit 9 BOOT_MEMORY_SIZE) LARGE_PAGE_SIZE m)"

text \<open>The descriptors of \<open>gdt.asm\<close>, byte by byte; a selector is the offset of its descriptor.\<close>

definition gdt_bytes :: "byte_t list" where
  "gdt_bytes =
     [0, 0, 0, 0, 0, 0, 0, 0] @
     [0xFF, 0xFF, 0, 0, 0, 0x9A, 0xAF, 0] @
     [0xFF, 0xFF, 0, 0, 0, 0x92, 0x8F, 0] @
     [0xFF, 0xFF, 0, 0, 0, 0x9A, 0xCF, 0] @
     [0xFF, 0xFF, 0, 0, 0, 0x9A, 0x00, 0] @
     [0xFF, 0xFF, 0, 0, 0, 0x92, 0xCF, 0] @
     [0xFF, 0xFF, 0, 0, 0, 0x92, 0x00, 0]"

abbreviation (input) IA32E_CODE_SEGMENT :: word_t where "IA32E_CODE_SEGMENT \<equiv> 0x08"
abbreviation (input) IA32E_DATA_SEGMENT :: word_t where "IA32E_DATA_SEGMENT \<equiv> 0x10"
abbreviation (input) IA32_CODE_SEGMENT :: word_t where "IA32_CODE_SEGMENT \<equiv> 0x18"
abbreviation (input) REAL_MODE_CODE_SEGMENT :: word_t where "REAL_MODE_CODE_SEGMENT \<equiv> 0x20"
abbreviation (input) IA32_DATA_SEGMENT :: word_t where "IA32_DATA_SEGMENT \<equiv> 0x28"
abbreviation (input) REAL_MODE_DATA_SEGMENT :: word_t where "REAL_MODE_DATA_SEGMENT \<equiv> 0x30"

definition GDT_SIZE :: word_t where
  "GDT_SIZE = of_nat (length gdt_bytes) - 1"

text \<open>\<open>lgdt [IA32_gdtr]\<close> at the address \<open>gdt_start\<close>, whose 32 bits the first form loads.\<close>

definition lgdt :: "qword_t \<Rightarrow> world \<Rightarrow> world" where
  "lgdt base w = w\<lparr>gdtr := \<lparr>dt_limit = GDT_SIZE, dt_base = base\<rparr>\<rparr>"

definition setup_data_segments :: "word_t \<Rightarrow> world \<Rightarrow> world" where
  "setup_data_segments selector w =
     w\<lparr>seg_es := selector, seg_ss := selector, seg_fs := selector, seg_ds := selector, seg_gs := selector\<rparr>"

text \<open>
  The steps between the modes. Turning on paging with LME set activates long mode: the processor
  sets LMA, bit 10 of the EFER; turning it off clears it. The upper half of a register moved in 32-bit
  code is zero.
\<close>

definition LONG_MODE_ACTIVE :: qword_t where "LONG_MODE_ACTIVE = push_bit 10 1"

lemma mode_bits [simp]:
  "bit LONG_MODE n \<longleftrightarrow> n = 8" "bit PAGING n \<longleftrightarrow> n = 31" "bit PAE n \<longleftrightarrow> n = 5"
  "bit PROTECTION_ENABLE n \<longleftrightarrow> n = 0" "bit LONG_MODE_ACTIVE n \<longleftrightarrow> n = 10"
  unfolding LONG_MODE_def PAGING_def PAE_def PROTECTION_ENABLE_def LONG_MODE_ACTIVE_def bit_push_bit_iff bit_1_iff
  by auto

definition mov_cr0 :: "qword_t \<Rightarrow> world \<Rightarrow> world" where
  "mov_cr0 v w =
     (let efer = msrs w MSR_IA32_EFER;
          efer = (if bit v 31 \<and> bit efer 8 then efer OR LONG_MODE_ACTIVE else efer AND NOT LONG_MODE_ACTIVE)
      in w\<lparr>cr0 := take_bit 32 v, msrs := (msrs w)(MSR_IA32_EFER := efer)\<rparr>)"

text \<open>\<open>rdmsr\<close>, a change of EAX, \<open>wrmsr\<close>: EDX keeps the upper half.\<close>

definition wrmsr_efer :: "qword_t \<Rightarrow> world \<Rightarrow> world" where
  "wrmsr_efer eax w = wrmsr MSR_IA32_EFER (ucast (drop_bit 32 (msrs w MSR_IA32_EFER))) (ucast eax) w"

definition enable_long_mode :: "world \<Rightarrow> world" where
  "enable_long_mode = steps [
     \<lambda>w. mov_cr0 (cr0 w AND NOT PAGING) w,
     \<lambda>w. w\<lparr>cr4 := take_bit 32 (cr4 w OR PAE)\<rparr>,
     \<lambda>w. w\<lparr>cr3 := ucast IA32e_PAGING_BASE\<rparr>,
     \<lambda>w. wrmsr_efer (msrs w MSR_IA32_EFER OR LONG_MODE) w,
     \<lambda>w. mov_cr0 (cr0 w OR PAGING) w,
     \<lambda>w. w\<lparr>seg_cs := IA32E_CODE_SEGMENT\<rparr>,
     setup_data_segments IA32E_DATA_SEGMENT]"

definition protected_to_long :: "qword_t \<Rightarrow> world \<Rightarrow> world" where
  "protected_to_long gdt_start = steps [
     lgdt (take_bit 32 gdt_start),
     \<lambda>w. w\<lparr>mem := setup_pml4_map (mem w)\<rparr>,
     enable_long_mode,
     lgdt gdt_start]"

section \<open>The walk of the processor\<close>

text \<open>
  The four-level walk from CR3 with 48 bits of physical address, for the pages of 1 GiB, 2 MiB and
  4 KiB: the physical address and whether it may be written, or a page fault.
\<close>

primrec linear_levels :: "memory \<Rightarrow> qword_t \<Rightarrow> nat list \<Rightarrow> bool \<Rightarrow> qword_t \<Rightarrow> (qword_t \<times> bool) option" where
  "linear_levels m a [] writable table = None"
| "linear_levels m a (p # ps) writable table =
     (let e = table_entry m table p a
      in if \<not> bit e 0 \<or> list_ex (bit e) [48, 49, 50, 51] then None
         else if p = 12 \<or> bit e 7 then
           if p = 39 \<or> (p \<noteq> 12 \<and> get_field 13 (p - 13) e \<noteq> 0) then None
           else Some (push_bit p (get_field p (48 - p) e) + get_field 0 p a, writable \<and> bit e 1)
         else linear_levels m a ps (writable \<and> bit e 1) (entry_address e))"

definition linear_walk :: "memory \<Rightarrow> qword_t \<Rightarrow> qword_t \<Rightarrow> (qword_t \<times> bool) option" where
  "linear_walk m base a =
     (if get_field 47 17 a = 0 \<or> get_field 47 17 a = mask 17
      then linear_levels m a [39, 30, 21, 12] True (entry_address base) else None)"

section \<open>The loops as stores of qwords\<close>

lemma store_bytes_append:
  "store_bytes a (xs @ ys) m = store_bytes (a + of_nat (length xs)) ys (store_bytes a xs m)"
  by (induction xs arbitrary: a m) (simp_all add: algebra_simps)

lemma store_halves: "store32 (a + 4) 0 (store32 a v m) = store64 a (ucast v) m"
proof -
  have "word_bytes 8 (ucast v :: qword_t) = word_bytes 4 v @ word_bytes 4 (0 :: dword_t)"
  proof (rule nth_equalityI)
    fix i assume "i < length (word_bytes 8 (ucast v :: qword_t))"
    then have "i < 8" by simp
    moreover have "ucast (drop_bit (8 * i) (ucast v :: qword_t)) = (ucast (drop_bit (8 * i) v) :: byte_t)"
      by (rule bit_word_eqI) (auto simp: bit_simps dest: bit_imp_le_length)
    moreover have "drop_bit (8 * i) v = 0" if "4 \<le> i"
      using that by (intro bit_word_eqI) (auto simp: bit_simps dest: bit_imp_le_length)
    ultimately show "word_bytes 8 (ucast v :: qword_t) ! i = (word_bytes 4 v @ word_bytes 4 (0 :: dword_t)) ! i"
      by (auto simp: word_bytes_def nth_append)
  qed simp
  then show ?thesis
    unfolding store64_def store32_def by (simp add: store_bytes_append)
qed

lemma ucast_plus_small:
  assumes "unat x + n < 2 ^ 32"
  shows "ucast (x + of_nat n :: dword_t) = (ucast x + of_nat n :: qword_t)"
proof -
  have "unat (ucast (x + of_nat n :: dword_t) :: qword_t) = unat x + n"
    unfolding unat_dword using assms by (simp add: unat_word_ariths unat_of_nat)
  moreover have "unat (ucast x + of_nat n :: qword_t) = unat x + n"
    using assms by (simp add: unat_word_ariths unat_of_nat unat_dword)
  ultimately show ?thesis by (simp only: word_unat_eq_iff)
qed

text \<open>The entries that a call of \<open>_create_tables\<close> writes.\<close>

definition table_value :: "dword_t \<Rightarrow> dword_t \<Rightarrow> dword_t \<Rightarrow> nat \<Rightarrow> qword_t" where
  "table_value edi edx eax i = ucast (edi + of_nat i * eax OR edx)"

lemma create_tables_eq:
  assumes "unat ebx + 8 * Suc (unat (ecx - 1)) \<le> 2 ^ 32"
  shows "create_tables edi ebx edx ecx eax m =
    for_n (Suc (unat (ecx - 1))) (\<lambda>i. store64 (entry_at (ucast ebx) i) (table_value edi edx eax i)) m"
proof -
  let ?n = "Suc (unat (ecx - 1))"
  let ?g = "\<lambda>i. store64 (entry_at (ucast ebx) i) (table_value edi edx eax i)"
  let ?body = "\<lambda>(i :: nat) (edi, ebx, m). (edi + eax, ebx + 8, store_qword_little ebx 0 (edi OR edx) m)"
  have "for_n ?n ?body (edi, ebx, m) = (edi + of_nat ?n * eax, ebx + of_nat (8 * ?n), for_n ?n ?g m)"
  proof (rule for_n_inv [where P = "\<lambda>k t. t = (edi + of_nat k * eax, ebx + of_nat (8 * k), for_n k ?g m)"])
    fix i t
    assume i: "i < ?n" and t: "t = (edi + of_nat i * eax, ebx + of_nat (8 * i), for_n i ?g m)"
    have "8 * i + 8 \<le> 8 * ?n" using i by (metis Suc_leI mult_Suc_right mult_le_mono2 add.commute)
    then have b: "unat ebx + (8 * i + 4) < 2 ^ 32" "unat ebx + 8 * i < 2 ^ 32" using assms by linarith+
    have e: "ebx + of_nat (8 * i) + 4 = ebx + of_nat (8 * i + 4)" by simp
    have "store_qword_little (ebx + of_nat (8 * i)) 0 (edi + of_nat i * eax OR edx) u = ?g i u" for u
      unfolding store_qword_little_def e ucast_plus_small [OF b(1)] ucast_plus_small [OF b(2)]
      using store_halves [of "entry_at (ucast ebx) i"]
      by (simp add: entry_at_def table_value_def add.assoc)
    with t show "?body i t = (edi + of_nat (Suc i) * eax, ebx + of_nat (8 * Suc i), for_n (Suc i) ?g m)"
      by (simp add: algebra_simps)
  qed simp
  then show ?thesis by (simp add: create_tables_def)
qed

section \<open>The identity map\<close>

definition boot_tables :: "memory \<Rightarrow> bool" where
  "boot_tables m \<longleftrightarrow>
     load64 m (entry_at 0x110000 0) = 0x111003 \<and>
     (\<forall>j < 4. load64 m (entry_at 0x111000 j) = table_value 0x112000 3 0x1000 j) \<and>
     (\<forall>j < 2048. load64 m (entry_at 0x112000 j) = table_value 0 0x83 0x200000 j)"

lemma setup_pml4_map_eq:
  "setup_pml4_map m =
     for_n 2048 (\<lambda>i. store64 (entry_at 0x112000 i) (table_value 0 0x83 0x200000 i))
       (for_n 4 (\<lambda>i. store64 (entry_at 0x111000 i) (table_value 0x112000 3 0x1000 i))
         (store64 (entry_at 0x110000 0) 0x111003 m))"
proof -
  have v: "table_value 0x111000 3 0x1000 0 = 0x111003" by (simp add: table_value_def)
  have f: "unat (ebx :: dword_t) + 8 * Suc (unat (ecx - 1)) \<le> 2 ^ 32"
    if "ebx \<in> {0x110000, 0x111000, 0x112000}" "ecx \<in> {1, 4, 2048 :: dword_t}" for ebx ecx
    using that by auto
  show ?thesis
    unfolding setup_pml4_map_def Let_def
    by (simp add: create_tables_eq [OF f] del: for_n.simps) (simp add: v)
qed

lemma boot_tables_setup: "boot_tables (setup_pml4_map m)"
proof -
  let ?m1 = "store64 (entry_at 0x110000 0) 0x111003 m"
  let ?m2 = "for_n 4 (\<lambda>i. store64 (entry_at 0x111000 i) (table_value 0x112000 3 0x1000 i)) ?m1"
  let ?m3 = "for_n 2048 (\<lambda>i. store64 (entry_at 0x112000 i) (table_value 0 0x83 0x200000 i)) ?m2"
  have a: "apart 0x112000 (8 * 2048) (entry_at 0x110000 0) 8" "apart 0x111000 (8 * 4) (entry_at 0x110000 0) 8"
    by (simp_all add: apart_def entry_at_def)
  have b: "apart 0x112000 (8 * 2048) (entry_at 0x111000 j) 8" if "j < 4" for j
    using apart_offsets [of "0x2000" "8 * 2048" "0x1000 + 8 * j" 8 "0x110000"] that by (simp add: entry_at_def)
  have "load64 ?m3 (entry_at 0x110000 0) = 0x111003"
    unfolding entry_at_def
    by (simp only: qword_cell.update_loop_apart [OF a(1) [unfolded entry_at_def]]
        qword_cell.update_loop_apart [OF a(2) [unfolded entry_at_def]] qword_cell.load_store)
  moreover have "load64 ?m3 (entry_at 0x111000 j) = table_value 0x112000 3 0x1000 j" if "j < 4" for j
    using qword_cell.update_loop_apart [OF b [OF that]] 
      qword_cell.update_loop_cell [of 4 j "0x111000" "\<lambda>i _. table_value 0x112000 3 0x1000 i" ?m1] that
    by (simp add: entry_at_def del: for_n.simps of_nat_mult)
  moreover have "load64 ?m3 (entry_at 0x112000 j) = table_value 0 0x83 0x200000 j" if "j < 2048" for j
    using qword_cell.update_loop_cell [of 2048 j "0x112000" "\<lambda>i _. table_value 0 0x83 0x200000 i" ?m2] that
    by (simp add: entry_at_def del: for_n.simps of_nat_mult)
  ultimately show ?thesis unfolding setup_pml4_map_eq boot_tables_def by blast
qed

text \<open>The entries of the page directories map 2 MiB each.\<close>

lemma bits_83: "bit (0x83 :: dword_t) n \<longleftrightarrow> n \<in> {0, 1, 7}"
proof -
  have "(0x83 :: dword_t) = 2 ^ 0 OR 2 ^ 1 OR 2 ^ 7" by simp
  then show ?thesis by (simp only: bit_or_iff bit_exp_iff) auto
qed

lemma bit_below:
  assumes "j < 2 ^ k" and "bit (j :: nat) n"
  shows "n < k"
proof (rule ccontr)
  assume "\<not> n < k"
  then have "(2 :: nat) ^ k \<le> 2 ^ n" by (intro power_increasing) simp_all
  with assms(1) have "j < 2 ^ n" by (rule less_le_trans)
  with assms(2) show False by (simp add: bit_iff_odd)
qed

lemma bit_large_entry:
  assumes "j < 2048"
  shows "bit (table_value 0 0x83 0x200000 j) n \<longleftrightarrow> n \<in> {0, 1, 7} \<or> 21 \<le> n \<and> bit j (n - 21)"
proof -
  have v: "table_value 0 0x83 0x200000 j = ucast (push_bit 21 (of_nat j) OR 0x83 :: dword_t)"
    by (simp add: table_value_def push_bit_eq_mult)
  have "bit j (n - 21) \<Longrightarrow> n - 21 < 11" using bit_below [of j 11 "n - 21"] assms by simp
  then show ?thesis
    unfolding v bit_unsigned_iff bit_or_iff bits_83 by (auto simp: bit_simps)
qed

lemma large_entry:
  assumes "j < 2048" and "e = table_value 0 0x83 0x200000 j"
  shows "bit e 0" "bit e 1" "bit e 7" "\<not> list_ex (bit e) [48, 49, 50, 51]" "get_field 13 8 e = 0"
    and "push_bit 21 (get_field 21 27 e) = push_bit 21 (of_nat j)"
proof -
  have small: "bit j n \<Longrightarrow> n < 11" for n using bit_below [of j 11 n] assms(1) by simp
  have "\<not> bit j n" if "11 \<le> n" for n using small [of n] that by auto
  then have none: "\<not> bit j 27" "\<not> bit j 28" "\<not> bit j 29" "\<not> bit j 30" by simp_all
  note b = bit_large_entry [OF assms(1)]
  show "bit e 0" "bit e 1" "bit e 7" "\<not> list_ex (bit e) [48, 49, 50, 51]"
    unfolding assms(2) by (simp_all add: b none)
  show "get_field 13 8 e = 0"
    unfolding assms(2) by (rule bit_word_eqI) (auto simp: bit_get_field b)
  show "push_bit 21 (get_field 21 27 e) = push_bit 21 (of_nat j)"
    unfolding assms(2) by (rule bit_word_eqI) (auto simp: bit_simps bit_get_field b dest: small)
qed

text \<open>The entry of a directory that points to the next table.\<close>

lemma pointer_entry:
  assumes "j < 4" and "e = table_value 0x112000 3 0x1000 j"
  shows "bit e 0" "bit e 1" "\<not> bit e 7" "\<not> list_ex (bit e) [48, 49, 50, 51]"
    and "entry_address e = entry_at 0x112000 (j * 512)"
proof -
  consider "j = 0" | "j = 1" | "j = 2" | "j = 3" using assms(1) by linarith
  then show "bit e 0" "bit e 1" "\<not> bit e 7" "\<not> list_ex (bit e) [48, 49, 50, 51]"
    and "entry_address e = entry_at 0x112000 (j * 512)"
    unfolding assms(2)
    by (cases; simp add: table_value_def entry_address_def get_field_def entry_at_def bit_iff_odd)+
qed

lemma linear_levels_down:
  assumes "table_entry m table p a = e" and "bit e 0" and "bit e 1" and "\<not> bit e 7"
    and "\<not> list_ex (bit e) [48, 49, 50, 51]" and "p \<noteq> 12"
  shows "linear_levels m a (p # ps) writable table = linear_levels m a ps writable (entry_address e)"
  using assms by simp

lemma boot_tables_walk:
  assumes "boot_tables m" and "unat a < 2 ^ 32"
  shows "linear_walk m 0x110000 a = Some (a, True)"
proof -
  note i = walk_indices [OF assms(2)]
  let ?j = "unat a div 2 ^ 30"
  let ?n = "unat a div 2 ^ 21"
  let ?e2 = "table_value 0 0x83 0x200000 ?n"
  have n: "?n < 2048" using i(5) by simp
  have "get_field 47 17 a = 0"
    using assms(2) by (simp add: word_unat_eq_iff unat_get_field)
  moreover have "entry_address 0x110000 = 0x110000"
    by (simp add: entry_address_def get_field_def)
  ultimately have "linear_walk m 0x110000 a = linear_levels m a [39, 30, 21, 12] True 0x110000"
    by (simp add: linear_walk_def)
  also have "\<dots> = linear_levels m a [30, 21, 12] True (entry_address 0x111003)"
    using assms(1) i(1)
    by (intro linear_levels_down) (simp_all add: table_entry_eq boot_tables_def bit_iff_odd)
  also have "entry_address 0x111003 = 0x111000" by (simp add: entry_address_def get_field_def)
  also have "linear_levels m a [30, 21, 12] True 0x111000 =
      linear_levels m a [21, 12] True (entry_address (table_value 0x112000 3 0x1000 ?j))"
    using assms(1) i(2,3) pointer_entry [OF i(3) refl]
    by (intro linear_levels_down) (simp_all add: table_entry_eq boot_tables_def)
  also have "entry_address (table_value 0x112000 3 0x1000 ?j) = entry_at 0x112000 (?j * 512)"
    by (rule pointer_entry(5) [OF i(3) refl])
  also have "table_entry m (entry_at 0x112000 (?j * 512)) 21 a = ?e2"
    using assms(1) n unfolding table_entry_eq entry_at_entry_at i(4) boot_tables_def by blast
  then have "linear_levels m a [21, 12] True (entry_at 0x112000 (?j * 512)) =
      Some (push_bit 21 (get_field 21 27 ?e2) + get_field 0 21 a, True)"
    using large_entry [OF n refl] by simp
  also have "push_bit 21 (get_field 21 27 ?e2) + get_field 0 21 a = a"
  proof -
    have "(of_nat ?n :: qword_t) = drop_bit 21 a"
      using n by (simp add: word_unat_eq_iff drop_bit_eq_div unat_div unat_of_nat)
    then show ?thesis
      using large_entry(6) [OF n refl] by (simp add: get_field_def bits_ident)
  qed
  finally show ?thesis .
qed

text \<open>Only the bytes of the tables change, and only they matter.\<close>

definition boot_table_bytes :: "qword_t set" where
  "boot_table_bytes = {x. unat (x - 0x110000) < 0x6000}"

lemma setup_pml4_map_outside:
  assumes "x \<notin> boot_table_bytes"
  shows "setup_pml4_map m x = m x"
proof -
  have o: "0x6000 \<le> unat (x - 0x110000)" using assms by (simp add: boot_table_bytes_def)
  have "8 * 2048 \<le> unat (x - (0x110000 + of_nat 0x2000))" "8 * 4 \<le> unat (x - (0x110000 + of_nat 0x1000))"
      "8 \<le> unat (x - (0x110000 + of_nat 0))"
    by (rule outside_part [OF _ o]; simp)+
  then show ?thesis
    unfolding setup_pml4_map_eq entry_at_def
    using qword_cell.update_loop_byte [of 2048 x "0x112000"] qword_cell.update_loop_byte [of 4 x "0x111000"]
    by (simp add: qword_cell.store_byte del: for_n.simps of_nat_mult)
qed

lemma boot_tables_cong:
  assumes "\<And>x. x \<in> boot_table_bytes \<Longrightarrow> m' x = m x" and "boot_tables m"
  shows "boot_tables m'"
proof -
  have "load64 m' (0x110000 + of_nat k) = load64 m (0x110000 + of_nat k)" if "k + 8 \<le> 0x6000" for k
  proof (rule qword_cell.load_cong)
    fix i assume "i < (8 :: nat)"
    with that have "unat (0x110000 + of_nat k + of_nat i - 0x110000 :: qword_t) < 0x6000"
      by (simp add: unat_of_nat_small flip: of_nat_add)
    then show "m' (0x110000 + of_nat k + of_nat i) = m (0x110000 + of_nat k + of_nat i)"
      by (intro assms(1)) (simp add: boot_table_bytes_def)
  qed
  from this [of 0] this [of "0x1000 + 8 * j" for j] this [of "0x2000 + 8 * j" for j]
  have "load64 m' (entry_at 0x110000 0) = load64 m (entry_at 0x110000 0)"
    "j < 4 \<Longrightarrow> load64 m' (entry_at 0x111000 j) = load64 m (entry_at 0x111000 j)"
    "j < 2048 \<Longrightarrow> load64 m' (entry_at 0x112000 j) = load64 m (entry_at 0x112000 j)" for j
    by (simp_all add: entry_at_def add.assoc)
  with assms(2) show ?thesis by (simp add: boot_tables_def)
qed

section \<open>Properties\<close>

text \<open>A selector of the table of descriptors names a present 64-bit code segment.\<close>

definition long_mode_code :: "word_t \<Rightarrow> bool" where
  "long_mode_code selector \<longleftrightarrow>
     (let d = take 8 (drop (unat selector) gdt_bytes)
      in length d = 8 \<and> list_all (bit (d ! 5)) [7, 4, 3] \<and> bit (d ! 6) 5 \<and> \<not> bit (d ! 6) 6)"

lemma wrmsr_efer_eq:
  "wrmsr_efer (msrs w MSR_IA32_EFER OR LONG_MODE) w =
     w\<lparr>msrs := (msrs w)(MSR_IA32_EFER := msrs w MSR_IA32_EFER OR LONG_MODE)\<rparr>"
  "wrmsr_efer (msrs w MSR_IA32_EFER AND NOT LONG_MODE) w =
     w\<lparr>msrs := (msrs w)(MSR_IA32_EFER := msrs w MSR_IA32_EFER AND NOT LONG_MODE)\<rparr>"
proof -
  have "drop_bit 32 (x OR LONG_MODE) = drop_bit 32 x" "drop_bit 32 (x AND NOT LONG_MODE) = drop_bit 32 x" for x
    by (rule bit_word_eqI; auto simp: bit_or_iff bit_and_iff bit_not_iff bit_drop_bit_eq dest: bit_imp_le_length)+
  then show "wrmsr_efer (msrs w MSR_IA32_EFER OR LONG_MODE) w =
      w\<lparr>msrs := (msrs w)(MSR_IA32_EFER := msrs w MSR_IA32_EFER OR LONG_MODE)\<rparr>"
    "wrmsr_efer (msrs w MSR_IA32_EFER AND NOT LONG_MODE) w =
      w\<lparr>msrs := (msrs w)(MSR_IA32_EFER := msrs w MSR_IA32_EFER AND NOT LONG_MODE)\<rparr>"
    unfolding wrmsr_efer_def wrmsr_def by (metis halves_of_qword)+
qed

lemma protected_to_long_parts:
  "cr0 (protected_to_long g w) = take_bit 32 (take_bit 32 (cr0 w AND NOT PAGING) OR PAGING)"
  "cr4 (protected_to_long g w) = take_bit 32 (cr4 w OR PAE)" "cr3 (protected_to_long g w) = 0x110000"
  "seg_cs (protected_to_long g w) = 8" "seg_ds (protected_to_long g w) = 0x10"
  "gdtr (protected_to_long g w) = \<lparr>dt_limit = GDT_SIZE, dt_base = g\<rparr>" "idtr (protected_to_long g w) = idtr w"
  "mem (protected_to_long g w) = setup_pml4_map (mem w)"
  "m \<noteq> MSR_IA32_EFER \<Longrightarrow> msrs (protected_to_long g w) m = msrs w m"
  by (simp_all add: protected_to_long_def enable_long_mode_def lgdt_def mov_cr0_def wrmsr_efer_eq
      setup_data_segments_def Let_def)

lemma protected_to_long_efer:
  "bit (msrs (protected_to_long g w) MSR_IA32_EFER) 8 \<and> bit (msrs (protected_to_long g w) MSR_IA32_EFER) 10"
  by (simp add: protected_to_long_def enable_long_mode_def lgdt_def mov_cr0_def wrmsr_efer_eq
      setup_data_segments_def Let_def bit_simps)

text \<open>C30. The boot code reaches 64-bit mode with memory mapped to itself. Paging, physical-address
  extension and long mode are on, the code segment is a 64-bit one, every linear address below 4 GiB
  translates to itself and may be written, and no memory but that of the page tables has changed.\<close>

theorem boot_reaches_long_mode:
  assumes "unat a < 2 ^ 32" and "0x6000 \<le> unat (x - 0x110000)"
  shows "bit (cr0 (protected_to_long g w)) 31 \<and> bit (cr4 (protected_to_long g w)) 5 \<and>
    bit (msrs (protected_to_long g w) MSR_IA32_EFER) 8 \<and> bit (msrs (protected_to_long g w) MSR_IA32_EFER) 10 \<and>
    long_mode_code (seg_cs (protected_to_long g w)) \<and>
    linear_walk (mem (protected_to_long g w)) (cr3 (protected_to_long g w)) a = Some (a, True) \<and>
    mem (protected_to_long g w) x = mem w x"
proof -
  have "long_mode_code 8"
    by (simp add: long_mode_code_def gdt_bytes_def bit_iff_odd)
  moreover have "bit (cr0 (protected_to_long g w)) 31" "bit (cr4 (protected_to_long g w)) 5"
    by (simp_all add: protected_to_long_parts bit_take_bit_iff bit_or_iff)
  moreover have "x \<notin> boot_table_bytes" using assms(2) by (simp add: boot_table_bytes_def)
  ultimately show ?thesis
    using protected_to_long_efer boot_tables_walk [OF boot_tables_setup assms(1)] setup_pml4_map_outside
    by (simp add: protected_to_long_parts)
qed

lemma boot_reaches_long_mode_witness:
  "linear_walk (mem (protected_to_long 0x10A000 zero_world)) 0x110000 0xFEE00123 = Some (0xFEE00123, True)"
  using boot_reaches_long_mode [of "0xFEE00123" "0x1000000" "0x10A000" zero_world]
  by (simp add: protected_to_long_parts)

end
