(* ===== verification/Start.thy ===== *)
theory Start
  imports Host Boot
begin

text \<open>
  From the boot loader to the guest: \<open>_start\<close> of \<open>src/boot/entrypoint.asm\<close>, the composition of the boot
  code and \<open>initialize_host\<close>.

  The boot code's page tables stay in memory and in the guest's CR3, so the guest's linear addresses
  are its guest-physical ones, and the extended page tables map these to themselves.
\<close>

section \<open>Code\<close>

text \<open>\<open>_start\<close>: \<open>initialize_host\<close> does not return; if it did, the processor would halt.\<close>

definition start :: "env \<Rightarrow> qword_t \<Rightarrow> world \<Rightarrow> unit res" where
  "start E gdt_start w = bindR (initialize_host E (protected_to_long gdt_start w)) (\<lambda>_ w. Stop Halted w)"

section \<open>The boot code's page tables under the start of the hypervisor\<close>

text \<open>The start writes inside the structure of the processor's data only.\<close>

lemma host_memory_outside:
  assumes "0x814000 \<le> unat (x - CPU_DATA_ADDRESS)"
  shows "host_memory E r m x = m x"
proof -
  have "sizeof_epts \<le> unat (x - host_epts)"
    unfolding part_offsets by (rule outside_part [OF _ assms]) (simp add: sizeof_epts_def)
  moreover have "4 \<le> unat (x - vmxon_region CPU_DATA_ADDRESS)" "4 \<le> unat (x - vmcs_region CPU_DATA_ADDRESS)"
      "8 \<le> unat (x - cpu_data_pointer host_state)" "8 \<le> unat (x - (CPU_DATA_ADDRESS + of_nat 0x812150))"
    unfolding part_offsets by (rule outside_part [OF _ assms]; simp)+
  ultimately show ?thesis
    by (simp add: host_memory_outside_structure regions_memory_def dword_cell.store_byte qword_cell.store_byte
        ssdt_entry_def)
qed

lemma boot_table_bytes_outside: "x \<in> boot_table_bytes \<Longrightarrow> 0x814000 \<le> unat (x - CPU_DATA_ADDRESS)"
proof -
  assume "x \<in> boot_table_bytes"
  then have b: "unat (x - 0x110000) < 0x6000" by (simp add: boot_table_bytes_def)
  obtain k where k: "k = unat (x - 0x110000)" by simp
  have "x - 0x110000 = of_nat k" by (simp add: k)
  then have "x = 0x110000 + of_nat k" by (simp add: algebra_simps)
  then have "x - CPU_DATA_ADDRESS = of_nat k - of_nat 0xEF0000" by simp
  moreover have "unat (of_nat k - of_nat 0xEF0000 :: qword_t) = 2 ^ 64 - (0xEF0000 - k)"
    using b k by (intro unat_diff_of_nat_neg) simp_all
  ultimately show ?thesis using b k by simp
qed

lemma structure_outside_boot: "unat (x - host_epts) < sizeof_epts \<Longrightarrow> x \<notin> boot_table_bytes"
proof
  assume x: "unat (x - host_epts) < sizeof_epts" and "x \<in> boot_table_bytes"
  from this(2) have "0x814000 \<le> unat (x - CPU_DATA_ADDRESS)" by (rule boot_table_bytes_outside)
  then have "sizeof_epts \<le> unat (x - host_epts)"
    unfolding part_offsets by (rule outside_part [rotated]) (simp add: sizeof_epts_def)
  with x show False by simp
qed

lemma booted_tables:
  "boot_tables (host_memory E r (setup_pml4_map m))"
  "clear_tables host_epts m \<Longrightarrow> clear_tables host_epts (setup_pml4_map m)"
proof -
  show "boot_tables (host_memory E r (setup_pml4_map m))"
    using host_memory_outside [OF boot_table_bytes_outside] boot_tables_setup by (rule boot_tables_cong)
  assume "clear_tables host_epts m"
  then show "clear_tables host_epts (setup_pml4_map m)"
    by (rule clear_tables_cong [rotated]) (rule setup_pml4_map_outside [OF structure_outside_boot])
qed

section \<open>Properties\<close>

text \<open>C7. From the boot loader to the guest. The guest starts at \<open>kmain\<close> with the boot code's page tables,
  which translate every linear address below 4 GiB to itself; the extended page tables then lead to
  the same physical address with every right, but for the page of the table of system calls, where
  the access exits.\<close>

theorem start_reaches_guest:
  assumes "host_can_start E (protected_to_long g w)" and "clear_tables (epts_of CPU_DATA_ADDRESS) (mem w)"
    and "unat a < 2 ^ 32"
  shows "\<exists>w'. start E g w = Stop Entered_Guest w' \<and> vmread VMCS_GUEST_RIP w' = kmain_addr E \<and>
    linear_walk (mem w') (vmread VMCS_GUEST_CR3 w') a = Some (a, True) \<and>
    ept_walk xo (mem w') (vmread VMCS_EPT_POINTER w') a =
      (if page_number a = page_number SSDT_ADDRESS then Misconfigured
       else Translated \<lparr>host_address = a, can_read = True, can_write = True, can_execute = True,
         caching = EPT_MEMORY_TYPE_WRITEBACK\<rparr>)"
proof (rule initialize_host_enters [OF assms(1)])
  fix v w'
  let ?r = "ucast (msrs (protected_to_long g w) MSR_IA32_VMX_BASIC)"
  assume i: "initialize_host E (protected_to_long g w) = Stop Entered_Guest w'" and v: "vmcs_loaded v"
    and r: "\<And>f. vmread f w' = vmread f (programmed E CPU_DATA_ADDRESS v)"
    and c: "cr3 v = cr3 (protected_to_long g w)"
    and m: "mem w' = host_memory E ?r (mem (protected_to_long g w))"
  have m': "mem w' = host_memory E ?r (setup_pml4_map (mem w))"
    using m by (simp only: protected_to_long_parts)
  have "linear_walk (mem w') (vmread VMCS_GUEST_CR3 w') a = Some (a, True)"
    unfolding r programmed_entry_points [OF v] c protected_to_long_parts m'
    by (rule boot_tables_walk [OF booted_tables(1) assms(3)])
  with i show ?thesis
    unfolding start_def
    by (simp add: r programmed_entry_points [OF v] m' host_memory_walk [OF booted_tables(2) [OF assms(2)] assms(3)])
qed

lemma example_can_boot: "host_can_start example_env (protected_to_long 0x10A000 zero_world)"
  using example_host_can_start by (simp add: host_can_start_def protected_to_long_parts loggable_def)

lemma start_reaches_guest_witness:
  "\<exists>w'. start example_env 0x10A000 zero_world = Stop Entered_Guest w' \<and> vmread VMCS_GUEST_RIP w' = 0x101000 \<and>
    linear_walk (mem w') (vmread VMCS_GUEST_CR3 w') 0x101234 = Some (0x101234, True) \<and>
    ept_walk False (mem w') (vmread VMCS_EPT_POINTER w') 0x1812008 = Misconfigured"
proof -
  have c: "clear_tables (epts_of CPU_DATA_ADDRESS) (mem zero_world)" by (simp add: zero_world_def zero_memory_clear)
  have s: "unat (0x101234 :: qword_t) < 2 ^ 32" "unat (0x1812008 :: qword_t) < 2 ^ 32" by simp_all
  from start_reaches_guest [OF example_can_boot c s(1), of False] start_reaches_guest [OF example_can_boot c s(2), of False]
  show ?thesis by (auto simp: example_env_def page_number_def)
qed

end
