(* ===== verification/Hosted.thy ===== *)
theory Hosted
  imports System Guest Start
begin

text \<open>
  The kernel as the guest of the hypervisor: \<open>src/guest/kmain.c\<close> and \<open>src/guest/syscalls.c\<close> on the
  platform \<open>hosted\<close>, whose accesses to MSRs, reads of the table of system calls and \<open>hlt\<close> are
  instructions that may exit (\<open>execute\<close>).

  The interfaces \<open>kernel_platform\<close> and \<open>booting_platform\<close> are interpreted on it, with the reachable states
  of the guest as the states the platform keeps: every step of the kernel is a step of \<open>guest_step\<close>, so
  what holds of all runs of the guest holds of the kernel. The properties follow the whole kernel to
  its end, and its malware after the hypercall.
\<close>

section \<open>Code\<close>

definition hosted :: "env \<Rightarrow> bool \<Rightarrow> guest_registers \<Rightarrow> qword_t \<Rightarrow> qword_t \<Rightarrow> platform" where
  "hosted E xo regs len1 len2 = \<lparr>
     on_write_msr = \<lambda>msr value w.
       bindR (execute E xo 2 Wrmsr (regs(RCX := ucast msr, RAX := value AND 0xFFFFFFFF, RDX := drop_bit 32 value)) w)
         (\<lambda>_. Done ()),
     on_read_msr = \<lambda>msr w.
       bindR (execute E xo 2 Rdmsr (regs(RCX := ucast msr)) w) (\<lambda>regs. Done (push_bit 32 (regs RDX) OR regs RAX)),
     on_dispatch = \<lambda>call number. guest_dispatch E xo call len1 len2 number regs,
     on_hlt = \<lambda>w. bindR (execute E xo 1 Hlt regs w) (\<lambda>_. Done ())\<rparr>"

section \<open>Reachable states\<close>

text \<open>
  \<open>kernel_off_limits\<close>: what the guest must not overwrite. \<open>reachable E xo w regs0 w1\<close>: after the start from
  \<open>w\<close>, the guest, which begins with the registers \<open>regs0\<close>, gets to \<open>w1\<close>.
\<close>

definition kernel_off_limits :: "qword_t set" where
  "kernel_off_limits = guarded CPU_DATA_ADDRESS \<union> table_bytes \<union> ssdt_bytes"

definition can_host :: "env \<Rightarrow> world \<Rightarrow> bool" where
  "can_host E w \<longleftrightarrow> host_can_start E w \<and> clear_tables (epts_of CPU_DATA_ADDRESS) (mem w) \<and>
     ssdt_hook_addr E \<noteq> 0 \<and> print_a_crab_addr E \<noteq> 0"

definition reachable :: "env \<Rightarrow> bool \<Rightarrow> world \<Rightarrow> guest_registers \<Rightarrow> world \<Rightarrow> bool" where
  "reachable E xo w regs0 w1 \<longleftrightarrow> can_host E w \<and>
     (\<exists>w0 regs1. initialize_host E w = Stop Entered_Guest w0 \<and>
        guest_run E xo kernel_off_limits (regs0, w0) (regs1, w1))"

lemma off_limits:
  "guarded CPU_DATA_ADDRESS \<union> table_bytes \<subseteq> kernel_off_limits" "guarded CPU_DATA_ADDRESS \<subseteq> kernel_off_limits"
  "guarded CPU_DATA_ADDRESS \<union> ssdt_bytes \<subseteq> kernel_off_limits"
  by (auto simp: kernel_off_limits_def)

lemma reachable_step:
  assumes "reachable E xo w regs0 u"
    and "\<And>regs. guest_run E xo kernel_off_limits (regs, u) (regs' regs, v)"
  shows "reachable E xo w regs0 v"
  using assms(1) rtranclp_trans [OF _ assms(2)] unfolding reachable_def by blast

lemma reachable_facts:
  assumes "reachable E xo w regs0 w1"
  shows "ready CPU_DATA_ADDRESS w1" and "min_level w1 = DEBUG_LEVEL"
    and "load64 (mem w1) (ssdt_entry 42) = print_a_crab_addr E"
    and "unat g < 2 ^ 32 \<Longrightarrow> page_number g \<noteq> page_number SSDT_ADDRESS \<Longrightarrow>
      walk_of xo g w1 = Translated \<lparr>host_address = g, can_read = True, can_write = True, can_execute = True,
        caching = EPT_MEMORY_TYPE_WRITEBACK\<rparr>"
proof -
  obtain w0 regs1 where h: "host_can_start E w" "clear_tables host_epts (mem w)" "print_a_crab_addr E \<noteq> 0"
    and i: "initialize_host E w = Stop Entered_Guest w0"
    and r: "guest_run E xo kernel_off_limits (regs0, w0) (regs1, w1)"
    using assms unfolding reachable_def can_host_def by blast
  have ready: "ready CPU_DATA_ADDRESS w0" by (rule started_ready [OF h(1) i])
  obtain m where w0: "min_level w0 = DEBUG_LEVEL" "mem w0 = host_memory E m (mem w)"
    using i by (auto intro: initialize_host_enters [OF h(1)])
  show "ready CPU_DATA_ADDRESS w1" by (rule started_walk(1) [OF h(1,2) i r off_limits(1)])
  show "min_level w1 = DEBUG_LEVEL" using guest_run_level [OF r off_limits(2) ready] w0(1) by simp
  have "mem w1 (ssdt_entry 42 + of_nat j) = mem w0 (ssdt_entry 42 + of_nat j)" if "j < 8" for j
  proof -
    have "unat (ssdt_entry 42 + of_nat j - SSDT_ADDRESS) < 4096"
      using that by (simp add: ssdt_entry_def unat_word_ariths unat_of_nat)
    then show ?thesis
      using guest_run_table [OF r off_limits(3) ready] by (simp add: ssdt_bytes_def)
  qed
  then have "load64 (mem w1) (ssdt_entry 42) = load64 (mem w0) (ssdt_entry 42)" by (rule qword_cell.load_cong)
  also have "\<dots> = print_a_crab_addr E"
  proof -
    have "handlers (mem w0) 42 = Some (print_a_crab_addr E)" using h(3) by (simp add: w0(2) host_memory_handlers)
    then show ?thesis by (simp add: handlers_def ssdt_entry_def Let_def split: if_splits)
  qed
  finally show "load64 (mem w1) (ssdt_entry 42) = print_a_crab_addr E" .
  assume "unat g < 2 ^ 32" "page_number g \<noteq> page_number SSDT_ADDRESS"
  then show "walk_of xo g w1 = Translated \<lparr>host_address = g, can_read = True, can_write = True, can_execute = True,
      caching = EPT_MEMORY_TYPE_WRITEBACK\<rparr>"
    using started_walk(2) [OF h(1,2) i r off_limits(1), of g] by simp
qed

text \<open>A text that the guest sends to the serial port, byte by byte.\<close>

lemma emit_run: "guest_run E xo S (regs, w) (regs, emit s w)"
proof (induction s arbitrary: w)
  case Nil
  then show ?case by (simp add: emit_def)
next
  case (Cons c s)
  have "guest_step E xo S (regs, w) (regs, out_port COM1 (of_char c) w)" by (rule write_port)
  moreover have "emit (c # s) w = emit s (out_port COM1 (of_char c) w)" by (simp add: emit_def out_port_def)
  ultimately show ?case using Cons.IH by (simp add: converse_rtranclp_into_rtranclp)
qed

lemma logged_run: "guest_run E xo S (regs, w) (regs, logged l file n s w)"
  by (simp add: logged_def emit_run)

lemma reachable_logged: "reachable E xo w regs0 w1 \<Longrightarrow> reachable E xo w regs0 (logged l file n s w1)"
  by (erule reachable_step) (rule logged_run)

lemma reachable_registers:
  "reachable E xo w regs0 w1 \<Longrightarrow> reachable E xo w regs0 (w1\<lparr>rflags := flags, seg_cs := cs, seg_ss := ss\<rparr>)"
  by (erule reachable_step) (rule r_into_rtranclp, rule compute)

lemma reachable_execute:
  assumes "reachable E xo w regs0 u" and "execute E xo len i regs u = Done regs' v"
    and "in_one_page i" and "stores_to xo u i = {}"
  shows "reachable E xo w regs0 v"
proof (rule reachable_step [OF assms(1), where regs' = "\<lambda>_. regs'"])
  fix regs1
  have "guest_step E xo kernel_off_limits (regs1, u) (regs, u)" by (rule set_registers)
  moreover have "guest_step E xo kernel_off_limits (regs, u) (regs', v)"
    by (rule perform [OF assms(2,3)]) (simp only: assms(4) Int_empty_left)
  ultimately show "guest_run E xo kernel_off_limits (regs1, u) (regs', v)" by simp
qed

section \<open>The kernel's own memory\<close>

text \<open>Aligned qwords below 4 GiB, away from what the hypervisor keeps in memory and from the table.\<close>

definition kernel_cells :: "qword_t set" where
  "kernel_cells = {a. 8 dvd unat a \<and> unat a < 2 ^ 32 \<and>
     apart (guest_cpu_state_of CPU_DATA_ADDRESS) 136 a 8 \<and> apart (msr_bitmaps_of CPU_DATA_ADDRESS) 4096 a 8 \<and>
     apart (cpu_data_pointer (guest_cpu_state_of CPU_DATA_ADDRESS)) 8 a 8 \<and>
     apart (epts_of CPU_DATA_ADDRESS) sizeof_epts a 8 \<and> apart SSDT_ADDRESS 4096 a 8}"

lemma cell_in_one_page: "a \<in> kernel_cells \<Longrightarrow> in_one_page (Store a v)"
proof -
  assume "a \<in> kernel_cells"
  then have "8 dvd unat a" by (simp add: kernel_cells_def)
  then have "8 dvd unat a mod 4096" by (simp add: dvd_mod)
  then obtain k where k: "unat a mod 4096 = 8 * k" by (auto elim: dvdE)
  moreover have "unat a mod 4096 < 4096" by simp
  ultimately have "8 * k \<le> 4088" by simp
  with k show ?thesis by simp
qed

lemma cell_page: "a \<in> kernel_cells \<Longrightarrow> page_number a \<noteq> page_number SSDT_ADDRESS"
proof
  assume a: "a \<in> kernel_cells" and "page_number a = page_number SSDT_ADDRESS"
  then have "unat a div 4096 = 0x1812" by (simp add: page_number_def)
  then have "0x1812000 \<le> unat a" "unat a < 0x1813000" by linarith+
  then have "unat (a - SSDT_ADDRESS) < 4096" by (simp add: unat_sub_if')
  with a show False by (simp add: kernel_cells_def apart_def)
qed

lemma cell_stores:
  assumes "a \<in> kernel_cells" and "unat (x - a) < 8"
  shows "x \<notin> kernel_off_limits"
proof -
  have "x = a + of_nat (unat (x - a))" by simp
  then have "n \<le> unat (x - p)" if "apart p n a 8" for p n
    using apart_byte [OF that assms(2)] by simp
  with assms(1) show ?thesis
    by (auto simp: kernel_off_limits_def guarded_def table_bytes_def ssdt_bytes_def kernel_cells_def not_less
        simp del: guest_cpu_state_of_def)
qed

lemma reachable_store:
  assumes "reachable E xo w regs0 u" and "a \<in> kernel_cells"
  shows "reachable E xo w regs0 (u\<lparr>mem := store64 a v (mem u)\<rparr>)"
proof (rule reachable_step [OF assms(1), where regs' = "advance 0"])
  fix regs
  have a: "unat a < 2 ^ 32" using assms(2) by (simp add: kernel_cells_def)
  note t = reachable_facts(4) [OF assms(1) a cell_page [OF assms(2)]]
  have "execute E xo 0 (Store a v) regs u = Done (advance 0 regs) (u\<lparr>mem := store64 a v (mem u)\<rparr>)" by (simp add: t)
  moreover have "stores_to xo u (Store a v) \<inter> kernel_off_limits = {}"
    using cell_stores [OF assms(2)] by (auto simp: t)
  ultimately have "guest_step E xo kernel_off_limits (regs, u) (advance 0 regs, u\<lparr>mem := store64 a v (mem u)\<rparr>)"
    by (rule perform [OF _ cell_in_one_page [OF assms(2)]])
  then show "guest_run E xo kernel_off_limits (regs, u) (advance 0 regs, u\<lparr>mem := store64 a v (mem u)\<rparr>)" by simp
qed

text \<open>
  System call 42 under the hook: two exits, the hook's line, and the handler's crab. The registers and the
  kernel's memory are as they were.
\<close>

abbreviation hooked_crab :: string where
  "hooked_crab \<equiv> exit_line ''EXIT_REASON_EPT_MISCONFIG'' @ exit_line ''EXIT_REASON_EPT_MISCONFIG'' @
     log_line INFO_LEVEL hooks_c (digits_text 10 7) (''hooked ssdt read at entry '' @ digits_text 10 42) @
     kernel_line 52 crab"

lemma hosted_dispatch:
  assumes "reachable E xo w regs0 u"
  shows "\<exists>u'. on_dispatch (hosted E xo regs len1 len2) (guest_code P E K other) 42 u = Done () u' \<and>
    says hooked_crab u u' \<and> reachable E xo w regs0 u' \<and>
    (\<forall>x. 136 \<le> unat (x - guest_cpu_state_of CPU_DATA_ADDRESS) \<longrightarrow> mem u' x = mem u x)"
proof -
  let ?call = "guest_code P E K other"
  let ?hook = "logged INFO_LEVEL hooks_c 7 (''hooked ssdt read at entry '' @ digits_text 10 42)"
  obtain w0 regs1 where h: "host_can_start E w" "clear_tables host_epts (mem w)" "ssdt_hook_addr E \<noteq> 0"
    and i: "initialize_host E w = Stop Entered_Guest w0"
    and r: "guest_run E xo kernel_off_limits (regs0, w0) (regs1, u)"
    using assms unfolding reachable_def can_host_def by blast
  from r set_registers have r': "guest_run E xo kernel_off_limits (regs0, w0) (regs, u)"
    by (rule rtranclp.rtrancl_into_rtrancl)
  have "unat (42 :: dword_t) < SSDT_SIZE" by simp
  then obtain regs2 u2 where d: "guest_dispatch E xo ?call len1 len2 42 regs u = ?call (load64 (mem u) (ssdt_entry 42)) (?hook u2)"
    and m: "\<forall>x. 136 \<le> unat (x - host_state) \<longrightarrow> mem u2 x = mem u x"
    and s: "min_level u \<le> INFO_LEVEL \<longrightarrow>
      says (exit_line ''EXIT_REASON_EPT_MISCONFIG'' @ exit_line ''EXIT_REASON_EPT_MISCONFIG'') u u2"
    and r2: "guest_run E xo kernel_off_limits (regs0, w0) (regs2, u2)"
    by (rule started_dispatch [OF h(1,2) i r' off_limits(1) _ h(3), of 42 ?call len1 len2])
  let ?u' = "logged INFO_LEVEL kmain_c 52 crab (?hook u2)"
  have "on_dispatch (hosted E xo regs len1 len2) ?call 42 u = Done () ?u'"
    by (simp add: hosted_def d reachable_facts(3) [OF assms] guest_code_crab)
  moreover have "min_level u \<le> INFO_LEVEL" using reachable_facts(2) [OF assms] by simp
  with s have "says (exit_line ''EXIT_REASON_EPT_MISCONFIG'' @ exit_line ''EXIT_REASON_EPT_MISCONFIG'') u u2" by simp
  from says_logged [OF \<open>min_level u \<le> INFO_LEVEL\<close> says_logged [OF \<open>min_level u \<le> INFO_LEVEL\<close> this]]
  have "says hooked_crab u ?u'" by simp
  moreover have "reachable E xo w regs0 u2"
    using assms r2 i unfolding reachable_def by blast
  then have "reachable E xo w regs0 ?u'" by (intro reachable_logged)
  ultimately show ?thesis using m by (intro exI [of _ ?u'] conjI) simp_all
qed

lemma cell_load:
  assumes "a \<in> kernel_cells" and "\<forall>x. 136 \<le> unat (x - guest_cpu_state_of CPU_DATA_ADDRESS) \<longrightarrow> m' x = m x"
  shows "load64 m' a = load64 m a"
proof -
  have "apart host_state 136 a 8" using assms(1) by (simp add: kernel_cells_def)
  then show ?thesis using assms(2) by (intro qword_cell.load_cong) (simp add: apart_byte)
qed

text \<open>The platform keeps the reachable states.\<close>

interpretation hosted: kernel_platform "hosted E xo regs len1 len2" E K other "reachable E xo w regs0" kernel_cells
  hooked_crab for E xo regs len1 len2 K other w regs0
proof unfold_locales
  fix u
  assume r: "reachable E xo w regs0 u"
  show "min_level u \<le> INFO_LEVEL" using reachable_facts(2) [OF r] by simp
  show "\<exists>u'. on_dispatch (hosted E xo regs len1 len2) (guest_code (hosted E xo regs len1 len2) E K other) 42 u = Done () u' \<and>
      says hooked_crab u u' \<and> reachable E xo w regs0 u' \<and> (\<forall>a \<in> kernel_cells. load64 (mem u') a = load64 (mem u) a)"
    using hosted_dispatch [OF r, of regs len1 len2 "hosted E xo regs len1 len2" K other] cell_load by blast
qed (simp_all add: reachable_store reachable_registers reachable_logged)

section \<open>Before the hypercall\<close>

text \<open>No access to an MSR exits as long as the bitmaps are clear.\<close>

definition unmonitored :: "world \<Rightarrow> bool" where
  "unmonitored w \<longleftrightarrow> monitored (msr_bitmaps_of CPU_DATA_ADDRESS) (mem w) = {}"

lemma unmonitored_access:
  assumes "ready CPU_DATA_ADDRESS u" and "unmonitored u" and "msr \<in> syscall_msrs"
  shows "\<not> exits_on_msr acc msr u"
proof -
  have "msr_in_range msr" using assms(3) by (auto simp: syscall_msrs_def msr_in_range_def)
  with assms(1,2) show ?thesis using ready_controls [OF assms(1)] by (simp add: exits_on_msr_iff unmonitored_def ready_def)
qed

lemma unmonitored_same:
  assumes "unmonitored u" and "\<And>x. x \<in> guarded CPU_DATA_ADDRESS \<Longrightarrow> mem v x = mem u x"
  shows "unmonitored v"
  using assms(1) guarded_same(1) [of CPU_DATA_ADDRESS "mem v" "mem u", OF assms(2)] by (simp add: unmonitored_def)

lemma unmonitored_outside:
  assumes "unmonitored u" and "\<forall>x. 136 \<le> unat (x - guest_cpu_state_of CPU_DATA_ADDRESS) \<longrightarrow> mem v x = mem u x"
  shows "unmonitored v"
proof -
  have "monitored (msr_bitmaps_of CPU_DATA_ADDRESS) (mem v) = monitored (msr_bitmaps_of CPU_DATA_ADDRESS) (mem u)"
    by (rule monitored_cong) (use assms(2) bitmaps_outside_registers in blast)
  with assms(1) show ?thesis by (simp add: unmonitored_def)
qed

lemma unmonitored_store:
  assumes "unmonitored u" and "a \<in> kernel_cells"
  shows "unmonitored (u\<lparr>mem := store64 a v (mem u)\<rparr>)"
proof (rule unmonitored_same [OF assms(1)])
  fix x
  assume "x \<in> guarded CPU_DATA_ADDRESS"
  then have "\<not> unat (x - a) < 8" using cell_stores [OF assms(2)] off_limits(2) by blast
  then show "mem (u\<lparr>mem := store64 a v (mem u)\<rparr>) x = mem u x" by (simp add: qword_cell.store_byte)
qed

lemma hosted_write_msr:
  assumes "reachable E xo w regs0 u" and "unmonitored u" and "msr \<in> syscall_msrs"
  shows "on_write_msr (hosted E xo regs len1 len2) msr v u = Done () (write_msr msr v u)"
    and "reachable E xo w regs0 (write_msr msr v u)"
proof -
  let ?regs = "regs(RCX := ucast msr, RAX := v AND 0xFFFFFFFF, RDX := drop_bit 32 v)"
  have msr: "ucast (ucast msr :: qword_t) = msr" by (rule bit_word_eqI) (simp add: bit_simps)
  have e: "execute E xo 2 Wrmsr ?regs u = Done (advance 2 ?regs) (write_msr msr v u)"
    using unmonitored_access [OF reachable_facts(1) [OF assms(1)] assms(2,3)]
    by (simp add: msr write_msr_def)
  then show "on_write_msr (hosted E xo regs len1 len2) msr v u = Done () (write_msr msr v u)"
    by (simp add: hosted_def del: execute.simps)
  show "reachable E xo w regs0 (write_msr msr v u)"
    by (rule reachable_execute [OF assms(1) e]) simp_all
qed

lemma hosted_read_msr:
  assumes "reachable E xo w regs0 u" and "unmonitored u" and "msr \<in> syscall_msrs"
  shows "on_read_msr (hosted E xo regs len1 len2) msr u = Done (read_msr msr u) u"
proof -
  have msr: "ucast (ucast msr :: qword_t) = msr" by (rule bit_word_eqI) (simp add: bit_simps)
  have "push_bit 32 (drop_bit 32 v) OR take_bit 32 v = v" for v :: qword_t
    by (rule bit_word_eqI) (auto simp: bit_simps)
  then show ?thesis
    using unmonitored_access [OF reachable_facts(1) [OF assms(1)] assms(2,3)]
    by (simp add: hosted_def msr advance_def read_msr_eq)
qed

interpretation hosted_boot: booting_platform "hosted E xo regs len1 len2" E K other
  "\<lambda>u. reachable E xo w regs0 u \<and> unmonitored u" kernel_cells hooked_crab for E xo regs len1 len2 K other w regs0
proof unfold_locales
  fix u
  assume u: "reachable E xo w regs0 u \<and> unmonitored u"
  then show "\<exists>u'. on_dispatch (hosted E xo regs len1 len2) (guest_code (hosted E xo regs len1 len2) E K other) 42 u = Done () u' \<and>
      says hooked_crab u u' \<and> (reachable E xo w regs0 u' \<and> unmonitored u') \<and>
      (\<forall>a \<in> kernel_cells. load64 (mem u') a = load64 (mem u) a)"
    using hosted_dispatch [of E xo w regs0 u regs len1 len2 "hosted E xo regs len1 len2" K other]
      cell_load unmonitored_outside by blast
  have "MSR_IA32_EFER \<in> syscall_msrs" by (simp add: syscall_msrs_def)
  then show "on_read_msr (hosted E xo regs len1 len2) MSR_IA32_EFER u = Done (read_msr MSR_IA32_EFER u) u"
    by (rule hosted_read_msr [OF conjunct1 [OF u] conjunct2 [OF u]])
next
  fix u msr v
  assume "reachable E xo w regs0 u \<and> unmonitored u" and "msr \<in> syscall_msrs"
  then show "reachable E xo w regs0 (write_msr msr v u) \<and> unmonitored (write_msr msr v u)"
    using hosted_write_msr(2) by (auto simp: unmonitored_def write_msr_eq)
qed (auto simp: reachable_facts(2) reachable_store unmonitored_store reachable_registers reachable_logged
    hosted_write_msr(1), simp_all add: unmonitored_def)

section \<open>The end of the kernel\<close>

abbreviation halted_lines :: string where
  "halted_lines \<equiv> exit_line ''EXIT_REASON_HLT'' @ log_line DEBUG_LEVEL vmexit_c (digits_text 10 13) ''handling halt''"

text \<open>\<open>hlt\<close> exits and is skipped; the loop of \<open>exit\<close> follows.\<close>

lemma hosted_hlt:
  assumes "reachable E xo w regs0 u"
  obtains u' where "on_hlt (hosted E xo regs len1 len2) u = Done () u'" and "says halted_lines u u'"
    and "reachable E xo w regs0 u'"
proof -
  let ?x = "exit_fields EXIT_REASON_HLT 1 regs u"
  let ?fs = "vmread VMCS_HOST_FS_BASE ?x"
  have r: "ready CPU_DATA_ADDRESS u" by (rule reachable_facts(1) [OF assms])
  then have l: "vmcs_loaded u" by (simp add: ready_def)
  have "EXIT_REASON_HLT < 65536" by simp
  note x = exit_fields_reads [OF l this, where len = 1 and regs = regs]
  have name: "exit_name (exit_reason_of ?x) = Some ''EXIT_REASON_HLT''"
    by (simp add: x exit_name_eq exit_reason_initializers_def)
  have resume: "vmresume_works E"
    using assms by (simp add: reachable_def can_host_def host_can_start_def)
  have sk: "skipped ?fs 13 ''handling halt'' (exit_logged ''EXIT_REASON_HLT'' (save_guest ?fs regs ?x))
      (dispatch_exit E (exit_reason_of ?x) ?fs (exit_logged ''EXIT_REASON_HLT'' (save_guest ?fs regs ?x)))"
    using skipping_handlers by (simp add: x dispatch_exit_def)
  have level: "min_level ?x = DEBUG_LEVEL" using reachable_facts(2) [OF assms] by (simp add: exit_fields_def)
  obtain u' where u': "vmexit_wrapper E regs ?x = Done ((guest_registers_at regs ?x)
      (RIP := vmread VMCS_GUEST_RIP ?x + vmread VMCS_VM_EXIT_INSTRUCTION_LEN ?x)) u'"
    and s: "says halted_lines ?x u'"
  proof (rule vmexit_wrapper_skipped [OF x(8) name sk resume])
    fix u'
    assume "vmexit_wrapper E regs ?x = Done ((guest_registers_at regs ?x)
        (RIP := vmread VMCS_GUEST_RIP ?x + vmread VMCS_VM_EXIT_INSTRUCTION_LEN ?x)) u'"
      and "min_level ?x = DEBUG_LEVEL \<Longrightarrow> says halted_lines ?x u'"
    then show ?thesis using level by (intro that) blast+
  qed
  have e: "execute E xo 1 Hlt regs u = Done ((guest_registers_at regs ?x)
      (RIP := vmread VMCS_GUEST_RIP ?x + vmread VMCS_VM_EXIT_INSTRUCTION_LEN ?x)) u'"
    using u' ready_controls [OF r] by (simp add: vm_exit_def)
  have "says halted_lines ?x u' = says halted_lines u u'" by (simp add: exit_fields_def says_def)
  moreover have "on_hlt (hosted E xo regs len1 len2) u = Done () u'" by (simp add: hosted_def e del: execute.simps)
  moreover have "reachable E xo w regs0 u'" by (rule reachable_execute [OF assms e]) simp_all
  ultimately show ?thesis using s by (intro that) simp_all
qed

section \<open>Properties\<close>

text \<open>The state at the entry of the guest.\<close>

lemma reachable_start:
  assumes "can_host E w" and "initialize_host E w = Stop Entered_Guest w0"
  shows "reachable E xo w regs0 w0"
  using assms unfolding reachable_def by blast

lemma host_memory_bitmaps:
  assumes "unat (x - msr_bitmaps_of CPU_DATA_ADDRESS) < 4096"
  shows "host_memory E r m x = m x"
proof -
  have "apart (CPU_DATA_ADDRESS + of_nat 0x812150) 8 (msr_bitmaps_of CPU_DATA_ADDRESS) 4096"
    "apart (vmxon_region CPU_DATA_ADDRESS) 4 (msr_bitmaps_of CPU_DATA_ADDRESS) 4096"
    "apart (vmcs_region CPU_DATA_ADDRESS) 4 (msr_bitmaps_of CPU_DATA_ADDRESS) 4096"
    "apart (cpu_data_pointer (guest_cpu_state_of CPU_DATA_ADDRESS)) 8 (msr_bitmaps_of CPU_DATA_ADDRESS) 4096"
    unfolding part_offsets by (rule apart_offsets; simp)+
  note away = this [THEN apart_inside, OF assms]
  have "sizeof_epts \<le> unat (x - host_epts)" by (rule apart_inside [OF parts_apart(6) assms])
  then show ?thesis
    using away by (simp add: host_memory_outside_structure regions_memory_def dword_cell.store_byte qword_cell.store_byte
        ssdt_entry_def)
qed

lemma unmonitored_start:
  assumes "can_host E w" and "initialize_host E w = Stop Entered_Guest w0" and "unmonitored w"
  shows "unmonitored w0" and "seg_cs w0 = seg_cs w"
proof -
  have "host_can_start E w" using assms(1) by (simp add: can_host_def)
  then obtain r where w0: "mem w0 = host_memory E r (mem w)" "seg_cs w0 = seg_cs w"
    using assms(2) by (auto elim!: initialize_host_enters)
  have "host_memory E r (mem w) (msr_bitmaps_of CPU_DATA_ADDRESS + of_nat i) = mem w (msr_bitmaps_of CPU_DATA_ADDRESS + of_nat i)"
    if "i < 4096" for i
    by (rule host_memory_bitmaps) (use that in \<open>simp add: unat_of_nat_small\<close>)
  then have "monitored (msr_bitmaps_of CPU_DATA_ADDRESS) (mem w0) = monitored (msr_bitmaps_of CPU_DATA_ADDRESS) (mem w)"
    unfolding w0(1) by (rule monitored_cong)
  then show "unmonitored w0" using assms(3) by (simp add: unmonitored_def)
  show "seg_cs w0 = seg_cs w" by (rule w0(2))
qed

text \<open>The whole kernel, from the entry of the guest on.\<close>

lemma hosted_kmain:
  assumes "can_host E w" and "monitored (msr_bitmaps_of CPU_DATA_ADDRESS) (mem w) = {}"
    and "initialize_host E w = Stop Entered_Guest w0"
    and "seg_cs w AND 0xFFFC \<noteq> 0" and "after_sysenter K \<noteq> print_a_crab_addr E"
    and "{rsp - 8, rsp - 16, rsp - 24, sysenter_rsp_addr E} \<subseteq> kernel_cells"
    and "apart (rsp - 8) 8 (sysenter_rsp_addr E) 8"
  shows "\<exists>w'. kmain (hosted E xo regs len1 len2) E K other rsp w0 = Stop Halted w' \<and>
    port_writes w' = port_writes w0 @ map (\<lambda>c. (COM1, of_char c))
      (kernel_line 18 ''Initializing OS'' @ hooked_crab @ hooked_crab @ halted_lines)"
proof -
  let ?P = "hosted E xo regs len1 len2"
  have u: "unmonitored w" using assms(2) by (simp add: unmonitored_def)
  have "seg_cs w0 AND 0xFFFC \<noteq> 0" using unmonitored_start(2) [OF assms(1,3) u] assms(4) by simp
  moreover have "reachable E xo w (\<lambda>_. 0) w0 \<and> unmonitored w0"
    using reachable_start [OF assms(1,3)] unmonitored_start(1) [OF assms(1,3) u] by blast
  ultimately obtain v where v: "kmain ?P E K other rsp w0 = kmain_end ?P v" "reachable E xo w (\<lambda>_. 0) v"
      "port_writes v = port_writes w0 @ map (\<lambda>c. (COM1, of_char c))
        (kernel_line 18 ''Initializing OS'' @ hooked_crab @ hooked_crab)"
    using assms(5-7) by (auto elim!: hosted_boot.kmain_runs [rotated])
  obtain w' where w': "on_hlt ?P v = Done () w'" "says halted_lines v w'"
    by (rule hosted_hlt [OF v(2), of regs len1 len2])
  have "kmain ?P E K other rsp w0 = Stop Halted w'" by (simp add: v(1) kmain_end_def w'(1) exit_loop_def)
  with v(3) w'(2) show ?thesis by (simp add: says_def)
qed

text \<open>The boot code leaves the bitmaps alone.\<close>

lemma booted_unmonitored:
  assumes "monitored (msr_bitmaps_of CPU_DATA_ADDRESS) (mem w) = {}"
  shows "monitored (msr_bitmaps_of CPU_DATA_ADDRESS) (mem (protected_to_long g w)) = {}"
proof -
  have "setup_pml4_map (mem w) (msr_bitmaps_of CPU_DATA_ADDRESS + of_nat i) = mem w (msr_bitmaps_of CPU_DATA_ADDRESS + of_nat i)"
    if "i < 4096" for i
  proof -
    have "unat (msr_bitmaps_of CPU_DATA_ADDRESS + of_nat i - 0x110000) = 0x16F8000 + i"
      using that by (simp add: layout unat_word_ariths unat_of_nat)
    then show ?thesis by (intro setup_pml4_map_outside) (simp add: boot_table_bytes_def)
  qed
  then have "monitored (msr_bitmaps_of CPU_DATA_ADDRESS) (setup_pml4_map (mem w)) = {}"
    unfolding assms [symmetric] by (rule monitored_cong)
  then show ?thesis by (simp only: protected_to_long_parts)
qed

text \<open>C3. From the boot loader to the end of the kernel, and this is all the kernel shows. After the start, \<open>kmain\<close> sets up
  the two fast system calls; by each of them system call 42 exits twice at the dispatcher's reads of
  the hidden table, goes through the hook, and prints its crab; \<open>hlt\<close> exits and is skipped, and the
  kernel ends in its loop.\<close>

theorem kernel_shows_two_hooked_crabs:
  assumes "can_host E (protected_to_long g w)" and "monitored (msr_bitmaps_of CPU_DATA_ADDRESS) (mem w) = {}"
    and "start E g w = Stop Entered_Guest w0" and "after_sysenter K \<noteq> print_a_crab_addr E"
    and "{rsp - 8, rsp - 16, rsp - 24, sysenter_rsp_addr E} \<subseteq> kernel_cells"
    and "apart (rsp - 8) 8 (sysenter_rsp_addr E) 8"
  shows "\<exists>w'. kmain (hosted E xo regs len1 len2) E K other rsp w0 = Stop Halted w' \<and>
    port_writes w' = port_writes w0 @ map (\<lambda>c. (COM1, of_char c))
      (kernel_line 18 ''Initializing OS'' @ hooked_crab @ hooked_crab @ halted_lines)"
proof -
  have "initialize_host E (protected_to_long g w) = Stop Entered_Guest w0"
    using assms(3) by (cases "initialize_host E (protected_to_long g w)") (simp_all add: start_def)
  moreover have "seg_cs (protected_to_long g w) AND 0xFFFC \<noteq> 0" by (simp add: protected_to_long_parts)
  ultimately show ?thesis
    using hosted_kmain [OF assms(1) booted_unmonitored [OF assms(2)]] assms(4-6) by blast
qed

text \<open>An example: the environment of the other theories, and zeroed memory.\<close>

abbreviation (input) booted_world :: world where
  "booted_world \<equiv> protected_to_long 0x10A000 zero_world"

lemma booted_world_facts:
  "can_host example_env booted_world" "monitored (msr_bitmaps_of CPU_DATA_ADDRESS) (mem zero_world) = {}"
proof -
  have "clear_tables host_epts (mem booted_world)"
    unfolding protected_to_long_parts by (rule booted_tables(2)) (simp add: zero_world_def zero_memory_clear)
  then show "can_host example_env booted_world"
    using example_can_boot by (simp add: can_host_def) (simp add: example_env_def)
  show "monitored (msr_bitmaps_of CPU_DATA_ADDRESS) (mem zero_world) = {}"
    by (simp add: monitored_def zero_world_def)
qed

lemma booted_world_starts:
  "\<exists>w0. initialize_host example_env booted_world = Stop Entered_Guest w0 \<and>
    start example_env 0x10A000 zero_world = Stop Entered_Guest w0"
  by (rule initialize_host_enters [OF example_can_boot]) (simp add: start_def)

lemma example_cells:
  "{0x180A000 - 8, 0x180A000 - 16, 0x180A000 - 24, sysenter_rsp_addr example_env} \<subseteq> kernel_cells"
  by (simp add: kernel_cells_def apart_def layout sizeof_epts_def example_env_def dvd_eq_mod_eq_0)

lemma kernel_shows_two_hooked_crabs_witness:
  "\<exists>w0 w'. start example_env 0x10A000 zero_world = Stop Entered_Guest w0 \<and>
    kmain (hosted example_env False (\<lambda>_. 0) 4 4) example_env example_kernel (\<lambda>_. Done ()) 0x180A000 w0 = Stop Halted w' \<and>
    port_writes w' = port_writes w0 @ map (\<lambda>c. (COM1, of_char c))
      (kernel_line 18 ''Initializing OS'' @ hooked_crab @ hooked_crab @ halted_lines)"
proof -
  obtain w0 where s: "start example_env 0x10A000 zero_world = Stop Entered_Guest w0" using booted_world_starts by blast
  have "after_sysenter example_kernel \<noteq> print_a_crab_addr example_env"
    "apart (0x180A000 - 8) 8 (sysenter_rsp_addr example_env) 8"
    by (simp_all add: example_kernel_def example_env_def apart_def)
  then show ?thesis
    using kernel_shows_two_hooked_crabs [OF booted_world_facts s _ example_cells,
        of example_kernel False "\<lambda>_. 0" 4 4 "\<lambda>_. Done ()"] s by blast
qed

text \<open>A guarded write of the kernel exits and is skipped.\<close>

lemma hosted_guarded_write:
  assumes "reachable E xo w regs0 u" and "protected CPU_DATA_ADDRESS entries u" and "(Write_Msr, msr) \<in> guards"
  obtains u' where "on_write_msr (hosted E xo regs len1 len2) msr v u = Done () u'" and "msrs u' = msrs u"
    and "reachable E xo w regs0 u'" and "protected CPU_DATA_ADDRESS entries u'"
proof -
  let ?regs = "regs(RCX := ucast msr, RAX := v AND 0xFFFFFFFF, RDX := drop_bit 32 v)"
  have "ucast (ucast msr :: qword_t) = msr" by (rule bit_word_eqI) (simp add: bit_simps)
  with assms(3) have "(Write_Msr, ucast (?regs RCX)) \<in> guards" by simp
  moreover have "vmresume_works E" using assms(1) by (simp add: reachable_def can_host_def host_can_start_def)
  ultimately obtain u' where e: "execute E xo 2 Wrmsr ?regs u = Done (advance 2 ?regs) u'" and m: "msrs u' = msrs u"
    using guarded_write_skipped [OF assms(2), of ?regs] by blast
  have "on_write_msr (hosted E xo regs len1 len2) msr v u = Done () u'" by (simp add: hosted_def e del: execute.simps)
  moreover have "reachable E xo w regs0 u'" by (rule reachable_execute [OF assms(1) e]) simp_all
  moreover have "protected CPU_DATA_ADDRESS entries u'" by (rule execute_protected [OF e _ assms(2)]) simp
  ultimately show ?thesis using m by (intro that)
qed

lemma hosted_inject_blocked:
  assumes "reachable E xo w regs0 u" and "protected CPU_DATA_ADDRESS entries u"
  obtains u' where "inject_mallwares (hosted E xo regs len1 len2) K u = Done () u'" and "msrs u' = msrs u"
    and "reachable E xo w regs0 u'"
proof -
  have g: "(Write_Msr, MSR_IA32_SYSENTER_EIP) \<in> guards" "(Write_Msr, MSR_IA32_LSTAR) \<in> guards"
    by (simp_all add: guards_def)
  obtain v where v: "on_write_msr (hosted E xo regs len1 len2) MSR_IA32_SYSENTER_EIP (sysenter_mallware_addr K) u = Done () v"
      "msrs v = msrs u" "reachable E xo w regs0 v" "protected CPU_DATA_ADDRESS entries v"
    by (rule hosted_guarded_write [OF assms g(1)])
  obtain u' where u': "on_write_msr (hosted E xo regs len1 len2) MSR_IA32_LSTAR (syscall_mallware_addr K) v = Done () u'"
      "msrs u' = msrs v" "reachable E xo w regs0 u'"
    by (rule hosted_guarded_write [OF v(3,4) g(2)])
  show ?thesis using v u' by (intro that [of u']) (simp_all add: inject_mallwares_def)
qed

text \<open>The hypercall, and what every later state of the guest keeps of it.\<close>

lemma reachable_protected:
  assumes "reachable E xo w regs0 u" and "regs1 RDI = PROTECET_SYSCALL"
    and "execute E xo 3 Vmcall regs1 u = Done regs2 u2"
    and "guest_run E xo kernel_off_limits (regs2, u2) (regs3, u3)"
  shows "reachable E xo w regs0 u3"
    and "protected CPU_DATA_ADDRESS (msrs u MSR_IA32_SYSENTER_EIP, msrs u MSR_IA32_LSTAR) u3"
proof -
  have resume: "vmresume_works E" using assms(1) by (simp add: reachable_def can_host_def host_can_start_def)
  have "protected CPU_DATA_ADDRESS (msrs u MSR_IA32_SYSENTER_EIP, msrs u MSR_IA32_LSTAR) u2"
    using vmcall_protects [where regs = regs1 and E = E and xo = xo and len = 3] reachable_facts(1) [OF assms(1)]
      assms(2,3) resume by fastforce
  then show "protected CPU_DATA_ADDRESS (msrs u MSR_IA32_SYSENTER_EIP, msrs u MSR_IA32_LSTAR) u3"
    by (rule guest_run_protected [OF guest_run_mono [OF assms(4) off_limits(2)]])
  have "reachable E xo w regs0 u2" by (rule reachable_execute [OF assms(1,3)]) simp_all
  then show "reachable E xo w regs0 u3"
  proof (rule reachable_step)
    fix regs
    show "guest_run E xo kernel_off_limits (regs, u2) (regs3, u3)"
      using set_registers assms(4) by (rule converse_rtranclp_into_rtranclp)
  qed
qed

text \<open>C4. The protection keeps the malware out of a guest that does not write the hypervisor's memory. The guest may do
  anything before and after its hypercall except store into the MSR bitmaps, the pointer to the processor's
  data, the extended page tables and the table of system calls (\<open>kernel_off_limits\<close>): nothing else stops
  such a store, and one into the bitmaps lifts the protection.
  Then the malware of \<open>kmain.c\<close> returns without an effect on any MSR, and the two entry points are those of the time of
  the hypercall. If the kernel's own entry point was in IA32_LSTAR then, the guest has not turned off the
  \<open>syscall\<close> instruction in the EFER (that MSR is not protected), and the stack is the kernel's, system call 42 still goes
  through the hook to the crab and back to \<open>kmain\<close>, and sends exactly the text of an uninfected call.\<close>

theorem protected_kernel_not_infected:
  assumes "can_host E w" and "initialize_host E w = Stop Entered_Guest w0"
    and "guest_run E xo kernel_off_limits (regs0, w0) (regs1, w1)" and "regs1 RDI = PROTECET_SYSCALL"
    and "execute E xo 3 Vmcall regs1 w1 = Done regs2 w2"
    and "guest_run E xo kernel_off_limits (regs2, w2) (regs3, w3)"
  shows "\<exists>w4. inject_mallwares (hosted E xo regs len1 len2) K w3 = Done () w4 \<and> msrs w4 = msrs w3 \<and>
    msrs w4 MSR_IA32_LSTAR = msrs w1 MSR_IA32_LSTAR \<and> msrs w4 MSR_IA32_SYSENTER_EIP = msrs w1 MSR_IA32_SYSENTER_EIP \<and>
    (msrs w1 MSR_IA32_LSTAR = syscall_handler_addr E \<and> can_syscall w3 \<and>
        {rsp - 8, rsp - 16, rsp - 24} \<subseteq> kernel_cells \<longrightarrow>
      (\<exists>w5. syscall_stub (hosted E xo regs len1 len2) E K other rsp 42 w4 = Done () w5 \<and> says hooked_crab w4 w5))"
proof -
  have "reachable E xo w regs0 w1" using assms(1-3) unfolding reachable_def by blast
  note r = reachable_protected [OF this assms(4-6)]
  obtain w4 where w4: "inject_mallwares (hosted E xo regs len1 len2) K w3 = Done () w4" "msrs w4 = msrs w3"
      "reachable E xo w regs0 w4"
    by (rule hosted_inject_blocked [OF r])
  have entries: "msrs w4 MSR_IA32_LSTAR = msrs w1 MSR_IA32_LSTAR"
      "msrs w4 MSR_IA32_SYSENTER_EIP = msrs w1 MSR_IA32_SYSENTER_EIP"
    using r(2) w4(2) by (simp_all add: protected_def)
  moreover have "\<exists>w5. syscall_stub (hosted E xo regs len1 len2) E K other rsp 42 w4 = Done () w5 \<and> says hooked_crab w4 w5"
    if "msrs w1 MSR_IA32_LSTAR = syscall_handler_addr E" "can_syscall w3" "{rsp - 8, rsp - 16, rsp - 24} \<subseteq> kernel_cells"
  proof -
    have "can_syscall w4" "msrs w4 MSR_IA32_LSTAR = syscall_handler_addr E"
      using that entries w4(2) by (simp_all add: can_syscall_def)
    then show ?thesis using that(3) by (auto elim!: hosted.syscall_stub_prints [OF w4(3)])
  qed
  ultimately show ?thesis using w4 by blast
qed

lemma protected_kernel_not_infected_witness:
  "\<exists>w1 w2 w4 w5. execute example_env False 3 Vmcall (\<lambda>_. 0) w1 = Done (advance 3 (\<lambda>_. 0)) w2 \<and>
    inject_mallwares (hosted example_env False (\<lambda>_. 0) 4 4) example_kernel w2 = Done () w4 \<and>
    syscall_stub (hosted example_env False (\<lambda>_. 0) 4 4) example_env example_kernel (\<lambda>_. Done ()) 0x180A000 42 w4 = Done () w5 \<and>
    says hooked_crab w4 w5"
proof -
  obtain w0 where s: "initialize_host example_env booted_world = Stop Entered_Guest w0" using booted_world_starts by blast
  let ?w1 = "syscalls_initialized example_env w0"
  have u: "unmonitored booted_world"
    using booted_unmonitored [OF booted_world_facts(2)] by (simp add: unmonitored_def)
  have r0: "reachable example_env False booted_world (\<lambda>_. 0) w0 \<and> unmonitored w0"
    using reachable_start [OF booted_world_facts(1) s] unmonitored_start(1) [OF booted_world_facts(1) s u]
    by blast
  have r1: "reachable example_env False booted_world (\<lambda>_. 0) ?w1"
    using hosted_boot.init_syscalls_done(2) [OF r0] by blast
  then obtain regs1 where "guest_run example_env False kernel_off_limits (\<lambda>_. 0, w0) (regs1, ?w1)"
    using s unfolding reachable_def by auto
  then have run: "guest_run example_env False kernel_off_limits (\<lambda>_. 0, w0) (\<lambda>_. 0, ?w1)"
    using set_registers by (rule rtranclp.rtrancl_into_rtrancl)
  obtain w2 where v: "execute example_env False 3 Vmcall (\<lambda>_. 0) ?w1 = Done (advance 3 (\<lambda>_. 0)) w2"
    using vmcall_protects [where regs = "\<lambda>_. 0" and E = example_env and xo = False and len = 3]
      reachable_facts(1) [OF r1] example_host_can_start by (fastforce simp: host_can_start_def)
  then have "vm_exit example_env EXIT_REASON_VMCALL 3 (\<lambda>_. 0) ?w1 = Done (advance 3 (\<lambda>_. 0)) w2" by simp
  from vm_exit_ready [OF reachable_facts(1) [OF r1] this] have "msrs w2 = msrs ?w1" by (simp add: kept_def)
  then have "can_syscall w2" using syscalls_initialized_msrs(1) [of example_env w0] by (simp add: can_syscall_def)
  moreover have "msrs ?w1 MSR_IA32_LSTAR = syscall_handler_addr example_env" by (rule syscalls_initialized_msrs)
  moreover have "{0x180A000 - 8, 0x180A000 - 16, 0x180A000 - 24} \<subseteq> kernel_cells" using example_cells by simp
  ultimately show ?thesis
    using protected_kernel_not_infected [OF booted_world_facts(1) s run _ v rtranclp.rtrancl_refl, of
        "\<lambda>_. 0" 4 4 example_kernel "0x180A000" "\<lambda>_. Done ()"] v by auto
qed

end
