(* ===== verification/Bios.thy ===== *)
theory Bios
  imports Host Boot
begin

text \<open>
  Talking to the BIOS: \<open>initialize_bios\<close> and \<open>load_mbr\<close> of \<open>src/vmm/initialize_host.c\<close>, whose calls are
  commented out, and the code they run in real mode, \<open>src/bios/real_mode.asm\<close>, \<open>switch_modes.asm\<close>, \<open>ata.asm\<close>
  and \<open>vga.asm\<close>.

  \<open>real_mode_callback\<close> switches the processor from long mode to real mode, runs one 16-bit routine, and
  switches back. The services of the BIOS are the parameter \<open>bios_interrupt\<close>. The copy of the 16-bit code at
  \<open>REAL_MODE_BASE_ADDRESS\<close> is taken to be there, and the words that the switch pushes below
  \<open>LOWER_MEMORY_STACK_TOP\<close> are not in the modelled memory.
\<close>

section \<open>Code\<close>

abbreviation (input) REAL_MODE_BASE_ADDRESS :: dword_t where "REAL_MODE_BASE_ADDRESS \<equiv> 0x7E00"
abbreviation (input) DAP_ADDRESS :: qword_t where "DAP_ADDRESS \<equiv> 0x500"
abbreviation (input) DRIVE_NUMBER_ADDRESS :: qword_t where "DRIVE_NUMBER_ADDRESS \<equiv> 0x600"

text \<open>The 16-bit registers that the routines set, and the BIOS: its services, the addresses of the code.\<close>

record registers16 =
  ax :: word_t
  dx :: word_t
  si :: word_t

record bios =
  real_mode_start :: qword_t
  real_mode_end :: qword_t
  real_mode_smile_addr :: qword_t
  read_disk_addr :: qword_t
  entry_registers :: registers16
  bios_interrupt :: "byte_t \<Rightarrow> registers16 \<Rightarrow> world \<Rightarrow> registers16 res"

definition with_high :: "byte_t \<Rightarrow> word_t \<Rightarrow> word_t" where
  "with_high h x = push_bit 8 (ucast h) OR take_bit 8 x"

definition with_low :: "byte_t \<Rightarrow> word_t \<Rightarrow> word_t" where
  "with_low l x = (x AND NOT (mask 8)) OR ucast l"

definition read_disk :: "bios \<Rightarrow> registers16 \<Rightarrow> world \<Rightarrow> unit res" where
  "read_disk B r w =
     (let r = r\<lparr>si := ucast DAP_ADDRESS\<rparr>;
          r = r\<lparr>ax := with_high 0x42 (ax r)\<rparr>;
          r = r\<lparr>dx := with_low (mem w DRIVE_NUMBER_ADDRESS) (dx r)\<rparr>
      in bindR (bios_interrupt B 0x13 r w) (\<lambda>_. Done ()))"

definition real_mode_smile :: "bios \<Rightarrow> registers16 \<Rightarrow> world \<Rightarrow> unit res" where
  "real_mode_smile B r w =
     bindR (bios_interrupt B 0x10 (r\<lparr>ax := 0\<rparr>) w) (\<lambda>r w.
     bindR (bios_interrupt B 0x10 (r\<lparr>ax := with_low (of_char CHR '':'') (with_high 0x0E (ax r))\<rparr>) w) (\<lambda>r w.
     bindR (bios_interrupt B 0x10 (r\<lparr>ax := with_low (of_char CHR '')'') (with_high 0x0E (ax r))\<rparr>) w) (\<lambda>_. Done ())))"

text \<open>Clearing the protection bit, and the interrupt flag of \<open>cli\<close>.\<close>

definition cli :: "world \<Rightarrow> world" where
  "cli w = w\<lparr>rflags := rflags w AND NOT (push_bit 9 1)\<rparr>"

definition long_to_protected :: "world \<Rightarrow> world" where
  "long_to_protected = steps [
     \<lambda>w. w\<lparr>seg_cs := IA32_CODE_SEGMENT\<rparr>,
     setup_data_segments IA32_DATA_SEGMENT,
     \<lambda>w. mov_cr0 (cr0 w AND NOT PAGING) w,
     \<lambda>w. wrmsr_efer (msrs w MSR_IA32_EFER AND NOT LONG_MODE) w,
     \<lambda>w. w\<lparr>cr4 := take_bit 32 (cr4 w AND NOT PAE)\<rparr>]"

definition protected_to_real :: "world \<Rightarrow> world" where
  "protected_to_real = steps [
     cli,
     \<lambda>w. w\<lparr>seg_cs := REAL_MODE_CODE_SEGMENT\<rparr>,
     setup_data_segments REAL_MODE_DATA_SEGMENT,
     \<lambda>w. w\<lparr>idtr := \<lparr>dt_limit = 0x3FF, dt_base = 0\<rparr>\<rparr>,
     \<lambda>w. mov_cr0 (cr0 w AND NOT PROTECTION_ENABLE) w,
     \<lambda>w. w\<lparr>seg_cs := 0\<rparr>,
     setup_data_segments 0]"

definition real_to_protected :: "world \<Rightarrow> world" where
  "real_to_protected = steps [
     cli,
     \<lambda>w. mov_cr0 (cr0 w OR PROTECTION_ENABLE) w,
     \<lambda>w. w\<lparr>seg_cs := IA32_CODE_SEGMENT\<rparr>,
     setup_data_segments IA32_DATA_SEGMENT]"

text \<open>The way back to long mode is that of the boot code without its loads of the GDTR.\<close>

definition protected_to_long_lower_memory :: "world \<Rightarrow> world" where
  "protected_to_long_lower_memory = enable_long_mode"

definition relocated :: "bios \<Rightarrow> qword_t \<Rightarrow> word_t" where
  "relocated B f = ucast (f - real_mode_start B + ucast REAL_MODE_BASE_ADDRESS)"

definition call_real_mode_function :: "bios \<Rightarrow> word_t \<Rightarrow> world \<Rightarrow> unit res" where
  "call_real_mode_function B di w =
     (let w = protected_to_real (long_to_protected w);
          r = entry_registers B
      in bindR (if di = relocated B (read_disk_addr B) then read_disk B r w
                else if di = relocated B (real_mode_smile_addr B) then real_mode_smile B r w
                else Stop Undefined w) (\<lambda>_ w.
           Done () (protected_to_long_lower_memory (real_to_protected w))))"

definition real_mode_callback :: "bios \<Rightarrow> qword_t \<Rightarrow> world \<Rightarrow> unit res" where
  "real_mode_callback B rdi = call_real_mode_function B (relocated B rdi)"

definition initialize_bios :: "bios \<Rightarrow> world \<Rightarrow> unit res" where
  "initialize_bios B w =
     bindR (LOG_INFO host_c 55 ''copying real mode code from [%p - %p] to the 'low memory' at %x''
         [ArgQword (real_mode_start B), ArgQword (real_mode_end B), ArgInt REAL_MODE_BASE_ADDRESS] w) (\<lambda>_ w.
     bindR (of_option (memcpy (ucast REAL_MODE_BASE_ADDRESS) (real_mode_start B)
         (real_mode_end B - real_mode_start B) (mem w)) w) (\<lambda>m w.
       real_mode_callback B (real_mode_smile_addr B) (w\<lparr>mem := m\<rparr>)))"





section \<open>The switch of modes\<close>

text \<open>\<open>modes\<close>: the registers that make the mode of the processor. \<open>in_long_mode\<close>: as the boot code leaves them.\<close>

definition modes :: "world \<Rightarrow> qword_t \<times> qword_t \<times> qword_t \<times> qword_t" where
  "modes w = (cr0 w, cr3 w, cr4 w, msrs w MSR_IA32_EFER)"

definition in_long_mode :: "world \<Rightarrow> bool" where
  "in_long_mode w \<longleftrightarrow>
     take_bit 32 (cr0 w) = cr0 w \<and> bit (cr0 w) 0 \<and> bit (cr0 w) 31 \<and> take_bit 32 (cr4 w) = cr4 w \<and> bit (cr4 w) 5 \<and>
     cr3 w = ucast IA32e_PAGING_BASE \<and> bit (msrs w MSR_IA32_EFER) 8 \<and> bit (msrs w MSR_IA32_EFER) 10"

definition to_real :: "world \<Rightarrow> world" where
  "to_real w = protected_to_real (long_to_protected w)"

definition to_long :: "world \<Rightarrow> world" where
  "to_long w = protected_to_long_lower_memory (real_to_protected w)"

lemmas switch_defs = to_real_def to_long_def protected_to_real_def long_to_protected_def real_to_protected_def
  protected_to_long_lower_memory_def enable_long_mode_def mov_cr0_def wrmsr_efer_eq setup_data_segments_def cli_def Let_def

lemma to_real_parts:
  "mem (to_real w) = mem w" "\<not> bit (cr0 (to_real w)) 0" "idtr (to_real w) = \<lparr>dt_limit = 0x3FF, dt_base = 0\<rparr>"
  "cr3 (to_real w) = cr3 w" "seg_ds (to_real w) = 0" "port_writes (to_real w) = port_writes w"
  "min_level (to_real w) = min_level w"
  by (simp_all add: switch_defs bit_take_bit_iff bit_and_iff bit_not_iff)

lemma to_long_parts:
  "mem (to_long w) = mem w" "idtr (to_long w) = idtr w" "\<not> bit (rflags (to_long w)) 9"
  "seg_cs (to_long w) = 8" "seg_ss (to_long w) = 0x10" "seg_ds (to_long w) = 0x10"
  "port_writes (to_long w) = port_writes w" "min_level (to_long w) = min_level w"
  by (simp_all add: switch_defs bit_and_iff bit_not_iff bit_push_bit_iff)

lemma to_real_modes:
  "cr0 (to_real w) = take_bit 32 (take_bit 32 (cr0 w AND NOT PAGING) AND NOT PROTECTION_ENABLE)"
  "cr4 (to_real w) = take_bit 32 (cr4 w AND NOT PAE)"
  "msrs (to_real w) MSR_IA32_EFER =
     ((msrs w MSR_IA32_EFER AND NOT LONG_MODE_ACTIVE) AND NOT LONG_MODE) AND NOT LONG_MODE_ACTIVE"
  by (simp_all add: switch_defs bit_take_bit_iff bit_and_iff bit_not_iff)

lemma to_long_modes:
  assumes "in_long_mode w" and "modes v = modes (to_real w)"
  shows "modes (to_long v) = modes w"
proof -
  have v: "cr0 v = cr0 (to_real w)" "cr3 v = cr3 (to_real w)" "cr4 v = cr4 (to_real w)"
      "msrs v MSR_IA32_EFER = msrs (to_real w) MSR_IA32_EFER"
    using assms(2) by (simp_all add: modes_def)
  have l: "n < 32" if "take_bit 32 x = x" "bit x n" for x :: qword_t and n
    using that bit_take_bit_iff [of 32 x n] by simp
  note b = bit_take_bit_iff bit_and_iff bit_not_iff bit_or_iff
  note assms(1) [unfolded in_long_mode_def]
  then have "cr0 (to_long v) = cr0 w" "cr4 (to_long v) = cr4 w" "cr3 (to_long v) = cr3 w"
      "msrs (to_long v) MSR_IA32_EFER = msrs w MSR_IA32_EFER"
    by (auto simp: switch_defs v to_real_modes b intro!: bit_word_eqI dest: l)
  then show ?thesis by (simp add: modes_def)
qed

text \<open>A call of the disk routine, from mode to mode.\<close>

lemma real_mode_read_disk:
  "real_mode_callback B (read_disk_addr B) w =
     bindR (read_disk B (entry_registers B) (to_real w)) (\<lambda>_ w. Done () (to_long w))"
  by (simp add: real_mode_callback_def call_real_mode_function_def to_real_def to_long_def Let_def)

lemma high_low_bytes:
  "drop_bit 8 (with_high h x) = ucast h" "take_bit 8 (with_low l x) = ucast l"
  unfolding with_high_def with_low_def
  by (rule bit_word_eqI; auto simp: bit_simps dest: bit_imp_le_length)+

lemma read_disk_call:
  obtains r where "read_disk B r0 w = bindR (bios_interrupt B 0x13 r w) (\<lambda>_. Done ())"
    and "drop_bit 8 (ax r) = 0x42" and "take_bit 8 (dx r) = ucast (mem w DRIVE_NUMBER_ADDRESS)" and "si r = 0x500"
proof -
  let ?r = "r0\<lparr>si := 0x500, ax := with_high 0x42 (ax r0), dx := with_low (mem w DRIVE_NUMBER_ADDRESS) (dx r0)\<rparr>"
  have "read_disk B r0 w = bindR (bios_interrupt B 0x13 ?r w) (\<lambda>_. Done ())"
    by (simp add: read_disk_def)
  then show ?thesis by (rule that) (simp_all add: high_low_bytes)
qed


lemma mbr_read_far_enough:
  assumes "0x100 \<le> n"
  shows "LOG_INFO host_c 92 ''mbr: %s'' [ArgStr (Some (map f (load_bytes m a n)))] w =
    LOG_INFO host_c 92 ''mbr: %s'' [ArgStr (Some (map f (load_bytes m a 0x100)))] w"
proof -
  have t: "map f (load_bytes m a 0x100) = take 0x100 (map f (load_bytes m a n))"
    using assms by (simp add: load_bytes_def take_map)
  have "put_string str p (take 0x100 s) = put_string str p s" if "length str = 0x100" "p \<le> 0x100" for str p s
    using that by (intro put_string_take) simp_all
  then show ?thesis unfolding t log_log.simps by (simp add: vsprintf_plain vsprintf_string)
qed

section \<open>Properties\<close>

text \<open>C32. The switch to real mode and back. When the BIOS returns from the disk service and leaves the mode
  of the processor alone, \<open>real_mode_callback\<close> returns with the control registers and the EFER as they
  were, in the 64-bit segments; the IDTR is not restored, it still has the real-mode vector table,
  and interrupts are off. Memory is what the BIOS has made of it.\<close>

theorem real_mode_callback_round_trip:
  assumes "in_long_mode w"
    and "\<And>r v. \<exists>r' v'. bios_interrupt B 0x13 r v = Done r' v' \<and> modes v' = modes v \<and> idtr v' = idtr v \<and>
      mem v' = disk (mem v)"
  shows "\<exists>w'. real_mode_callback B (read_disk_addr B) w = Done () w' \<and> modes w' = modes w \<and>
    seg_cs w' = IA32E_CODE_SEGMENT \<and> seg_ds w' = IA32E_DATA_SEGMENT \<and>
    idtr w' = \<lparr>dt_limit = 0x3FF, dt_base = 0\<rparr> \<and> \<not> bit (rflags w') 9 \<and> mem w' = disk (mem w)"
proof -
  obtain r where r: "read_disk B (entry_registers B) (to_real w) =
      bindR (bios_interrupt B 0x13 r (to_real w)) (\<lambda>_. Done ())"
    by (rule read_disk_call)
  obtain r' v where v: "bios_interrupt B 0x13 r (to_real w) = Done r' v" and same: "modes v = modes (to_real w)"
      "idtr v = idtr (to_real w)" "mem v = disk (mem (to_real w))"
    using assms(2) [of r "to_real w"] by blast
  have "modes (to_long v) = modes w" using assms(1) same(1) by (rule to_long_modes)
  then show ?thesis
    unfolding real_mode_read_disk r v bindR.simps
    by (intro exI [of _ "to_long v"]) (simp add: to_long_parts to_real_parts same(2,3))
qed

definition example_bios :: bios where
  "example_bios = \<lparr>real_mode_start = 0x100200, real_mode_end = 0x100400, real_mode_smile_addr = 0x100320,
     read_disk_addr = 0x100300, entry_registers = \<lparr>ax = 0, dx = 0, si = 0\<rparr>, bios_interrupt = (\<lambda>_. Done)\<rparr>"

lemma booted_in_long_mode: "bit (cr0 w) 0 \<Longrightarrow> in_long_mode (protected_to_long g w)"
  using protected_to_long_efer [of g w]
  by (simp add: in_long_mode_def protected_to_long_parts bit_take_bit_iff bit_and_iff bit_or_iff bit_not_iff)

lemma real_mode_callback_round_trip_witness:
  "\<exists>w'. real_mode_callback example_bios 0x100300 (protected_to_long 0x10A000 (zero_world\<lparr>cr0 := 1\<rparr>)) = Done () w' \<and>
    modes w' = modes (protected_to_long 0x10A000 (zero_world\<lparr>cr0 := 1\<rparr>))"
proof -
  have l: "in_long_mode (protected_to_long 0x10A000 (zero_world\<lparr>cr0 := 1\<rparr>))"
    by (rule booted_in_long_mode) simp
  have "\<exists>r' v'. bios_interrupt example_bios 0x13 r v = Done r' v' \<and> modes v' = modes v \<and> idtr v' = idtr v \<and>
      mem v' = (\<lambda>m. m) (mem v)" for r v
    by (simp add: example_bios_def)
  from real_mode_callback_round_trip [where B = example_bios and disk = "\<lambda>m. m", OF l this]
  show ?thesis by (auto simp: example_bios_def)
qed













end
