(* ===== verification/Multiboot.thy ===== *)
theory Multiboot
  imports Memory
begin

text \<open>
  The header for the boot loader: \<open>src/boot/multiboot.asm\<close>, which the linker script puts first in the image, at
  \<open>HEADER_START\<close>.

  \<open>multiboot_header\<close> is its bytes. The specification is what a multiboot2 loader makes of them: four
  dwords whose sum is zero, then tags of a type, flags and a size, each at a multiple of eight bytes,
  up to a tag of type 0 (\<open>tags_from\<close>).
\<close>

section \<open>Data\<close>

abbreviation (input) MUTLIBOOT_MAGIC :: dword_t where "MUTLIBOOT_MAGIC \<equiv> 0xE85250D6"
abbreviation (input) I386 :: dword_t where "I386 \<equiv> 0"
abbreviation (input) HEADER_ADDRESS :: dword_t where "HEADER_ADDRESS \<equiv> 0x100000"
abbreviation (input) HEADER_START :: dword_t where "HEADER_START \<equiv> 0x100000"

definition dw :: "word_t \<Rightarrow> byte_t list" where "dw = word_bytes 2"
definition dd :: "dword_t \<Rightarrow> byte_t list" where "dd = word_bytes 4"

definition address_tag :: "byte_t list" where
  "address_tag = (let size = 2 + 2 + 4 * 5 in dw 2 @ dw 0 @ dd size @ dd HEADER_ADDRESS @ dd (- 1) @ dd 0 @ dd 0)"

definition entry_tag :: "dword_t \<Rightarrow> byte_t list" where
  "entry_tag start = (let size = 2 + 2 + 4 * 2 in dw 3 @ dw 0 @ dd size @ dd start)"

definition multiboot_header :: "dword_t \<Rightarrow> byte_t list" where
  "multiboot_header start =
     (let tags = address_tag @ entry_tag start @ dd 0 @ dd 0 @ dw 8; size = of_nat (16 + length tags)
      in dd MUTLIBOOT_MAGIC @ dd I386 @ dd size @ dd (- (MUTLIBOOT_MAGIC + I386 + size)) @ tags)"

section \<open>Specification: reading the header\<close>

definition field16 :: "byte_t list \<Rightarrow> nat \<Rightarrow> word_t" where
  "field16 bs i = bytes_word (take 2 (drop i bs))"

definition field32 :: "byte_t list \<Rightarrow> nat \<Rightarrow> dword_t" where
  "field32 bs i = bytes_word (take 4 (drop i bs))"

definition align8 :: "nat \<Rightarrow> nat" where
  "align8 n = (n + 7) div 8 * 8"

lemma align8_le: "n \<le> align8 n"
  unfolding align8_def by linarith

text \<open>The tags from an offset on, each with its type and its size; \<open>None\<close> when they run past the end.\<close>

function tags_from :: "byte_t list \<Rightarrow> nat \<Rightarrow> (nat \<times> word_t \<times> nat) list option" where
  "tags_from bs i =
     (if length bs < i + 8 then None
      else if field16 bs i = 0 then Some []
      else if field32 bs (i + 4) < 8 then None
      else map_option ((#) (i, field16 bs i, unat (field32 bs (i + 4))))
             (tags_from bs (align8 (i + unat (field32 bs (i + 4))))))"
  by pat_completeness auto
termination
proof (relation "measure (\<lambda>(bs, i). length bs - i)")
  fix bs :: "byte_t list" and i
  assume "\<not> length bs < i + 8" "\<not> field32 bs (i + 4) < 8"
  then have "i < i + unat (field32 bs (i + 4))" "i < length bs" by (simp_all add: word_less_nat_alt)
  then have "i < align8 (i + unat (field32 bs (i + 4)))" using align8_le less_le_trans by blast
  with \<open>i < length bs\<close> show "((bs, align8 (i + unat (field32 bs (i + 4)))), (bs, i)) \<in> measure (\<lambda>(bs, i). length bs - i)"
    by simp
qed simp

declare tags_from.simps [simp del]

section \<open>What a loader reads\<close>

lemma lengths [simp]: "length (dw v) = 2" "length (dd u) = 4"
  by (simp_all add: dw_def dd_def)

lemma fields [simp]: "bytes_word (dw v) = v" "bytes_word (dd u) = u"
  by (simp_all add: dw_def dd_def word_bytes_round_trip)

lemma low_half [simp]: "take 2 (dd u) = dw (ucast u)"
proof -
  have "(ucast (drop_bit 8 u) :: byte_t) = ucast (drop_bit 8 (ucast u :: word_t))" "(ucast u :: byte_t) = ucast (ucast u :: word_t)"
    by (rule bit_word_eqI; simp add: bit_simps)+
  then show ?thesis by (simp add: dd_def dw_def word_bytes_def upt_rec)
qed

lemma tag_sizes: "length address_tag = 24" "length (entry_tag start) = 12"
  by (simp_all add: address_tag_def entry_tag_def)

text \<open>The header as one sequence of fields, with the size of the whole.\<close>

lemma multiboot_header_fields:
  "multiboot_header start =
     dd MUTLIBOOT_MAGIC @ dd I386 @ dd 62 @ dd (- (MUTLIBOOT_MAGIC + I386 + 62)) @
     dw 2 @ dw 0 @ dd 24 @ dd HEADER_ADDRESS @ dd (- 1) @ dd 0 @ dd 0 @
     dw 3 @ dw 0 @ dd 12 @ dd start @ dd 0 @ dd 0 @ dw 8"
  by (simp add: multiboot_header_def tag_sizes Let_def) (simp add: address_tag_def entry_tag_def)

text \<open>C31. The boot loader can read the header. Its four dwords sum up to zero, and its tags are the addresses of
  the image, which name the address that the linker script gives it, and the entry point \<open>_start\<close>. The
  dword before the last tag is what aligns it; the tag's size is two bytes short, and the two bytes that
  follow the header complete it.\<close>

theorem multiboot_header_read:
  assumes "2 \<le> length rest"
  shows "field32 (multiboot_header start @ rest) 0 = MUTLIBOOT_MAGIC \<and>
    sum_list (map (field32 (multiboot_header start @ rest)) [0, 4, 8, 12]) = 0 \<and>
    tags_from (multiboot_header start @ rest) 16 = Some [(16, 2, 24), (40, 3, 12)] \<and>
    field32 (multiboot_header start @ rest) 24 = HEADER_START \<and>
    field32 (multiboot_header start @ rest) 48 = start"
proof (intro conjI)
  let ?h = "multiboot_header start @ rest"
  note h = multiboot_header_fields field16_def field32_def
  have "tags_from ?h 56 = Some []"
    using assms by (subst tags_from.simps) (simp add: h)
  then have "tags_from ?h 40 = Some [(40, 3, 12)]"
    by (subst tags_from.simps) (simp add: h align8_def)
  then show "tags_from ?h 16 = Some [(16, 2, 24), (40, 3, 12)]"
    by (subst tags_from.simps) (simp add: h align8_def)
qed (simp_all add: multiboot_header_fields field32_def)

lemma multiboot_header_read_witness:
  "tags_from (multiboot_header 0x101000 @ [0, 0]) 16 = Some [(16, 2, 24), (40, 3, 12)]"
  using multiboot_header_read [of "[0, 0]" "0x101000"] by simp

end
