(* ===== verification/Spec2Isabelle.thy ===== *)
theory Spec2Isabelle
  imports Hosted Bios Multiboot
begin

text \<open>
  A verification development for Hyper-C, a small bare-metal hypervisor for Intel VT-x.

  \<^bold>\<open>The program.\<close> The boot code (\<open>src/boot\<close>, assembly) switches the processor to long mode and calls
  \<open>initialize_host\<close> (\<open>src/vmm/initialize_host.c\<close>). That lays out one structure, \<open>cpu_data_t\<close>, at \<open>0x1000000\<close>,
  enters VMX operation (\<open>enter_vmx_root\<close>), programs the VMCS (\<open>configure_vmcs\<close>), registers system call 42
  of the guest, makes the page of the guest's table of system calls inaccessible in the extended
  page tables, and launches the guest at \<open>kmain\<close>. From then on the hypervisor runs on VM exits only:
  \<open>__vmexit_wrapper\<close> (\<open>src/vmm/wrappers.asm\<close>) saves the guest's registers, \<open>vmexit_handler\<close> dispatches on the
  exit reason to a handler of \<open>vmexit.c\<close>, and the wrapper resumes the guest. Two services result. A
  read of the table of system calls gives the guest the address of \<open>ssdt_hook\<close> (\<open>hooks.c\<close>), which logs
  and calls the real handler. A hypercall makes writes of the MSRs that hold the entry points of the
  system calls exit (\<open>msr_bitmaps.c\<close>), so that the malware of \<open>kmain.c\<close> cannot replace them.

  \<^bold>\<open>The theories\<close>, in the order of their imports:

  \<^item> \<open>Prelude\<close>: generic lemmas on words, bit-fields, lists and counting loops (\<open>for_n\<close>).
  \<^item> \<open>Memory\<close>: bytes in memory, little-endian scalars, objects that do not overlap. The locale
    \<open>memory_cell\<close> is the interface of a scalar, interpreted for dwords and qwords.
  \<^item> \<open>Vmcs\<close>, \<open>Msr\<close>: the field encodings and control bits of \<open>vmcs.h\<close>, the numbers of \<open>msr.h\<close>.
  \<^item> \<open>Machine\<close>: the state \<open>world\<close>, the outcomes \<open>res\<close>, the addresses and processor checks \<open>env\<close>; the inline
    functions of \<open>registers.h\<close>, \<open>miscellaneous.h\<close> and \<open>vmx.h\<close>. The locale \<open>field_file\<close> is the interface of named
    registers that are read and written: it is interpreted for the VMCS, for the MSRs, and in \<open>Cpu_Data\<close>
    for the saved registers of the guest.
  \<^item> \<open>Utils\<close>, \<open>Numbers\<close>, \<open>Log\<close>: \<open>utils.c\<close>, the integer printing of \<open>print.c\<close>, the formatter, the logger and
    \<open>serial.c\<close>. The specification of the formatter is \<open>render\<close>, and of a log call \<open>logged\<close>.
  \<^item> \<open>Ept\<close>: \<open>ept.c\<close>. The specification is the walk \<open>ept_walk\<close> that the processor makes through the tables,
    with its three outcomes: translated, not present, misconfigured.
  \<^item> \<open>Msr_Bitmaps\<close>: \<open>msr_bitmaps.c\<close>. The specification is the set \<open>monitored\<close> of accesses that exit;
    the locale \<open>marking\<close> states the contract of inserting into it.
  \<^item> \<open>Cpu_Data\<close>: offsets and sizes of the structures of \<open>vmm.h\<close>, computed from their fields.
  \<^item> \<open>Syscalls\<close>: \<open>syscalls.c\<close> and \<open>syscall_handler.asm\<close>. The specification is the map \<open>handlers\<close>.
    A \<open>platform\<close> is the processor the kernel runs on, \<open>bare\<close> the one without the hypervisor.
  \<^item> \<open>Guest\<close>: \<open>kmain.c\<close>: the kernel, the two system-call instructions, the malware. The locale
    \<open>kernel_platform\<close> is the interface between the kernel and its processor, which \<open>booting_platform\<close>
    extends by the accesses to MSRs; it is interpreted for \<open>bare\<close> here and for the guest in \<open>Hosted\<close>.
  \<^item> \<open>Vmexit\<close>: the handlers of \<open>vmexit.c\<close> and the hook of \<open>hooks.c\<close>, over the saved registers.
  \<^item> \<open>Vmm\<close>: \<open>enter_vmx_root\<close>, \<open>configure_vmcs\<close>, \<open>launch_vm\<close> of \<open>vmm.c\<close>.
  \<^item> \<open>Exits\<close>: \<open>vmexit_handler\<close> of \<open>vmm.c\<close>, the names of \<open>exit_reason.h\<close>, and the exit wrapper.
  \<^item> \<open>Host\<close>: \<open>initialize_host\<close> and what it calls in \<open>initialize_host.c\<close>.
  \<^item> \<open>Multiboot\<close>: the header of the image, \<open>src/boot/multiboot.asm\<close>. The specification is the reading of
    its tags by a boot loader, \<open>tags_from\<close>.
  \<^item> \<open>Boot\<close>, \<open>Start\<close>: the boot code of \<open>src/boot\<close>, and its composition with \<open>initialize_host\<close>. The specification
    of the boot code's page tables is the processor's walk \<open>linear_walk\<close>.
  \<^item> \<open>Bios\<close>: \<open>initialize_bios\<close> and \<open>load_mbr\<close> of \<open>initialize_host.c\<close>, and the mode switches of \<open>src/bios\<close>.
  \<^item> \<open>System\<close>: the guest's instructions under this configuration, and the runs of the guest.
  \<^item> \<open>Hosted\<close>: the kernel of \<open>Guest\<close> as the guest of the hypervisor, each of its steps a step of a run
    of \<open>System\<close>.

  \<^bold>\<open>Code and model.\<close> A C function is a function of its arguments and of the world. One that always returns
  gives the next world; one that may stop gives a \<open>res\<close>: \<open>Done\<close> with a value and the next world, or \<open>Stop\<close>
  with the reason (the endless loop of \<open>PANIC\<close>, the entry of the guest, a fault, or behaviour that C leaves
  undefined). Integers are words of their width. Pointers are qwords, and structures are addresses
  with field offsets, so that overlapping accesses are what they are on the machine. Buffers of the
  formatter are lists of characters with their bounds: a write past the end is undefined. A call
  through a function pointer is an argument, the effect of the code at an address.

  \<^bold>\<open>What the lemmas show.\<close> Of the libraries: the formatter produces the text of its specification when it
  fits and runs over its buffer when it does not, printed integers read back, a log call only writes to the serial port. Of the data structures: the page tables map the
  first 4 GiB to itself, a change of rights changes one page, a monitored MSR exits and no other. Of the
  hypervisor: entering VMX operation and the configuration succeed on a capable processor and leave
  control fields that the processor accepts; each failure stops the machine with its message. Of exits: the
  registers survive save and restore, each handler skips the instruction and changes what it should and no more.
  End to end (\<open>Host\<close>, \<open>Start\<close>, \<open>System\<close>, \<open>Hosted\<close>): from the boot loader on, the start reaches the guest with
  linear and physical addresses the same, and over all runs of the guest the table stays hooked and
  the protected MSRs keep their values. The kernel runs from there to its end, and everything it sends to
  the serial port is known; its malware infects the system calls on a bare processor, and not under
  the hypervisor after the hypercall.

  \<^bold>\<open>Hypotheses.\<close> The RFLAGS that VMX instructions leave are a parameter; \<open>vmx_works\<close> and \<open>vmresume_works\<close> say that
  they succeed, and the failures are properties of their own. \<open>clear_tables\<close> says that the memory of the page tables
  is clear in the bits that no field of \<open>ept_entry_t\<close> names, and in the unused entries, since the code
  never clears them. Runs of the guest do not store into the bitmaps, the pointer and, for the hook,
  the page tables (\<open>guarded\<close>, \<open>table_bytes\<close>, \<open>kernel_off_limits\<close>): nothing in the program keeps the guest from that, and
  one such store lifts the protection. The kernel's stack and variables are qwords of its own
  (\<open>kernel_cells\<close>), and the run of the kernel starts with clear MSR bitmaps, which the code never clears either.

  \<^bold>\<open>Bounds.\<close> Every loop of the code is bounded by an argument or a string, so the definitions are total:
  primitive recursion, structural recursion on strings, and \<open>for_n\<close> for counting loops. The one
  mutual recursion, between \<open>vsprintf\<close> and \<open>log_log\<close>, ends because the nested call has a constant format. There is no fuel. The numbers
  that are fixed are the code's: 512 entries of a table, 4 GiB of memory, 256 and 1024 characters of
  the log buffers.

  \<^bold>\<open>Not modelled.\<close> The services of the BIOS, which are a parameter; \<open>disk_service\<close> states the documented behaviour
  of the one that \<open>load_mbr\<close> uses. The stack frames of compiled C code and of the boot and BIOS code, with the stack pointers
  that \<open>entrypoint.asm\<close> loads and the host's stack below \<open>0x7BFF\<close>: only the words that the system-call stubs and handlers
  put on a stack are in memory. The buffers of the logger are frames as well: they are lists apart from memory, and a
  write past their end stops the model with \<open>Undefined\<close>, whatever it would overwrite on the machine. The bytes of the code
  in memory. The two instructions of \<open>__vmcall\<close> that run after a failed \<open>vmresume\<close>, which end in a return to
  whatever the host's stack holds: \<open>Undefined\<close>. Of the processor: the loading of the SYSENTER MSRs at VM entries
  and exits (\<open>msrs\<close> holds the guest's values during its runs, the handlers read none of these MSRs, and the kernel
  writes them before it uses them), and the undefined instruction length of EPT exits, which the model takes
  to be the instruction's. The walks through the guest's own page tables in the runs of \<open>System\<close>, which take linear addresses as
  guest-physical ones, as they are at the start (\<open>Start\<close>).
\<close>

end
